(* ===== verification/Prelude.thy ===== *)
theory Prelude
  imports Main "HOL-Library.Word"
begin

text \<open>
  Shared vocabulary of the development: the names of the machine types, big-endian byte
  encodings of naturals and words with their length, round-trip and injectivity laws, and the
  sum-typed results that both the Go and the Solidity parts use for errors.
  The collections \<open>enc_simps\<close> and \<open>res_simps\<close> carry these laws into
  the component theories.
\<close>

named_theorems enc_simps "lengths and round trips of the byte encodings"
named_theorems res_simps "evaluation of sequenced fallible computations"

type_synonym byte = "8 word"
type_synonym bytes = "8 word list"
type_synonym address = "160 word"
type_synonym bytes32 = "256 word"
type_synonym uint256 = "256 word"

lemma unat_lt2p: "unat (w :: 'a::len word) < 2 ^ LENGTH('a)"
  by (rule unsigned_less)

section \<open>Big-endian encodings\<close>

text \<open>The value of a big-endian byte string, and its fixed-width inverse.\<close>

definition be_value :: "bytes \<Rightarrow> nat" where
  "be_value bs = foldl (\<lambda>a b. a * 256 + unat b) 0 bs"

fun be_fixed :: "nat \<Rightarrow> nat \<Rightarrow> bytes" where
  "be_fixed 0 n = []"
| "be_fixed (Suc k) n = be_fixed k (n div 256) @ [word_of_nat (n mod 256)]"

lemma be_value_Nil [enc_simps]: "be_value [] = 0"
  by (simp add: be_value_def)

lemma be_value_snoc [enc_simps]: "be_value (bs @ [b]) = be_value bs * 256 + unat b"
  by (simp add: be_value_def)

lemma length_be_fixed [simp, enc_simps]: "length (be_fixed k n) = k"
  by (induction k arbitrary: n) auto

lemma unat_byte_mod [simp]: "unat (word_of_nat (n mod 256) :: byte) = n mod 256"
  by (simp add: unat_of_nat)

lemma be_value_be_fixed [enc_simps]: "be_value (be_fixed k n) = n mod 256 ^ k"
proof (induction k arbitrary: n)
  case 0
  then show ?case by (simp add: be_value_Nil)
next
  case (Suc k)
  have "be_value (be_fixed (Suc k) n) = (n div 256) mod 256 ^ k * 256 + n mod 256"
    by (simp add: be_value_snoc Suc.IH)
  also have "\<dots> = n mod (256 * 256 ^ k)"
    by (simp add: mod_mult2_eq)
  finally show ?case by simp
qed

lemma be_fixed_inject:
  assumes "be_fixed k m = be_fixed k n" and "m < 256 ^ k" and "n < 256 ^ k"
  shows "m = n"
proof -
  have "be_value (be_fixed k m) = be_value (be_fixed k n)"
    using assms(1) by simp
  then show ?thesis
    using assms(2,3) by (simp add: be_value_be_fixed)
qed

lemma be_value_less: "be_value bs < 256 ^ length bs"
proof (induction bs rule: rev_induct)
  case Nil
  then show ?case by (simp add: be_value_Nil)
next
  case (snoc b bs)
  have "unat b < 256"
    using unat_lt2p [of b] by simp
  then show ?case
    using snoc.IH by (simp add: be_value_snoc)
qed

lemma be_fixed_be_value: "be_fixed (length bs) (be_value bs) = bs"
proof (induction bs rule: rev_induct)
  case Nil
  then show ?case by simp
next
  case (snoc b bs)
  have b: "unat b < 256"
    using unat_lt2p [of b] by simp
  then have "(be_value bs * 256 + unat b) div 256 = be_value bs"
    by simp
  moreover have "(word_of_nat ((be_value bs * 256 + unat b) mod 256) :: byte) = b"
    using b by simp
  ultimately show ?case
    using snoc.IH by (simp add: be_value_snoc)
qed

section \<open>Words as bytes\<close>

text \<open>A word of \<open>8 * k\<close> bits as its \<open>k\<close> big-endian bytes: a Go array
  \<open>[k]byte\<close> sliced, or a Solidity value in \<open>abi.encode\<close>.\<close>

definition word_bytes :: "nat \<Rightarrow> 'a::len word \<Rightarrow> bytes" where
  "word_bytes k w = be_fixed k (unat w)"

lemma length_word_bytes [simp, enc_simps]: "length (word_bytes k w) = k"
  by (simp add: word_bytes_def)

lemma word_bytes_inject:
  fixes v w :: "'a::len word"
  assumes "word_bytes k v = word_bytes k w" and "LENGTH('a) \<le> 8 * k"
  shows "v = w"
proof -
  have p: "(2::nat) ^ LENGTH('a) \<le> 256 ^ k"
  proof -
    have "(256::nat) ^ k = 2 ^ (8 * k)"
      by (simp add: power_mult)
    then show ?thesis
      using assms(2) by (simp add: power_increasing)
  qed
  have "unat v < 256 ^ k" and "unat w < 256 ^ k"
    using unat_lt2p [of v] unat_lt2p [of w] p by linarith+
  then have "unat v = unat w"
    using assms(1) unfolding word_bytes_def by (rule be_fixed_inject [rotated])
  then show ?thesis by (rule unsigned_word_eqI)
qed

lemma append_same_length:
  assumes "xs @ ys = us @ vs" and "length xs = length us"
  shows "xs = us \<and> ys = vs"
  using assms by simp

section \<open>Fallible results\<close>

text \<open>A computation that fails with an error (\<open>Inl\<close>) or returns (\<open>Inr\<close>), and
  its sequencing: the first error wins, as an early return or a revert does.\<close>

definition rbind :: "'e + 'a \<Rightarrow> ('a \<Rightarrow> 'e + 'b) \<Rightarrow> 'e + 'b" where
  "rbind m k = (case m of Inl e \<Rightarrow> Inl e | Inr a \<Rightarrow> k a)"

definition rensure :: "bool \<Rightarrow> 'e \<Rightarrow> 'e + 'a \<Rightarrow> 'e + 'a" where
  "rensure b e m = (if b then m else Inl e)"

lemma rbind_Inl [simp, res_simps]: "rbind (Inl e) k = Inl e"
  by (simp add: rbind_def)

lemma rbind_Inr [simp, res_simps]: "rbind (Inr a) k = k a"
  by (simp add: rbind_def)

lemma rbind_eq_Inr [res_simps]: "rbind m k = Inr b \<longleftrightarrow> (\<exists>a. m = Inr a \<and> k a = Inr b)"
  by (cases m) auto

lemma rbind_eq_Inl [res_simps]:
  "rbind m k = Inl e \<longleftrightarrow> m = Inl e \<or> (\<exists>a. m = Inr a \<and> k a = Inl e)"
  by (cases m) auto

lemma rbind_assoc: "rbind (rbind m k) h = rbind m (\<lambda>a. rbind (k a) h)"
  by (cases m) auto

lemma rensure_True [simp, res_simps]: "rensure True e m = m"
  by (simp add: rensure_def)

lemma rensure_False [simp, res_simps]: "rensure False e m = Inl e"
  by (simp add: rensure_def)

lemma rensure_eq_Inr [res_simps]: "rensure b e m = Inr a \<longleftrightarrow> b \<and> m = Inr a"
  by (simp add: rensure_def)

lemma rensure_eq_Inl [res_simps]:
  "rensure b e m = Inl x \<longleftrightarrow> (\<not> b \<and> x = e) \<or> (b \<and> m = Inl x)"
  by (auto simp: rensure_def)

end
