(* ===== verification/GoRuntime.thy ===== *)
theory GoRuntime
  imports Prelude
begin

text \<open>
  The part of the Go language and of its standard library that the sources under
  \<open>ci/docker/bsc/create-validator\<close> use: results that may panic, sequencing of calls
  that act on an outside world, slice expressions and \<open>copy\<close>, big integers as bytes,
  \<open>bytes.TrimSpace\<close>, and buffered channels with their \<open>select\<close>.
\<close>

section \<open>Panics, errors and sequencing\<close>

type_synonym go_error = string

datatype panic =
    PanicMsg string
  | PanicErr go_error
  | IndexOutOfRange
  | SliceOutOfRange
  | TypeAssertion
  | NilDereference

datatype 'a go = Ret 'a | Panic panic

text \<open>A Go call acts on the world \<open>'w\<close> and returns or panics.\<close>

type_synonym ('w, 'a) io = "'w \<Rightarrow> 'a go \<times> 'w"

definition retIO :: "'a \<Rightarrow> ('w, 'a) io" where
  "retIO a = (\<lambda>w. (Ret a, w))"

definition panicIO :: "panic \<Rightarrow> ('w, 'a) io" where
  "panicIO p = (\<lambda>w. (Panic p, w))"

definition bindIO :: "('w, 'a) io \<Rightarrow> ('a \<Rightarrow> ('w, 'b) io) \<Rightarrow> ('w, 'b) io" where
  "bindIO m k = (\<lambda>w. case m w of (Ret a, w') \<Rightarrow> k a w' | (Panic p, w') \<Rightarrow> (Panic p, w'))"

text \<open>A call of code outside the repository: it returns, and changes the world as it likes.\<close>

definition extern :: "('w \<Rightarrow> 'a \<times> 'w) \<Rightarrow> ('w, 'a) io" where
  "extern f = (\<lambda>w. case f w of (a, w') \<Rightarrow> (Ret a, w'))"

text \<open>\<open>if err != nil { panic(err) }\<close>, and a value that may be a run-time panic.\<close>

definition must :: "('w, 'a \<times> go_error option) io \<Rightarrow> ('w, 'a) io" where
  "must m = bindIO m (\<lambda>(a, err). case err of None \<Rightarrow> retIO a | Some e \<Rightarrow> panicIO (PanicErr e))"

definition liftIO :: "'a go \<Rightarrow> ('w, 'a) io" where
  "liftIO g = (case g of Ret a \<Rightarrow> retIO a | Panic p \<Rightarrow> panicIO p)"

definition bindGo :: "'a go \<Rightarrow> ('a \<Rightarrow> 'b go) \<Rightarrow> 'b go" where
  "bindGo m k = (case m of Ret a \<Rightarrow> k a | Panic p \<Rightarrow> Panic p)"

named_theorems io_simps "evaluation of sequenced Go calls"

lemma retIO_apply [simp, io_simps]: "retIO a w = (Ret a, w)"
  by (simp add: retIO_def)

lemma panicIO_apply [simp, io_simps]: "panicIO p w = (Panic p, w)"
  by (simp add: panicIO_def)

lemma extern_apply [simp, io_simps]: "extern f w = (Ret (fst (f w)), snd (f w))"
  by (simp add: extern_def split: prod.splits)

lemma bindIO_Ret [io_simps]: "m w = (Ret a, w') \<Longrightarrow> bindIO m k w = k a w'"
  by (simp add: bindIO_def)

lemma bindIO_Panic [io_simps]: "m w = (Panic p, w') \<Longrightarrow> bindIO m k w = (Panic p, w')"
  by (simp add: bindIO_def)

lemma bindIO_retIO [simp, io_simps]: "bindIO (retIO a) k = k a"
  by (simp add: bindIO_def retIO_def)

lemma bindIO_panicIO [simp, io_simps]: "bindIO (panicIO p) k = panicIO p"
  by (simp add: bindIO_def panicIO_def)

lemma bindIO_extern [simp, io_simps]: "bindIO (extern f) k w = k (fst (f w)) (snd (f w))"
  by (simp add: bindIO_def)

lemma liftIO_simps [simp, io_simps]:
  "liftIO (Ret a) = retIO a"
  "liftIO (Panic p) = panicIO p"
  by (simp_all add: liftIO_def)

lemma bindGo_simps [simp, io_simps]:
  "bindGo (Ret a) k = k a"
  "bindGo (Panic p) k = Panic p"
  by (simp_all add: bindGo_def)

lemma bindIO_eq_Ret:
  "bindIO m k w = (Ret b, w') \<longleftrightarrow> (\<exists>a w1. m w = (Ret a, w1) \<and> k a w1 = (Ret b, w'))"
  by (auto simp: bindIO_def split: prod.splits go.splits)

lemma bindIO_eq_Panic:
  "bindIO m k w = (Panic p, w') \<longleftrightarrow>
     m w = (Panic p, w') \<or> (\<exists>a w1. m w = (Ret a, w1) \<and> k a w1 = (Panic p, w'))"
  by (auto simp: bindIO_def split: prod.splits go.splits)

lemma must_eq_Ret: "must m w = (Ret a, w') \<longleftrightarrow> m w = (Ret (a, None), w')"
  by (auto simp: must_def bindIO_eq_Ret split: option.splits)

lemma must_eq_Panic:
  "must m w = (Panic p, w') \<longleftrightarrow>
     m w = (Panic p, w') \<or> (\<exists>a e. m w = (Ret (a, Some e), w') \<and> p = PanicErr e)"
  by (auto simp: must_def bindIO_eq_Panic split: option.splits)

text \<open>A predicate on worlds that a call keeps, whatever it returns.\<close>

definition keeps :: "('w \<Rightarrow> bool) \<Rightarrow> ('w, 'a) io \<Rightarrow> bool" where
  "keeps P m \<longleftrightarrow> (\<forall>w. P w \<longrightarrow> P (snd (m w)))"

lemma keeps_retIO [intro, simp]: "keeps P (retIO a)"
  by (simp add: keeps_def)

lemma keeps_panicIO [intro, simp]: "keeps P (panicIO p)"
  by (simp add: keeps_def)

lemma keeps_liftIO [intro, simp]: "keeps P (liftIO g)"
  by (cases g) auto

lemma keepsD: "keeps P m \<Longrightarrow> P w \<Longrightarrow> m w = (r, w') \<Longrightarrow> P w'"
  by (metis keeps_def snd_conv)

lemma keeps_bindIO [intro]: "keeps P m \<Longrightarrow> (\<And>a. keeps P (k a)) \<Longrightarrow> keeps P (bindIO m k)"
  unfolding keeps_def bindIO_def by (force split: prod.splits go.splits)

lemma keeps_must [intro]: "keeps P m \<Longrightarrow> keeps P (must m)"
  unfolding must_def by (auto split: option.splits)

section \<open>Indexing, slicing, copy\<close>

definition go_index :: "'a list \<Rightarrow> nat \<Rightarrow> 'a go" where
  "go_index xs i = (if i < length xs then Ret (xs ! i) else Panic IndexOutOfRange)"

text \<open>\<open>copy(dst[lo:], src)\<close> where \<open>lo\<close> is a signed \<open>int\<close> expression: slicing
  panics when \<open>lo\<close> is negative or past the length; copying stops at the shorter side.\<close>

definition copy_from :: "bytes \<Rightarrow> int \<Rightarrow> bytes \<Rightarrow> bytes go" where
  "copy_from dst lo src =
     (if lo < 0 \<or> int (length dst) < lo then Panic SliceOutOfRange
      else Ret (take (nat lo) dst @ take (length dst - nat lo) src
                @ drop (nat lo + length src) dst))"

lemma go_index_Ret: "go_index xs i = Ret x \<longleftrightarrow> i < length xs \<and> x = xs ! i"
  by (auto simp: go_index_def)

lemma go_index_0 [simp]: "go_index (x # xs) 0 = Ret x" "go_index [] i = Panic IndexOutOfRange"
  by (simp_all add: go_index_def)

section \<open>big.Int\<close>

text \<open>\<open>(*big.Int).Bytes\<close>: the absolute value, big-endian, without leading zeros.\<close>

fun nat_bytes :: "nat \<Rightarrow> bytes" where
  "nat_bytes n = (if n = 0 then [] else nat_bytes (n div 256) @ [word_of_nat (n mod 256)])"

declare nat_bytes.simps [simp del]

definition big_Bytes :: "int \<Rightarrow> bytes" where
  "big_Bytes x = nat_bytes (nat \<bar>x\<bar>)"

lemma nat_bytes_0 [simp]: "nat_bytes 0 = []"
  by (simp add: nat_bytes.simps)

lemma be_value_nat_bytes [enc_simps]: "be_value (nat_bytes n) = n"
proof (induction n rule: nat_bytes.induct)
  case (1 n)
  then show ?case
    by (cases "n = 0") (simp_all add: nat_bytes.simps [of n] be_value_snoc be_value_Nil)
qed

lemma length_nat_bytes_le: "length (nat_bytes n) \<le> k \<longleftrightarrow> n < 256 ^ k"
proof (induction k arbitrary: n)
  case 0
  then show ?case by (simp add: nat_bytes.simps [of n])
next
  case (Suc k)
  show ?case
  proof (cases "n = 0")
    case True
    then show ?thesis by simp
  next
    case False
    then have "length (nat_bytes n) \<le> Suc k \<longleftrightarrow> length (nat_bytes (n div 256)) \<le> k"
      by (simp add: nat_bytes.simps [of n])
    also have "\<dots> \<longleftrightarrow> n div 256 < 256 ^ k"
      by (rule Suc.IH)
    also have "\<dots> \<longleftrightarrow> n < 256 ^ Suc k"
      by (simp add: div_less_iff_less_mult mult.commute)
    finally show ?thesis .
  qed
qed

lemma be_fixed_0_replicate: "be_fixed k 0 = replicate k 0"
  by (induction k) (simp_all add: replicate_append_same)

lemma be_fixed_pad:
  "n < 256 ^ k \<Longrightarrow> be_fixed k n = replicate (k - length (nat_bytes n)) 0 @ nat_bytes n"
proof (induction k arbitrary: n)
  case 0
  then show ?case by simp
next
  case (Suc k)
  show ?case
  proof (cases "n = 0")
    case True
    then show ?thesis by (simp add: be_fixed_0_replicate del: be_fixed.simps)
  next
    case False
    have "n div 256 < 256 ^ k"
      using Suc.prems by (simp add: div_less_iff_less_mult mult.commute)
    from Suc.IH [OF this] False show ?thesis
      by (simp add: nat_bytes.simps [of n])
  qed
qed

section \<open>bytes.TrimSpace\<close>

text \<open>The UTF-8 encodings of the characters that \<open>unicode.IsSpace\<close> accepts.
  \<open>TrimSpace\<close> drops them from both ends; a byte that starts no such encoding stays.\<close>

definition space_encodings :: "bytes list" where
  "space_encodings =
     [[9], [10], [11], [12], [13], [32], [0xC2, 0x85], [0xC2, 0xA0], [0xE1, 0x9A, 0x80],
      [0xE2, 0x80, 0x80], [0xE2, 0x80, 0x81], [0xE2, 0x80, 0x82], [0xE2, 0x80, 0x83],
      [0xE2, 0x80, 0x84], [0xE2, 0x80, 0x85], [0xE2, 0x80, 0x86], [0xE2, 0x80, 0x87],
      [0xE2, 0x80, 0x88], [0xE2, 0x80, 0x89], [0xE2, 0x80, 0x8A], [0xE2, 0x80, 0xA8],
      [0xE2, 0x80, 0xA9], [0xE2, 0x80, 0xAF], [0xE2, 0x81, 0x9F], [0xE3, 0x80, 0x80]]"

definition starts_with :: "bytes \<Rightarrow> bytes \<Rightarrow> bool" where
  "starts_with bs p \<longleftrightarrow> p \<noteq> [] \<and> take (length p) bs = p"

function trim_front :: "bytes list \<Rightarrow> bytes \<Rightarrow> bytes" where
  "trim_front sp bs =
     (case List.find (starts_with bs) sp of None \<Rightarrow> bs | Some p \<Rightarrow> trim_front sp (drop (length p) bs))"
  by pat_completeness auto
termination
proof (relation "measure (\<lambda>(sp, bs). length bs)")
  fix sp :: "bytes list" and bs p :: bytes
  assume "List.find (starts_with bs) sp = Some p"
  then have "starts_with bs p"
    by (auto simp: find_Some_iff)
  then have "p \<noteq> []" and "bs \<noteq> []"
    by (auto simp: starts_with_def)
  then show "((sp, drop (length p) bs), (sp, bs)) \<in> measure (\<lambda>(sp, bs). length bs)"
    by simp
qed simp

declare trim_front.simps [simp del]

definition TrimSpace :: "bytes \<Rightarrow> bytes" where
  "TrimSpace bs = rev (trim_front (map rev space_encodings) (rev (trim_front space_encodings bs)))"

lemma trim_front_clean: "p \<in> set sp \<Longrightarrow> \<not> starts_with (trim_front sp bs) p"
proof (induction sp bs rule: trim_front.induct)
  case (1 sp bs)
  show ?case
  proof (cases "List.find (starts_with bs) sp")
    case None
    then have "trim_front sp bs = bs"
      by (simp add: trim_front.simps [of sp bs])
    with None "1.prems" show ?thesis by (auto simp: find_None_iff)
  next
    case (Some q)
    with "1.IH" [OF Some] "1.prems" show ?thesis by (simp add: trim_front.simps [of sp bs])
  qed
qed

lemma trim_front_suffix: "\<exists>pre. bs = pre @ trim_front sp bs"
proof (induction sp bs rule: trim_front.induct)
  case (1 sp bs)
  show ?case
  proof (cases "List.find (starts_with bs) sp")
    case None
    then show ?thesis by (simp add: trim_front.simps [of sp bs])
  next
    case (Some q)
    obtain pre where "drop (length q) bs = pre @ trim_front sp (drop (length q) bs)"
      using "1.IH" [OF Some] by blast
    then have "bs = (take (length q) bs @ pre) @ trim_front sp (drop (length q) bs)"
      by (metis append_assoc append_take_drop_id)
    moreover have "trim_front sp bs = trim_front sp (drop (length q) bs)"
      using Some by (simp add: trim_front.simps [of sp bs])
    ultimately show ?thesis by metis
  qed
qed

text \<open>\<open>string(bz)\<close>: a Go string is its bytes.\<close>

definition string_of_bytes :: "bytes \<Rightarrow> string" where
  "string_of_bytes bs = map (\<lambda>b. char_of (unat b)) bs"

end
