(* ===== verification/StakeHubBinding.thy ===== *)
theory StakeHubBinding
  imports GoRuntime
begin

text \<open>
  The data of the generated binding \<open>abi/StakeHub.go\<close>: the structs, the table of the
  contract ABI it embeds, the bound-contract structs with their constructors, and the raw
  forwarding methods.  The package \<open>bind\<close> of go-ethereum is not part of the
  repository: its operations are the fields of \<open>bind_rpc\<close> and
  \<open>bind_ctor\<close>, arguments of every definition that calls them.
\<close>

section \<open>Structs and dynamic values\<close>

record StakeHubCommission =
  Rate :: "64 word"
  MaxRate :: "64 word"
  MaxChangeRate :: "64 word"

record StakeHubDescription =
  Moniker :: string
  Identity :: string
  Website :: string
  Details :: string

text \<open>The values an \<open>interface{}\<close> holds here, by dynamic type.  A \<open>*big.Int\<close> is
  \<open>None\<close> when nil.  \<open>VAnon\<close> is the anonymous struct the ABI decoder makes of a
  tuple.\<close>

datatype go_value =
    VAddress address
  | VBig "int option"
  | VBool bool
  | VBytes bytes
  | VU64 "64 word"
  | VString string
  | VAddresses "address list"
  | VBigs "int option list"
  | VBytesList "bytes list"
  | VCommission StakeHubCommission
  | VDescription StakeHubDescription
  | VAnon "go_value list"

datatype go_type =
    TAddress | TBig | TBool | TBytes | TAddresses | TBigs | TBytesList
  | TCommission | TDescription

text \<open>Type assertions \<open>x.(*T)\<close>: a run-time panic on any other dynamic type.\<close>

fun as_Address :: "go_value \<Rightarrow> address go" where
  "as_Address (VAddress a) = Ret a"
| "as_Address _ = Panic TypeAssertion"

fun as_Big :: "go_value \<Rightarrow> int option go" where
  "as_Big (VBig x) = Ret x"
| "as_Big _ = Panic TypeAssertion"

fun as_Bool :: "go_value \<Rightarrow> bool go" where
  "as_Bool (VBool b) = Ret b"
| "as_Bool _ = Panic TypeAssertion"

fun as_Bytes :: "go_value \<Rightarrow> bytes go" where
  "as_Bytes (VBytes b) = Ret b"
| "as_Bytes _ = Panic TypeAssertion"

fun as_Addresses :: "go_value \<Rightarrow> address list go" where
  "as_Addresses (VAddresses b) = Ret b"
| "as_Addresses _ = Panic TypeAssertion"

fun as_Bigs :: "go_value \<Rightarrow> int option list go" where
  "as_Bigs (VBigs b) = Ret b"
| "as_Bigs _ = Panic TypeAssertion"

fun as_BytesList :: "go_value \<Rightarrow> bytes list go" where
  "as_BytesList (VBytesList b) = Ret b"
| "as_BytesList _ = Panic TypeAssertion"

fun as_Commission :: "go_value \<Rightarrow> StakeHubCommission go" where
  "as_Commission (VCommission c) = Ret c"
| "as_Commission _ = Panic TypeAssertion"

fun as_Description :: "go_value \<Rightarrow> StakeHubDescription go" where
  "as_Description (VDescription d) = Ret d"
| "as_Description _ = Panic TypeAssertion"

section \<open>The ABI table\<close>

datatype abi_type =
    AAddress | AUint nat | ABool | ABytes | AString | AArray abi_type | ATuple "abi_type list"

datatype mutability = View | Nonpayable | Payable

record abi_function =
  fn_name :: string
  fn_inputs :: "abi_type list"
  fn_outputs :: "abi_type list"
  fn_mutability :: mutability

text \<open>An event: its name and, per parameter, the type and whether it is indexed.\<close>

record abi_event =
  ev_name :: string
  ev_inputs :: "(abi_type \<times> bool) list"

abbreviation fun_entry :: "string \<Rightarrow> abi_type list \<Rightarrow> abi_type list \<Rightarrow> mutability \<Rightarrow> abi_function" where
  "fun_entry n ins outs m \<equiv> \<lparr>fn_name = n, fn_inputs = ins, fn_outputs = outs, fn_mutability = m\<rparr>"

abbreviation ev_entry :: "string \<Rightarrow> (abi_type \<times> bool) list \<Rightarrow> abi_event" where
  "ev_entry n ins \<equiv> \<lparr>ev_name = n, ev_inputs = ins\<rparr>"

definition StakeHub_functions :: "abi_function list" where
  "StakeHub_functions = [
     fun_entry ''BREATHE_BLOCK_INTERVAL'' [] [AUint 256] View,
     fun_entry ''DEAD_ADDRESS'' [] [AAddress] View,
     fun_entry ''LOCK_AMOUNT'' [] [AUint 256] View,
     fun_entry ''REDELEGATE_FEE_RATE_BASE'' [] [AUint 256] View,
     fun_entry ''addToBlackList'' [AAddress] [] Nonpayable,
     fun_entry ''assetProtector'' [] [AAddress] View,
     fun_entry ''blackList'' [AAddress] [ABool] View,
     fun_entry ''claim'' [AAddress, AUint 256] [] Nonpayable,
     fun_entry ''claimBatch'' [AArray AAddress, AArray (AUint 256)] [] Nonpayable,
     fun_entry ''consensusExpiration'' [AAddress] [AUint 256] View,
     fun_entry ''consensusToOperator'' [AAddress] [AAddress] View,
     fun_entry ''createValidator'' [AAddress, ABytes, ABytes, ATuple [(AUint 64), (AUint 64), (AUint 64)], ATuple [AString, AString, AString, AString]] [] Payable,
     fun_entry ''delegate'' [AAddress, ABool] [] Payable,
     fun_entry ''distributeReward'' [AAddress] [] Payable,
     fun_entry ''doubleSignSlash'' [AAddress] [] Nonpayable,
     fun_entry ''downtimeJailTime'' [] [AUint 256] View,
     fun_entry ''downtimeSlash'' [AAddress] [] Nonpayable,
     fun_entry ''downtimeSlashAmount'' [] [AUint 256] View,
     fun_entry ''editCommissionRate'' [AUint 64] [] Nonpayable,
     fun_entry ''editConsensusAddress'' [AAddress] [] Nonpayable,
     fun_entry ''editDescription'' [ATuple [AString, AString, AString, AString]] [] Nonpayable,
     fun_entry ''editVoteAddress'' [ABytes, ABytes] [] Nonpayable,
     fun_entry ''felonyJailTime'' [] [AUint 256] View,
     fun_entry ''felonySlashAmount'' [] [AUint 256] View,
     fun_entry ''getValidatorBasicInfo'' [AAddress] [AAddress, AAddress, AUint 256, ABytes, ABool, AUint 256] View,
     fun_entry ''getValidatorCommission'' [AAddress] [ATuple [(AUint 64), (AUint 64), (AUint 64)]] View,
     fun_entry ''getValidatorDescription'' [AAddress] [ATuple [AString, AString, AString, AString]] View,
     fun_entry ''getValidatorElectionInfo'' [AUint 256, AUint 256] [AArray AAddress, AArray (AUint 256), AArray ABytes, AUint 256] View,
     fun_entry ''getValidatorRewardRecord'' [AAddress, AUint 256] [AUint 256] View,
     fun_entry ''getValidatorTotalPooledBNBRecord'' [AAddress, AUint 256] [AUint 256] View,
     fun_entry ''getValidators'' [AUint 256, AUint 256] [AArray AAddress, AArray AAddress, AUint 256] View,
     fun_entry ''initialize'' [] [] Nonpayable,
     fun_entry ''isPaused'' [] [ABool] View,
     fun_entry ''maliciousVoteSlash'' [ABytes] [] Nonpayable,
     fun_entry ''maxElectedValidators'' [] [AUint 256] View,
     fun_entry ''maxFelonyBetweenBreatheBlock'' [] [AUint 256] View,
     fun_entry ''minDelegationBNBChange'' [] [AUint 256] View,
     fun_entry ''minSelfDelegationBNB'' [] [AUint 256] View,
     fun_entry ''numOfJailed'' [] [AUint 256] View,
     fun_entry ''pause'' [] [] Nonpayable,
     fun_entry ''redelegate'' [AAddress, AAddress, AUint 256, ABool] [] Nonpayable,
     fun_entry ''redelegateFeeRate'' [] [AUint 256] View,
     fun_entry ''removeFromBlackList'' [AAddress] [] Nonpayable,
     fun_entry ''resume'' [] [] Nonpayable,
     fun_entry ''syncGovToken'' [AArray AAddress, AAddress] [] Nonpayable,
     fun_entry ''transferGasLimit'' [] [AUint 256] View,
     fun_entry ''unbondPeriod'' [] [AUint 256] View,
     fun_entry ''undelegate'' [AAddress, AUint 256] [] Nonpayable,
     fun_entry ''unjail'' [AAddress] [] Nonpayable,
     fun_entry ''updateParam'' [AString, ABytes] [] Nonpayable,
     fun_entry ''voteExpiration'' [ABytes] [AUint 256] View,
     fun_entry ''voteToOperator'' [ABytes] [AAddress] View]"

definition StakeHub_events :: "abi_event list" where
  "StakeHub_events = [
     ev_entry ''Claimed'' [(AAddress, True), (AAddress, True), (AUint 256, False)],
     ev_entry ''CommissionRateEdited'' [(AAddress, True), (AUint 64, False)],
     ev_entry ''ConsensusAddressEdited'' [(AAddress, True), (AAddress, True)],
     ev_entry ''Delegated'' [(AAddress, True), (AAddress, True), (AUint 256, False), (AUint 256, False)],
     ev_entry ''DescriptionEdited'' [(AAddress, True)],
     ev_entry ''Initialized'' [(AUint 8, False)],
     ev_entry ''ParamChange'' [(AString, False), (ABytes, False)],
     ev_entry ''Paused'' [],
     ev_entry ''Redelegated'' [(AAddress, True), (AAddress, True), (AAddress, True), (AUint 256, False), (AUint 256, False), (AUint 256, False)],
     ev_entry ''Resumed'' [],
     ev_entry ''RewardDistributeFailed'' [(AAddress, True), (ABytes, False)],
     ev_entry ''RewardDistributed'' [(AAddress, True), (AUint 256, False)],
     ev_entry ''Undelegated'' [(AAddress, True), (AAddress, True), (AUint 256, False), (AUint 256, False)],
     ev_entry ''ValidatorCreated'' [(AAddress, True), (AAddress, True), (AAddress, True), (ABytes, False)],
     ev_entry ''ValidatorEmptyJailed'' [(AAddress, True)],
     ev_entry ''ValidatorJailed'' [(AAddress, True)],
     ev_entry ''ValidatorSlashed'' [(AAddress, True), (AUint 256, False), (AUint 256, False), (AUint 8, False)],
     ev_entry ''ValidatorUnjailed'' [(AAddress, True)],
     ev_entry ''VoteAddressEdited'' [(AAddress, True), (ABytes, False)]]"

section \<open>Structs of the binding and their constructors\<close>

record 'c StakeHubCaller =
  caller_contract :: 'c

record 'c StakeHubTransactor =
  transactor_contract :: 'c

record 'c StakeHubFilterer =
  filterer_contract :: 'c

record 'c StakeHub =
  hub_Caller :: "'c StakeHubCaller"
  hub_Transactor :: "'c StakeHubTransactor"
  hub_Filterer :: "'c StakeHubFilterer"

record ('c, 'o) StakeHubSession =
  session_Contract :: "'c StakeHub"
  session_CallOpts :: 'o
  session_TransactOpts :: 'o

record ('c, 'o) StakeHubCallerSession =
  csession_Contract :: "'c StakeHubCaller"
  csession_CallOpts :: 'o

record ('c, 'o) StakeHubTransactorSession =
  tsession_Contract :: "'c StakeHubTransactor"
  tsession_TransactOpts :: 'o

record 'c StakeHubRaw =
  raw_Contract :: "'c StakeHub"

record 'c StakeHubCallerRaw =
  craw_Contract :: "'c StakeHubCaller"

record 'c StakeHubTransactorRaw =
  traw_Contract :: "'c StakeHubTransactor"

text \<open>What the constructors use of \<open>bind\<close>: parsing the embedded ABI and making the
  bound contract from an address, the ABI and the (possibly nil) parts of a backend.\<close>

record ('abi, 'be, 'c) bind_ctor =
  GetAbi :: "'abi option \<times> go_error option"
  NewBoundContract :: "address \<Rightarrow> 'abi \<Rightarrow> 'be option \<Rightarrow> 'be option \<Rightarrow> 'be option \<Rightarrow> 'c"

text \<open>\<open>*parsed\<close> is a nil dereference when the parser returns neither ABI nor error.\<close>

definition bindStakeHub ::
  "('abi, 'be, 'c) bind_ctor \<Rightarrow> address \<Rightarrow> 'be option \<Rightarrow> 'be option \<Rightarrow> 'be option \<Rightarrow>
   ('c option \<times> go_error option) go" where
  "bindStakeHub lib address caller transactor filterer =
     (case GetAbi lib of
        (parsed, Some err) \<Rightarrow> Ret (None, Some err)
      | (None, None) \<Rightarrow> Panic NilDereference
      | (Some parsed, None) \<Rightarrow>
          Ret (Some (NewBoundContract lib address parsed caller transactor filterer), None))"

definition NewStakeHub ::
  "('abi, 'be, 'c) bind_ctor \<Rightarrow> address \<Rightarrow> 'be \<Rightarrow> ('c StakeHub option \<times> go_error option) go" where
  "NewStakeHub lib address backend =
     bindGo (bindStakeHub lib address (Some backend) (Some backend) (Some backend))
       (\<lambda>(contract, err). case err of
           Some e \<Rightarrow> Ret (None, Some e)
         | None \<Rightarrow> Ret (map_option (\<lambda>c. \<lparr>hub_Caller = \<lparr>caller_contract = c\<rparr>,
                      hub_Transactor = \<lparr>transactor_contract = c\<rparr>,
                      hub_Filterer = \<lparr>filterer_contract = c\<rparr>\<rparr>) contract, None))"

definition NewStakeHubCaller ::
  "('abi, 'be, 'c) bind_ctor \<Rightarrow> address \<Rightarrow> 'be \<Rightarrow> ('c StakeHubCaller option \<times> go_error option) go" where
  "NewStakeHubCaller lib address caller =
     bindGo (bindStakeHub lib address (Some caller) None None)
       (\<lambda>(contract, err). case err of
           Some e \<Rightarrow> Ret (None, Some e)
         | None \<Rightarrow> Ret (map_option (\<lambda>c. \<lparr>caller_contract = c\<rparr>) contract, None))"

definition NewStakeHubTransactor ::
  "('abi, 'be, 'c) bind_ctor \<Rightarrow> address \<Rightarrow> 'be \<Rightarrow> ('c StakeHubTransactor option \<times> go_error option) go" where
  "NewStakeHubTransactor lib address transactor =
     bindGo (bindStakeHub lib address None (Some transactor) None)
       (\<lambda>(contract, err). case err of
           Some e \<Rightarrow> Ret (None, Some e)
         | None \<Rightarrow> Ret (map_option (\<lambda>c. \<lparr>transactor_contract = c\<rparr>) contract, None))"

definition NewStakeHubFilterer ::
  "('abi, 'be, 'c) bind_ctor \<Rightarrow> address \<Rightarrow> 'be \<Rightarrow> ('c StakeHubFilterer option \<times> go_error option) go" where
  "NewStakeHubFilterer lib address filterer =
     bindGo (bindStakeHub lib address None None (Some filterer))
       (\<lambda>(contract, err). case err of
           Some e \<Rightarrow> Ret (None, Some e)
         | None \<Rightarrow> Ret (map_option (\<lambda>c. \<lparr>filterer_contract = c\<rparr>) contract, None))"

section \<open>Calls and transactions through the bound contract\<close>

text \<open>What the methods use of \<open>bind.BoundContract\<close> and \<open>abi.ConvertType\<close>.  \<open>'o\<close>
  stands for the option structs (\<open>CallOpts\<close>, \<open>TransactOpts\<close>), \<open>'tx\<close> for
  \<open>*types.Transaction\<close>, \<open>'w\<close> for the world the backend acts on.\<close>

record ('w, 'c, 'o, 'tx) bind_rpc =
  bound_Call :: "'c \<Rightarrow> 'o \<Rightarrow> string \<Rightarrow> go_value list \<Rightarrow> 'w \<Rightarrow> (go_value list \<times> go_error option) \<times> 'w"
  bound_Transact :: "'c \<Rightarrow> 'o \<Rightarrow> string \<Rightarrow> go_value list \<Rightarrow> 'w \<Rightarrow> ('tx option \<times> go_error option) \<times> 'w"
  bound_RawTransact :: "'c \<Rightarrow> 'o \<Rightarrow> bytes option \<Rightarrow> 'w \<Rightarrow> ('tx option \<times> go_error option) \<times> 'w"
  bound_Transfer :: "'c \<Rightarrow> 'o \<Rightarrow> 'w \<Rightarrow> ('tx option \<times> go_error option) \<times> 'w"
  ConvertType :: "go_value \<Rightarrow> go_type \<Rightarrow> go_value"

definition StakeHubRaw_Call where
  "StakeHubRaw_Call lib r opts method params =
     extern (bound_Call lib (caller_contract (hub_Caller (raw_Contract r))) opts method params)"

definition StakeHubRaw_Transfer where
  "StakeHubRaw_Transfer lib r opts =
     extern (bound_Transfer lib (transactor_contract (hub_Transactor (raw_Contract r))) opts)"

definition StakeHubRaw_Transact where
  "StakeHubRaw_Transact lib r opts method params =
     extern (bound_Transact lib (transactor_contract (hub_Transactor (raw_Contract r))) opts method params)"

definition StakeHubCallerRaw_Call where
  "StakeHubCallerRaw_Call lib r opts method params =
     extern (bound_Call lib (caller_contract (craw_Contract r)) opts method params)"

definition StakeHubTransactorRaw_Transfer where
  "StakeHubTransactorRaw_Transfer lib r opts =
     extern (bound_Transfer lib (transactor_contract (traw_Contract r)) opts)"

definition StakeHubTransactorRaw_Transact where
  "StakeHubTransactorRaw_Transact lib r opts method params =
     extern (bound_Transact lib (transactor_contract (traw_Contract r)) opts method params)"

section \<open>Go values against ABI types\<close>

text \<open>Which Go values go-ethereum packs for an ABI input type, and which dynamic values it
  unpacks for an ABI output type (its documented type mapping).\<close>

fun packs :: "abi_type \<Rightarrow> go_value \<Rightarrow> bool" where
  "packs AAddress v = (case v of VAddress _ \<Rightarrow> True | _ \<Rightarrow> False)"
| "packs (AUint n) v = (case v of VBig _ \<Rightarrow> n = 256 | VU64 _ \<Rightarrow> n = 64 | _ \<Rightarrow> False)"
| "packs ABool v = (case v of VBool _ \<Rightarrow> True | _ \<Rightarrow> False)"
| "packs ABytes v = (case v of VBytes _ \<Rightarrow> True | _ \<Rightarrow> False)"
| "packs AString v = (case v of VString _ \<Rightarrow> True | _ \<Rightarrow> False)"
| "packs (AArray t) v =
     (case v of VAddresses _ \<Rightarrow> t = AAddress | VBigs _ \<Rightarrow> t = AUint 256
      | VBytesList _ \<Rightarrow> t = ABytes | _ \<Rightarrow> False)"
| "packs (ATuple ts) v =
     (case v of VCommission _ \<Rightarrow> ts = [AUint 64, AUint 64, AUint 64]
      | VDescription _ \<Rightarrow> ts = [AString, AString, AString, AString] | _ \<Rightarrow> False)"

fun unpacks :: "abi_type \<Rightarrow> go_value \<Rightarrow> bool" where
  "unpacks AAddress v = (\<exists>a. v = VAddress a)"
| "unpacks (AUint n) v = (if n = 256 then \<exists>x. v = VBig x else n = 64 \<and> (\<exists>x. v = VU64 x))"
| "unpacks ABool v = (\<exists>b. v = VBool b)"
| "unpacks ABytes v = (\<exists>b. v = VBytes b)"
| "unpacks AString v = (\<exists>s. v = VString s)"
| "unpacks (AArray t) v =
     (t = AAddress \<and> (\<exists>as. v = VAddresses as) \<or> t = AUint 256 \<and> (\<exists>xs. v = VBigs xs)
      \<or> t = ABytes \<and> (\<exists>bs. v = VBytesList bs))"
| "unpacks (ATuple ts) v =
     (ts = [AUint 64, AUint 64, AUint 64] \<and> (\<exists>a b c. v = VAnon [VU64 a, VU64 b, VU64 c])
      \<or> ts = [AString, AString, AString, AString]
        \<and> (\<exists>a b c d. v = VAnon [VString a, VString b, VString c, VString d]))"

definition find_function :: "string \<Rightarrow> abi_function option" where
  "find_function name = List.find (\<lambda>f. fn_name f = name) StakeHub_functions"

definition find_event :: "string \<Rightarrow> abi_event option" where
  "find_event name = List.find (\<lambda>e. ev_name e = name) StakeHub_events"

text \<open>The documented behaviour of \<open>bind\<close> the read methods rely on: a call succeeds
  only for a function of the ABI, with outputs unpacked at its output types, and
  \<open>ConvertType\<close> keeps a value of the wanted type and names the fields of a tuple.\<close>

definition convert_spec :: "(go_value \<Rightarrow> go_type \<Rightarrow> go_value) \<Rightarrow> bool" where
  "convert_spec conv \<longleftrightarrow>
     (\<forall>a. conv (VAddress a) TAddress = VAddress a) \<and>
     (\<forall>x. conv (VBig x) TBig = VBig x) \<and>
     (\<forall>b. conv (VBool b) TBool = VBool b) \<and>
     (\<forall>b. conv (VBytes b) TBytes = VBytes b) \<and>
     (\<forall>b. conv (VAddresses b) TAddresses = VAddresses b) \<and>
     (\<forall>b. conv (VBigs b) TBigs = VBigs b) \<and>
     (\<forall>b. conv (VBytesList b) TBytesList = VBytesList b) \<and>
     (\<forall>a b c. conv (VAnon [VU64 a, VU64 b, VU64 c]) TCommission
               = VCommission \<lparr>Rate = a, MaxRate = b, MaxChangeRate = c\<rparr>) \<and>
     (\<forall>a b c d. conv (VAnon [VString a, VString b, VString c, VString d]) TDescription
               = VDescription \<lparr>Moniker = a, Identity = b, Website = c, Details = d\<rparr>)"

definition call_spec :: "('w, 'c, 'o, 'tx) bind_rpc \<Rightarrow> bool" where
  "call_spec lib \<longleftrightarrow> convert_spec (ConvertType lib) \<and>
     (\<forall>c opts name args w out w'. bound_Call lib c opts name args w = ((out, None), w') \<longrightarrow>
        (\<exists>f. find_function name = Some f \<and> list_all2 unpacks (fn_outputs f) out))"

end
