(* ===== verification/LogIterator.thy ===== *)
theory LogIterator
  imports GoRuntime
begin

text \<open>
  The event iterators of \<open>abi/StakeHub.go\<close>.  Every event has an iterator struct with the
  same fields and methods; they differ only in the event type and its name, so the struct and
  \<open>Next\<close>, \<open>Error\<close> and \<open>Close\<close> are modelled once, over any event
  record that extends \<open>log_event\<close> (the field \<open>Raw\<close>), and \<open>StakeHubEvents\<close>
  instantiates them per event.
  A channel is the list of its buffered values; the choice Go's \<open>select\<close> makes when both
  the log and the error channel are ready is an argument.
\<close>

section \<open>Subscriptions\<close>

text \<open>The error channel of an \<open>ethereum.Subscription\<close> (buffered values, closed or not),
  and how often \<open>Unsubscribe\<close> was called.  Receiving from a closed empty channel gives
  nil at once, from an open empty one it blocks (\<open>None\<close>).\<close>

record subscription =
  sub_errs :: "go_error option list"
  sub_closed :: bool
  sub_unsubscribed :: nat

definition recv_err :: "subscription \<Rightarrow> (go_error option \<times> subscription) option" where
  "recv_err sub = (case sub_errs sub of
       e # es \<Rightarrow> Some (e, sub\<lparr>sub_errs := es\<rparr>)
     | [] \<Rightarrow> if sub_closed sub then Some (None, sub) else None)"

definition Unsubscribe :: "subscription \<Rightarrow> subscription" where
  "Unsubscribe sub = sub\<lparr>sub_unsubscribed := Suc (sub_unsubscribed sub)\<rparr>"

section \<open>Unpacking a log\<close>

text \<open>Every event struct embeds the raw log; \<open>None\<close> is its zero value.\<close>

record 'lg log_event =
  Raw :: "'lg option"

text \<open>\<open>UnpackLog\<close> of the bound contract: it fills the event it is given, whatever it
  returns.  It belongs to go-ethereum, so it is an argument everywhere.\<close>

type_synonym ('ev, 'lg) unpacker = "'ev \<Rightarrow> string \<Rightarrow> 'lg \<Rightarrow> 'ev \<times> go_error option"

definition unpack_raw ::
  "(('lg, 'z) log_event_scheme, 'lg) unpacker \<Rightarrow> ('lg, 'z) log_event_scheme \<Rightarrow> string \<Rightarrow> 'lg \<Rightarrow>
     ('lg, 'z) log_event_scheme \<times> go_error option" where
  "unpack_raw unpack new name log = (case unpack new name log of
       (ev, Some err) \<Rightarrow> (ev, Some err)
     | (ev, None) \<Rightarrow> (ev\<lparr>Raw := Some log\<rparr>, None))"

section \<open>The iterator\<close>

record ('lg, 'z, 'c) log_iterator =
  Event :: "('lg, 'z) log_event_scheme option"
  it_contract :: 'c
  it_event :: string
  it_logs :: "'lg list"
  it_sub :: subscription
  it_done :: bool
  it_fail :: "go_error option"

text \<open>The common body of the two \<open>case log := <-it.logs\<close> branches.\<close>

definition take_log ::
  "('c \<Rightarrow> (('lg, 'z) log_event_scheme, 'lg) unpacker) \<Rightarrow> ('lg, 'z) log_event_scheme \<Rightarrow>
     'lg \<Rightarrow> ('lg, 'z, 'c) log_iterator \<Rightarrow> bool \<times> ('lg, 'z, 'c) log_iterator" where
  "take_log unpack new log it =
     (case unpack_raw (unpack (it_contract it)) new (it_event it) log of
        (ev, Some err) \<Rightarrow> (False, it\<lparr>Event := Some ev, it_fail := Some err\<rparr>)
      | (ev, None) \<Rightarrow> (True, it\<lparr>Event := Some ev\<rparr>))"

text \<open>\<open>Next\<close>: \<open>None\<close> when the \<open>select\<close> blocks.  \<open>prefer_log\<close> is the
  choice of \<open>select\<close> when a log and an error are both ready.\<close>

function iterator_Next ::
  "('c \<Rightarrow> (('lg, 'z) log_event_scheme, 'lg) unpacker) \<Rightarrow> ('lg, 'z) log_event_scheme \<Rightarrow>
     bool \<Rightarrow> ('lg, 'z, 'c) log_iterator \<Rightarrow> (bool \<times> ('lg, 'z, 'c) log_iterator) option" where
  "iterator_Next unpack new prefer_log it =
     (if it_fail it \<noteq> None then Some (False, it)
      else if it_done it then
        (case it_logs it of
           log # logs \<Rightarrow> Some (take_log unpack new log (it\<lparr>it_logs := logs\<rparr>))
         | [] \<Rightarrow> Some (False, it))
      else (case (it_logs it, recv_err (it_sub it)) of
          (log # logs, None) \<Rightarrow> Some (take_log unpack new log (it\<lparr>it_logs := logs\<rparr>))
        | (log # logs, Some (err, sub)) \<Rightarrow>
            if prefer_log then Some (take_log unpack new log (it\<lparr>it_logs := logs\<rparr>))
            else iterator_Next unpack new prefer_log (it\<lparr>it_sub := sub, it_done := True, it_fail := err\<rparr>)
        | ([], Some (err, sub)) \<Rightarrow>
            iterator_Next unpack new prefer_log (it\<lparr>it_sub := sub, it_done := True, it_fail := err\<rparr>)
        | ([], None) \<Rightarrow> None))"
  by pat_completeness auto
termination
  by (relation "measure (\<lambda>(_, _, _, it). if it_done it then 0 else 1)") auto

declare iterator_Next.simps [simp del]

definition iterator_Error :: "('lg, 'z, 'c) log_iterator \<Rightarrow> go_error option" where
  "iterator_Error it = it_fail it"

definition iterator_Close :: "('lg, 'z, 'c) log_iterator \<Rightarrow> go_error option \<times> ('lg, 'z, 'c) log_iterator" where
  "iterator_Close it = (None, it\<lparr>it_sub := Unsubscribe (it_sub it)\<rparr>)"

text \<open>The iterator a \<open>Filter\<close> method returns.\<close>

definition new_iterator :: "'c \<Rightarrow> string \<Rightarrow> 'lg list \<Rightarrow> subscription \<Rightarrow> ('lg, 'z, 'c) log_iterator" where
  "new_iterator contract name logs sub = \<lparr>Event = None, it_contract = contract, it_event = name,
     it_logs = logs, it_sub = sub, it_done = False, it_fail = None\<rparr>"

section \<open>One call of Next, by case\<close>

lemma Next_failed [simp]: "it_fail it = Some e \<Longrightarrow> iterator_Next unpack new p it = Some (False, it)"
  by (simp add: iterator_Next.simps)

lemma Next_done [simp]:
  assumes "it_fail it = None" and "it_done it"
  shows "iterator_Next unpack new p it = (case it_logs it of
           log # logs \<Rightarrow> Some (take_log unpack new log (it\<lparr>it_logs := logs\<rparr>))
         | [] \<Rightarrow> Some (False, it))"
  using assms by (simp add: iterator_Next.simps)

lemma Next_open:
  assumes "it_fail it = None" and "\<not> it_done it"
  shows "iterator_Next unpack new p it = (case (it_logs it, recv_err (it_sub it)) of
          (log # logs, None) \<Rightarrow> Some (take_log unpack new log (it\<lparr>it_logs := logs\<rparr>))
        | (log # logs, Some (err, sub)) \<Rightarrow>
            if p then Some (take_log unpack new log (it\<lparr>it_logs := logs\<rparr>))
            else iterator_Next unpack new p (it\<lparr>it_sub := sub, it_done := True, it_fail := err\<rparr>)
        | ([], Some (err, sub)) \<Rightarrow>
            iterator_Next unpack new p (it\<lparr>it_sub := sub, it_done := True, it_fail := err\<rparr>)
        | ([], None) \<Rightarrow> None)"
  using assms by (simp add: iterator_Next.simps [of unpack new p it])

text \<open>What a log is worth: the event it unpacks to, or none.\<close>

definition decode ::
  "(('lg, 'z) log_event_scheme, 'lg) unpacker \<Rightarrow> ('lg, 'z) log_event_scheme \<Rightarrow> string \<Rightarrow> 'lg \<Rightarrow>
     ('lg, 'z) log_event_scheme option" where
  "decode unpack new name log =
     (case unpack_raw unpack new name log of (ev, None) \<Rightarrow> Some ev | (ev, Some e) \<Rightarrow> None)"

abbreviation event_of ::
  "('c \<Rightarrow> (('lg, 'z) log_event_scheme, 'lg) unpacker) \<Rightarrow> ('lg, 'z) log_event_scheme \<Rightarrow>
     'c \<Rightarrow> string \<Rightarrow> 'lg \<Rightarrow> ('lg, 'z) log_event_scheme option" where
  "event_of unpack new c \<equiv> decode (unpack c) new"

lemma event_of_Raw: "event_of unpack new c name log = Some ev \<Longrightarrow> Raw ev = Some log"
  by (auto simp: decode_def unpack_raw_def split: prod.splits option.splits)

lemma take_log_event:
  "take_log unpack new log it =
     (case event_of unpack new (it_contract it) (it_event it) log of
        Some ev \<Rightarrow> (True, it\<lparr>Event := Some ev\<rparr>)
      | None \<Rightarrow> (False, it\<lparr>Event := Some (fst (unpack_raw (unpack (it_contract it)) new (it_event it) log)),
                       it_fail := snd (unpack_raw (unpack (it_contract it)) new (it_event it) log)\<rparr>))"
  by (auto simp: take_log_def decode_def split: prod.splits option.splits)

lemma event_of_None_fails:
  "event_of unpack new c name log = None \<Longrightarrow> \<exists>e. snd (unpack_raw (unpack c) new name log) = Some e"
  by (auto simp: decode_def split: prod.splits option.splits)

text \<open>The two outcomes of a call that does not block, as relations between the iterators
  before and after: an event is the one its log is worth and the log is gone from the front of
  the channel; a refusal consumes no log unless that log fails to unpack.\<close>

definition yields where
  "yields unpack new it it' \<longleftrightarrow> (\<exists>log logs ev. it_logs it = log # logs \<and> it_logs it' = logs
     \<and> event_of unpack new (it_contract it) (it_event it) log = Some ev \<and> Event it' = Some ev
     \<and> it_fail it = None \<and> it_fail it' = None)"

definition refuses where
  "refuses unpack new it it' \<longleftrightarrow>
     (it_logs it' = it_logs it \<and> (it_fail it' = None \<longrightarrow> it_done it' \<and> it_logs it = []))
     \<or> (\<exists>log logs e. it_logs it = log # logs \<and> it_logs it' = logs \<and> it_fail it = None
          \<and> event_of unpack new (it_contract it) (it_event it) log = None \<and> it_fail it' = Some e)"

lemma Next_source:
  "iterator_Next unpack new p it = Some (b, it') \<Longrightarrow>
     it_contract it' = it_contract it \<and> it_event it' = it_event it"
proof (induction unpack new p it rule: iterator_Next.induct)
  case (1 unpack new p it)
  show ?case
  proof (cases "it_fail it \<noteq> None \<or> it_done it")
    case True
    with "1.prems" show ?thesis
      by (cases "it_fail it") (auto simp: take_log_event split: list.splits option.splits)
  next
    case False
    with 1 show ?thesis
      by (auto simp: Next_open take_log_event split: list.splits option.splits prod.splits if_splits)
  qed
qed

lemma Next_take:
  "it_fail it = None \<Longrightarrow> it_logs it = log # logs \<Longrightarrow>
     take_log unpack new log (it\<lparr>it_logs := logs\<rparr>) = (b, it') \<Longrightarrow>
     (if b then yields unpack new it it' else refuses unpack new it it')"
  by (auto simp: take_log_event yields_def refuses_def dest: event_of_None_fails split: option.splits)

lemma Next_cases:
  "iterator_Next unpack new p it = Some (b, it') \<Longrightarrow>
     (if b then yields unpack new it it' else refuses unpack new it it')"
proof (induction unpack new p it rule: iterator_Next.induct)
  case (1 unpack new p it)
  note prems = "1.prems"
  consider e where "it_fail it = Some e" | "it_fail it = None" "it_done it"
    | "it_fail it = None" "\<not> it_done it"
    by (cases "it_fail it") auto
  then show ?case
  proof cases
    case (1 e)
    with prems show ?thesis by (auto simp: refuses_def)
  next
    case 2
    show ?thesis
    proof (cases "it_logs it")
      case Nil
      with prems 2 show ?thesis by (auto simp: refuses_def)
    next
      case (Cons log logs)
      with prems 2 have "take_log unpack new log (it\<lparr>it_logs := logs\<rparr>) = (b, it')" by simp
      then show ?thesis by (rule Next_take [OF 2(1) Cons])
    qed
  next
    case 3
    let ?it = "\<lambda>err sub. it\<lparr>it_sub := sub, it_done := True, it_fail := err\<rparr>"
    have end_case: "if b then yields unpack new it it' else refuses unpack new it it'"
      if r: "recv_err (it_sub it) = Some (err, sub)" and n: "iterator_Next unpack new p (?it err sub) = Some (b, it')"
      for err sub
    proof (cases err)
      case None
      with n 3 show ?thesis
        by (cases "it_logs it")
          (auto simp: refuses_def yields_def take_log_event dest: event_of_None_fails split: option.splits)
    next
      case (Some e)
      with n show ?thesis by (auto simp: refuses_def)
    qed
    show ?thesis
    proof (cases "it_logs it")
      case Nil
      with prems 3 end_case show ?thesis by (auto simp: Next_open split: option.splits)
    next
      case (Cons log logs)
      show ?thesis
      proof (cases "take_log unpack new log (it\<lparr>it_logs := logs\<rparr>) = (b, it')")
        case True
        then show ?thesis by (rule Next_take [OF 3(1) Cons])
      next
        case False
        with prems 3 Cons end_case show ?thesis
          by (auto simp: Next_open split: option.splits if_split_asm)
      qed
    qed
  qed
qed

section \<open>Cursors\<close>

text \<open>What a caller of \<open>Next\<close> relies on: an event comes from the front of the pending
  logs and is what that log is worth; a call never changes what logs are worth; once the
  producer has ended without an error no call blocks, every pending log that is worth something
  is handed out, a worthless one makes the cursor fail, and with no log left it stops without
  failing.\<close>

locale log_cursor =
  fixes advance :: "bool \<Rightarrow> 's \<Rightarrow> (bool \<times> 's) option"
    and current :: "'s \<Rightarrow> 'e option"
    and failure :: "'s \<Rightarrow> go_error option"
    and pending :: "'s \<Rightarrow> 'l list"
    and worth :: "'s \<Rightarrow> 'l \<Rightarrow> 'e option"
    and ended :: "'s \<Rightarrow> bool"
  assumes advance_yields: "advance p s = Some (True, s') \<Longrightarrow>
      \<exists>l ls e. pending s = l # ls \<and> pending s' = ls \<and> worth s l = Some e \<and> current s' = Some e
        \<and> failure s' = None"
    and advance_worth: "advance p s = Some (b, s') \<Longrightarrow> worth s' = worth s"
    and advance_pending: "ended s \<Longrightarrow> failure s = None \<Longrightarrow> pending s = l # ls \<Longrightarrow> worth s l \<noteq> None \<Longrightarrow>
      \<exists>s'. advance p s = Some (True, s') \<and> ended s'"
    and advance_bad: "ended s \<Longrightarrow> failure s = None \<Longrightarrow> pending s = l # ls \<Longrightarrow> worth s l = None \<Longrightarrow>
      \<exists>s'. advance p s = Some (False, s') \<and> failure s' \<noteq> None"
    and advance_stops: "ended s \<Longrightarrow> failure s = None \<Longrightarrow> pending s = [] \<Longrightarrow>
      \<exists>s'. advance p s = Some (False, s') \<and> failure s' = None"

text \<open>The consumer loop \<open>for it.Next() { use(it.Event) }\<close>, with the choices its
  \<open>select\<close>s make; \<open>None\<close> if a call blocks or the choices run out.\<close>

fun drain :: "(bool \<Rightarrow> 's \<Rightarrow> (bool \<times> 's) option) \<Rightarrow> ('s \<Rightarrow> 'e option) \<Rightarrow> bool list \<Rightarrow> 's \<Rightarrow> ('e option list \<times> 's) option" where
  "drain adv cur [] s = None"
| "drain adv cur (p # ps) s = (case adv p s of
       None \<Rightarrow> None
     | Some (False, s') \<Rightarrow> Some ([], s')
     | Some (True, s') \<Rightarrow> map_option (\<lambda>(es, t). (cur s' # es, t)) (drain adv cur ps s'))"

context log_cursor
begin

text \<open>The loop ends, with the events of the logs before the first worthless one; it has failed
  exactly if there is such a log.\<close>

lemma drain_upto_bad:
  assumes "ended s" and "failure s = None" and "length (pending s) < length ps"
  shows "\<exists>t. drain advance current ps s
       = Some (map (worth s) (takeWhile (\<lambda>l. worth s l \<noteq> None) (pending s)), t)
     \<and> (failure t = None \<longleftrightarrow> (\<forall>l \<in> set (pending s). worth s l \<noteq> None))"
  using assms
proof (induction ps arbitrary: s)
  case Nil
  then show ?case by simp
next
  case (Cons p ps)
  show ?case
  proof (cases "pending s")
    case Nil
    with advance_stops [OF Cons.prems(1,2), of p] show ?thesis by auto
  next
    case pending: (Cons l ls)
    show ?thesis
    proof (cases "worth s l")
      case None
      with advance_bad [OF Cons.prems(1,2) pending, of p] pending show ?thesis by auto
    next
      case (Some x)
      obtain s' where n: "advance p s = Some (True, s')" and e: "ended s'"
        using advance_pending [OF Cons.prems(1,2) pending] Some by force
      from advance_yields [OF n] pending Some have
        y: "pending s' = ls" "current s' = Some x" "failure s' = None" by auto
      have w: "worth s' = worth s" by (rule advance_worth [OF n])
      from Cons.IH [OF e y(3)] Cons.prems(3) pending n Some y w show ?thesis by fastforce
    qed
  qed
qed

end

definition clean_end :: "('lg, 'z, 'c) log_iterator \<Rightarrow> bool" where
  "clean_end it \<longleftrightarrow> it_done it \<or> (\<exists>sub. recv_err (it_sub it) = Some (None, sub))"

lemma Next_worth:
  "iterator_Next unpack new p it = Some (b, it') \<Longrightarrow>
     event_of unpack new (it_contract it') (it_event it') = event_of unpack new (it_contract it) (it_event it)"
  by (simp add: Next_source)

lemma Next_pending:
  assumes "clean_end it" and "it_fail it = None" and "it_logs it = l # ls"
    and "event_of unpack new (it_contract it) (it_event it) l \<noteq> None"
  shows "\<exists>it'. iterator_Next unpack new p it = Some (True, it') \<and> clean_end it'"
  using assms by (cases "it_done it") (auto simp: clean_end_def Next_open take_log_event)

lemma Next_bad:
  assumes "clean_end it" and "it_fail it = None" and "it_logs it = l # ls"
    and "event_of unpack new (it_contract it) (it_event it) l = None"
  shows "\<exists>it'. iterator_Next unpack new p it = Some (False, it') \<and> it_fail it' \<noteq> None"
  using assms event_of_None_fails [where unpack = unpack and c = "it_contract it", OF assms(4)]
  by (cases "it_done it") (auto simp: clean_end_def Next_open take_log_event)

lemma Next_stops:
  assumes "clean_end it" and "it_fail it = None" and "it_logs it = []"
  shows "\<exists>it'. iterator_Next unpack new p it = Some (False, it') \<and> it_fail it' = None"
  using assms by (cases "it_done it") (auto simp: clean_end_def Next_open)

interpretation stakehub: log_cursor "iterator_Next unpack new" Event it_fail it_logs
    "\<lambda>it. event_of unpack new (it_contract it) (it_event it)" clean_end
  for unpack :: "'c \<Rightarrow> (('lg, 'z) log_event_scheme, 'lg) unpacker" and new
proof (unfold_locales, goal_cases)
  case (1 p it it')
  from Next_cases [OF 1] show ?case by (auto simp: yields_def)
next
  case (2 p it b it')
  then show ?case by (rule Next_worth)
next
  case (3 it l ls p)
  then show ?case by (rule Next_pending)
next
  case (4 it l ls p)
  then show ?case by (rule Next_bad)
next
  case (5 it p)
  then show ?case by (rule Next_stops)
qed

section \<open>The iterator among its producer's steps\<close>

text \<open>The producer goroutine (in go-ethereum) may push logs until it ends, with or without an
  error; the consumer may call \<open>Next\<close> whenever it does not block, with either choice.  The
  system keeps what was pushed and the events that \<open>Next\<close> handed out.\<close>

record ('lg, 'z, 'c) iter_sys =
  si_it :: "('lg, 'z, 'c) log_iterator"
  si_pushed :: "'lg list"
  si_got :: "('lg, 'z) log_event_scheme option list"

inductive iter_step ::
  "('c \<Rightarrow> (('lg, 'z) log_event_scheme, 'lg) unpacker) \<Rightarrow> ('lg, 'z) log_event_scheme \<Rightarrow>
     ('lg, 'z, 'c) iter_sys \<Rightarrow> ('lg, 'z, 'c) iter_sys \<Rightarrow> bool"
  for unpack new where
  push: "\<not> sub_closed (it_sub (si_it s)) \<Longrightarrow>
     iter_step unpack new s (s\<lparr>si_it := (si_it s)\<lparr>it_logs := it_logs (si_it s) @ [log]\<rparr>,
                               si_pushed := si_pushed s @ [log]\<rparr>)"
| finish: "\<not> sub_closed (it_sub (si_it s)) \<Longrightarrow>
     iter_step unpack new s (s\<lparr>si_it := (si_it s)\<lparr>it_sub := (it_sub (si_it s))
        \<lparr>sub_errs := (case err of None \<Rightarrow> [] | Some e \<Rightarrow> [Some e]), sub_closed := True\<rparr>\<rparr>\<rparr>)"
| next_event: "iterator_Next unpack new p (si_it s) = Some (True, it') \<Longrightarrow>
     iter_step unpack new s (s\<lparr>si_it := it', si_got := si_got s @ [Event it']\<rparr>)"
| next_none: "iterator_Next unpack new p (si_it s) = Some (False, it') \<Longrightarrow>
     iter_step unpack new s (s\<lparr>si_it := it'\<rparr>)"

inductive iter_reach ::
  "('c \<Rightarrow> (('lg, 'z) log_event_scheme, 'lg) unpacker) \<Rightarrow> ('lg, 'z) log_event_scheme \<Rightarrow>
     'c \<Rightarrow> string \<Rightarrow> ('lg, 'z, 'c) iter_sys \<Rightarrow> bool"
  for unpack new c name where
  start: "iter_reach unpack new c name
     \<lparr>si_it = new_iterator c name logs sub, si_pushed = logs, si_got = []\<rparr>"
| step: "iter_reach unpack new c name s \<Longrightarrow> iter_step unpack new s t \<Longrightarrow> iter_reach unpack new c name t"

text \<open>What was handed out is what a prefix of the pushed logs is worth; the channel holds the
  rest, but for one log that failed to unpack, if that is why the iterator failed.\<close>

definition iter_inv where
  "iter_inv unpack new c name s \<longleftrightarrow>
     it_contract (si_it s) = c \<and> it_event (si_it s) = name \<and>
     (\<exists>taken bad. si_pushed s = taken @ bad @ it_logs (si_it s)
        \<and> si_got s = map (event_of unpack new c name) taken \<and> None \<notin> set (si_got s)
        \<and> (bad = [] \<or> (\<exists>l. bad = [l] \<and> event_of unpack new c name l = None \<and> it_fail (si_it s) \<noteq> None)))"

lemma iter_inv_next_event:
  assumes "iter_inv unpack new c name s" and "iterator_Next unpack new p (si_it s) = Some (True, it')"
  shows "iter_inv unpack new c name (s\<lparr>si_it := it', si_got := si_got s @ [Event it']\<rparr>)"
proof -
  have "yields unpack new (si_it s) it'"
    using Next_cases [OF assms(2)] by simp
  moreover have "it_contract it' = it_contract (si_it s)" "it_event it' = it_event (si_it s)"
    using Next_source [OF assms(2)] by auto
  ultimately show ?thesis
    using assms(1) unfolding iter_inv_def yields_def by (force simp: image_iff)
qed

lemma iter_inv_next_none:
  assumes "iter_inv unpack new c name s" and "iterator_Next unpack new p (si_it s) = Some (False, it')"
  shows "iter_inv unpack new c name (s\<lparr>si_it := it'\<rparr>)"
proof (cases "it_fail (si_it s)")
  case None
  have r: "refuses unpack new (si_it s) it'"
    using Next_cases [OF assms(2)] by simp
  have src: "it_contract it' = it_contract (si_it s)" "it_event it' = it_event (si_it s)"
    using Next_source [OF assms(2)] by auto
  obtain taken where t: "si_pushed s = taken @ it_logs (si_it s)"
      "si_got s = map (event_of unpack new c name) taken" "None \<notin> set (si_got s)"
    using assms(1) None unfolding iter_inv_def by auto
  from r show ?thesis
    unfolding refuses_def
  proof (elim disjE exE conjE)
    assume "it_logs it' = it_logs (si_it s)"
    with t src assms(1) show ?thesis unfolding iter_inv_def by auto
  next
    fix log logs e
    assume "it_logs (si_it s) = log # logs" "it_logs it' = logs" "it_fail it' = Some e"
      "event_of unpack new (it_contract (si_it s)) (it_event (si_it s)) log = None"
    with t src assms(1) show ?thesis
      unfolding iter_inv_def by (intro conjI exI [of _ taken] exI [of _ "[log]"]) auto
  qed
next
  case (Some e)
  with assms show ?thesis by (auto simp: iter_inv_def)
qed

lemma iter_step_inv:
  "iter_step unpack new s t \<Longrightarrow> iter_inv unpack new c name s \<Longrightarrow> iter_inv unpack new c name t"
proof (induction rule: iter_step.induct)
  case (push s log)
  then obtain taken bad where "si_pushed s = taken @ bad @ it_logs (si_it s)"
      "si_got s = map (event_of unpack new c name) taken" "None \<notin> set (si_got s)"
      "bad = [] \<or> (\<exists>l. bad = [l] \<and> event_of unpack new c name l = None \<and> it_fail (si_it s) \<noteq> None)"
    unfolding iter_inv_def by auto
  with push show ?case
    unfolding iter_inv_def by (intro conjI exI [of _ taken] exI [of _ bad]) simp_all
next
  case (finish s err)
  then show ?case unfolding iter_inv_def by simp
next
  case (next_event p s it')
  then show ?case by (blast intro: iter_inv_next_event)
next
  case (next_none p s it')
  then show ?case by (blast intro: iter_inv_next_none)
qed

lemma iter_reach_inv: "iter_reach unpack new c name s \<Longrightarrow> iter_inv unpack new c name s"
proof (induction rule: iter_reach.induct)
  case (start logs sub)
  show ?case by (simp add: iter_inv_def new_iterator_def)
next
  case (step s t)
  then show ?case by (blast intro: iter_step_inv)
qed

section \<open>Properties\<close>

text \<open>C12: however the producer's pushes and the consumer's calls of \<open>Next\<close> interleave, and
  whichever ready channel \<open>select\<close> picks, the events handed out are exactly what a prefix of
  the pushed logs unpacks to, in order, each once; the logs after it are still in the channel,
  except the single log whose unpacking failed when that is what stopped the iterator.\<close>

theorem iterator_delivers_prefix:
  assumes "iter_reach unpack new c name s"
  shows "\<exists>n. si_got s = map (event_of unpack new c name) (take n (si_pushed s))
     \<and> None \<notin> set (si_got s)
     \<and> (drop n (si_pushed s) = it_logs (si_it s)
        \<or> it_fail (si_it s) \<noteq> None \<and> drop (Suc n) (si_pushed s) = it_logs (si_it s)
          \<and> event_of unpack new c name (si_pushed s ! n) = None)"
proof -
  obtain taken bad where t: "si_pushed s = taken @ bad @ it_logs (si_it s)"
      "si_got s = map (event_of unpack new c name) taken" "None \<notin> set (si_got s)"
    and b: "bad = [] \<or> (\<exists>l. bad = [l] \<and> event_of unpack new c name l = None \<and> it_fail (si_it s) \<noteq> None)"
    using iter_reach_inv [OF assms] unfolding iter_inv_def by blast
  show ?thesis
    by (rule exI [of _ "length taken"]) (use t b in \<open>auto simp: nth_append\<close>)
qed

text \<open>Draining is complete.  Once the subscription has ended without an error, the loop
  \<open>for it.Next()\<close> never blocks and ends within one call more than there are logs, whatever
  \<open>select\<close> picks: it hands out the buffered logs, in order and decoded, up to the first
  that does not unpack, and \<open>Error()\<close> is nil exactly if all of them unpack.\<close>

theorem iterator_drains_all:
  assumes "recv_err (it_sub it) = Some (None, sub)" and "it_fail it = None"
    and "length (it_logs it) < length choices"
  shows "\<exists>it'. drain (iterator_Next unpack new) Event choices it
       = Some (map (event_of unpack new (it_contract it) (it_event it))
           (takeWhile (\<lambda>l. event_of unpack new (it_contract it) (it_event it) l \<noteq> None) (it_logs it)), it')
     \<and> (iterator_Error it' = None
        \<longleftrightarrow> (\<forall>l \<in> set (it_logs it). event_of unpack new (it_contract it) (it_event it) l \<noteq> None))"
  unfolding iterator_Error_def
  by (rule stakehub.drain_upto_bad) (use assms in \<open>auto simp: clean_end_def\<close>)

text \<open>A failed iterator is stuck: after \<open>Next\<close> has returned false with an error, every
  later call returns false and leaves the iterator as it is.  In particular, when \<open>select\<close>
  takes the subscription's error first, the logs still buffered are never handed out.\<close>

theorem iterator_error_abandons_logs:
  assumes "it_fail it = None" and "\<not> it_done it" and "recv_err (it_sub it) = Some (Some e, sub)"
  shows "\<exists>it'. iterator_Next unpack new False it = Some (False, it')
     \<and> iterator_Error it' = Some e \<and> it_logs it' = it_logs it
     \<and> (\<forall>p. iterator_Next unpack new p it' = Some (False, it'))"
  using assms by (auto simp: Next_open iterator_Error_def split: list.splits)

text \<open>The only way \<open>Next\<close> blocks is an iterator still in progress with no log buffered
  and a subscription that has neither failed nor ended; otherwise it returns.\<close>

theorem iterator_Next_blocks_iff:
  "iterator_Next unpack new p it = None \<longleftrightarrow>
     it_fail it = None \<and> \<not> it_done it \<and> it_logs it = [] \<and> recv_err (it_sub it) = None"
proof (cases "it_fail it = None \<and> \<not> it_done it")
  case True
  then show ?thesis
    by (cases "it_logs it"; cases "recv_err (it_sub it)")
      (auto simp: Next_open iterator_Next.simps [of _ _ _ "it\<lparr>it_sub := _, it_done := True, it_fail := _\<rparr>"])
next
  case False
  then show ?thesis by (cases "it_fail it") (auto split: list.splits)
qed

section \<open>Witnesses\<close>

text \<open>An unpacker over numbers that rejects zero, and the events it makes.\<close>

definition nat_unpack :: "unit \<Rightarrow> ((nat, unit) log_event_scheme, nat) unpacker" where
  "nat_unpack c ev name log = (ev, if log = 0 then Some ''bad log'' else None)"

definition idle_sub :: subscription where
  "idle_sub = \<lparr>sub_errs = [], sub_closed = False, sub_unsubscribed = 0\<rparr>"

lemma nat_event_of:
  "event_of nat_unpack \<lparr>Raw = None\<rparr> () name log = (if log = 0 then None else Some \<lparr>Raw = Some log\<rparr>)"
  by (simp add: decode_def unpack_raw_def nat_unpack_def)

theorem iterator_delivers_prefix_witness:
  "\<exists>s n. iter_reach nat_unpack \<lparr>Raw = None\<rparr> () ''E'' s \<and> si_pushed s = [5, 7]
     \<and> si_got s = [Some \<lparr>Raw = Some 5\<rparr>]
     \<and> si_got s = map (event_of nat_unpack \<lparr>Raw = None\<rparr> () ''E'') (take n (si_pushed s))"
proof -
  let ?s0 = "\<lparr>si_it = new_iterator () ''E'' [5, 7] idle_sub, si_pushed = [5, 7], si_got = []\<rparr>
      :: (nat, unit, unit) iter_sys"
  let ?it = "(new_iterator () ''E'' [7] idle_sub)\<lparr>Event := Some \<lparr>Raw = Some 5\<rparr>\<rparr>"
  have "iterator_Next nat_unpack \<lparr>Raw = None\<rparr> True (si_it ?s0) = Some (True, ?it)"
    by (simp add: iterator_Next.simps new_iterator_def idle_sub_def recv_err_def take_log_event nat_event_of)
  then have r: "iter_reach nat_unpack \<lparr>Raw = None\<rparr> () ''E''
      (?s0\<lparr>si_it := ?it, si_got := si_got ?s0 @ [Event ?it]\<rparr>)"
    by (rule iter_reach.step [OF iter_reach.start iter_step.next_event])
  let ?s = "?s0\<lparr>si_it := ?it, si_got := si_got ?s0 @ [Event ?it]\<rparr>"
  obtain n where "si_got ?s = map (event_of nat_unpack \<lparr>Raw = None\<rparr> () ''E'') (take n (si_pushed ?s))"
    using iterator_delivers_prefix [OF r] by blast
  with r show ?thesis
    by (intro exI [of _ ?s] exI [of _ n]) simp
qed

theorem iterator_drains_all_witness:
  "\<exists>it'. drain (iterator_Next nat_unpack \<lparr>Raw = None\<rparr>) Event [True, False, False, True]
       (new_iterator () ''E'' [5, 0, 7] (idle_sub\<lparr>sub_closed := True\<rparr>))
     = Some ([Some \<lparr>Raw = Some 5\<rparr>], it') \<and> iterator_Error it' \<noteq> None"
proof -
  let ?sub = "idle_sub\<lparr>sub_closed := True\<rparr>"
  let ?it = "new_iterator () ''E'' [5, 0, 7] ?sub :: (nat, unit, unit) log_iterator"
  have "recv_err (it_sub ?it) = Some (None, ?sub)" and "it_fail ?it = None"
    by (simp_all add: new_iterator_def idle_sub_def recv_err_def)
  moreover have "length (it_logs ?it) < length [True, False, False, True]"
    by (simp add: new_iterator_def)
  ultimately show ?thesis
    using iterator_drains_all [of ?it ?sub "[True, False, False, True]" nat_unpack "\<lparr>Raw = None\<rparr>"]
    by (simp add: new_iterator_def nat_event_of)
qed

theorem iterator_error_abandons_logs_witness:
  "\<exists>it'. iterator_Next nat_unpack \<lparr>Raw = None\<rparr> False
       (new_iterator () ''E'' [5, 7] (idle_sub\<lparr>sub_errs := [Some ''lost'']\<rparr>)) = Some (False, it')
     \<and> iterator_Error it' = Some ''lost'' \<and> it_logs it' = [5, 7]"
proof -
  let ?sub = "idle_sub\<lparr>sub_errs := [Some ''lost'']\<rparr>"
  let ?it = "new_iterator () ''E'' [5, 7] ?sub :: (nat, unit, unit) log_iterator"
  have "it_fail ?it = None" "\<not> it_done ?it" "recv_err (it_sub ?it) = Some (Some ''lost'', idle_sub)"
    by (simp_all add: new_iterator_def idle_sub_def recv_err_def)
  from iterator_error_abandons_logs [OF this, of nat_unpack "\<lparr>Raw = None\<rparr>"] show ?thesis
    by (auto simp: new_iterator_def)
qed

end
