(* ===== verification/LogWatch.thy ===== *)
theory LogWatch
  imports LogIterator
begin

text \<open>
  The goroutine a \<open>Watch\<close> method of \<open>abi/StakeHub.go\<close> starts: it forwards every log,
  unpacked, to the caller's sink until an error or the closing of \<open>quit\<close>, and unsubscribes
  when it returns.  Its two nested \<open>select\<close>s are a step relation, one rule per ready case;
  the environment (the node's subscription and the owner of \<open>quit\<close>) is a second one.
\<close>

section \<open>The goroutine\<close>

text \<open>Where the goroutine is: at the outer \<open>select\<close>, at the inner one with an event to send,
  or returned.\<close>

datatype 'ev watch_pc = Selecting | Sending 'ev | Returned "go_error option"

record ('lg, 'ev) watch =
  wa_logs :: "'lg list"
  wa_sub :: subscription
  wa_quit :: bool
  wa_pc :: "'ev watch_pc"
  wa_sent :: "'ev list"
  wa_pushed :: "'lg list"

text \<open>\<open>return err\<close>, running \<open>defer sub.Unsubscribe()\<close>.\<close>

definition watch_return :: "go_error option \<Rightarrow> ('lg, 'ev) watch \<Rightarrow> ('lg, 'ev) watch" where
  "watch_return err w = w\<lparr>wa_pc := Returned err, wa_sub := Unsubscribe (wa_sub w)\<rparr>"

definition new_watch :: "'lg list \<Rightarrow> subscription \<Rightarrow> ('lg, 'ev) watch" where
  "new_watch logs sub = \<lparr>wa_logs = logs, wa_sub = sub, wa_quit = False, wa_pc = Selecting,
     wa_sent = [], wa_pushed = logs\<rparr>"

inductive watch_step ::
  "(('lg, 'z) log_event_scheme, 'lg) unpacker \<Rightarrow> ('lg, 'z) log_event_scheme \<Rightarrow> string \<Rightarrow>
     ('lg, ('lg, 'z) log_event_scheme) watch \<Rightarrow> ('lg, ('lg, 'z) log_event_scheme) watch \<Rightarrow> bool"
  for unpack new name where
  recv_log: "wa_pc w = Selecting \<Longrightarrow> wa_logs w = log # logs \<Longrightarrow>
     unpack_raw unpack new name log = (ev, None) \<Longrightarrow>
     watch_step unpack new name w (w\<lparr>wa_logs := logs, wa_pc := Sending ev\<rparr>)"
| recv_bad: "wa_pc w = Selecting \<Longrightarrow> wa_logs w = log # logs \<Longrightarrow>
     unpack_raw unpack new name log = (ev, Some err) \<Longrightarrow>
     watch_step unpack new name w (watch_return (Some err) (w\<lparr>wa_logs := logs\<rparr>))"
| recv_sub_err: "wa_pc w = Selecting \<Longrightarrow> recv_err (wa_sub w) = Some (err, sub) \<Longrightarrow>
     watch_step unpack new name w (watch_return err (w\<lparr>wa_sub := sub\<rparr>))"
| recv_quit: "wa_pc w = Selecting \<Longrightarrow> wa_quit w \<Longrightarrow>
     watch_step unpack new name w (watch_return None w)"
| send: "wa_pc w = Sending ev \<Longrightarrow>
     watch_step unpack new name w (w\<lparr>wa_sent := wa_sent w @ [ev], wa_pc := Selecting\<rparr>)"
| send_sub_err: "wa_pc w = Sending ev \<Longrightarrow> recv_err (wa_sub w) = Some (err, sub) \<Longrightarrow>
     watch_step unpack new name w (watch_return err (w\<lparr>wa_sub := sub\<rparr>))"
| send_quit: "wa_pc w = Sending ev \<Longrightarrow> wa_quit w \<Longrightarrow>
     watch_step unpack new name w (watch_return None w)"

inductive_cases watch_step_cases: "watch_step unpack new name w w'"

text \<open>The environment: logs arrive, the subscription ends once, \<open>quit\<close> is closed.\<close>

inductive watch_env :: "('lg, 'ev) watch \<Rightarrow> ('lg, 'ev) watch \<Rightarrow> bool" where
  arrive: "watch_env w (w\<lparr>wa_logs := wa_logs w @ [log], wa_pushed := wa_pushed w @ [log]\<rparr>)"
| sub_end: "\<not> sub_closed (wa_sub w) \<Longrightarrow>
     watch_env w (w\<lparr>wa_sub := (wa_sub w)\<lparr>sub_errs := (case err of None \<Rightarrow> [] | Some e \<Rightarrow> [Some e]),
                     sub_closed := True\<rparr>\<rparr>)"
| quit: "watch_env w (w\<lparr>wa_quit := True\<rparr>)"

inductive watch_reach ::
  "(('lg, 'z) log_event_scheme, 'lg) unpacker \<Rightarrow> ('lg, 'z) log_event_scheme \<Rightarrow> string \<Rightarrow>
     ('lg, ('lg, 'z) log_event_scheme) watch \<Rightarrow> bool"
  for unpack new name where
  start: "sub_unsubscribed sub = 0 \<Longrightarrow> watch_reach unpack new name (new_watch logs sub)"
| run: "watch_reach unpack new name w \<Longrightarrow> watch_step unpack new name w w' \<Longrightarrow> watch_reach unpack new name w'"
| env: "watch_reach unpack new name w \<Longrightarrow> watch_env w w' \<Longrightarrow> watch_reach unpack new name w'"

section \<open>Its invariant\<close>

text \<open>Events in flight: the one the inner \<open>select\<close> is about to send.\<close>

fun in_flight :: "'ev watch_pc \<Rightarrow> 'ev list" where
  "in_flight (Sending ev) = [ev]"
| "in_flight _ = []"

definition watch_inv where
  "watch_inv unpack new name w \<longleftrightarrow>
     (\<exists>taken rest. wa_pushed w = taken @ rest @ wa_logs w
        \<and> map Some (wa_sent w @ in_flight (wa_pc w)) = map (decode unpack new name) taken
        \<and> ((\<forall>r. wa_pc w \<noteq> Returned r) \<longrightarrow> rest = [])
        \<and> length rest \<le> 1)
     \<and> sub_unsubscribed (wa_sub w) = (case wa_pc w of Returned _ \<Rightarrow> 1 | _ \<Rightarrow> 0)"

lemma watch_invI:
  assumes "wa_pushed w = taken @ rest @ wa_logs w"
    and "map Some (wa_sent w @ in_flight (wa_pc w)) = map (decode unpack new name) taken"
    and "(\<forall>r. wa_pc w \<noteq> Returned r) \<longrightarrow> rest = []" and "length rest \<le> 1"
    and "sub_unsubscribed (wa_sub w) = (case wa_pc w of Returned _ \<Rightarrow> 1 | _ \<Rightarrow> 0)"
  shows "watch_inv unpack new name w"
  using assms unfolding watch_inv_def by blast

lemma recv_err_unsubscribed: "recv_err sub = Some (e, sub') \<Longrightarrow> sub_unsubscribed sub' = sub_unsubscribed sub"
  by (auto simp: recv_err_def split: list.splits if_splits)

lemma watch_inv_return:
  assumes "watch_inv unpack new name w" and "wa_pc w = Selecting \<or> wa_pc w = Sending ev"
    and "sub_unsubscribed sub = sub_unsubscribed (wa_sub w)"
  shows "watch_inv unpack new name (watch_return err (w\<lparr>wa_sub := sub\<rparr>))"
proof -
  obtain taken where t: "wa_pushed w = taken @ wa_logs w"
      "map Some (wa_sent w @ in_flight (wa_pc w)) = map (decode unpack new name) taken"
    using assms(1,2) by (auto simp: watch_inv_def)
  have u: "sub_unsubscribed sub = 0"
    using assms by (auto simp: watch_inv_def)
  show ?thesis
    using assms(2)
  proof
    assume "wa_pc w = Selecting"
    with t u show ?thesis
      by (intro watch_invI [where taken = taken and rest = "[]"]) (simp_all add: watch_return_def Unsubscribe_def)
  next
    assume p: "wa_pc w = Sending ev"
    with t obtain ts l where ts: "taken = ts @ [l]"
      by (cases taken rule: rev_cases) auto
    with t p u show ?thesis
      by (intro watch_invI [where taken = ts and rest = "[l]"]) (simp_all add: watch_return_def Unsubscribe_def)
  qed
qed

lemma watch_step_inv:
  "watch_step unpack new name w w' \<Longrightarrow> watch_inv unpack new name w \<Longrightarrow> watch_inv unpack new name w'"
proof (induction rule: watch_step.induct)
  case (recv_log w log logs ev)
  then obtain taken where "wa_pushed w = taken @ log # logs"
      "map Some (wa_sent w) = map (decode unpack new name) taken" "sub_unsubscribed (wa_sub w) = 0"
    by (auto simp: watch_inv_def)
  moreover have "decode unpack new name log = Some ev"
    using recv_log by (simp add: decode_def)
  ultimately show ?case
    by (intro watch_invI [where taken = "taken @ [log]" and rest = "[]"]) simp_all
next
  case (recv_bad w log logs ev err)
  then obtain taken where "wa_pushed w = taken @ log # logs"
      "map Some (wa_sent w) = map (decode unpack new name) taken" "sub_unsubscribed (wa_sub w) = 0"
    by (auto simp: watch_inv_def)
  then show ?case
    by (intro watch_invI [where taken = taken and rest = "[log]"]) (simp_all add: watch_return_def Unsubscribe_def)
next
  case (recv_sub_err w err sub)
  then show ?case by (blast intro: watch_inv_return recv_err_unsubscribed)
next
  case (recv_quit w)
  then show ?case using watch_inv_return [of unpack new name w _ "wa_sub w" None] by simp
next
  case (send w ev)
  then show ?case by (auto simp: watch_inv_def)
next
  case (send_sub_err w ev err sub)
  then show ?case by (blast intro: watch_inv_return recv_err_unsubscribed)
next
  case (send_quit w ev)
  then show ?case using watch_inv_return [of unpack new name w ev "wa_sub w" None] by simp
qed

lemma watch_env_inv:
  "watch_env w w' \<Longrightarrow> watch_inv unpack new name w \<Longrightarrow> watch_inv unpack new name w'"
proof (induction rule: watch_env.induct)
  case (arrive w log)
  then obtain taken rest where "wa_pushed w = taken @ rest @ wa_logs w"
      "map Some (wa_sent w @ in_flight (wa_pc w)) = map (decode unpack new name) taken"
      "(\<forall>r. wa_pc w \<noteq> Returned r) \<longrightarrow> rest = []" "length rest \<le> 1"
      "sub_unsubscribed (wa_sub w) = (case wa_pc w of Returned _ \<Rightarrow> 1 | _ \<Rightarrow> 0)"
    unfolding watch_inv_def by blast
  then show ?case
    by (intro watch_invI [where taken = taken and rest = rest]) simp_all
qed (auto simp: watch_inv_def)

lemma watch_reach_inv: "watch_reach unpack new name w \<Longrightarrow> watch_inv unpack new name w"
proof (induction rule: watch_reach.induct)
  case (start sub logs)
  then show ?case by (simp add: watch_inv_def new_watch_def)
next
  case (run w w')
  then show ?case by (blast intro: watch_step_inv)
next
  case (env w w')
  then show ?case by (blast intro: watch_env_inv)
qed

section \<open>Properties\<close>

text \<open>In every reachable state of a watch, whatever the interleaving, the events sent to the
  sink are exactly the decodings of a prefix of the logs that arrived, in order, each once.\<close>

theorem watch_forwards_prefix:
  assumes "watch_reach unpack new name w"
  shows "\<exists>n. map Some (wa_sent w) = map (decode unpack new name) (take n (wa_pushed w))"
proof -
  obtain taken rest where t: "wa_pushed w = taken @ rest @ wa_logs w"
      and m: "map Some (wa_sent w @ in_flight (wa_pc w)) = map (decode unpack new name) taken"
    using watch_reach_inv [OF assms] unfolding watch_inv_def by blast
  have "map Some (wa_sent w) = take (length (wa_sent w)) (map Some (wa_sent w @ in_flight (wa_pc w)))"
    by simp
  also have "\<dots> = map (decode unpack new name) (take (length (wa_sent w)) taken)"
    unfolding m by (simp only: take_map)
  also have "take (length (wa_sent w)) taken = take (length (wa_sent w)) (wa_pushed w)"
    using arg_cong [OF m, of length] t by simp
  finally show ?thesis by blast
qed

text \<open>The deferred \<open>Unsubscribe\<close> runs exactly once: never while the goroutine is
  running, and once as soon as it has returned, on every one of its five return paths.\<close>

theorem watch_unsubscribes_once:
  assumes "watch_reach unpack new name w"
  shows "sub_unsubscribed (wa_sub w) = (if \<exists>r. wa_pc w = Returned r then 1 else 0)"
  using watch_reach_inv [OF assms] by (auto simp: watch_inv_def split: watch_pc.splits)

text \<open>Closing \<open>quit\<close> always stops the goroutine: wherever it is, even when it is waiting
  for a sink nobody reads, it has a step that returns without an error; and once it has returned
  it takes no further step.\<close>

theorem watch_quit_returns:
  assumes "wa_quit w"
  shows "if \<exists>r. wa_pc w = Returned r then \<nexists>w'. watch_step unpack new name w w'
     else \<exists>w'. watch_step unpack new name w w' \<and> wa_pc w' = Returned None"
  using watch_step.recv_quit [OF _ assms, of unpack new name] watch_step.send_quit [OF _ assms, of _ unpack new name]
  by (cases "wa_pc w") (force simp: watch_return_def elim: watch_step_cases)+

theorem watch_forwards_prefix_witness:
  "\<exists>w n. watch_reach (nat_unpack ()) \<lparr>Raw = None\<rparr> ''E'' w \<and> wa_sent w = [\<lparr>Raw = Some 5\<rparr>]
     \<and> map Some (wa_sent w) = map (decode (nat_unpack ()) \<lparr>Raw = None\<rparr> ''E'') (take n (wa_pushed w))"
proof -
  let ?w0 = "new_watch [5, 0] idle_sub :: (nat, (nat, unit) log_event_scheme) watch"
  let ?w1 = "?w0\<lparr>wa_logs := [0], wa_pc := Sending \<lparr>Raw = Some 5\<rparr>\<rparr>"
  let ?w2 = "?w1\<lparr>wa_sent := wa_sent ?w1 @ [\<lparr>Raw = Some 5\<rparr>], wa_pc := Selecting\<rparr>"
  have 0: "watch_reach (nat_unpack ()) \<lparr>Raw = None\<rparr> ''E'' ?w0"
    by (rule watch_reach.start) (simp add: idle_sub_def)
  have "watch_step (nat_unpack ()) \<lparr>Raw = None\<rparr> ''E'' ?w0 ?w1"
    by (rule watch_step.recv_log [where log = 5]) (simp_all add: new_watch_def unpack_raw_def nat_unpack_def)
  from watch_reach.run [OF 0 this] have 1: "watch_reach (nat_unpack ()) \<lparr>Raw = None\<rparr> ''E'' ?w1" .
  have "watch_step (nat_unpack ()) \<lparr>Raw = None\<rparr> ''E'' ?w1 ?w2"
    by (rule watch_step.send) simp
  from watch_reach.run [OF 1 this] have 2: "watch_reach (nat_unpack ()) \<lparr>Raw = None\<rparr> ''E'' ?w2" .
  from watch_forwards_prefix [OF 2] 2 show ?thesis
    by (intro exI [of _ ?w2]) (auto simp: new_watch_def)
qed

theorem watch_unsubscribes_once_witness:
  "\<exists>w. watch_reach (nat_unpack ()) \<lparr>Raw = None\<rparr> ''E'' w \<and> wa_pc w = Returned (Some ''bad log'')
     \<and> sub_unsubscribed (wa_sub w) = 1"
proof -
  let ?w0 = "new_watch [0] idle_sub :: (nat, (nat, unit) log_event_scheme) watch"
  let ?w1 = "watch_return (Some ''bad log'') (?w0\<lparr>wa_logs := []\<rparr>)"
  have 0: "watch_reach (nat_unpack ()) \<lparr>Raw = None\<rparr> ''E'' ?w0"
    by (rule watch_reach.start) (simp add: idle_sub_def)
  have "watch_step (nat_unpack ()) \<lparr>Raw = None\<rparr> ''E'' ?w0 ?w1"
    by (rule watch_step.recv_bad [where log = 0]) (simp_all add: new_watch_def unpack_raw_def nat_unpack_def)
  from watch_reach.run [OF 0 this] have 1: "watch_reach (nat_unpack ()) \<lparr>Raw = None\<rparr> ''E'' ?w1" .
  from watch_unsubscribes_once [OF 1] 1 show ?thesis
    by (intro exI [of _ ?w1]) (auto simp: watch_return_def)
qed

theorem watch_quit_returns_witness:
  "\<exists>w'. watch_step (nat_unpack ()) \<lparr>Raw = None\<rparr> ''E''
     ((new_watch [] idle_sub)\<lparr>wa_quit := True, wa_pc := Sending \<lparr>Raw = Some 5\<rparr>\<rparr>) w' \<and> wa_pc w' = Returned None"
  using watch_quit_returns [of "(new_watch [] idle_sub)\<lparr>wa_quit := True, wa_pc := Sending \<lparr>Raw = Some 5\<rparr>\<rparr>"
      "nat_unpack ()" "\<lparr>Raw = None\<rparr>" "''E''"]
  by (simp add: new_watch_def)

end
