(* ===== verification/StakeHubEvents.thy ===== *)
theory StakeHubEvents
  imports StakeHubBinding LogWatch
begin

text \<open>
  The 19 events of the binding: per event its struct (a record that extends \<open>log_event\<close>),
  its zero value, its iterator's methods, and the \<open>Filter\<close>, \<open>Watch\<close> and
  \<open>Parse\<close> methods of \<open>StakeHubFilterer\<close>.  The lemmas show that every query names
  an event of the embedded ABI and passes one rule per indexed parameter, and that parsing a log
  agrees with iterating and watching.
\<close>

section \<open>Queries and parsing\<close>

text \<open>\<open>FilterLogs\<close> and \<open>WatchLogs\<close> of the bound contract: the log channel, the
  subscription and an error.\<close>

record ('w, 'c, 'o, 'lg) bind_logs =
  bound_FilterLogs :: "'c \<Rightarrow> 'o \<Rightarrow> string \<Rightarrow> go_value list list \<Rightarrow> 'w \<Rightarrow>
     ('lg list \<times> subscription \<times> go_error option) \<times> 'w"
  bound_WatchLogs :: "'c \<Rightarrow> 'o \<Rightarrow> string \<Rightarrow> go_value list list \<Rightarrow> 'w \<Rightarrow>
     ('lg list \<times> subscription \<times> go_error option) \<times> 'w"

text \<open>\<open>for _, item := range items { rule = append(rule, item) }\<close>\<close>

definition append_rule :: "('a \<Rightarrow> go_value) \<Rightarrow> 'a list \<Rightarrow> go_value list" where
  "append_rule box items = foldl (\<lambda>rule item. rule @ [box item]) [] items"

lemma append_rule_map: "append_rule box items = map box items"
proof -
  have "foldl (\<lambda>rule item. rule @ [box item]) acc items = acc @ map box items" for acc
    by (induction items arbitrary: acc) simp_all
  then show ?thesis by (simp add: append_rule_def)
qed

text \<open>The body shared by the \<open>Parse\<close> methods.\<close>

definition parse_log ::
  "(('lg, 'z) log_event_scheme, 'lg) unpacker \<Rightarrow> ('lg, 'z) log_event_scheme \<Rightarrow> string \<Rightarrow> 'lg \<Rightarrow>
     ('lg, 'z) log_event_scheme option \<times> go_error option" where
  "parse_log unpack new name log =
     (case unpack_raw unpack new name log of
        (ev, Some err) \<Rightarrow> (None, Some err)
      | (ev, None) \<Rightarrow> (Some ev, None))"

section \<open>The events\<close>

subsection \<open>Claimed\<close>

record 'lg StakeHubClaimed = "'lg log_event" +
  Claimed_OperatorAddress :: "address"
  Claimed_Delegator :: "address"
  Claimed_BnbAmount :: "int option"

definition new_StakeHubClaimed :: "'lg StakeHubClaimed" where
  "new_StakeHubClaimed = \<lparr>Raw = None, Claimed_OperatorAddress = 0, Claimed_Delegator = 0, Claimed_BnbAmount = None\<rparr>"

type_synonym ('lg, 'c) StakeHubClaimedIterator = "('lg, unit StakeHubClaimed_ext, 'c) log_iterator"

definition StakeHubClaimedIterator_Next ::
  "('c \<Rightarrow> ('lg StakeHubClaimed, 'lg) unpacker) \<Rightarrow> bool \<Rightarrow> ('lg, 'c) StakeHubClaimedIterator \<Rightarrow> (bool \<times> ('lg, 'c) StakeHubClaimedIterator) option" where
  "StakeHubClaimedIterator_Next UnpackLog = iterator_Next UnpackLog new_StakeHubClaimed"

definition StakeHubClaimedIterator_Error :: "('lg, 'c) StakeHubClaimedIterator \<Rightarrow> go_error option" where
  "StakeHubClaimedIterator_Error = iterator_Error"

definition StakeHubClaimedIterator_Close :: "('lg, 'c) StakeHubClaimedIterator \<Rightarrow> go_error option \<times> ('lg, 'c) StakeHubClaimedIterator" where
  "StakeHubClaimedIterator_Close = iterator_Close"

definition StakeHubFilterer_FilterClaimed ::
  "('w, 'c, 'o, 'lg) bind_logs \<Rightarrow> 'c StakeHubFilterer \<Rightarrow> 'o \<Rightarrow> address list \<Rightarrow> address list \<Rightarrow>
     ('w, ('lg, 'c) StakeHubClaimedIterator option \<times> go_error option) io" where
  "StakeHubFilterer_FilterClaimed lib f opts operatorAddress delegator =
     bindIO (extern (bound_FilterLogs lib (filterer_contract f) opts ''Claimed'' [append_rule VAddress operatorAddress, append_rule VAddress delegator]))
       (\<lambda>(logs, sub, err). case err of
          Some e \<Rightarrow> retIO (None, Some e)
        | None \<Rightarrow> retIO (Some (new_iterator (filterer_contract f) ''Claimed'' logs sub), None))"

definition StakeHubFilterer_WatchClaimed ::
  "('w, 'c, 'o, 'lg) bind_logs \<Rightarrow> 'c StakeHubFilterer \<Rightarrow> 'o \<Rightarrow> address list \<Rightarrow> address list \<Rightarrow>
     ('w, ('lg, 'lg StakeHubClaimed) watch option \<times> go_error option) io" where
  "StakeHubFilterer_WatchClaimed lib f opts operatorAddress delegator =
     bindIO (extern (bound_WatchLogs lib (filterer_contract f) opts ''Claimed'' [append_rule VAddress operatorAddress, append_rule VAddress delegator]))
       (\<lambda>(logs, sub, err). case err of
          Some e \<Rightarrow> retIO (None, Some e)
        | None \<Rightarrow> retIO (Some (new_watch logs sub), None))"

definition StakeHubFilterer_WatchClaimed_step ::
  "('c \<Rightarrow> ('lg StakeHubClaimed, 'lg) unpacker) \<Rightarrow> 'c StakeHubFilterer \<Rightarrow>
     ('lg, 'lg StakeHubClaimed) watch \<Rightarrow> ('lg, 'lg StakeHubClaimed) watch \<Rightarrow> bool" where
  "StakeHubFilterer_WatchClaimed_step UnpackLog f = watch_step (UnpackLog (filterer_contract f)) new_StakeHubClaimed ''Claimed''"

definition StakeHubFilterer_ParseClaimed ::
  "('c \<Rightarrow> ('lg StakeHubClaimed, 'lg) unpacker) \<Rightarrow> 'c StakeHubFilterer \<Rightarrow> 'lg \<Rightarrow> 'lg StakeHubClaimed option \<times> go_error option" where
  "StakeHubFilterer_ParseClaimed UnpackLog f = parse_log (UnpackLog (filterer_contract f)) new_StakeHubClaimed ''Claimed''"

subsection \<open>CommissionRateEdited\<close>

record 'lg StakeHubCommissionRateEdited = "'lg log_event" +
  CommissionRateEdited_OperatorAddress :: "address"
  CommissionRateEdited_CommissionRate :: "64 word"

definition new_StakeHubCommissionRateEdited :: "'lg StakeHubCommissionRateEdited" where
  "new_StakeHubCommissionRateEdited = \<lparr>Raw = None, CommissionRateEdited_OperatorAddress = 0, CommissionRateEdited_CommissionRate = 0\<rparr>"

type_synonym ('lg, 'c) StakeHubCommissionRateEditedIterator = "('lg, unit StakeHubCommissionRateEdited_ext, 'c) log_iterator"

definition StakeHubCommissionRateEditedIterator_Next ::
  "('c \<Rightarrow> ('lg StakeHubCommissionRateEdited, 'lg) unpacker) \<Rightarrow> bool \<Rightarrow> ('lg, 'c) StakeHubCommissionRateEditedIterator \<Rightarrow> (bool \<times> ('lg, 'c) StakeHubCommissionRateEditedIterator) option" where
  "StakeHubCommissionRateEditedIterator_Next UnpackLog = iterator_Next UnpackLog new_StakeHubCommissionRateEdited"

definition StakeHubCommissionRateEditedIterator_Error :: "('lg, 'c) StakeHubCommissionRateEditedIterator \<Rightarrow> go_error option" where
  "StakeHubCommissionRateEditedIterator_Error = iterator_Error"

definition StakeHubCommissionRateEditedIterator_Close :: "('lg, 'c) StakeHubCommissionRateEditedIterator \<Rightarrow> go_error option \<times> ('lg, 'c) StakeHubCommissionRateEditedIterator" where
  "StakeHubCommissionRateEditedIterator_Close = iterator_Close"

definition StakeHubFilterer_FilterCommissionRateEdited ::
  "('w, 'c, 'o, 'lg) bind_logs \<Rightarrow> 'c StakeHubFilterer \<Rightarrow> 'o \<Rightarrow> address list \<Rightarrow>
     ('w, ('lg, 'c) StakeHubCommissionRateEditedIterator option \<times> go_error option) io" where
  "StakeHubFilterer_FilterCommissionRateEdited lib f opts operatorAddress =
     bindIO (extern (bound_FilterLogs lib (filterer_contract f) opts ''CommissionRateEdited'' [append_rule VAddress operatorAddress]))
       (\<lambda>(logs, sub, err). case err of
          Some e \<Rightarrow> retIO (None, Some e)
        | None \<Rightarrow> retIO (Some (new_iterator (filterer_contract f) ''CommissionRateEdited'' logs sub), None))"

definition StakeHubFilterer_WatchCommissionRateEdited ::
  "('w, 'c, 'o, 'lg) bind_logs \<Rightarrow> 'c StakeHubFilterer \<Rightarrow> 'o \<Rightarrow> address list \<Rightarrow>
     ('w, ('lg, 'lg StakeHubCommissionRateEdited) watch option \<times> go_error option) io" where
  "StakeHubFilterer_WatchCommissionRateEdited lib f opts operatorAddress =
     bindIO (extern (bound_WatchLogs lib (filterer_contract f) opts ''CommissionRateEdited'' [append_rule VAddress operatorAddress]))
       (\<lambda>(logs, sub, err). case err of
          Some e \<Rightarrow> retIO (None, Some e)
        | None \<Rightarrow> retIO (Some (new_watch logs sub), None))"

definition StakeHubFilterer_WatchCommissionRateEdited_step ::
  "('c \<Rightarrow> ('lg StakeHubCommissionRateEdited, 'lg) unpacker) \<Rightarrow> 'c StakeHubFilterer \<Rightarrow>
     ('lg, 'lg StakeHubCommissionRateEdited) watch \<Rightarrow> ('lg, 'lg StakeHubCommissionRateEdited) watch \<Rightarrow> bool" where
  "StakeHubFilterer_WatchCommissionRateEdited_step UnpackLog f = watch_step (UnpackLog (filterer_contract f)) new_StakeHubCommissionRateEdited ''CommissionRateEdited''"

definition StakeHubFilterer_ParseCommissionRateEdited ::
  "('c \<Rightarrow> ('lg StakeHubCommissionRateEdited, 'lg) unpacker) \<Rightarrow> 'c StakeHubFilterer \<Rightarrow> 'lg \<Rightarrow> 'lg StakeHubCommissionRateEdited option \<times> go_error option" where
  "StakeHubFilterer_ParseCommissionRateEdited UnpackLog f = parse_log (UnpackLog (filterer_contract f)) new_StakeHubCommissionRateEdited ''CommissionRateEdited''"

subsection \<open>ConsensusAddressEdited\<close>

record 'lg StakeHubConsensusAddressEdited = "'lg log_event" +
  ConsensusAddressEdited_OperatorAddress :: "address"
  ConsensusAddressEdited_NewConsensusAddress :: "address"

definition new_StakeHubConsensusAddressEdited :: "'lg StakeHubConsensusAddressEdited" where
  "new_StakeHubConsensusAddressEdited = \<lparr>Raw = None, ConsensusAddressEdited_OperatorAddress = 0, ConsensusAddressEdited_NewConsensusAddress = 0\<rparr>"

type_synonym ('lg, 'c) StakeHubConsensusAddressEditedIterator = "('lg, unit StakeHubConsensusAddressEdited_ext, 'c) log_iterator"

definition StakeHubConsensusAddressEditedIterator_Next ::
  "('c \<Rightarrow> ('lg StakeHubConsensusAddressEdited, 'lg) unpacker) \<Rightarrow> bool \<Rightarrow> ('lg, 'c) StakeHubConsensusAddressEditedIterator \<Rightarrow> (bool \<times> ('lg, 'c) StakeHubConsensusAddressEditedIterator) option" where
  "StakeHubConsensusAddressEditedIterator_Next UnpackLog = iterator_Next UnpackLog new_StakeHubConsensusAddressEdited"

definition StakeHubConsensusAddressEditedIterator_Error :: "('lg, 'c) StakeHubConsensusAddressEditedIterator \<Rightarrow> go_error option" where
  "StakeHubConsensusAddressEditedIterator_Error = iterator_Error"

definition StakeHubConsensusAddressEditedIterator_Close :: "('lg, 'c) StakeHubConsensusAddressEditedIterator \<Rightarrow> go_error option \<times> ('lg, 'c) StakeHubConsensusAddressEditedIterator" where
  "StakeHubConsensusAddressEditedIterator_Close = iterator_Close"

definition StakeHubFilterer_FilterConsensusAddressEdited ::
  "('w, 'c, 'o, 'lg) bind_logs \<Rightarrow> 'c StakeHubFilterer \<Rightarrow> 'o \<Rightarrow> address list \<Rightarrow> address list \<Rightarrow>
     ('w, ('lg, 'c) StakeHubConsensusAddressEditedIterator option \<times> go_error option) io" where
  "StakeHubFilterer_FilterConsensusAddressEdited lib f opts operatorAddress newConsensusAddress =
     bindIO (extern (bound_FilterLogs lib (filterer_contract f) opts ''ConsensusAddressEdited'' [append_rule VAddress operatorAddress, append_rule VAddress newConsensusAddress]))
       (\<lambda>(logs, sub, err). case err of
          Some e \<Rightarrow> retIO (None, Some e)
        | None \<Rightarrow> retIO (Some (new_iterator (filterer_contract f) ''ConsensusAddressEdited'' logs sub), None))"

definition StakeHubFilterer_WatchConsensusAddressEdited ::
  "('w, 'c, 'o, 'lg) bind_logs \<Rightarrow> 'c StakeHubFilterer \<Rightarrow> 'o \<Rightarrow> address list \<Rightarrow> address list \<Rightarrow>
     ('w, ('lg, 'lg StakeHubConsensusAddressEdited) watch option \<times> go_error option) io" where
  "StakeHubFilterer_WatchConsensusAddressEdited lib f opts operatorAddress newConsensusAddress =
     bindIO (extern (bound_WatchLogs lib (filterer_contract f) opts ''ConsensusAddressEdited'' [append_rule VAddress operatorAddress, append_rule VAddress newConsensusAddress]))
       (\<lambda>(logs, sub, err). case err of
          Some e \<Rightarrow> retIO (None, Some e)
        | None \<Rightarrow> retIO (Some (new_watch logs sub), None))"

definition StakeHubFilterer_WatchConsensusAddressEdited_step ::
  "('c \<Rightarrow> ('lg StakeHubConsensusAddressEdited, 'lg) unpacker) \<Rightarrow> 'c StakeHubFilterer \<Rightarrow>
     ('lg, 'lg StakeHubConsensusAddressEdited) watch \<Rightarrow> ('lg, 'lg StakeHubConsensusAddressEdited) watch \<Rightarrow> bool" where
  "StakeHubFilterer_WatchConsensusAddressEdited_step UnpackLog f = watch_step (UnpackLog (filterer_contract f)) new_StakeHubConsensusAddressEdited ''ConsensusAddressEdited''"

definition StakeHubFilterer_ParseConsensusAddressEdited ::
  "('c \<Rightarrow> ('lg StakeHubConsensusAddressEdited, 'lg) unpacker) \<Rightarrow> 'c StakeHubFilterer \<Rightarrow> 'lg \<Rightarrow> 'lg StakeHubConsensusAddressEdited option \<times> go_error option" where
  "StakeHubFilterer_ParseConsensusAddressEdited UnpackLog f = parse_log (UnpackLog (filterer_contract f)) new_StakeHubConsensusAddressEdited ''ConsensusAddressEdited''"

subsection \<open>Delegated\<close>

record 'lg StakeHubDelegated = "'lg log_event" +
  Delegated_OperatorAddress :: "address"
  Delegated_Delegator :: "address"
  Delegated_Shares :: "int option"
  Delegated_BnbAmount :: "int option"

definition new_StakeHubDelegated :: "'lg StakeHubDelegated" where
  "new_StakeHubDelegated = \<lparr>Raw = None, Delegated_OperatorAddress = 0, Delegated_Delegator = 0, Delegated_Shares = None, Delegated_BnbAmount = None\<rparr>"

type_synonym ('lg, 'c) StakeHubDelegatedIterator = "('lg, unit StakeHubDelegated_ext, 'c) log_iterator"

definition StakeHubDelegatedIterator_Next ::
  "('c \<Rightarrow> ('lg StakeHubDelegated, 'lg) unpacker) \<Rightarrow> bool \<Rightarrow> ('lg, 'c) StakeHubDelegatedIterator \<Rightarrow> (bool \<times> ('lg, 'c) StakeHubDelegatedIterator) option" where
  "StakeHubDelegatedIterator_Next UnpackLog = iterator_Next UnpackLog new_StakeHubDelegated"

definition StakeHubDelegatedIterator_Error :: "('lg, 'c) StakeHubDelegatedIterator \<Rightarrow> go_error option" where
  "StakeHubDelegatedIterator_Error = iterator_Error"

definition StakeHubDelegatedIterator_Close :: "('lg, 'c) StakeHubDelegatedIterator \<Rightarrow> go_error option \<times> ('lg, 'c) StakeHubDelegatedIterator" where
  "StakeHubDelegatedIterator_Close = iterator_Close"

definition StakeHubFilterer_FilterDelegated ::
  "('w, 'c, 'o, 'lg) bind_logs \<Rightarrow> 'c StakeHubFilterer \<Rightarrow> 'o \<Rightarrow> address list \<Rightarrow> address list \<Rightarrow>
     ('w, ('lg, 'c) StakeHubDelegatedIterator option \<times> go_error option) io" where
  "StakeHubFilterer_FilterDelegated lib f opts operatorAddress delegator =
     bindIO (extern (bound_FilterLogs lib (filterer_contract f) opts ''Delegated'' [append_rule VAddress operatorAddress, append_rule VAddress delegator]))
       (\<lambda>(logs, sub, err). case err of
          Some e \<Rightarrow> retIO (None, Some e)
        | None \<Rightarrow> retIO (Some (new_iterator (filterer_contract f) ''Delegated'' logs sub), None))"

definition StakeHubFilterer_WatchDelegated ::
  "('w, 'c, 'o, 'lg) bind_logs \<Rightarrow> 'c StakeHubFilterer \<Rightarrow> 'o \<Rightarrow> address list \<Rightarrow> address list \<Rightarrow>
     ('w, ('lg, 'lg StakeHubDelegated) watch option \<times> go_error option) io" where
  "StakeHubFilterer_WatchDelegated lib f opts operatorAddress delegator =
     bindIO (extern (bound_WatchLogs lib (filterer_contract f) opts ''Delegated'' [append_rule VAddress operatorAddress, append_rule VAddress delegator]))
       (\<lambda>(logs, sub, err). case err of
          Some e \<Rightarrow> retIO (None, Some e)
        | None \<Rightarrow> retIO (Some (new_watch logs sub), None))"

definition StakeHubFilterer_WatchDelegated_step ::
  "('c \<Rightarrow> ('lg StakeHubDelegated, 'lg) unpacker) \<Rightarrow> 'c StakeHubFilterer \<Rightarrow>
     ('lg, 'lg StakeHubDelegated) watch \<Rightarrow> ('lg, 'lg StakeHubDelegated) watch \<Rightarrow> bool" where
  "StakeHubFilterer_WatchDelegated_step UnpackLog f = watch_step (UnpackLog (filterer_contract f)) new_StakeHubDelegated ''Delegated''"

definition StakeHubFilterer_ParseDelegated ::
  "('c \<Rightarrow> ('lg StakeHubDelegated, 'lg) unpacker) \<Rightarrow> 'c StakeHubFilterer \<Rightarrow> 'lg \<Rightarrow> 'lg StakeHubDelegated option \<times> go_error option" where
  "StakeHubFilterer_ParseDelegated UnpackLog f = parse_log (UnpackLog (filterer_contract f)) new_StakeHubDelegated ''Delegated''"

subsection \<open>DescriptionEdited\<close>

record 'lg StakeHubDescriptionEdited = "'lg log_event" +
  DescriptionEdited_OperatorAddress :: "address"

definition new_StakeHubDescriptionEdited :: "'lg StakeHubDescriptionEdited" where
  "new_StakeHubDescriptionEdited = \<lparr>Raw = None, DescriptionEdited_OperatorAddress = 0\<rparr>"

type_synonym ('lg, 'c) StakeHubDescriptionEditedIterator = "('lg, unit StakeHubDescriptionEdited_ext, 'c) log_iterator"

definition StakeHubDescriptionEditedIterator_Next ::
  "('c \<Rightarrow> ('lg StakeHubDescriptionEdited, 'lg) unpacker) \<Rightarrow> bool \<Rightarrow> ('lg, 'c) StakeHubDescriptionEditedIterator \<Rightarrow> (bool \<times> ('lg, 'c) StakeHubDescriptionEditedIterator) option" where
  "StakeHubDescriptionEditedIterator_Next UnpackLog = iterator_Next UnpackLog new_StakeHubDescriptionEdited"

definition StakeHubDescriptionEditedIterator_Error :: "('lg, 'c) StakeHubDescriptionEditedIterator \<Rightarrow> go_error option" where
  "StakeHubDescriptionEditedIterator_Error = iterator_Error"

definition StakeHubDescriptionEditedIterator_Close :: "('lg, 'c) StakeHubDescriptionEditedIterator \<Rightarrow> go_error option \<times> ('lg, 'c) StakeHubDescriptionEditedIterator" where
  "StakeHubDescriptionEditedIterator_Close = iterator_Close"

definition StakeHubFilterer_FilterDescriptionEdited ::
  "('w, 'c, 'o, 'lg) bind_logs \<Rightarrow> 'c StakeHubFilterer \<Rightarrow> 'o \<Rightarrow> address list \<Rightarrow>
     ('w, ('lg, 'c) StakeHubDescriptionEditedIterator option \<times> go_error option) io" where
  "StakeHubFilterer_FilterDescriptionEdited lib f opts operatorAddress =
     bindIO (extern (bound_FilterLogs lib (filterer_contract f) opts ''DescriptionEdited'' [append_rule VAddress operatorAddress]))
       (\<lambda>(logs, sub, err). case err of
          Some e \<Rightarrow> retIO (None, Some e)
        | None \<Rightarrow> retIO (Some (new_iterator (filterer_contract f) ''DescriptionEdited'' logs sub), None))"

definition StakeHubFilterer_WatchDescriptionEdited ::
  "('w, 'c, 'o, 'lg) bind_logs \<Rightarrow> 'c StakeHubFilterer \<Rightarrow> 'o \<Rightarrow> address list \<Rightarrow>
     ('w, ('lg, 'lg StakeHubDescriptionEdited) watch option \<times> go_error option) io" where
  "StakeHubFilterer_WatchDescriptionEdited lib f opts operatorAddress =
     bindIO (extern (bound_WatchLogs lib (filterer_contract f) opts ''DescriptionEdited'' [append_rule VAddress operatorAddress]))
       (\<lambda>(logs, sub, err). case err of
          Some e \<Rightarrow> retIO (None, Some e)
        | None \<Rightarrow> retIO (Some (new_watch logs sub), None))"

definition StakeHubFilterer_WatchDescriptionEdited_step ::
  "('c \<Rightarrow> ('lg StakeHubDescriptionEdited, 'lg) unpacker) \<Rightarrow> 'c StakeHubFilterer \<Rightarrow>
     ('lg, 'lg StakeHubDescriptionEdited) watch \<Rightarrow> ('lg, 'lg StakeHubDescriptionEdited) watch \<Rightarrow> bool" where
  "StakeHubFilterer_WatchDescriptionEdited_step UnpackLog f = watch_step (UnpackLog (filterer_contract f)) new_StakeHubDescriptionEdited ''DescriptionEdited''"

definition StakeHubFilterer_ParseDescriptionEdited ::
  "('c \<Rightarrow> ('lg StakeHubDescriptionEdited, 'lg) unpacker) \<Rightarrow> 'c StakeHubFilterer \<Rightarrow> 'lg \<Rightarrow> 'lg StakeHubDescriptionEdited option \<times> go_error option" where
  "StakeHubFilterer_ParseDescriptionEdited UnpackLog f = parse_log (UnpackLog (filterer_contract f)) new_StakeHubDescriptionEdited ''DescriptionEdited''"

subsection \<open>Initialized\<close>

record 'lg StakeHubInitialized = "'lg log_event" +
  Initialized_Version :: "8 word"

definition new_StakeHubInitialized :: "'lg StakeHubInitialized" where
  "new_StakeHubInitialized = \<lparr>Raw = None, Initialized_Version = 0\<rparr>"

type_synonym ('lg, 'c) StakeHubInitializedIterator = "('lg, unit StakeHubInitialized_ext, 'c) log_iterator"

definition StakeHubInitializedIterator_Next ::
  "('c \<Rightarrow> ('lg StakeHubInitialized, 'lg) unpacker) \<Rightarrow> bool \<Rightarrow> ('lg, 'c) StakeHubInitializedIterator \<Rightarrow> (bool \<times> ('lg, 'c) StakeHubInitializedIterator) option" where
  "StakeHubInitializedIterator_Next UnpackLog = iterator_Next UnpackLog new_StakeHubInitialized"

definition StakeHubInitializedIterator_Error :: "('lg, 'c) StakeHubInitializedIterator \<Rightarrow> go_error option" where
  "StakeHubInitializedIterator_Error = iterator_Error"

definition StakeHubInitializedIterator_Close :: "('lg, 'c) StakeHubInitializedIterator \<Rightarrow> go_error option \<times> ('lg, 'c) StakeHubInitializedIterator" where
  "StakeHubInitializedIterator_Close = iterator_Close"

definition StakeHubFilterer_FilterInitialized ::
  "('w, 'c, 'o, 'lg) bind_logs \<Rightarrow> 'c StakeHubFilterer \<Rightarrow> 'o \<Rightarrow>
     ('w, ('lg, 'c) StakeHubInitializedIterator option \<times> go_error option) io" where
  "StakeHubFilterer_FilterInitialized lib f opts =
     bindIO (extern (bound_FilterLogs lib (filterer_contract f) opts ''Initialized'' []))
       (\<lambda>(logs, sub, err). case err of
          Some e \<Rightarrow> retIO (None, Some e)
        | None \<Rightarrow> retIO (Some (new_iterator (filterer_contract f) ''Initialized'' logs sub), None))"

definition StakeHubFilterer_WatchInitialized ::
  "('w, 'c, 'o, 'lg) bind_logs \<Rightarrow> 'c StakeHubFilterer \<Rightarrow> 'o \<Rightarrow>
     ('w, ('lg, 'lg StakeHubInitialized) watch option \<times> go_error option) io" where
  "StakeHubFilterer_WatchInitialized lib f opts =
     bindIO (extern (bound_WatchLogs lib (filterer_contract f) opts ''Initialized'' []))
       (\<lambda>(logs, sub, err). case err of
          Some e \<Rightarrow> retIO (None, Some e)
        | None \<Rightarrow> retIO (Some (new_watch logs sub), None))"

definition StakeHubFilterer_WatchInitialized_step ::
  "('c \<Rightarrow> ('lg StakeHubInitialized, 'lg) unpacker) \<Rightarrow> 'c StakeHubFilterer \<Rightarrow>
     ('lg, 'lg StakeHubInitialized) watch \<Rightarrow> ('lg, 'lg StakeHubInitialized) watch \<Rightarrow> bool" where
  "StakeHubFilterer_WatchInitialized_step UnpackLog f = watch_step (UnpackLog (filterer_contract f)) new_StakeHubInitialized ''Initialized''"

definition StakeHubFilterer_ParseInitialized ::
  "('c \<Rightarrow> ('lg StakeHubInitialized, 'lg) unpacker) \<Rightarrow> 'c StakeHubFilterer \<Rightarrow> 'lg \<Rightarrow> 'lg StakeHubInitialized option \<times> go_error option" where
  "StakeHubFilterer_ParseInitialized UnpackLog f = parse_log (UnpackLog (filterer_contract f)) new_StakeHubInitialized ''Initialized''"

subsection \<open>ParamChange\<close>

record 'lg StakeHubParamChange = "'lg log_event" +
  ParamChange_Key :: "string"
  ParamChange_Value :: "bytes"

definition new_StakeHubParamChange :: "'lg StakeHubParamChange" where
  "new_StakeHubParamChange = \<lparr>Raw = None, ParamChange_Key = [], ParamChange_Value = []\<rparr>"

type_synonym ('lg, 'c) StakeHubParamChangeIterator = "('lg, unit StakeHubParamChange_ext, 'c) log_iterator"

definition StakeHubParamChangeIterator_Next ::
  "('c \<Rightarrow> ('lg StakeHubParamChange, 'lg) unpacker) \<Rightarrow> bool \<Rightarrow> ('lg, 'c) StakeHubParamChangeIterator \<Rightarrow> (bool \<times> ('lg, 'c) StakeHubParamChangeIterator) option" where
  "StakeHubParamChangeIterator_Next UnpackLog = iterator_Next UnpackLog new_StakeHubParamChange"

definition StakeHubParamChangeIterator_Error :: "('lg, 'c) StakeHubParamChangeIterator \<Rightarrow> go_error option" where
  "StakeHubParamChangeIterator_Error = iterator_Error"

definition StakeHubParamChangeIterator_Close :: "('lg, 'c) StakeHubParamChangeIterator \<Rightarrow> go_error option \<times> ('lg, 'c) StakeHubParamChangeIterator" where
  "StakeHubParamChangeIterator_Close = iterator_Close"

definition StakeHubFilterer_FilterParamChange ::
  "('w, 'c, 'o, 'lg) bind_logs \<Rightarrow> 'c StakeHubFilterer \<Rightarrow> 'o \<Rightarrow>
     ('w, ('lg, 'c) StakeHubParamChangeIterator option \<times> go_error option) io" where
  "StakeHubFilterer_FilterParamChange lib f opts =
     bindIO (extern (bound_FilterLogs lib (filterer_contract f) opts ''ParamChange'' []))
       (\<lambda>(logs, sub, err). case err of
          Some e \<Rightarrow> retIO (None, Some e)
        | None \<Rightarrow> retIO (Some (new_iterator (filterer_contract f) ''ParamChange'' logs sub), None))"

definition StakeHubFilterer_WatchParamChange ::
  "('w, 'c, 'o, 'lg) bind_logs \<Rightarrow> 'c StakeHubFilterer \<Rightarrow> 'o \<Rightarrow>
     ('w, ('lg, 'lg StakeHubParamChange) watch option \<times> go_error option) io" where
  "StakeHubFilterer_WatchParamChange lib f opts =
     bindIO (extern (bound_WatchLogs lib (filterer_contract f) opts ''ParamChange'' []))
       (\<lambda>(logs, sub, err). case err of
          Some e \<Rightarrow> retIO (None, Some e)
        | None \<Rightarrow> retIO (Some (new_watch logs sub), None))"

definition StakeHubFilterer_WatchParamChange_step ::
  "('c \<Rightarrow> ('lg StakeHubParamChange, 'lg) unpacker) \<Rightarrow> 'c StakeHubFilterer \<Rightarrow>
     ('lg, 'lg StakeHubParamChange) watch \<Rightarrow> ('lg, 'lg StakeHubParamChange) watch \<Rightarrow> bool" where
  "StakeHubFilterer_WatchParamChange_step UnpackLog f = watch_step (UnpackLog (filterer_contract f)) new_StakeHubParamChange ''ParamChange''"

definition StakeHubFilterer_ParseParamChange ::
  "('c \<Rightarrow> ('lg StakeHubParamChange, 'lg) unpacker) \<Rightarrow> 'c StakeHubFilterer \<Rightarrow> 'lg \<Rightarrow> 'lg StakeHubParamChange option \<times> go_error option" where
  "StakeHubFilterer_ParseParamChange UnpackLog f = parse_log (UnpackLog (filterer_contract f)) new_StakeHubParamChange ''ParamChange''"

subsection \<open>Paused\<close>

type_synonym 'lg StakeHubPaused = "'lg log_event"

definition new_StakeHubPaused :: "'lg StakeHubPaused" where
  "new_StakeHubPaused = \<lparr>Raw = None\<rparr>"

type_synonym ('lg, 'c) StakeHubPausedIterator = "('lg, unit, 'c) log_iterator"

definition StakeHubPausedIterator_Next ::
  "('c \<Rightarrow> ('lg StakeHubPaused, 'lg) unpacker) \<Rightarrow> bool \<Rightarrow> ('lg, 'c) StakeHubPausedIterator \<Rightarrow> (bool \<times> ('lg, 'c) StakeHubPausedIterator) option" where
  "StakeHubPausedIterator_Next UnpackLog = iterator_Next UnpackLog new_StakeHubPaused"

definition StakeHubPausedIterator_Error :: "('lg, 'c) StakeHubPausedIterator \<Rightarrow> go_error option" where
  "StakeHubPausedIterator_Error = iterator_Error"

definition StakeHubPausedIterator_Close :: "('lg, 'c) StakeHubPausedIterator \<Rightarrow> go_error option \<times> ('lg, 'c) StakeHubPausedIterator" where
  "StakeHubPausedIterator_Close = iterator_Close"

definition StakeHubFilterer_FilterPaused ::
  "('w, 'c, 'o, 'lg) bind_logs \<Rightarrow> 'c StakeHubFilterer \<Rightarrow> 'o \<Rightarrow>
     ('w, ('lg, 'c) StakeHubPausedIterator option \<times> go_error option) io" where
  "StakeHubFilterer_FilterPaused lib f opts =
     bindIO (extern (bound_FilterLogs lib (filterer_contract f) opts ''Paused'' []))
       (\<lambda>(logs, sub, err). case err of
          Some e \<Rightarrow> retIO (None, Some e)
        | None \<Rightarrow> retIO (Some (new_iterator (filterer_contract f) ''Paused'' logs sub), None))"

definition StakeHubFilterer_WatchPaused ::
  "('w, 'c, 'o, 'lg) bind_logs \<Rightarrow> 'c StakeHubFilterer \<Rightarrow> 'o \<Rightarrow>
     ('w, ('lg, 'lg StakeHubPaused) watch option \<times> go_error option) io" where
  "StakeHubFilterer_WatchPaused lib f opts =
     bindIO (extern (bound_WatchLogs lib (filterer_contract f) opts ''Paused'' []))
       (\<lambda>(logs, sub, err). case err of
          Some e \<Rightarrow> retIO (None, Some e)
        | None \<Rightarrow> retIO (Some (new_watch logs sub), None))"

definition StakeHubFilterer_WatchPaused_step ::
  "('c \<Rightarrow> ('lg StakeHubPaused, 'lg) unpacker) \<Rightarrow> 'c StakeHubFilterer \<Rightarrow>
     ('lg, 'lg StakeHubPaused) watch \<Rightarrow> ('lg, 'lg StakeHubPaused) watch \<Rightarrow> bool" where
  "StakeHubFilterer_WatchPaused_step UnpackLog f = watch_step (UnpackLog (filterer_contract f)) new_StakeHubPaused ''Paused''"

definition StakeHubFilterer_ParsePaused ::
  "('c \<Rightarrow> ('lg StakeHubPaused, 'lg) unpacker) \<Rightarrow> 'c StakeHubFilterer \<Rightarrow> 'lg \<Rightarrow> 'lg StakeHubPaused option \<times> go_error option" where
  "StakeHubFilterer_ParsePaused UnpackLog f = parse_log (UnpackLog (filterer_contract f)) new_StakeHubPaused ''Paused''"

subsection \<open>Redelegated\<close>

record 'lg StakeHubRedelegated = "'lg log_event" +
  Redelegated_SrcValidator :: "address"
  Redelegated_DstValidator :: "address"
  Redelegated_Delegator :: "address"
  Redelegated_OldShares :: "int option"
  Redelegated_NewShares :: "int option"
  Redelegated_BnbAmount :: "int option"

definition new_StakeHubRedelegated :: "'lg StakeHubRedelegated" where
  "new_StakeHubRedelegated = \<lparr>Raw = None, Redelegated_SrcValidator = 0, Redelegated_DstValidator = 0, Redelegated_Delegator = 0, Redelegated_OldShares = None, Redelegated_NewShares = None, Redelegated_BnbAmount = None\<rparr>"

type_synonym ('lg, 'c) StakeHubRedelegatedIterator = "('lg, unit StakeHubRedelegated_ext, 'c) log_iterator"

definition StakeHubRedelegatedIterator_Next ::
  "('c \<Rightarrow> ('lg StakeHubRedelegated, 'lg) unpacker) \<Rightarrow> bool \<Rightarrow> ('lg, 'c) StakeHubRedelegatedIterator \<Rightarrow> (bool \<times> ('lg, 'c) StakeHubRedelegatedIterator) option" where
  "StakeHubRedelegatedIterator_Next UnpackLog = iterator_Next UnpackLog new_StakeHubRedelegated"

definition StakeHubRedelegatedIterator_Error :: "('lg, 'c) StakeHubRedelegatedIterator \<Rightarrow> go_error option" where
  "StakeHubRedelegatedIterator_Error = iterator_Error"

definition StakeHubRedelegatedIterator_Close :: "('lg, 'c) StakeHubRedelegatedIterator \<Rightarrow> go_error option \<times> ('lg, 'c) StakeHubRedelegatedIterator" where
  "StakeHubRedelegatedIterator_Close = iterator_Close"

definition StakeHubFilterer_FilterRedelegated ::
  "('w, 'c, 'o, 'lg) bind_logs \<Rightarrow> 'c StakeHubFilterer \<Rightarrow> 'o \<Rightarrow> address list \<Rightarrow> address list \<Rightarrow> address list \<Rightarrow>
     ('w, ('lg, 'c) StakeHubRedelegatedIterator option \<times> go_error option) io" where
  "StakeHubFilterer_FilterRedelegated lib f opts srcValidator dstValidator delegator =
     bindIO (extern (bound_FilterLogs lib (filterer_contract f) opts ''Redelegated'' [append_rule VAddress srcValidator, append_rule VAddress dstValidator, append_rule VAddress delegator]))
       (\<lambda>(logs, sub, err). case err of
          Some e \<Rightarrow> retIO (None, Some e)
        | None \<Rightarrow> retIO (Some (new_iterator (filterer_contract f) ''Redelegated'' logs sub), None))"

definition StakeHubFilterer_WatchRedelegated ::
  "('w, 'c, 'o, 'lg) bind_logs \<Rightarrow> 'c StakeHubFilterer \<Rightarrow> 'o \<Rightarrow> address list \<Rightarrow> address list \<Rightarrow> address list \<Rightarrow>
     ('w, ('lg, 'lg StakeHubRedelegated) watch option \<times> go_error option) io" where
  "StakeHubFilterer_WatchRedelegated lib f opts srcValidator dstValidator delegator =
     bindIO (extern (bound_WatchLogs lib (filterer_contract f) opts ''Redelegated'' [append_rule VAddress srcValidator, append_rule VAddress dstValidator, append_rule VAddress delegator]))
       (\<lambda>(logs, sub, err). case err of
          Some e \<Rightarrow> retIO (None, Some e)
        | None \<Rightarrow> retIO (Some (new_watch logs sub), None))"

definition StakeHubFilterer_WatchRedelegated_step ::
  "('c \<Rightarrow> ('lg StakeHubRedelegated, 'lg) unpacker) \<Rightarrow> 'c StakeHubFilterer \<Rightarrow>
     ('lg, 'lg StakeHubRedelegated) watch \<Rightarrow> ('lg, 'lg StakeHubRedelegated) watch \<Rightarrow> bool" where
  "StakeHubFilterer_WatchRedelegated_step UnpackLog f = watch_step (UnpackLog (filterer_contract f)) new_StakeHubRedelegated ''Redelegated''"

definition StakeHubFilterer_ParseRedelegated ::
  "('c \<Rightarrow> ('lg StakeHubRedelegated, 'lg) unpacker) \<Rightarrow> 'c StakeHubFilterer \<Rightarrow> 'lg \<Rightarrow> 'lg StakeHubRedelegated option \<times> go_error option" where
  "StakeHubFilterer_ParseRedelegated UnpackLog f = parse_log (UnpackLog (filterer_contract f)) new_StakeHubRedelegated ''Redelegated''"

subsection \<open>Resumed\<close>

type_synonym 'lg StakeHubResumed = "'lg log_event"

definition new_StakeHubResumed :: "'lg StakeHubResumed" where
  "new_StakeHubResumed = \<lparr>Raw = None\<rparr>"

type_synonym ('lg, 'c) StakeHubResumedIterator = "('lg, unit, 'c) log_iterator"

definition StakeHubResumedIterator_Next ::
  "('c \<Rightarrow> ('lg StakeHubResumed, 'lg) unpacker) \<Rightarrow> bool \<Rightarrow> ('lg, 'c) StakeHubResumedIterator \<Rightarrow> (bool \<times> ('lg, 'c) StakeHubResumedIterator) option" where
  "StakeHubResumedIterator_Next UnpackLog = iterator_Next UnpackLog new_StakeHubResumed"

definition StakeHubResumedIterator_Error :: "('lg, 'c) StakeHubResumedIterator \<Rightarrow> go_error option" where
  "StakeHubResumedIterator_Error = iterator_Error"

definition StakeHubResumedIterator_Close :: "('lg, 'c) StakeHubResumedIterator \<Rightarrow> go_error option \<times> ('lg, 'c) StakeHubResumedIterator" where
  "StakeHubResumedIterator_Close = iterator_Close"

definition StakeHubFilterer_FilterResumed ::
  "('w, 'c, 'o, 'lg) bind_logs \<Rightarrow> 'c StakeHubFilterer \<Rightarrow> 'o \<Rightarrow>
     ('w, ('lg, 'c) StakeHubResumedIterator option \<times> go_error option) io" where
  "StakeHubFilterer_FilterResumed lib f opts =
     bindIO (extern (bound_FilterLogs lib (filterer_contract f) opts ''Resumed'' []))
       (\<lambda>(logs, sub, err). case err of
          Some e \<Rightarrow> retIO (None, Some e)
        | None \<Rightarrow> retIO (Some (new_iterator (filterer_contract f) ''Resumed'' logs sub), None))"

definition StakeHubFilterer_WatchResumed ::
  "('w, 'c, 'o, 'lg) bind_logs \<Rightarrow> 'c StakeHubFilterer \<Rightarrow> 'o \<Rightarrow>
     ('w, ('lg, 'lg StakeHubResumed) watch option \<times> go_error option) io" where
  "StakeHubFilterer_WatchResumed lib f opts =
     bindIO (extern (bound_WatchLogs lib (filterer_contract f) opts ''Resumed'' []))
       (\<lambda>(logs, sub, err). case err of
          Some e \<Rightarrow> retIO (None, Some e)
        | None \<Rightarrow> retIO (Some (new_watch logs sub), None))"

definition StakeHubFilterer_WatchResumed_step ::
  "('c \<Rightarrow> ('lg StakeHubResumed, 'lg) unpacker) \<Rightarrow> 'c StakeHubFilterer \<Rightarrow>
     ('lg, 'lg StakeHubResumed) watch \<Rightarrow> ('lg, 'lg StakeHubResumed) watch \<Rightarrow> bool" where
  "StakeHubFilterer_WatchResumed_step UnpackLog f = watch_step (UnpackLog (filterer_contract f)) new_StakeHubResumed ''Resumed''"

definition StakeHubFilterer_ParseResumed ::
  "('c \<Rightarrow> ('lg StakeHubResumed, 'lg) unpacker) \<Rightarrow> 'c StakeHubFilterer \<Rightarrow> 'lg \<Rightarrow> 'lg StakeHubResumed option \<times> go_error option" where
  "StakeHubFilterer_ParseResumed UnpackLog f = parse_log (UnpackLog (filterer_contract f)) new_StakeHubResumed ''Resumed''"

subsection \<open>RewardDistributeFailed\<close>

record 'lg StakeHubRewardDistributeFailed = "'lg log_event" +
  RewardDistributeFailed_OperatorAddress :: "address"
  RewardDistributeFailed_FailReason :: "bytes"

definition new_StakeHubRewardDistributeFailed :: "'lg StakeHubRewardDistributeFailed" where
  "new_StakeHubRewardDistributeFailed = \<lparr>Raw = None, RewardDistributeFailed_OperatorAddress = 0, RewardDistributeFailed_FailReason = []\<rparr>"

type_synonym ('lg, 'c) StakeHubRewardDistributeFailedIterator = "('lg, unit StakeHubRewardDistributeFailed_ext, 'c) log_iterator"

definition StakeHubRewardDistributeFailedIterator_Next ::
  "('c \<Rightarrow> ('lg StakeHubRewardDistributeFailed, 'lg) unpacker) \<Rightarrow> bool \<Rightarrow> ('lg, 'c) StakeHubRewardDistributeFailedIterator \<Rightarrow> (bool \<times> ('lg, 'c) StakeHubRewardDistributeFailedIterator) option" where
  "StakeHubRewardDistributeFailedIterator_Next UnpackLog = iterator_Next UnpackLog new_StakeHubRewardDistributeFailed"

definition StakeHubRewardDistributeFailedIterator_Error :: "('lg, 'c) StakeHubRewardDistributeFailedIterator \<Rightarrow> go_error option" where
  "StakeHubRewardDistributeFailedIterator_Error = iterator_Error"

definition StakeHubRewardDistributeFailedIterator_Close :: "('lg, 'c) StakeHubRewardDistributeFailedIterator \<Rightarrow> go_error option \<times> ('lg, 'c) StakeHubRewardDistributeFailedIterator" where
  "StakeHubRewardDistributeFailedIterator_Close = iterator_Close"

definition StakeHubFilterer_FilterRewardDistributeFailed ::
  "('w, 'c, 'o, 'lg) bind_logs \<Rightarrow> 'c StakeHubFilterer \<Rightarrow> 'o \<Rightarrow> address list \<Rightarrow>
     ('w, ('lg, 'c) StakeHubRewardDistributeFailedIterator option \<times> go_error option) io" where
  "StakeHubFilterer_FilterRewardDistributeFailed lib f opts operatorAddress =
     bindIO (extern (bound_FilterLogs lib (filterer_contract f) opts ''RewardDistributeFailed'' [append_rule VAddress operatorAddress]))
       (\<lambda>(logs, sub, err). case err of
          Some e \<Rightarrow> retIO (None, Some e)
        | None \<Rightarrow> retIO (Some (new_iterator (filterer_contract f) ''RewardDistributeFailed'' logs sub), None))"

definition StakeHubFilterer_WatchRewardDistributeFailed ::
  "('w, 'c, 'o, 'lg) bind_logs \<Rightarrow> 'c StakeHubFilterer \<Rightarrow> 'o \<Rightarrow> address list \<Rightarrow>
     ('w, ('lg, 'lg StakeHubRewardDistributeFailed) watch option \<times> go_error option) io" where
  "StakeHubFilterer_WatchRewardDistributeFailed lib f opts operatorAddress =
     bindIO (extern (bound_WatchLogs lib (filterer_contract f) opts ''RewardDistributeFailed'' [append_rule VAddress operatorAddress]))
       (\<lambda>(logs, sub, err). case err of
          Some e \<Rightarrow> retIO (None, Some e)
        | None \<Rightarrow> retIO (Some (new_watch logs sub), None))"

definition StakeHubFilterer_WatchRewardDistributeFailed_step ::
  "('c \<Rightarrow> ('lg StakeHubRewardDistributeFailed, 'lg) unpacker) \<Rightarrow> 'c StakeHubFilterer \<Rightarrow>
     ('lg, 'lg StakeHubRewardDistributeFailed) watch \<Rightarrow> ('lg, 'lg StakeHubRewardDistributeFailed) watch \<Rightarrow> bool" where
  "StakeHubFilterer_WatchRewardDistributeFailed_step UnpackLog f = watch_step (UnpackLog (filterer_contract f)) new_StakeHubRewardDistributeFailed ''RewardDistributeFailed''"

definition StakeHubFilterer_ParseRewardDistributeFailed ::
  "('c \<Rightarrow> ('lg StakeHubRewardDistributeFailed, 'lg) unpacker) \<Rightarrow> 'c StakeHubFilterer \<Rightarrow> 'lg \<Rightarrow> 'lg StakeHubRewardDistributeFailed option \<times> go_error option" where
  "StakeHubFilterer_ParseRewardDistributeFailed UnpackLog f = parse_log (UnpackLog (filterer_contract f)) new_StakeHubRewardDistributeFailed ''RewardDistributeFailed''"

subsection \<open>RewardDistributed\<close>

record 'lg StakeHubRewardDistributed = "'lg log_event" +
  RewardDistributed_OperatorAddress :: "address"
  RewardDistributed_Reward :: "int option"

definition new_StakeHubRewardDistributed :: "'lg StakeHubRewardDistributed" where
  "new_StakeHubRewardDistributed = \<lparr>Raw = None, RewardDistributed_OperatorAddress = 0, RewardDistributed_Reward = None\<rparr>"

type_synonym ('lg, 'c) StakeHubRewardDistributedIterator = "('lg, unit StakeHubRewardDistributed_ext, 'c) log_iterator"

definition StakeHubRewardDistributedIterator_Next ::
  "('c \<Rightarrow> ('lg StakeHubRewardDistributed, 'lg) unpacker) \<Rightarrow> bool \<Rightarrow> ('lg, 'c) StakeHubRewardDistributedIterator \<Rightarrow> (bool \<times> ('lg, 'c) StakeHubRewardDistributedIterator) option" where
  "StakeHubRewardDistributedIterator_Next UnpackLog = iterator_Next UnpackLog new_StakeHubRewardDistributed"

definition StakeHubRewardDistributedIterator_Error :: "('lg, 'c) StakeHubRewardDistributedIterator \<Rightarrow> go_error option" where
  "StakeHubRewardDistributedIterator_Error = iterator_Error"

definition StakeHubRewardDistributedIterator_Close :: "('lg, 'c) StakeHubRewardDistributedIterator \<Rightarrow> go_error option \<times> ('lg, 'c) StakeHubRewardDistributedIterator" where
  "StakeHubRewardDistributedIterator_Close = iterator_Close"

definition StakeHubFilterer_FilterRewardDistributed ::
  "('w, 'c, 'o, 'lg) bind_logs \<Rightarrow> 'c StakeHubFilterer \<Rightarrow> 'o \<Rightarrow> address list \<Rightarrow>
     ('w, ('lg, 'c) StakeHubRewardDistributedIterator option \<times> go_error option) io" where
  "StakeHubFilterer_FilterRewardDistributed lib f opts operatorAddress =
     bindIO (extern (bound_FilterLogs lib (filterer_contract f) opts ''RewardDistributed'' [append_rule VAddress operatorAddress]))
       (\<lambda>(logs, sub, err). case err of
          Some e \<Rightarrow> retIO (None, Some e)
        | None \<Rightarrow> retIO (Some (new_iterator (filterer_contract f) ''RewardDistributed'' logs sub), None))"

definition StakeHubFilterer_WatchRewardDistributed ::
  "('w, 'c, 'o, 'lg) bind_logs \<Rightarrow> 'c StakeHubFilterer \<Rightarrow> 'o \<Rightarrow> address list \<Rightarrow>
     ('w, ('lg, 'lg StakeHubRewardDistributed) watch option \<times> go_error option) io" where
  "StakeHubFilterer_WatchRewardDistributed lib f opts operatorAddress =
     bindIO (extern (bound_WatchLogs lib (filterer_contract f) opts ''RewardDistributed'' [append_rule VAddress operatorAddress]))
       (\<lambda>(logs, sub, err). case err of
          Some e \<Rightarrow> retIO (None, Some e)
        | None \<Rightarrow> retIO (Some (new_watch logs sub), None))"

definition StakeHubFilterer_WatchRewardDistributed_step ::
  "('c \<Rightarrow> ('lg StakeHubRewardDistributed, 'lg) unpacker) \<Rightarrow> 'c StakeHubFilterer \<Rightarrow>
     ('lg, 'lg StakeHubRewardDistributed) watch \<Rightarrow> ('lg, 'lg StakeHubRewardDistributed) watch \<Rightarrow> bool" where
  "StakeHubFilterer_WatchRewardDistributed_step UnpackLog f = watch_step (UnpackLog (filterer_contract f)) new_StakeHubRewardDistributed ''RewardDistributed''"

definition StakeHubFilterer_ParseRewardDistributed ::
  "('c \<Rightarrow> ('lg StakeHubRewardDistributed, 'lg) unpacker) \<Rightarrow> 'c StakeHubFilterer \<Rightarrow> 'lg \<Rightarrow> 'lg StakeHubRewardDistributed option \<times> go_error option" where
  "StakeHubFilterer_ParseRewardDistributed UnpackLog f = parse_log (UnpackLog (filterer_contract f)) new_StakeHubRewardDistributed ''RewardDistributed''"

subsection \<open>Undelegated\<close>

record 'lg StakeHubUndelegated = "'lg log_event" +
  Undelegated_OperatorAddress :: "address"
  Undelegated_Delegator :: "address"
  Undelegated_Shares :: "int option"
  Undelegated_BnbAmount :: "int option"

definition new_StakeHubUndelegated :: "'lg StakeHubUndelegated" where
  "new_StakeHubUndelegated = \<lparr>Raw = None, Undelegated_OperatorAddress = 0, Undelegated_Delegator = 0, Undelegated_Shares = None, Undelegated_BnbAmount = None\<rparr>"

type_synonym ('lg, 'c) StakeHubUndelegatedIterator = "('lg, unit StakeHubUndelegated_ext, 'c) log_iterator"

definition StakeHubUndelegatedIterator_Next ::
  "('c \<Rightarrow> ('lg StakeHubUndelegated, 'lg) unpacker) \<Rightarrow> bool \<Rightarrow> ('lg, 'c) StakeHubUndelegatedIterator \<Rightarrow> (bool \<times> ('lg, 'c) StakeHubUndelegatedIterator) option" where
  "StakeHubUndelegatedIterator_Next UnpackLog = iterator_Next UnpackLog new_StakeHubUndelegated"

definition StakeHubUndelegatedIterator_Error :: "('lg, 'c) StakeHubUndelegatedIterator \<Rightarrow> go_error option" where
  "StakeHubUndelegatedIterator_Error = iterator_Error"

definition StakeHubUndelegatedIterator_Close :: "('lg, 'c) StakeHubUndelegatedIterator \<Rightarrow> go_error option \<times> ('lg, 'c) StakeHubUndelegatedIterator" where
  "StakeHubUndelegatedIterator_Close = iterator_Close"

definition StakeHubFilterer_FilterUndelegated ::
  "('w, 'c, 'o, 'lg) bind_logs \<Rightarrow> 'c StakeHubFilterer \<Rightarrow> 'o \<Rightarrow> address list \<Rightarrow> address list \<Rightarrow>
     ('w, ('lg, 'c) StakeHubUndelegatedIterator option \<times> go_error option) io" where
  "StakeHubFilterer_FilterUndelegated lib f opts operatorAddress delegator =
     bindIO (extern (bound_FilterLogs lib (filterer_contract f) opts ''Undelegated'' [append_rule VAddress operatorAddress, append_rule VAddress delegator]))
       (\<lambda>(logs, sub, err). case err of
          Some e \<Rightarrow> retIO (None, Some e)
        | None \<Rightarrow> retIO (Some (new_iterator (filterer_contract f) ''Undelegated'' logs sub), None))"

definition StakeHubFilterer_WatchUndelegated ::
  "('w, 'c, 'o, 'lg) bind_logs \<Rightarrow> 'c StakeHubFilterer \<Rightarrow> 'o \<Rightarrow> address list \<Rightarrow> address list \<Rightarrow>
     ('w, ('lg, 'lg StakeHubUndelegated) watch option \<times> go_error option) io" where
  "StakeHubFilterer_WatchUndelegated lib f opts operatorAddress delegator =
     bindIO (extern (bound_WatchLogs lib (filterer_contract f) opts ''Undelegated'' [append_rule VAddress operatorAddress, append_rule VAddress delegator]))
       (\<lambda>(logs, sub, err). case err of
          Some e \<Rightarrow> retIO (None, Some e)
        | None \<Rightarrow> retIO (Some (new_watch logs sub), None))"

definition StakeHubFilterer_WatchUndelegated_step ::
  "('c \<Rightarrow> ('lg StakeHubUndelegated, 'lg) unpacker) \<Rightarrow> 'c StakeHubFilterer \<Rightarrow>
     ('lg, 'lg StakeHubUndelegated) watch \<Rightarrow> ('lg, 'lg StakeHubUndelegated) watch \<Rightarrow> bool" where
  "StakeHubFilterer_WatchUndelegated_step UnpackLog f = watch_step (UnpackLog (filterer_contract f)) new_StakeHubUndelegated ''Undelegated''"

definition StakeHubFilterer_ParseUndelegated ::
  "('c \<Rightarrow> ('lg StakeHubUndelegated, 'lg) unpacker) \<Rightarrow> 'c StakeHubFilterer \<Rightarrow> 'lg \<Rightarrow> 'lg StakeHubUndelegated option \<times> go_error option" where
  "StakeHubFilterer_ParseUndelegated UnpackLog f = parse_log (UnpackLog (filterer_contract f)) new_StakeHubUndelegated ''Undelegated''"

subsection \<open>ValidatorCreated\<close>

record 'lg StakeHubValidatorCreated = "'lg log_event" +
  ValidatorCreated_ConsensusAddress :: "address"
  ValidatorCreated_OperatorAddress :: "address"
  ValidatorCreated_CreditContract :: "address"
  ValidatorCreated_VoteAddress :: "bytes"

definition new_StakeHubValidatorCreated :: "'lg StakeHubValidatorCreated" where
  "new_StakeHubValidatorCreated = \<lparr>Raw = None, ValidatorCreated_ConsensusAddress = 0, ValidatorCreated_OperatorAddress = 0, ValidatorCreated_CreditContract = 0, ValidatorCreated_VoteAddress = []\<rparr>"

type_synonym ('lg, 'c) StakeHubValidatorCreatedIterator = "('lg, unit StakeHubValidatorCreated_ext, 'c) log_iterator"

definition StakeHubValidatorCreatedIterator_Next ::
  "('c \<Rightarrow> ('lg StakeHubValidatorCreated, 'lg) unpacker) \<Rightarrow> bool \<Rightarrow> ('lg, 'c) StakeHubValidatorCreatedIterator \<Rightarrow> (bool \<times> ('lg, 'c) StakeHubValidatorCreatedIterator) option" where
  "StakeHubValidatorCreatedIterator_Next UnpackLog = iterator_Next UnpackLog new_StakeHubValidatorCreated"

definition StakeHubValidatorCreatedIterator_Error :: "('lg, 'c) StakeHubValidatorCreatedIterator \<Rightarrow> go_error option" where
  "StakeHubValidatorCreatedIterator_Error = iterator_Error"

definition StakeHubValidatorCreatedIterator_Close :: "('lg, 'c) StakeHubValidatorCreatedIterator \<Rightarrow> go_error option \<times> ('lg, 'c) StakeHubValidatorCreatedIterator" where
  "StakeHubValidatorCreatedIterator_Close = iterator_Close"

definition StakeHubFilterer_FilterValidatorCreated ::
  "('w, 'c, 'o, 'lg) bind_logs \<Rightarrow> 'c StakeHubFilterer \<Rightarrow> 'o \<Rightarrow> address list \<Rightarrow> address list \<Rightarrow> address list \<Rightarrow>
     ('w, ('lg, 'c) StakeHubValidatorCreatedIterator option \<times> go_error option) io" where
  "StakeHubFilterer_FilterValidatorCreated lib f opts consensusAddress operatorAddress creditContract =
     bindIO (extern (bound_FilterLogs lib (filterer_contract f) opts ''ValidatorCreated'' [append_rule VAddress consensusAddress, append_rule VAddress operatorAddress, append_rule VAddress creditContract]))
       (\<lambda>(logs, sub, err). case err of
          Some e \<Rightarrow> retIO (None, Some e)
        | None \<Rightarrow> retIO (Some (new_iterator (filterer_contract f) ''ValidatorCreated'' logs sub), None))"

definition StakeHubFilterer_WatchValidatorCreated ::
  "('w, 'c, 'o, 'lg) bind_logs \<Rightarrow> 'c StakeHubFilterer \<Rightarrow> 'o \<Rightarrow> address list \<Rightarrow> address list \<Rightarrow> address list \<Rightarrow>
     ('w, ('lg, 'lg StakeHubValidatorCreated) watch option \<times> go_error option) io" where
  "StakeHubFilterer_WatchValidatorCreated lib f opts consensusAddress operatorAddress creditContract =
     bindIO (extern (bound_WatchLogs lib (filterer_contract f) opts ''ValidatorCreated'' [append_rule VAddress consensusAddress, append_rule VAddress operatorAddress, append_rule VAddress creditContract]))
       (\<lambda>(logs, sub, err). case err of
          Some e \<Rightarrow> retIO (None, Some e)
        | None \<Rightarrow> retIO (Some (new_watch logs sub), None))"

definition StakeHubFilterer_WatchValidatorCreated_step ::
  "('c \<Rightarrow> ('lg StakeHubValidatorCreated, 'lg) unpacker) \<Rightarrow> 'c StakeHubFilterer \<Rightarrow>
     ('lg, 'lg StakeHubValidatorCreated) watch \<Rightarrow> ('lg, 'lg StakeHubValidatorCreated) watch \<Rightarrow> bool" where
  "StakeHubFilterer_WatchValidatorCreated_step UnpackLog f = watch_step (UnpackLog (filterer_contract f)) new_StakeHubValidatorCreated ''ValidatorCreated''"

definition StakeHubFilterer_ParseValidatorCreated ::
  "('c \<Rightarrow> ('lg StakeHubValidatorCreated, 'lg) unpacker) \<Rightarrow> 'c StakeHubFilterer \<Rightarrow> 'lg \<Rightarrow> 'lg StakeHubValidatorCreated option \<times> go_error option" where
  "StakeHubFilterer_ParseValidatorCreated UnpackLog f = parse_log (UnpackLog (filterer_contract f)) new_StakeHubValidatorCreated ''ValidatorCreated''"

subsection \<open>ValidatorEmptyJailed\<close>

record 'lg StakeHubValidatorEmptyJailed = "'lg log_event" +
  ValidatorEmptyJailed_OperatorAddress :: "address"

definition new_StakeHubValidatorEmptyJailed :: "'lg StakeHubValidatorEmptyJailed" where
  "new_StakeHubValidatorEmptyJailed = \<lparr>Raw = None, ValidatorEmptyJailed_OperatorAddress = 0\<rparr>"

type_synonym ('lg, 'c) StakeHubValidatorEmptyJailedIterator = "('lg, unit StakeHubValidatorEmptyJailed_ext, 'c) log_iterator"

definition StakeHubValidatorEmptyJailedIterator_Next ::
  "('c \<Rightarrow> ('lg StakeHubValidatorEmptyJailed, 'lg) unpacker) \<Rightarrow> bool \<Rightarrow> ('lg, 'c) StakeHubValidatorEmptyJailedIterator \<Rightarrow> (bool \<times> ('lg, 'c) StakeHubValidatorEmptyJailedIterator) option" where
  "StakeHubValidatorEmptyJailedIterator_Next UnpackLog = iterator_Next UnpackLog new_StakeHubValidatorEmptyJailed"

definition StakeHubValidatorEmptyJailedIterator_Error :: "('lg, 'c) StakeHubValidatorEmptyJailedIterator \<Rightarrow> go_error option" where
  "StakeHubValidatorEmptyJailedIterator_Error = iterator_Error"

definition StakeHubValidatorEmptyJailedIterator_Close :: "('lg, 'c) StakeHubValidatorEmptyJailedIterator \<Rightarrow> go_error option \<times> ('lg, 'c) StakeHubValidatorEmptyJailedIterator" where
  "StakeHubValidatorEmptyJailedIterator_Close = iterator_Close"

definition StakeHubFilterer_FilterValidatorEmptyJailed ::
  "('w, 'c, 'o, 'lg) bind_logs \<Rightarrow> 'c StakeHubFilterer \<Rightarrow> 'o \<Rightarrow> address list \<Rightarrow>
     ('w, ('lg, 'c) StakeHubValidatorEmptyJailedIterator option \<times> go_error option) io" where
  "StakeHubFilterer_FilterValidatorEmptyJailed lib f opts operatorAddress =
     bindIO (extern (bound_FilterLogs lib (filterer_contract f) opts ''ValidatorEmptyJailed'' [append_rule VAddress operatorAddress]))
       (\<lambda>(logs, sub, err). case err of
          Some e \<Rightarrow> retIO (None, Some e)
        | None \<Rightarrow> retIO (Some (new_iterator (filterer_contract f) ''ValidatorEmptyJailed'' logs sub), None))"

definition StakeHubFilterer_WatchValidatorEmptyJailed ::
  "('w, 'c, 'o, 'lg) bind_logs \<Rightarrow> 'c StakeHubFilterer \<Rightarrow> 'o \<Rightarrow> address list \<Rightarrow>
     ('w, ('lg, 'lg StakeHubValidatorEmptyJailed) watch option \<times> go_error option) io" where
  "StakeHubFilterer_WatchValidatorEmptyJailed lib f opts operatorAddress =
     bindIO (extern (bound_WatchLogs lib (filterer_contract f) opts ''ValidatorEmptyJailed'' [append_rule VAddress operatorAddress]))
       (\<lambda>(logs, sub, err). case err of
          Some e \<Rightarrow> retIO (None, Some e)
        | None \<Rightarrow> retIO (Some (new_watch logs sub), None))"

definition StakeHubFilterer_WatchValidatorEmptyJailed_step ::
  "('c \<Rightarrow> ('lg StakeHubValidatorEmptyJailed, 'lg) unpacker) \<Rightarrow> 'c StakeHubFilterer \<Rightarrow>
     ('lg, 'lg StakeHubValidatorEmptyJailed) watch \<Rightarrow> ('lg, 'lg StakeHubValidatorEmptyJailed) watch \<Rightarrow> bool" where
  "StakeHubFilterer_WatchValidatorEmptyJailed_step UnpackLog f = watch_step (UnpackLog (filterer_contract f)) new_StakeHubValidatorEmptyJailed ''ValidatorEmptyJailed''"

definition StakeHubFilterer_ParseValidatorEmptyJailed ::
  "('c \<Rightarrow> ('lg StakeHubValidatorEmptyJailed, 'lg) unpacker) \<Rightarrow> 'c StakeHubFilterer \<Rightarrow> 'lg \<Rightarrow> 'lg StakeHubValidatorEmptyJailed option \<times> go_error option" where
  "StakeHubFilterer_ParseValidatorEmptyJailed UnpackLog f = parse_log (UnpackLog (filterer_contract f)) new_StakeHubValidatorEmptyJailed ''ValidatorEmptyJailed''"

subsection \<open>ValidatorJailed\<close>

record 'lg StakeHubValidatorJailed = "'lg log_event" +
  ValidatorJailed_OperatorAddress :: "address"

definition new_StakeHubValidatorJailed :: "'lg StakeHubValidatorJailed" where
  "new_StakeHubValidatorJailed = \<lparr>Raw = None, ValidatorJailed_OperatorAddress = 0\<rparr>"

type_synonym ('lg, 'c) StakeHubValidatorJailedIterator = "('lg, unit StakeHubValidatorJailed_ext, 'c) log_iterator"

definition StakeHubValidatorJailedIterator_Next ::
  "('c \<Rightarrow> ('lg StakeHubValidatorJailed, 'lg) unpacker) \<Rightarrow> bool \<Rightarrow> ('lg, 'c) StakeHubValidatorJailedIterator \<Rightarrow> (bool \<times> ('lg, 'c) StakeHubValidatorJailedIterator) option" where
  "StakeHubValidatorJailedIterator_Next UnpackLog = iterator_Next UnpackLog new_StakeHubValidatorJailed"

definition StakeHubValidatorJailedIterator_Error :: "('lg, 'c) StakeHubValidatorJailedIterator \<Rightarrow> go_error option" where
  "StakeHubValidatorJailedIterator_Error = iterator_Error"

definition StakeHubValidatorJailedIterator_Close :: "('lg, 'c) StakeHubValidatorJailedIterator \<Rightarrow> go_error option \<times> ('lg, 'c) StakeHubValidatorJailedIterator" where
  "StakeHubValidatorJailedIterator_Close = iterator_Close"

definition StakeHubFilterer_FilterValidatorJailed ::
  "('w, 'c, 'o, 'lg) bind_logs \<Rightarrow> 'c StakeHubFilterer \<Rightarrow> 'o \<Rightarrow> address list \<Rightarrow>
     ('w, ('lg, 'c) StakeHubValidatorJailedIterator option \<times> go_error option) io" where
  "StakeHubFilterer_FilterValidatorJailed lib f opts operatorAddress =
     bindIO (extern (bound_FilterLogs lib (filterer_contract f) opts ''ValidatorJailed'' [append_rule VAddress operatorAddress]))
       (\<lambda>(logs, sub, err). case err of
          Some e \<Rightarrow> retIO (None, Some e)
        | None \<Rightarrow> retIO (Some (new_iterator (filterer_contract f) ''ValidatorJailed'' logs sub), None))"

definition StakeHubFilterer_WatchValidatorJailed ::
  "('w, 'c, 'o, 'lg) bind_logs \<Rightarrow> 'c StakeHubFilterer \<Rightarrow> 'o \<Rightarrow> address list \<Rightarrow>
     ('w, ('lg, 'lg StakeHubValidatorJailed) watch option \<times> go_error option) io" where
  "StakeHubFilterer_WatchValidatorJailed lib f opts operatorAddress =
     bindIO (extern (bound_WatchLogs lib (filterer_contract f) opts ''ValidatorJailed'' [append_rule VAddress operatorAddress]))
       (\<lambda>(logs, sub, err). case err of
          Some e \<Rightarrow> retIO (None, Some e)
        | None \<Rightarrow> retIO (Some (new_watch logs sub), None))"

definition StakeHubFilterer_WatchValidatorJailed_step ::
  "('c \<Rightarrow> ('lg StakeHubValidatorJailed, 'lg) unpacker) \<Rightarrow> 'c StakeHubFilterer \<Rightarrow>
     ('lg, 'lg StakeHubValidatorJailed) watch \<Rightarrow> ('lg, 'lg StakeHubValidatorJailed) watch \<Rightarrow> bool" where
  "StakeHubFilterer_WatchValidatorJailed_step UnpackLog f = watch_step (UnpackLog (filterer_contract f)) new_StakeHubValidatorJailed ''ValidatorJailed''"

definition StakeHubFilterer_ParseValidatorJailed ::
  "('c \<Rightarrow> ('lg StakeHubValidatorJailed, 'lg) unpacker) \<Rightarrow> 'c StakeHubFilterer \<Rightarrow> 'lg \<Rightarrow> 'lg StakeHubValidatorJailed option \<times> go_error option" where
  "StakeHubFilterer_ParseValidatorJailed UnpackLog f = parse_log (UnpackLog (filterer_contract f)) new_StakeHubValidatorJailed ''ValidatorJailed''"

subsection \<open>ValidatorSlashed\<close>

record 'lg StakeHubValidatorSlashed = "'lg log_event" +
  ValidatorSlashed_OperatorAddress :: "address"
  ValidatorSlashed_JailUntil :: "int option"
  ValidatorSlashed_SlashAmount :: "int option"
  ValidatorSlashed_SlashType :: "8 word"

definition new_StakeHubValidatorSlashed :: "'lg StakeHubValidatorSlashed" where
  "new_StakeHubValidatorSlashed = \<lparr>Raw = None, ValidatorSlashed_OperatorAddress = 0, ValidatorSlashed_JailUntil = None, ValidatorSlashed_SlashAmount = None, ValidatorSlashed_SlashType = 0\<rparr>"

type_synonym ('lg, 'c) StakeHubValidatorSlashedIterator = "('lg, unit StakeHubValidatorSlashed_ext, 'c) log_iterator"

definition StakeHubValidatorSlashedIterator_Next ::
  "('c \<Rightarrow> ('lg StakeHubValidatorSlashed, 'lg) unpacker) \<Rightarrow> bool \<Rightarrow> ('lg, 'c) StakeHubValidatorSlashedIterator \<Rightarrow> (bool \<times> ('lg, 'c) StakeHubValidatorSlashedIterator) option" where
  "StakeHubValidatorSlashedIterator_Next UnpackLog = iterator_Next UnpackLog new_StakeHubValidatorSlashed"

definition StakeHubValidatorSlashedIterator_Error :: "('lg, 'c) StakeHubValidatorSlashedIterator \<Rightarrow> go_error option" where
  "StakeHubValidatorSlashedIterator_Error = iterator_Error"

definition StakeHubValidatorSlashedIterator_Close :: "('lg, 'c) StakeHubValidatorSlashedIterator \<Rightarrow> go_error option \<times> ('lg, 'c) StakeHubValidatorSlashedIterator" where
  "StakeHubValidatorSlashedIterator_Close = iterator_Close"

definition StakeHubFilterer_FilterValidatorSlashed ::
  "('w, 'c, 'o, 'lg) bind_logs \<Rightarrow> 'c StakeHubFilterer \<Rightarrow> 'o \<Rightarrow> address list \<Rightarrow>
     ('w, ('lg, 'c) StakeHubValidatorSlashedIterator option \<times> go_error option) io" where
  "StakeHubFilterer_FilterValidatorSlashed lib f opts operatorAddress =
     bindIO (extern (bound_FilterLogs lib (filterer_contract f) opts ''ValidatorSlashed'' [append_rule VAddress operatorAddress]))
       (\<lambda>(logs, sub, err). case err of
          Some e \<Rightarrow> retIO (None, Some e)
        | None \<Rightarrow> retIO (Some (new_iterator (filterer_contract f) ''ValidatorSlashed'' logs sub), None))"

definition StakeHubFilterer_WatchValidatorSlashed ::
  "('w, 'c, 'o, 'lg) bind_logs \<Rightarrow> 'c StakeHubFilterer \<Rightarrow> 'o \<Rightarrow> address list \<Rightarrow>
     ('w, ('lg, 'lg StakeHubValidatorSlashed) watch option \<times> go_error option) io" where
  "StakeHubFilterer_WatchValidatorSlashed lib f opts operatorAddress =
     bindIO (extern (bound_WatchLogs lib (filterer_contract f) opts ''ValidatorSlashed'' [append_rule VAddress operatorAddress]))
       (\<lambda>(logs, sub, err). case err of
          Some e \<Rightarrow> retIO (None, Some e)
        | None \<Rightarrow> retIO (Some (new_watch logs sub), None))"

definition StakeHubFilterer_WatchValidatorSlashed_step ::
  "('c \<Rightarrow> ('lg StakeHubValidatorSlashed, 'lg) unpacker) \<Rightarrow> 'c StakeHubFilterer \<Rightarrow>
     ('lg, 'lg StakeHubValidatorSlashed) watch \<Rightarrow> ('lg, 'lg StakeHubValidatorSlashed) watch \<Rightarrow> bool" where
  "StakeHubFilterer_WatchValidatorSlashed_step UnpackLog f = watch_step (UnpackLog (filterer_contract f)) new_StakeHubValidatorSlashed ''ValidatorSlashed''"

definition StakeHubFilterer_ParseValidatorSlashed ::
  "('c \<Rightarrow> ('lg StakeHubValidatorSlashed, 'lg) unpacker) \<Rightarrow> 'c StakeHubFilterer \<Rightarrow> 'lg \<Rightarrow> 'lg StakeHubValidatorSlashed option \<times> go_error option" where
  "StakeHubFilterer_ParseValidatorSlashed UnpackLog f = parse_log (UnpackLog (filterer_contract f)) new_StakeHubValidatorSlashed ''ValidatorSlashed''"

subsection \<open>ValidatorUnjailed\<close>

record 'lg StakeHubValidatorUnjailed = "'lg log_event" +
  ValidatorUnjailed_OperatorAddress :: "address"

definition new_StakeHubValidatorUnjailed :: "'lg StakeHubValidatorUnjailed" where
  "new_StakeHubValidatorUnjailed = \<lparr>Raw = None, ValidatorUnjailed_OperatorAddress = 0\<rparr>"

type_synonym ('lg, 'c) StakeHubValidatorUnjailedIterator = "('lg, unit StakeHubValidatorUnjailed_ext, 'c) log_iterator"

definition StakeHubValidatorUnjailedIterator_Next ::
  "('c \<Rightarrow> ('lg StakeHubValidatorUnjailed, 'lg) unpacker) \<Rightarrow> bool \<Rightarrow> ('lg, 'c) StakeHubValidatorUnjailedIterator \<Rightarrow> (bool \<times> ('lg, 'c) StakeHubValidatorUnjailedIterator) option" where
  "StakeHubValidatorUnjailedIterator_Next UnpackLog = iterator_Next UnpackLog new_StakeHubValidatorUnjailed"

definition StakeHubValidatorUnjailedIterator_Error :: "('lg, 'c) StakeHubValidatorUnjailedIterator \<Rightarrow> go_error option" where
  "StakeHubValidatorUnjailedIterator_Error = iterator_Error"

definition StakeHubValidatorUnjailedIterator_Close :: "('lg, 'c) StakeHubValidatorUnjailedIterator \<Rightarrow> go_error option \<times> ('lg, 'c) StakeHubValidatorUnjailedIterator" where
  "StakeHubValidatorUnjailedIterator_Close = iterator_Close"

definition StakeHubFilterer_FilterValidatorUnjailed ::
  "('w, 'c, 'o, 'lg) bind_logs \<Rightarrow> 'c StakeHubFilterer \<Rightarrow> 'o \<Rightarrow> address list \<Rightarrow>
     ('w, ('lg, 'c) StakeHubValidatorUnjailedIterator option \<times> go_error option) io" where
  "StakeHubFilterer_FilterValidatorUnjailed lib f opts operatorAddress =
     bindIO (extern (bound_FilterLogs lib (filterer_contract f) opts ''ValidatorUnjailed'' [append_rule VAddress operatorAddress]))
       (\<lambda>(logs, sub, err). case err of
          Some e \<Rightarrow> retIO (None, Some e)
        | None \<Rightarrow> retIO (Some (new_iterator (filterer_contract f) ''ValidatorUnjailed'' logs sub), None))"

definition StakeHubFilterer_WatchValidatorUnjailed ::
  "('w, 'c, 'o, 'lg) bind_logs \<Rightarrow> 'c StakeHubFilterer \<Rightarrow> 'o \<Rightarrow> address list \<Rightarrow>
     ('w, ('lg, 'lg StakeHubValidatorUnjailed) watch option \<times> go_error option) io" where
  "StakeHubFilterer_WatchValidatorUnjailed lib f opts operatorAddress =
     bindIO (extern (bound_WatchLogs lib (filterer_contract f) opts ''ValidatorUnjailed'' [append_rule VAddress operatorAddress]))
       (\<lambda>(logs, sub, err). case err of
          Some e \<Rightarrow> retIO (None, Some e)
        | None \<Rightarrow> retIO (Some (new_watch logs sub), None))"

definition StakeHubFilterer_WatchValidatorUnjailed_step ::
  "('c \<Rightarrow> ('lg StakeHubValidatorUnjailed, 'lg) unpacker) \<Rightarrow> 'c StakeHubFilterer \<Rightarrow>
     ('lg, 'lg StakeHubValidatorUnjailed) watch \<Rightarrow> ('lg, 'lg StakeHubValidatorUnjailed) watch \<Rightarrow> bool" where
  "StakeHubFilterer_WatchValidatorUnjailed_step UnpackLog f = watch_step (UnpackLog (filterer_contract f)) new_StakeHubValidatorUnjailed ''ValidatorUnjailed''"

definition StakeHubFilterer_ParseValidatorUnjailed ::
  "('c \<Rightarrow> ('lg StakeHubValidatorUnjailed, 'lg) unpacker) \<Rightarrow> 'c StakeHubFilterer \<Rightarrow> 'lg \<Rightarrow> 'lg StakeHubValidatorUnjailed option \<times> go_error option" where
  "StakeHubFilterer_ParseValidatorUnjailed UnpackLog f = parse_log (UnpackLog (filterer_contract f)) new_StakeHubValidatorUnjailed ''ValidatorUnjailed''"

subsection \<open>VoteAddressEdited\<close>

record 'lg StakeHubVoteAddressEdited = "'lg log_event" +
  VoteAddressEdited_OperatorAddress :: "address"
  VoteAddressEdited_NewVoteAddress :: "bytes"

definition new_StakeHubVoteAddressEdited :: "'lg StakeHubVoteAddressEdited" where
  "new_StakeHubVoteAddressEdited = \<lparr>Raw = None, VoteAddressEdited_OperatorAddress = 0, VoteAddressEdited_NewVoteAddress = []\<rparr>"

type_synonym ('lg, 'c) StakeHubVoteAddressEditedIterator = "('lg, unit StakeHubVoteAddressEdited_ext, 'c) log_iterator"

definition StakeHubVoteAddressEditedIterator_Next ::
  "('c \<Rightarrow> ('lg StakeHubVoteAddressEdited, 'lg) unpacker) \<Rightarrow> bool \<Rightarrow> ('lg, 'c) StakeHubVoteAddressEditedIterator \<Rightarrow> (bool \<times> ('lg, 'c) StakeHubVoteAddressEditedIterator) option" where
  "StakeHubVoteAddressEditedIterator_Next UnpackLog = iterator_Next UnpackLog new_StakeHubVoteAddressEdited"

definition StakeHubVoteAddressEditedIterator_Error :: "('lg, 'c) StakeHubVoteAddressEditedIterator \<Rightarrow> go_error option" where
  "StakeHubVoteAddressEditedIterator_Error = iterator_Error"

definition StakeHubVoteAddressEditedIterator_Close :: "('lg, 'c) StakeHubVoteAddressEditedIterator \<Rightarrow> go_error option \<times> ('lg, 'c) StakeHubVoteAddressEditedIterator" where
  "StakeHubVoteAddressEditedIterator_Close = iterator_Close"

definition StakeHubFilterer_FilterVoteAddressEdited ::
  "('w, 'c, 'o, 'lg) bind_logs \<Rightarrow> 'c StakeHubFilterer \<Rightarrow> 'o \<Rightarrow> address list \<Rightarrow>
     ('w, ('lg, 'c) StakeHubVoteAddressEditedIterator option \<times> go_error option) io" where
  "StakeHubFilterer_FilterVoteAddressEdited lib f opts operatorAddress =
     bindIO (extern (bound_FilterLogs lib (filterer_contract f) opts ''VoteAddressEdited'' [append_rule VAddress operatorAddress]))
       (\<lambda>(logs, sub, err). case err of
          Some e \<Rightarrow> retIO (None, Some e)
        | None \<Rightarrow> retIO (Some (new_iterator (filterer_contract f) ''VoteAddressEdited'' logs sub), None))"

definition StakeHubFilterer_WatchVoteAddressEdited ::
  "('w, 'c, 'o, 'lg) bind_logs \<Rightarrow> 'c StakeHubFilterer \<Rightarrow> 'o \<Rightarrow> address list \<Rightarrow>
     ('w, ('lg, 'lg StakeHubVoteAddressEdited) watch option \<times> go_error option) io" where
  "StakeHubFilterer_WatchVoteAddressEdited lib f opts operatorAddress =
     bindIO (extern (bound_WatchLogs lib (filterer_contract f) opts ''VoteAddressEdited'' [append_rule VAddress operatorAddress]))
       (\<lambda>(logs, sub, err). case err of
          Some e \<Rightarrow> retIO (None, Some e)
        | None \<Rightarrow> retIO (Some (new_watch logs sub), None))"

definition StakeHubFilterer_WatchVoteAddressEdited_step ::
  "('c \<Rightarrow> ('lg StakeHubVoteAddressEdited, 'lg) unpacker) \<Rightarrow> 'c StakeHubFilterer \<Rightarrow>
     ('lg, 'lg StakeHubVoteAddressEdited) watch \<Rightarrow> ('lg, 'lg StakeHubVoteAddressEdited) watch \<Rightarrow> bool" where
  "StakeHubFilterer_WatchVoteAddressEdited_step UnpackLog f = watch_step (UnpackLog (filterer_contract f)) new_StakeHubVoteAddressEdited ''VoteAddressEdited''"

definition StakeHubFilterer_ParseVoteAddressEdited ::
  "('c \<Rightarrow> ('lg StakeHubVoteAddressEdited, 'lg) unpacker) \<Rightarrow> 'c StakeHubFilterer \<Rightarrow> 'lg \<Rightarrow> 'lg StakeHubVoteAddressEdited option \<times> go_error option" where
  "StakeHubFilterer_ParseVoteAddressEdited UnpackLog f = parse_log (UnpackLog (filterer_contract f)) new_StakeHubVoteAddressEdited ''VoteAddressEdited''"

section \<open>What a query asks for\<close>

text \<open>Rules that fit the event \<open>name\<close>: the ABI has that event, there is one rule per indexed
  parameter and every alternative of a rule has that parameter's type.\<close>

definition asks :: "string \<Rightarrow> go_value list list \<Rightarrow> bool" where
  "asks name rules \<longleftrightarrow> (case find_event name of
        None \<Rightarrow> False
      | Some e \<Rightarrow> list_all2 (\<lambda>t rule. list_all (packs t) rule) (map fst (filter snd (ev_inputs e))) rules)"

text \<open>A query of the event \<open>name\<close> with such rules: the library's error is returned with
  nil, otherwise \<open>mk\<close> of the channel and the subscription.\<close>

definition queries ::
  "(string \<Rightarrow> go_value list list \<Rightarrow> 'w \<Rightarrow> ('lg list \<times> subscription \<times> go_error option) \<times> 'w) \<Rightarrow>
     string \<Rightarrow> go_value list list \<Rightarrow> ('lg list \<Rightarrow> subscription \<Rightarrow> 'r) \<Rightarrow>
     ('w, 'r option \<times> go_error option) io \<Rightarrow> bool" where
  "queries run name rules mk m \<longleftrightarrow> asks name rules \<and>
     (\<forall>w. case run name rules w of
        ((logs, sub, Some err), w') \<Rightarrow> m w = (Ret (None, Some err), w')
      | ((logs, sub, None), w') \<Rightarrow> m w = (Ret (Some (mk logs sub), None), w'))"

lemma queriesI:
  assumes "find_event name = Some e"
    and "list_all2 (\<lambda>t rule. list_all (packs t) rule) (map fst (filter snd (ev_inputs e))) rules"
  shows "queries run name rules mk (bindIO (extern (run name rules))
     (\<lambda>(logs, sub, err). case err of Some e \<Rightarrow> retIO (None, Some e) | None \<Rightarrow> retIO (Some (mk logs sub), None)))"
  using assms by (auto simp: queries_def asks_def split: prod.split option.split)

lemma queries_FilterClaimed:
  "queries (bound_FilterLogs lib (filterer_contract f) opts) ''Claimed'' [map VAddress operatorAddress, map VAddress delegator]
        (new_iterator (filterer_contract f) ''Claimed'') (StakeHubFilterer_FilterClaimed lib f opts operatorAddress delegator)"
  unfolding StakeHubFilterer_FilterClaimed_def append_rule_map
  by (rule queriesI) (simp add: find_event_def StakeHub_events_def, simp add: list_all_iff)

lemma queries_WatchClaimed:
  "queries (bound_WatchLogs lib (filterer_contract f) opts) ''Claimed'' [map VAddress operatorAddress, map VAddress delegator]
        new_watch (StakeHubFilterer_WatchClaimed lib f opts operatorAddress delegator)"
  unfolding StakeHubFilterer_WatchClaimed_def append_rule_map
  by (rule queriesI) (simp add: find_event_def StakeHub_events_def, simp add: list_all_iff)

lemma queries_FilterCommissionRateEdited:
  "queries (bound_FilterLogs lib (filterer_contract f) opts) ''CommissionRateEdited'' [map VAddress operatorAddress]
        (new_iterator (filterer_contract f) ''CommissionRateEdited'') (StakeHubFilterer_FilterCommissionRateEdited lib f opts operatorAddress)"
  unfolding StakeHubFilterer_FilterCommissionRateEdited_def append_rule_map
  by (rule queriesI) (simp add: find_event_def StakeHub_events_def, simp add: list_all_iff)

lemma queries_WatchCommissionRateEdited:
  "queries (bound_WatchLogs lib (filterer_contract f) opts) ''CommissionRateEdited'' [map VAddress operatorAddress]
        new_watch (StakeHubFilterer_WatchCommissionRateEdited lib f opts operatorAddress)"
  unfolding StakeHubFilterer_WatchCommissionRateEdited_def append_rule_map
  by (rule queriesI) (simp add: find_event_def StakeHub_events_def, simp add: list_all_iff)

lemma queries_FilterConsensusAddressEdited:
  "queries (bound_FilterLogs lib (filterer_contract f) opts) ''ConsensusAddressEdited'' [map VAddress operatorAddress, map VAddress newConsensusAddress]
        (new_iterator (filterer_contract f) ''ConsensusAddressEdited'') (StakeHubFilterer_FilterConsensusAddressEdited lib f opts operatorAddress newConsensusAddress)"
  unfolding StakeHubFilterer_FilterConsensusAddressEdited_def append_rule_map
  by (rule queriesI) (simp add: find_event_def StakeHub_events_def, simp add: list_all_iff)

lemma queries_WatchConsensusAddressEdited:
  "queries (bound_WatchLogs lib (filterer_contract f) opts) ''ConsensusAddressEdited'' [map VAddress operatorAddress, map VAddress newConsensusAddress]
        new_watch (StakeHubFilterer_WatchConsensusAddressEdited lib f opts operatorAddress newConsensusAddress)"
  unfolding StakeHubFilterer_WatchConsensusAddressEdited_def append_rule_map
  by (rule queriesI) (simp add: find_event_def StakeHub_events_def, simp add: list_all_iff)

lemma queries_FilterDelegated:
  "queries (bound_FilterLogs lib (filterer_contract f) opts) ''Delegated'' [map VAddress operatorAddress, map VAddress delegator]
        (new_iterator (filterer_contract f) ''Delegated'') (StakeHubFilterer_FilterDelegated lib f opts operatorAddress delegator)"
  unfolding StakeHubFilterer_FilterDelegated_def append_rule_map
  by (rule queriesI) (simp add: find_event_def StakeHub_events_def, simp add: list_all_iff)

lemma queries_WatchDelegated:
  "queries (bound_WatchLogs lib (filterer_contract f) opts) ''Delegated'' [map VAddress operatorAddress, map VAddress delegator]
        new_watch (StakeHubFilterer_WatchDelegated lib f opts operatorAddress delegator)"
  unfolding StakeHubFilterer_WatchDelegated_def append_rule_map
  by (rule queriesI) (simp add: find_event_def StakeHub_events_def, simp add: list_all_iff)

lemma queries_FilterDescriptionEdited:
  "queries (bound_FilterLogs lib (filterer_contract f) opts) ''DescriptionEdited'' [map VAddress operatorAddress]
        (new_iterator (filterer_contract f) ''DescriptionEdited'') (StakeHubFilterer_FilterDescriptionEdited lib f opts operatorAddress)"
  unfolding StakeHubFilterer_FilterDescriptionEdited_def append_rule_map
  by (rule queriesI) (simp add: find_event_def StakeHub_events_def, simp add: list_all_iff)

lemma queries_WatchDescriptionEdited:
  "queries (bound_WatchLogs lib (filterer_contract f) opts) ''DescriptionEdited'' [map VAddress operatorAddress]
        new_watch (StakeHubFilterer_WatchDescriptionEdited lib f opts operatorAddress)"
  unfolding StakeHubFilterer_WatchDescriptionEdited_def append_rule_map
  by (rule queriesI) (simp add: find_event_def StakeHub_events_def, simp add: list_all_iff)

lemma queries_FilterInitialized:
  "queries (bound_FilterLogs lib (filterer_contract f) opts) ''Initialized'' []
        (new_iterator (filterer_contract f) ''Initialized'') (StakeHubFilterer_FilterInitialized lib f opts)"
  unfolding StakeHubFilterer_FilterInitialized_def append_rule_map
  by (rule queriesI) (simp add: find_event_def StakeHub_events_def, simp add: list_all_iff)

lemma queries_WatchInitialized:
  "queries (bound_WatchLogs lib (filterer_contract f) opts) ''Initialized'' []
        new_watch (StakeHubFilterer_WatchInitialized lib f opts)"
  unfolding StakeHubFilterer_WatchInitialized_def append_rule_map
  by (rule queriesI) (simp add: find_event_def StakeHub_events_def, simp add: list_all_iff)

lemma queries_FilterParamChange:
  "queries (bound_FilterLogs lib (filterer_contract f) opts) ''ParamChange'' []
        (new_iterator (filterer_contract f) ''ParamChange'') (StakeHubFilterer_FilterParamChange lib f opts)"
  unfolding StakeHubFilterer_FilterParamChange_def append_rule_map
  by (rule queriesI) (simp add: find_event_def StakeHub_events_def, simp add: list_all_iff)

lemma queries_WatchParamChange:
  "queries (bound_WatchLogs lib (filterer_contract f) opts) ''ParamChange'' []
        new_watch (StakeHubFilterer_WatchParamChange lib f opts)"
  unfolding StakeHubFilterer_WatchParamChange_def append_rule_map
  by (rule queriesI) (simp add: find_event_def StakeHub_events_def, simp add: list_all_iff)

lemma queries_FilterPaused:
  "queries (bound_FilterLogs lib (filterer_contract f) opts) ''Paused'' []
        (new_iterator (filterer_contract f) ''Paused'') (StakeHubFilterer_FilterPaused lib f opts)"
  unfolding StakeHubFilterer_FilterPaused_def append_rule_map
  by (rule queriesI) (simp add: find_event_def StakeHub_events_def, simp add: list_all_iff)

lemma queries_WatchPaused:
  "queries (bound_WatchLogs lib (filterer_contract f) opts) ''Paused'' []
        new_watch (StakeHubFilterer_WatchPaused lib f opts)"
  unfolding StakeHubFilterer_WatchPaused_def append_rule_map
  by (rule queriesI) (simp add: find_event_def StakeHub_events_def, simp add: list_all_iff)

lemma queries_FilterRedelegated:
  "queries (bound_FilterLogs lib (filterer_contract f) opts) ''Redelegated'' [map VAddress srcValidator, map VAddress dstValidator, map VAddress delegator]
        (new_iterator (filterer_contract f) ''Redelegated'') (StakeHubFilterer_FilterRedelegated lib f opts srcValidator dstValidator delegator)"
  unfolding StakeHubFilterer_FilterRedelegated_def append_rule_map
  by (rule queriesI) (simp add: find_event_def StakeHub_events_def, simp add: list_all_iff)

lemma queries_WatchRedelegated:
  "queries (bound_WatchLogs lib (filterer_contract f) opts) ''Redelegated'' [map VAddress srcValidator, map VAddress dstValidator, map VAddress delegator]
        new_watch (StakeHubFilterer_WatchRedelegated lib f opts srcValidator dstValidator delegator)"
  unfolding StakeHubFilterer_WatchRedelegated_def append_rule_map
  by (rule queriesI) (simp add: find_event_def StakeHub_events_def, simp add: list_all_iff)

lemma queries_FilterResumed:
  "queries (bound_FilterLogs lib (filterer_contract f) opts) ''Resumed'' []
        (new_iterator (filterer_contract f) ''Resumed'') (StakeHubFilterer_FilterResumed lib f opts)"
  unfolding StakeHubFilterer_FilterResumed_def append_rule_map
  by (rule queriesI) (simp add: find_event_def StakeHub_events_def, simp add: list_all_iff)

lemma queries_WatchResumed:
  "queries (bound_WatchLogs lib (filterer_contract f) opts) ''Resumed'' []
        new_watch (StakeHubFilterer_WatchResumed lib f opts)"
  unfolding StakeHubFilterer_WatchResumed_def append_rule_map
  by (rule queriesI) (simp add: find_event_def StakeHub_events_def, simp add: list_all_iff)

lemma queries_FilterRewardDistributeFailed:
  "queries (bound_FilterLogs lib (filterer_contract f) opts) ''RewardDistributeFailed'' [map VAddress operatorAddress]
        (new_iterator (filterer_contract f) ''RewardDistributeFailed'') (StakeHubFilterer_FilterRewardDistributeFailed lib f opts operatorAddress)"
  unfolding StakeHubFilterer_FilterRewardDistributeFailed_def append_rule_map
  by (rule queriesI) (simp add: find_event_def StakeHub_events_def, simp add: list_all_iff)

lemma queries_WatchRewardDistributeFailed:
  "queries (bound_WatchLogs lib (filterer_contract f) opts) ''RewardDistributeFailed'' [map VAddress operatorAddress]
        new_watch (StakeHubFilterer_WatchRewardDistributeFailed lib f opts operatorAddress)"
  unfolding StakeHubFilterer_WatchRewardDistributeFailed_def append_rule_map
  by (rule queriesI) (simp add: find_event_def StakeHub_events_def, simp add: list_all_iff)

lemma queries_FilterRewardDistributed:
  "queries (bound_FilterLogs lib (filterer_contract f) opts) ''RewardDistributed'' [map VAddress operatorAddress]
        (new_iterator (filterer_contract f) ''RewardDistributed'') (StakeHubFilterer_FilterRewardDistributed lib f opts operatorAddress)"
  unfolding StakeHubFilterer_FilterRewardDistributed_def append_rule_map
  by (rule queriesI) (simp add: find_event_def StakeHub_events_def, simp add: list_all_iff)

lemma queries_WatchRewardDistributed:
  "queries (bound_WatchLogs lib (filterer_contract f) opts) ''RewardDistributed'' [map VAddress operatorAddress]
        new_watch (StakeHubFilterer_WatchRewardDistributed lib f opts operatorAddress)"
  unfolding StakeHubFilterer_WatchRewardDistributed_def append_rule_map
  by (rule queriesI) (simp add: find_event_def StakeHub_events_def, simp add: list_all_iff)

lemma queries_FilterUndelegated:
  "queries (bound_FilterLogs lib (filterer_contract f) opts) ''Undelegated'' [map VAddress operatorAddress, map VAddress delegator]
        (new_iterator (filterer_contract f) ''Undelegated'') (StakeHubFilterer_FilterUndelegated lib f opts operatorAddress delegator)"
  unfolding StakeHubFilterer_FilterUndelegated_def append_rule_map
  by (rule queriesI) (simp add: find_event_def StakeHub_events_def, simp add: list_all_iff)

lemma queries_WatchUndelegated:
  "queries (bound_WatchLogs lib (filterer_contract f) opts) ''Undelegated'' [map VAddress operatorAddress, map VAddress delegator]
        new_watch (StakeHubFilterer_WatchUndelegated lib f opts operatorAddress delegator)"
  unfolding StakeHubFilterer_WatchUndelegated_def append_rule_map
  by (rule queriesI) (simp add: find_event_def StakeHub_events_def, simp add: list_all_iff)

lemma queries_FilterValidatorCreated:
  "queries (bound_FilterLogs lib (filterer_contract f) opts) ''ValidatorCreated'' [map VAddress consensusAddress, map VAddress operatorAddress, map VAddress creditContract]
        (new_iterator (filterer_contract f) ''ValidatorCreated'') (StakeHubFilterer_FilterValidatorCreated lib f opts consensusAddress operatorAddress creditContract)"
  unfolding StakeHubFilterer_FilterValidatorCreated_def append_rule_map
  by (rule queriesI) (simp add: find_event_def StakeHub_events_def, simp add: list_all_iff)

lemma queries_WatchValidatorCreated:
  "queries (bound_WatchLogs lib (filterer_contract f) opts) ''ValidatorCreated'' [map VAddress consensusAddress, map VAddress operatorAddress, map VAddress creditContract]
        new_watch (StakeHubFilterer_WatchValidatorCreated lib f opts consensusAddress operatorAddress creditContract)"
  unfolding StakeHubFilterer_WatchValidatorCreated_def append_rule_map
  by (rule queriesI) (simp add: find_event_def StakeHub_events_def, simp add: list_all_iff)

lemma queries_FilterValidatorEmptyJailed:
  "queries (bound_FilterLogs lib (filterer_contract f) opts) ''ValidatorEmptyJailed'' [map VAddress operatorAddress]
        (new_iterator (filterer_contract f) ''ValidatorEmptyJailed'') (StakeHubFilterer_FilterValidatorEmptyJailed lib f opts operatorAddress)"
  unfolding StakeHubFilterer_FilterValidatorEmptyJailed_def append_rule_map
  by (rule queriesI) (simp add: find_event_def StakeHub_events_def, simp add: list_all_iff)

lemma queries_WatchValidatorEmptyJailed:
  "queries (bound_WatchLogs lib (filterer_contract f) opts) ''ValidatorEmptyJailed'' [map VAddress operatorAddress]
        new_watch (StakeHubFilterer_WatchValidatorEmptyJailed lib f opts operatorAddress)"
  unfolding StakeHubFilterer_WatchValidatorEmptyJailed_def append_rule_map
  by (rule queriesI) (simp add: find_event_def StakeHub_events_def, simp add: list_all_iff)

lemma queries_FilterValidatorJailed:
  "queries (bound_FilterLogs lib (filterer_contract f) opts) ''ValidatorJailed'' [map VAddress operatorAddress]
        (new_iterator (filterer_contract f) ''ValidatorJailed'') (StakeHubFilterer_FilterValidatorJailed lib f opts operatorAddress)"
  unfolding StakeHubFilterer_FilterValidatorJailed_def append_rule_map
  by (rule queriesI) (simp add: find_event_def StakeHub_events_def, simp add: list_all_iff)

lemma queries_WatchValidatorJailed:
  "queries (bound_WatchLogs lib (filterer_contract f) opts) ''ValidatorJailed'' [map VAddress operatorAddress]
        new_watch (StakeHubFilterer_WatchValidatorJailed lib f opts operatorAddress)"
  unfolding StakeHubFilterer_WatchValidatorJailed_def append_rule_map
  by (rule queriesI) (simp add: find_event_def StakeHub_events_def, simp add: list_all_iff)

lemma queries_FilterValidatorSlashed:
  "queries (bound_FilterLogs lib (filterer_contract f) opts) ''ValidatorSlashed'' [map VAddress operatorAddress]
        (new_iterator (filterer_contract f) ''ValidatorSlashed'') (StakeHubFilterer_FilterValidatorSlashed lib f opts operatorAddress)"
  unfolding StakeHubFilterer_FilterValidatorSlashed_def append_rule_map
  by (rule queriesI) (simp add: find_event_def StakeHub_events_def, simp add: list_all_iff)

lemma queries_WatchValidatorSlashed:
  "queries (bound_WatchLogs lib (filterer_contract f) opts) ''ValidatorSlashed'' [map VAddress operatorAddress]
        new_watch (StakeHubFilterer_WatchValidatorSlashed lib f opts operatorAddress)"
  unfolding StakeHubFilterer_WatchValidatorSlashed_def append_rule_map
  by (rule queriesI) (simp add: find_event_def StakeHub_events_def, simp add: list_all_iff)

lemma queries_FilterValidatorUnjailed:
  "queries (bound_FilterLogs lib (filterer_contract f) opts) ''ValidatorUnjailed'' [map VAddress operatorAddress]
        (new_iterator (filterer_contract f) ''ValidatorUnjailed'') (StakeHubFilterer_FilterValidatorUnjailed lib f opts operatorAddress)"
  unfolding StakeHubFilterer_FilterValidatorUnjailed_def append_rule_map
  by (rule queriesI) (simp add: find_event_def StakeHub_events_def, simp add: list_all_iff)

lemma queries_WatchValidatorUnjailed:
  "queries (bound_WatchLogs lib (filterer_contract f) opts) ''ValidatorUnjailed'' [map VAddress operatorAddress]
        new_watch (StakeHubFilterer_WatchValidatorUnjailed lib f opts operatorAddress)"
  unfolding StakeHubFilterer_WatchValidatorUnjailed_def append_rule_map
  by (rule queriesI) (simp add: find_event_def StakeHub_events_def, simp add: list_all_iff)

lemma queries_FilterVoteAddressEdited:
  "queries (bound_FilterLogs lib (filterer_contract f) opts) ''VoteAddressEdited'' [map VAddress operatorAddress]
        (new_iterator (filterer_contract f) ''VoteAddressEdited'') (StakeHubFilterer_FilterVoteAddressEdited lib f opts operatorAddress)"
  unfolding StakeHubFilterer_FilterVoteAddressEdited_def append_rule_map
  by (rule queriesI) (simp add: find_event_def StakeHub_events_def, simp add: list_all_iff)

lemma queries_WatchVoteAddressEdited:
  "queries (bound_WatchLogs lib (filterer_contract f) opts) ''VoteAddressEdited'' [map VAddress operatorAddress]
        new_watch (StakeHubFilterer_WatchVoteAddressEdited lib f opts operatorAddress)"
  unfolding StakeHubFilterer_WatchVoteAddressEdited_def append_rule_map
  by (rule queriesI) (simp add: find_event_def StakeHub_events_def, simp add: list_all_iff)

section \<open>Properties\<close>

text \<open>Each of the 19 Filter methods queries an event of the embedded ABI with exactly one rule
  per indexed parameter, in the ABI's order, listing exactly the given addresses; it returns the
  query's error with a nil iterator, and otherwise a fresh iterator over the channel and
  subscription it was given, for that event.\<close>

theorem filters_query_indexed_parameters:
  "queries (bound_FilterLogs lib (filterer_contract f) opts) ''Claimed'' [map VAddress operatorAddress, map VAddress delegator]
        (new_iterator (filterer_contract f) ''Claimed'') (StakeHubFilterer_FilterClaimed lib f opts operatorAddress delegator)
    \<and> queries (bound_FilterLogs lib (filterer_contract f) opts) ''CommissionRateEdited'' [map VAddress operatorAddress]
        (new_iterator (filterer_contract f) ''CommissionRateEdited'') (StakeHubFilterer_FilterCommissionRateEdited lib f opts operatorAddress)
    \<and> queries (bound_FilterLogs lib (filterer_contract f) opts) ''ConsensusAddressEdited'' [map VAddress operatorAddress, map VAddress newConsensusAddress]
        (new_iterator (filterer_contract f) ''ConsensusAddressEdited'') (StakeHubFilterer_FilterConsensusAddressEdited lib f opts operatorAddress newConsensusAddress)
    \<and> queries (bound_FilterLogs lib (filterer_contract f) opts) ''Delegated'' [map VAddress operatorAddress, map VAddress delegator]
        (new_iterator (filterer_contract f) ''Delegated'') (StakeHubFilterer_FilterDelegated lib f opts operatorAddress delegator)
    \<and> queries (bound_FilterLogs lib (filterer_contract f) opts) ''DescriptionEdited'' [map VAddress operatorAddress]
        (new_iterator (filterer_contract f) ''DescriptionEdited'') (StakeHubFilterer_FilterDescriptionEdited lib f opts operatorAddress)
    \<and> queries (bound_FilterLogs lib (filterer_contract f) opts) ''Initialized'' []
        (new_iterator (filterer_contract f) ''Initialized'') (StakeHubFilterer_FilterInitialized lib f opts)
    \<and> queries (bound_FilterLogs lib (filterer_contract f) opts) ''ParamChange'' []
        (new_iterator (filterer_contract f) ''ParamChange'') (StakeHubFilterer_FilterParamChange lib f opts)
    \<and> queries (bound_FilterLogs lib (filterer_contract f) opts) ''Paused'' []
        (new_iterator (filterer_contract f) ''Paused'') (StakeHubFilterer_FilterPaused lib f opts)
    \<and> queries (bound_FilterLogs lib (filterer_contract f) opts) ''Redelegated'' [map VAddress srcValidator, map VAddress dstValidator, map VAddress delegator]
        (new_iterator (filterer_contract f) ''Redelegated'') (StakeHubFilterer_FilterRedelegated lib f opts srcValidator dstValidator delegator)
    \<and> queries (bound_FilterLogs lib (filterer_contract f) opts) ''Resumed'' []
        (new_iterator (filterer_contract f) ''Resumed'') (StakeHubFilterer_FilterResumed lib f opts)
    \<and> queries (bound_FilterLogs lib (filterer_contract f) opts) ''RewardDistributeFailed'' [map VAddress operatorAddress]
        (new_iterator (filterer_contract f) ''RewardDistributeFailed'') (StakeHubFilterer_FilterRewardDistributeFailed lib f opts operatorAddress)
    \<and> queries (bound_FilterLogs lib (filterer_contract f) opts) ''RewardDistributed'' [map VAddress operatorAddress]
        (new_iterator (filterer_contract f) ''RewardDistributed'') (StakeHubFilterer_FilterRewardDistributed lib f opts operatorAddress)
    \<and> queries (bound_FilterLogs lib (filterer_contract f) opts) ''Undelegated'' [map VAddress operatorAddress, map VAddress delegator]
        (new_iterator (filterer_contract f) ''Undelegated'') (StakeHubFilterer_FilterUndelegated lib f opts operatorAddress delegator)
    \<and> queries (bound_FilterLogs lib (filterer_contract f) opts) ''ValidatorCreated'' [map VAddress consensusAddress, map VAddress operatorAddress, map VAddress creditContract]
        (new_iterator (filterer_contract f) ''ValidatorCreated'') (StakeHubFilterer_FilterValidatorCreated lib f opts consensusAddress operatorAddress creditContract)
    \<and> queries (bound_FilterLogs lib (filterer_contract f) opts) ''ValidatorEmptyJailed'' [map VAddress operatorAddress]
        (new_iterator (filterer_contract f) ''ValidatorEmptyJailed'') (StakeHubFilterer_FilterValidatorEmptyJailed lib f opts operatorAddress)
    \<and> queries (bound_FilterLogs lib (filterer_contract f) opts) ''ValidatorJailed'' [map VAddress operatorAddress]
        (new_iterator (filterer_contract f) ''ValidatorJailed'') (StakeHubFilterer_FilterValidatorJailed lib f opts operatorAddress)
    \<and> queries (bound_FilterLogs lib (filterer_contract f) opts) ''ValidatorSlashed'' [map VAddress operatorAddress]
        (new_iterator (filterer_contract f) ''ValidatorSlashed'') (StakeHubFilterer_FilterValidatorSlashed lib f opts operatorAddress)
    \<and> queries (bound_FilterLogs lib (filterer_contract f) opts) ''ValidatorUnjailed'' [map VAddress operatorAddress]
        (new_iterator (filterer_contract f) ''ValidatorUnjailed'') (StakeHubFilterer_FilterValidatorUnjailed lib f opts operatorAddress)
    \<and> queries (bound_FilterLogs lib (filterer_contract f) opts) ''VoteAddressEdited'' [map VAddress operatorAddress]
        (new_iterator (filterer_contract f) ''VoteAddressEdited'') (StakeHubFilterer_FilterVoteAddressEdited lib f opts operatorAddress)"
  by (intro conjI queries_FilterClaimed queries_FilterCommissionRateEdited queries_FilterConsensusAddressEdited queries_FilterDelegated queries_FilterDescriptionEdited queries_FilterInitialized queries_FilterParamChange queries_FilterPaused queries_FilterRedelegated queries_FilterResumed queries_FilterRewardDistributeFailed queries_FilterRewardDistributed queries_FilterUndelegated queries_FilterValidatorCreated queries_FilterValidatorEmptyJailed queries_FilterValidatorJailed queries_FilterValidatorSlashed queries_FilterValidatorUnjailed queries_FilterVoteAddressEdited)

text \<open>Each of the 19 Watch methods subscribes to an event of the embedded ABI with exactly one
  rule per indexed parameter; on an error it starts no goroutine, and otherwise a goroutine that
  has sent nothing yet over the channel and subscription it was given.\<close>

theorem watches_query_indexed_parameters:
  "queries (bound_WatchLogs lib (filterer_contract f) opts) ''Claimed'' [map VAddress operatorAddress, map VAddress delegator]
        new_watch (StakeHubFilterer_WatchClaimed lib f opts operatorAddress delegator)
    \<and> queries (bound_WatchLogs lib (filterer_contract f) opts) ''CommissionRateEdited'' [map VAddress operatorAddress]
        new_watch (StakeHubFilterer_WatchCommissionRateEdited lib f opts operatorAddress)
    \<and> queries (bound_WatchLogs lib (filterer_contract f) opts) ''ConsensusAddressEdited'' [map VAddress operatorAddress, map VAddress newConsensusAddress]
        new_watch (StakeHubFilterer_WatchConsensusAddressEdited lib f opts operatorAddress newConsensusAddress)
    \<and> queries (bound_WatchLogs lib (filterer_contract f) opts) ''Delegated'' [map VAddress operatorAddress, map VAddress delegator]
        new_watch (StakeHubFilterer_WatchDelegated lib f opts operatorAddress delegator)
    \<and> queries (bound_WatchLogs lib (filterer_contract f) opts) ''DescriptionEdited'' [map VAddress operatorAddress]
        new_watch (StakeHubFilterer_WatchDescriptionEdited lib f opts operatorAddress)
    \<and> queries (bound_WatchLogs lib (filterer_contract f) opts) ''Initialized'' []
        new_watch (StakeHubFilterer_WatchInitialized lib f opts)
    \<and> queries (bound_WatchLogs lib (filterer_contract f) opts) ''ParamChange'' []
        new_watch (StakeHubFilterer_WatchParamChange lib f opts)
    \<and> queries (bound_WatchLogs lib (filterer_contract f) opts) ''Paused'' []
        new_watch (StakeHubFilterer_WatchPaused lib f opts)
    \<and> queries (bound_WatchLogs lib (filterer_contract f) opts) ''Redelegated'' [map VAddress srcValidator, map VAddress dstValidator, map VAddress delegator]
        new_watch (StakeHubFilterer_WatchRedelegated lib f opts srcValidator dstValidator delegator)
    \<and> queries (bound_WatchLogs lib (filterer_contract f) opts) ''Resumed'' []
        new_watch (StakeHubFilterer_WatchResumed lib f opts)
    \<and> queries (bound_WatchLogs lib (filterer_contract f) opts) ''RewardDistributeFailed'' [map VAddress operatorAddress]
        new_watch (StakeHubFilterer_WatchRewardDistributeFailed lib f opts operatorAddress)
    \<and> queries (bound_WatchLogs lib (filterer_contract f) opts) ''RewardDistributed'' [map VAddress operatorAddress]
        new_watch (StakeHubFilterer_WatchRewardDistributed lib f opts operatorAddress)
    \<and> queries (bound_WatchLogs lib (filterer_contract f) opts) ''Undelegated'' [map VAddress operatorAddress, map VAddress delegator]
        new_watch (StakeHubFilterer_WatchUndelegated lib f opts operatorAddress delegator)
    \<and> queries (bound_WatchLogs lib (filterer_contract f) opts) ''ValidatorCreated'' [map VAddress consensusAddress, map VAddress operatorAddress, map VAddress creditContract]
        new_watch (StakeHubFilterer_WatchValidatorCreated lib f opts consensusAddress operatorAddress creditContract)
    \<and> queries (bound_WatchLogs lib (filterer_contract f) opts) ''ValidatorEmptyJailed'' [map VAddress operatorAddress]
        new_watch (StakeHubFilterer_WatchValidatorEmptyJailed lib f opts operatorAddress)
    \<and> queries (bound_WatchLogs lib (filterer_contract f) opts) ''ValidatorJailed'' [map VAddress operatorAddress]
        new_watch (StakeHubFilterer_WatchValidatorJailed lib f opts operatorAddress)
    \<and> queries (bound_WatchLogs lib (filterer_contract f) opts) ''ValidatorSlashed'' [map VAddress operatorAddress]
        new_watch (StakeHubFilterer_WatchValidatorSlashed lib f opts operatorAddress)
    \<and> queries (bound_WatchLogs lib (filterer_contract f) opts) ''ValidatorUnjailed'' [map VAddress operatorAddress]
        new_watch (StakeHubFilterer_WatchValidatorUnjailed lib f opts operatorAddress)
    \<and> queries (bound_WatchLogs lib (filterer_contract f) opts) ''VoteAddressEdited'' [map VAddress operatorAddress]
        new_watch (StakeHubFilterer_WatchVoteAddressEdited lib f opts operatorAddress)"
  by (intro conjI queries_WatchClaimed queries_WatchCommissionRateEdited queries_WatchConsensusAddressEdited queries_WatchDelegated queries_WatchDescriptionEdited queries_WatchInitialized queries_WatchParamChange queries_WatchPaused queries_WatchRedelegated queries_WatchResumed queries_WatchRewardDistributeFailed queries_WatchRewardDistributed queries_WatchUndelegated queries_WatchValidatorCreated queries_WatchValidatorEmptyJailed queries_WatchValidatorJailed queries_WatchValidatorSlashed queries_WatchValidatorUnjailed queries_WatchVoteAddressEdited)

text \<open>Parsing one log agrees with iterating it: \<open>ParseClaimed\<close> succeeds on a log exactly
  when \<open>Next\<close>, with that log at the front of an iterator in progress, hands out an event, and
  then both give the same event with the raw log attached; when it fails, both report the same
  error.\<close>

theorem parse_agrees_with_next:
  "case StakeHubFilterer_ParseClaimed UnpackLog f log of
     (Some ev, None) \<Rightarrow> Raw ev = Some log \<and>
       StakeHubClaimedIterator_Next UnpackLog True (new_iterator (filterer_contract f) ''Claimed'' (log # logs) sub)
         = Some (True, (new_iterator (filterer_contract f) ''Claimed'' logs sub)\<lparr>Event := Some ev\<rparr>)
   | (None, Some err) \<Rightarrow>
       (\<exists>it. StakeHubClaimedIterator_Next UnpackLog True (new_iterator (filterer_contract f) ''Claimed'' (log # logs) sub)
         = Some (False, it) \<and> StakeHubClaimedIterator_Error it = Some err)
   | _ \<Rightarrow> False"
proof -
  obtain ev err where u: "unpack_raw (UnpackLog (filterer_contract f)) new_StakeHubClaimed ''Claimed'' log = (ev, err)"
    by (metis surj_pair)
  have n: "iterator_Next UnpackLog new_StakeHubClaimed True (new_iterator (filterer_contract f) ''Claimed'' (log # logs) sub)
     = Some (take_log UnpackLog new_StakeHubClaimed log (new_iterator (filterer_contract f) ''Claimed'' logs sub))"
    by (auto simp: iterator_Next.simps new_iterator_def split: option.split)
  show ?thesis
  proof (cases err)
    case None
    with u have "Raw ev = Some log"
      by (auto simp: unpack_raw_def split: prod.splits option.splits)
    with u n None show ?thesis
      by (simp add: StakeHubFilterer_ParseClaimed_def StakeHubClaimedIterator_Next_def parse_log_def
          take_log_def new_iterator_def)
  next
    case (Some e)
    with u n show ?thesis
      by (simp add: StakeHubFilterer_ParseClaimed_def StakeHubClaimedIterator_Next_def parse_log_def
          take_log_def new_iterator_def StakeHubClaimedIterator_Error_def iterator_Error_def)
  qed
qed

end
