(* ===== verification/StakeHubLogs.thy ===== *)
theory StakeHubLogs
  imports StakeHubEvents
begin

text \<open>
  What a caller of the binding sees of the events: a \<open>Filter\<close> method together with the
  iterator it returns, and a \<open>Watch\<close> method together with the goroutine it starts, each
  measured against the \<open>Parse\<close> method of its event.
\<close>

section \<open>Parsing as the reference\<close>

text \<open>The event \<open>Parse\<close> gives for a log is the one \<open>Next\<close> and the goroutine decode.\<close>

lemma parse_log_event: "fst (parse_log unpack new name log) = decode unpack new name log"
  by (auto simp: parse_log_def decode_def split: prod.split option.split)

lemma parse_log_fails:
  "snd (parse_log unpack new name log) = None \<longleftrightarrow> decode unpack new name log \<noteq> None"
  by (auto simp: parse_log_def decode_def split: prod.split option.split)

lemmas parse_log_decode = parse_log_event parse_log_fails

section \<open>Filtering and iterating\<close>

text \<open>Filtering reads events: the query is one of the embedded ABI with a rule per indexed
  parameter, its error comes back with nil; otherwise the caller's loop \<open>for it.Next()\<close> over
  the iterator, once the subscription has ended without an error, never blocks and hands out what
  \<open>parse\<close> gives for the logs found, in order, up to the first log it rejects;
  \<open>Error()\<close> is then nil exactly if it rejects none.\<close>

definition reads_events where
  "reads_events run name rules m advance error parse \<longleftrightarrow> asks name rules \<and>
     (\<forall>w. case run name rules w of
        ((logs, sub, Some err), w') \<Rightarrow> m w = (Ret (None, Some err), w')
      | ((logs, sub, None), w') \<Rightarrow> \<exists>it. m w = (Ret (Some it, None), w') \<and>
          (\<forall>sub' choices. recv_err sub = Some (None, sub') \<and> length logs < length choices \<longrightarrow>
             (\<exists>it'. drain advance Event choices it
                  = Some (map (\<lambda>log. fst (parse log)) (takeWhile (\<lambda>log. snd (parse log) = None) logs), it')
                \<and> (error it' = None \<longleftrightarrow> (\<forall>log \<in> set logs. snd (parse log) = None)))))"

lemma reads_eventsI:
  assumes "queries run name rules (new_iterator c name) m"
  shows "reads_events run name rules m (iterator_Next unpack new) iterator_Error (parse_log (unpack c) new name)"
proof -
  have d: "\<exists>it'. drain (iterator_Next unpack new) Event choices (new_iterator c name logs sub)
        = Some (map (decode (unpack c) new name) (takeWhile (\<lambda>log. decode (unpack c) new name log \<noteq> None) logs), it')
      \<and> (iterator_Error it' = None \<longleftrightarrow> (\<forall>log \<in> set logs. decode (unpack c) new name log \<noteq> None))"
    if "recv_err sub = Some (None, sub')" "length logs < length choices" for logs sub sub' choices
    using iterator_drains_all [of "new_iterator c name logs sub" sub' choices unpack new] that
    by (simp add: new_iterator_def)
  show ?thesis
    unfolding reads_events_def parse_log_decode
  proof (intro conjI allI)
    show "asks name rules"
      using assms by (simp add: queries_def)
  next
    fix w
    obtain logs sub err w' where r: "run name rules w = ((logs, sub, err), w')"
      by (metis surj_pair)
    show "case run name rules w of
        ((logs, sub, Some err), w') \<Rightarrow> m w = (Ret (None, Some err), w')
      | ((logs, sub, None), w') \<Rightarrow> \<exists>it. m w = (Ret (Some it, None), w') \<and>
          (\<forall>sub' choices. recv_err sub = Some (None, sub') \<and> length logs < length choices \<longrightarrow>
             (\<exists>it'. drain (iterator_Next unpack new) Event choices it
                  = Some (map (decode (unpack c) new name)
                      (takeWhile (\<lambda>log. decode (unpack c) new name log \<noteq> None) logs), it')
                \<and> (iterator_Error it' = None
                   \<longleftrightarrow> (\<forall>log \<in> set logs. decode (unpack c) new name log \<noteq> None))))"
    proof (cases err)
      case None
      with assms r have "m w = (Ret (Some (new_iterator c name logs sub), None), w')"
        by (auto simp: queries_def dest: spec [of _ w])
      with d r None show ?thesis by simp
    next
      case (Some e)
      with assms r show ?thesis by (auto simp: queries_def dest: spec [of _ w])
    qed
  qed
qed

section \<open>Watching\<close>

text \<open>The states a started goroutine comes to, in any interleaving with its environment.\<close>

definition watch_runs where
  "watch_runs go = (\<lambda>wa wa'. go wa wa' \<or> watch_env wa wa')\<^sup>*\<^sup>*"

lemma watch_runs_start: "watch_runs go wa wa"
  by (simp add: watch_runs_def)

lemma watch_runs_go: "watch_runs go wa wb \<Longrightarrow> go wb wc \<Longrightarrow> watch_runs go wa wc"
  unfolding watch_runs_def by (erule rtranclp.rtrancl_into_rtrancl) simp

lemma watch_runs_reach:
  assumes "watch_runs (watch_step unpack new name) (new_watch logs sub) wa" and "sub_unsubscribed sub = 0"
  shows "watch_reach unpack new name wa"
  using assms(1) unfolding watch_runs_def
proof (induction rule: rtranclp_induct)
  case base
  with assms(2) show ?case by (rule watch_reach.start)
next
  case (step wa wa')
  then show ?case by (blast intro: watch_reach.run watch_reach.env)
qed

text \<open>Nothing that arrived is forgotten.\<close>

lemma watch_step_pushed: "watch_step unpack new name wa wa' \<Longrightarrow> wa_pushed wa' = wa_pushed wa"
  by (induction rule: watch_step.induct) (simp_all add: watch_return_def)

lemma watch_env_pushed: "watch_env wa wa' \<Longrightarrow> \<exists>more. wa_pushed wa' = wa_pushed wa @ more"
  by (induction rule: watch_env.induct) simp_all

lemma watch_runs_pushed:
  assumes "watch_runs (watch_step unpack new name) (new_watch logs sub) wa"
  shows "\<exists>more. wa_pushed wa = logs @ more"
  using assms unfolding watch_runs_def
proof (induction rule: rtranclp_induct)
  case base
  then show ?case by (simp add: new_watch_def)
next
  case (step wa wa')
  then show ?case using watch_step_pushed watch_env_pushed by fastforce
qed

text \<open>Watching forwards events: the subscription is one of the embedded ABI with a rule per
  indexed parameter, its error comes back and nothing is started; otherwise, in every state the
  goroutine comes to, what it has sent is what \<open>parse\<close> gives for a prefix of the logs, first
  the ones of the subscription and then those that arrived; it has unsubscribed once if it has
  returned and not at all before; and once \<open>quit\<close> is closed it can return.\<close>

definition forwards_events where
  "forwards_events run name rules m go parse \<longleftrightarrow> asks name rules \<and>
     (\<forall>w. case run name rules w of
        ((logs, sub, Some err), w') \<Rightarrow> m w = (Ret (None, Some err), w')
      | ((logs, sub, None), w') \<Rightarrow> \<exists>start. m w = (Ret (Some start, None), w') \<and>
          (\<forall>wa. sub_unsubscribed sub = 0 \<and> watch_runs go start wa \<longrightarrow>
             (\<exists>more n. wa_pushed wa = logs @ more
                \<and> map Some (wa_sent wa) = map (\<lambda>log. fst (parse log)) (take n (wa_pushed wa)))
             \<and> sub_unsubscribed (wa_sub wa) = (if \<exists>r. wa_pc wa = Returned r then 1 else 0)
             \<and> (wa_quit wa \<and> (\<nexists>r. wa_pc wa = Returned r) \<longrightarrow>
                  (\<exists>wa'. go wa wa' \<and> wa_pc wa' = Returned None))))"

lemma forwards_eventsI:
  assumes "queries run name rules new_watch m"
  shows "forwards_events run name rules m (watch_step unpack new name) (parse_log unpack new name)"
proof -
  have run: "(\<exists>more n. wa_pushed wa = logs @ more
        \<and> map Some (wa_sent wa) = map (decode unpack new name) (take n (wa_pushed wa)))
      \<and> sub_unsubscribed (wa_sub wa) = (if \<exists>r. wa_pc wa = Returned r then 1 else 0)
      \<and> (wa_quit wa \<and> (\<nexists>r. wa_pc wa = Returned r) \<longrightarrow>
           (\<exists>wa'. watch_step unpack new name wa wa' \<and> wa_pc wa' = Returned None))"
    if r: "sub_unsubscribed sub = 0" "watch_runs (watch_step unpack new name) (new_watch logs sub) wa"
    for logs sub wa
  proof -
    have w: "watch_reach unpack new name wa"
      by (rule watch_runs_reach [OF r(2,1)])
    show ?thesis
      using watch_runs_pushed [OF r(2)] watch_forwards_prefix [OF w] watch_unsubscribes_once [OF w]
        watch_quit_returns [of wa unpack new name] by auto
  qed
  show ?thesis
    unfolding forwards_events_def parse_log_event
  proof (intro conjI allI)
    show "asks name rules"
      using assms by (simp add: queries_def)
  next
    fix w
    obtain logs sub err w' where r: "run name rules w = ((logs, sub, err), w')"
      by (metis surj_pair)
    have m: "m w = (case err of None \<Rightarrow> (Ret (Some (new_watch logs sub), None), w')
        | Some e \<Rightarrow> (Ret (None, Some e), w'))"
      using assms r by (auto simp: queries_def dest: spec [of _ w] split: option.split)
    show "case run name rules w of
        ((logs, sub, Some err), w') \<Rightarrow> m w = (Ret (None, Some err), w')
      | ((logs, sub, None), w') \<Rightarrow> \<exists>start. m w = (Ret (Some start, None), w') \<and>
          (\<forall>wa. sub_unsubscribed sub = 0 \<and> watch_runs (watch_step unpack new name) start wa \<longrightarrow>
             (\<exists>more n. wa_pushed wa = logs @ more
                \<and> map Some (wa_sent wa) = map (decode unpack new name) (take n (wa_pushed wa)))
             \<and> sub_unsubscribed (wa_sub wa) = (if \<exists>r. wa_pc wa = Returned r then 1 else 0)
             \<and> (wa_quit wa \<and> (\<nexists>r. wa_pc wa = Returned r) \<longrightarrow>
                  (\<exists>wa'. watch_step unpack new name wa wa' \<and> wa_pc wa' = Returned None)))"
    proof (cases err)
      case None
      show ?thesis
        unfolding r None using m None run by auto
    next
      case (Some e)
      with m r show ?thesis by simp
    qed
  qed
qed

section \<open>Properties\<close>

text \<open>C24: each of the 19 \<open>Filter\<close> methods, with the iterator it returns and the
  \<open>Parse\<close> method of its event, reads events: exactly one ABI query with a rule per indexed
  parameter; its error with nil; else, after a clean end of the subscription, the loop over
  \<open>Next\<close> ends and yields what \<open>Parse\<close> gives for the logs found, in order, up to the
  first one \<open>Parse\<close> rejects, with \<open>Error\<close> nil exactly if there is none.\<close>

theorem filter_methods_read:
  "reads_events (bound_FilterLogs lib (filterer_contract f) opts) ''Claimed'' [map VAddress operatorAddress, map VAddress delegator]
        (StakeHubFilterer_FilterClaimed lib f opts operatorAddress delegator)
        (StakeHubClaimedIterator_Next UnpackClaimed) StakeHubClaimedIterator_Error (StakeHubFilterer_ParseClaimed UnpackClaimed f)
    \<and> reads_events (bound_FilterLogs lib (filterer_contract f) opts) ''CommissionRateEdited'' [map VAddress operatorAddress]
        (StakeHubFilterer_FilterCommissionRateEdited lib f opts operatorAddress)
        (StakeHubCommissionRateEditedIterator_Next UnpackCommissionRateEdited) StakeHubCommissionRateEditedIterator_Error (StakeHubFilterer_ParseCommissionRateEdited UnpackCommissionRateEdited f)
    \<and> reads_events (bound_FilterLogs lib (filterer_contract f) opts) ''ConsensusAddressEdited'' [map VAddress operatorAddress, map VAddress newConsensusAddress]
        (StakeHubFilterer_FilterConsensusAddressEdited lib f opts operatorAddress newConsensusAddress)
        (StakeHubConsensusAddressEditedIterator_Next UnpackConsensusAddressEdited) StakeHubConsensusAddressEditedIterator_Error (StakeHubFilterer_ParseConsensusAddressEdited UnpackConsensusAddressEdited f)
    \<and> reads_events (bound_FilterLogs lib (filterer_contract f) opts) ''Delegated'' [map VAddress operatorAddress, map VAddress delegator]
        (StakeHubFilterer_FilterDelegated lib f opts operatorAddress delegator)
        (StakeHubDelegatedIterator_Next UnpackDelegated) StakeHubDelegatedIterator_Error (StakeHubFilterer_ParseDelegated UnpackDelegated f)
    \<and> reads_events (bound_FilterLogs lib (filterer_contract f) opts) ''DescriptionEdited'' [map VAddress operatorAddress]
        (StakeHubFilterer_FilterDescriptionEdited lib f opts operatorAddress)
        (StakeHubDescriptionEditedIterator_Next UnpackDescriptionEdited) StakeHubDescriptionEditedIterator_Error (StakeHubFilterer_ParseDescriptionEdited UnpackDescriptionEdited f)
    \<and> reads_events (bound_FilterLogs lib (filterer_contract f) opts) ''Initialized'' []
        (StakeHubFilterer_FilterInitialized lib f opts)
        (StakeHubInitializedIterator_Next UnpackInitialized) StakeHubInitializedIterator_Error (StakeHubFilterer_ParseInitialized UnpackInitialized f)
    \<and> reads_events (bound_FilterLogs lib (filterer_contract f) opts) ''ParamChange'' []
        (StakeHubFilterer_FilterParamChange lib f opts)
        (StakeHubParamChangeIterator_Next UnpackParamChange) StakeHubParamChangeIterator_Error (StakeHubFilterer_ParseParamChange UnpackParamChange f)
    \<and> reads_events (bound_FilterLogs lib (filterer_contract f) opts) ''Paused'' []
        (StakeHubFilterer_FilterPaused lib f opts)
        (StakeHubPausedIterator_Next UnpackPaused) StakeHubPausedIterator_Error (StakeHubFilterer_ParsePaused UnpackPaused f)
    \<and> reads_events (bound_FilterLogs lib (filterer_contract f) opts) ''Redelegated'' [map VAddress srcValidator, map VAddress dstValidator, map VAddress delegator]
        (StakeHubFilterer_FilterRedelegated lib f opts srcValidator dstValidator delegator)
        (StakeHubRedelegatedIterator_Next UnpackRedelegated) StakeHubRedelegatedIterator_Error (StakeHubFilterer_ParseRedelegated UnpackRedelegated f)
    \<and> reads_events (bound_FilterLogs lib (filterer_contract f) opts) ''Resumed'' []
        (StakeHubFilterer_FilterResumed lib f opts)
        (StakeHubResumedIterator_Next UnpackResumed) StakeHubResumedIterator_Error (StakeHubFilterer_ParseResumed UnpackResumed f)
    \<and> reads_events (bound_FilterLogs lib (filterer_contract f) opts) ''RewardDistributeFailed'' [map VAddress operatorAddress]
        (StakeHubFilterer_FilterRewardDistributeFailed lib f opts operatorAddress)
        (StakeHubRewardDistributeFailedIterator_Next UnpackRewardDistributeFailed) StakeHubRewardDistributeFailedIterator_Error (StakeHubFilterer_ParseRewardDistributeFailed UnpackRewardDistributeFailed f)
    \<and> reads_events (bound_FilterLogs lib (filterer_contract f) opts) ''RewardDistributed'' [map VAddress operatorAddress]
        (StakeHubFilterer_FilterRewardDistributed lib f opts operatorAddress)
        (StakeHubRewardDistributedIterator_Next UnpackRewardDistributed) StakeHubRewardDistributedIterator_Error (StakeHubFilterer_ParseRewardDistributed UnpackRewardDistributed f)
    \<and> reads_events (bound_FilterLogs lib (filterer_contract f) opts) ''Undelegated'' [map VAddress operatorAddress, map VAddress delegator]
        (StakeHubFilterer_FilterUndelegated lib f opts operatorAddress delegator)
        (StakeHubUndelegatedIterator_Next UnpackUndelegated) StakeHubUndelegatedIterator_Error (StakeHubFilterer_ParseUndelegated UnpackUndelegated f)
    \<and> reads_events (bound_FilterLogs lib (filterer_contract f) opts) ''ValidatorCreated'' [map VAddress consensusAddress, map VAddress operatorAddress, map VAddress creditContract]
        (StakeHubFilterer_FilterValidatorCreated lib f opts consensusAddress operatorAddress creditContract)
        (StakeHubValidatorCreatedIterator_Next UnpackValidatorCreated) StakeHubValidatorCreatedIterator_Error (StakeHubFilterer_ParseValidatorCreated UnpackValidatorCreated f)
    \<and> reads_events (bound_FilterLogs lib (filterer_contract f) opts) ''ValidatorEmptyJailed'' [map VAddress operatorAddress]
        (StakeHubFilterer_FilterValidatorEmptyJailed lib f opts operatorAddress)
        (StakeHubValidatorEmptyJailedIterator_Next UnpackValidatorEmptyJailed) StakeHubValidatorEmptyJailedIterator_Error (StakeHubFilterer_ParseValidatorEmptyJailed UnpackValidatorEmptyJailed f)
    \<and> reads_events (bound_FilterLogs lib (filterer_contract f) opts) ''ValidatorJailed'' [map VAddress operatorAddress]
        (StakeHubFilterer_FilterValidatorJailed lib f opts operatorAddress)
        (StakeHubValidatorJailedIterator_Next UnpackValidatorJailed) StakeHubValidatorJailedIterator_Error (StakeHubFilterer_ParseValidatorJailed UnpackValidatorJailed f)
    \<and> reads_events (bound_FilterLogs lib (filterer_contract f) opts) ''ValidatorSlashed'' [map VAddress operatorAddress]
        (StakeHubFilterer_FilterValidatorSlashed lib f opts operatorAddress)
        (StakeHubValidatorSlashedIterator_Next UnpackValidatorSlashed) StakeHubValidatorSlashedIterator_Error (StakeHubFilterer_ParseValidatorSlashed UnpackValidatorSlashed f)
    \<and> reads_events (bound_FilterLogs lib (filterer_contract f) opts) ''ValidatorUnjailed'' [map VAddress operatorAddress]
        (StakeHubFilterer_FilterValidatorUnjailed lib f opts operatorAddress)
        (StakeHubValidatorUnjailedIterator_Next UnpackValidatorUnjailed) StakeHubValidatorUnjailedIterator_Error (StakeHubFilterer_ParseValidatorUnjailed UnpackValidatorUnjailed f)
    \<and> reads_events (bound_FilterLogs lib (filterer_contract f) opts) ''VoteAddressEdited'' [map VAddress operatorAddress]
        (StakeHubFilterer_FilterVoteAddressEdited lib f opts operatorAddress)
        (StakeHubVoteAddressEditedIterator_Next UnpackVoteAddressEdited) StakeHubVoteAddressEditedIterator_Error (StakeHubFilterer_ParseVoteAddressEdited UnpackVoteAddressEdited f)"
  unfolding StakeHubClaimedIterator_Next_def StakeHubClaimedIterator_Error_def StakeHubFilterer_ParseClaimed_def
    StakeHubCommissionRateEditedIterator_Next_def StakeHubCommissionRateEditedIterator_Error_def StakeHubFilterer_ParseCommissionRateEdited_def
    StakeHubConsensusAddressEditedIterator_Next_def StakeHubConsensusAddressEditedIterator_Error_def StakeHubFilterer_ParseConsensusAddressEdited_def
    StakeHubDelegatedIterator_Next_def StakeHubDelegatedIterator_Error_def StakeHubFilterer_ParseDelegated_def
    StakeHubDescriptionEditedIterator_Next_def StakeHubDescriptionEditedIterator_Error_def StakeHubFilterer_ParseDescriptionEdited_def
    StakeHubInitializedIterator_Next_def StakeHubInitializedIterator_Error_def StakeHubFilterer_ParseInitialized_def
    StakeHubParamChangeIterator_Next_def StakeHubParamChangeIterator_Error_def StakeHubFilterer_ParseParamChange_def
    StakeHubPausedIterator_Next_def StakeHubPausedIterator_Error_def StakeHubFilterer_ParsePaused_def
    StakeHubRedelegatedIterator_Next_def StakeHubRedelegatedIterator_Error_def StakeHubFilterer_ParseRedelegated_def
    StakeHubResumedIterator_Next_def StakeHubResumedIterator_Error_def StakeHubFilterer_ParseResumed_def
    StakeHubRewardDistributeFailedIterator_Next_def StakeHubRewardDistributeFailedIterator_Error_def StakeHubFilterer_ParseRewardDistributeFailed_def
    StakeHubRewardDistributedIterator_Next_def StakeHubRewardDistributedIterator_Error_def StakeHubFilterer_ParseRewardDistributed_def
    StakeHubUndelegatedIterator_Next_def StakeHubUndelegatedIterator_Error_def StakeHubFilterer_ParseUndelegated_def
    StakeHubValidatorCreatedIterator_Next_def StakeHubValidatorCreatedIterator_Error_def StakeHubFilterer_ParseValidatorCreated_def
    StakeHubValidatorEmptyJailedIterator_Next_def StakeHubValidatorEmptyJailedIterator_Error_def StakeHubFilterer_ParseValidatorEmptyJailed_def
    StakeHubValidatorJailedIterator_Next_def StakeHubValidatorJailedIterator_Error_def StakeHubFilterer_ParseValidatorJailed_def
    StakeHubValidatorSlashedIterator_Next_def StakeHubValidatorSlashedIterator_Error_def StakeHubFilterer_ParseValidatorSlashed_def
    StakeHubValidatorUnjailedIterator_Next_def StakeHubValidatorUnjailedIterator_Error_def StakeHubFilterer_ParseValidatorUnjailed_def
    StakeHubVoteAddressEditedIterator_Next_def StakeHubVoteAddressEditedIterator_Error_def StakeHubFilterer_ParseVoteAddressEdited_def
  by (intro conjI reads_eventsI queries_FilterClaimed queries_FilterCommissionRateEdited queries_FilterConsensusAddressEdited queries_FilterDelegated queries_FilterDescriptionEdited queries_FilterInitialized queries_FilterParamChange queries_FilterPaused queries_FilterRedelegated queries_FilterResumed queries_FilterRewardDistributeFailed queries_FilterRewardDistributed queries_FilterUndelegated queries_FilterValidatorCreated queries_FilterValidatorEmptyJailed queries_FilterValidatorJailed queries_FilterValidatorSlashed queries_FilterValidatorUnjailed queries_FilterVoteAddressEdited)

text \<open>C25: each of the 19 \<open>Watch\<close> methods, with the goroutine it starts and the \<open>Parse\<close>
  method of its event, forwards events: exactly one ABI subscription with a rule per indexed
  parameter; its error and nothing started; else, in every interleaving of the goroutine with the
  node and the owner of \<open>quit\<close>, what \<open>Parse\<close> gives for a prefix of the logs, in order,
  each once, with one \<open>Unsubscribe\<close> when it returns, which closing \<open>quit\<close> always
  allows.\<close>

theorem watch_methods_forward:
  "forwards_events (bound_WatchLogs lib (filterer_contract f) opts) ''Claimed'' [map VAddress operatorAddress, map VAddress delegator]
        (StakeHubFilterer_WatchClaimed lib f opts operatorAddress delegator)
        (StakeHubFilterer_WatchClaimed_step UnpackClaimed f) (StakeHubFilterer_ParseClaimed UnpackClaimed f)
    \<and> forwards_events (bound_WatchLogs lib (filterer_contract f) opts) ''CommissionRateEdited'' [map VAddress operatorAddress]
        (StakeHubFilterer_WatchCommissionRateEdited lib f opts operatorAddress)
        (StakeHubFilterer_WatchCommissionRateEdited_step UnpackCommissionRateEdited f) (StakeHubFilterer_ParseCommissionRateEdited UnpackCommissionRateEdited f)
    \<and> forwards_events (bound_WatchLogs lib (filterer_contract f) opts) ''ConsensusAddressEdited'' [map VAddress operatorAddress, map VAddress newConsensusAddress]
        (StakeHubFilterer_WatchConsensusAddressEdited lib f opts operatorAddress newConsensusAddress)
        (StakeHubFilterer_WatchConsensusAddressEdited_step UnpackConsensusAddressEdited f) (StakeHubFilterer_ParseConsensusAddressEdited UnpackConsensusAddressEdited f)
    \<and> forwards_events (bound_WatchLogs lib (filterer_contract f) opts) ''Delegated'' [map VAddress operatorAddress, map VAddress delegator]
        (StakeHubFilterer_WatchDelegated lib f opts operatorAddress delegator)
        (StakeHubFilterer_WatchDelegated_step UnpackDelegated f) (StakeHubFilterer_ParseDelegated UnpackDelegated f)
    \<and> forwards_events (bound_WatchLogs lib (filterer_contract f) opts) ''DescriptionEdited'' [map VAddress operatorAddress]
        (StakeHubFilterer_WatchDescriptionEdited lib f opts operatorAddress)
        (StakeHubFilterer_WatchDescriptionEdited_step UnpackDescriptionEdited f) (StakeHubFilterer_ParseDescriptionEdited UnpackDescriptionEdited f)
    \<and> forwards_events (bound_WatchLogs lib (filterer_contract f) opts) ''Initialized'' []
        (StakeHubFilterer_WatchInitialized lib f opts)
        (StakeHubFilterer_WatchInitialized_step UnpackInitialized f) (StakeHubFilterer_ParseInitialized UnpackInitialized f)
    \<and> forwards_events (bound_WatchLogs lib (filterer_contract f) opts) ''ParamChange'' []
        (StakeHubFilterer_WatchParamChange lib f opts)
        (StakeHubFilterer_WatchParamChange_step UnpackParamChange f) (StakeHubFilterer_ParseParamChange UnpackParamChange f)
    \<and> forwards_events (bound_WatchLogs lib (filterer_contract f) opts) ''Paused'' []
        (StakeHubFilterer_WatchPaused lib f opts)
        (StakeHubFilterer_WatchPaused_step UnpackPaused f) (StakeHubFilterer_ParsePaused UnpackPaused f)
    \<and> forwards_events (bound_WatchLogs lib (filterer_contract f) opts) ''Redelegated'' [map VAddress srcValidator, map VAddress dstValidator, map VAddress delegator]
        (StakeHubFilterer_WatchRedelegated lib f opts srcValidator dstValidator delegator)
        (StakeHubFilterer_WatchRedelegated_step UnpackRedelegated f) (StakeHubFilterer_ParseRedelegated UnpackRedelegated f)
    \<and> forwards_events (bound_WatchLogs lib (filterer_contract f) opts) ''Resumed'' []
        (StakeHubFilterer_WatchResumed lib f opts)
        (StakeHubFilterer_WatchResumed_step UnpackResumed f) (StakeHubFilterer_ParseResumed UnpackResumed f)
    \<and> forwards_events (bound_WatchLogs lib (filterer_contract f) opts) ''RewardDistributeFailed'' [map VAddress operatorAddress]
        (StakeHubFilterer_WatchRewardDistributeFailed lib f opts operatorAddress)
        (StakeHubFilterer_WatchRewardDistributeFailed_step UnpackRewardDistributeFailed f) (StakeHubFilterer_ParseRewardDistributeFailed UnpackRewardDistributeFailed f)
    \<and> forwards_events (bound_WatchLogs lib (filterer_contract f) opts) ''RewardDistributed'' [map VAddress operatorAddress]
        (StakeHubFilterer_WatchRewardDistributed lib f opts operatorAddress)
        (StakeHubFilterer_WatchRewardDistributed_step UnpackRewardDistributed f) (StakeHubFilterer_ParseRewardDistributed UnpackRewardDistributed f)
    \<and> forwards_events (bound_WatchLogs lib (filterer_contract f) opts) ''Undelegated'' [map VAddress operatorAddress, map VAddress delegator]
        (StakeHubFilterer_WatchUndelegated lib f opts operatorAddress delegator)
        (StakeHubFilterer_WatchUndelegated_step UnpackUndelegated f) (StakeHubFilterer_ParseUndelegated UnpackUndelegated f)
    \<and> forwards_events (bound_WatchLogs lib (filterer_contract f) opts) ''ValidatorCreated'' [map VAddress consensusAddress, map VAddress operatorAddress, map VAddress creditContract]
        (StakeHubFilterer_WatchValidatorCreated lib f opts consensusAddress operatorAddress creditContract)
        (StakeHubFilterer_WatchValidatorCreated_step UnpackValidatorCreated f) (StakeHubFilterer_ParseValidatorCreated UnpackValidatorCreated f)
    \<and> forwards_events (bound_WatchLogs lib (filterer_contract f) opts) ''ValidatorEmptyJailed'' [map VAddress operatorAddress]
        (StakeHubFilterer_WatchValidatorEmptyJailed lib f opts operatorAddress)
        (StakeHubFilterer_WatchValidatorEmptyJailed_step UnpackValidatorEmptyJailed f) (StakeHubFilterer_ParseValidatorEmptyJailed UnpackValidatorEmptyJailed f)
    \<and> forwards_events (bound_WatchLogs lib (filterer_contract f) opts) ''ValidatorJailed'' [map VAddress operatorAddress]
        (StakeHubFilterer_WatchValidatorJailed lib f opts operatorAddress)
        (StakeHubFilterer_WatchValidatorJailed_step UnpackValidatorJailed f) (StakeHubFilterer_ParseValidatorJailed UnpackValidatorJailed f)
    \<and> forwards_events (bound_WatchLogs lib (filterer_contract f) opts) ''ValidatorSlashed'' [map VAddress operatorAddress]
        (StakeHubFilterer_WatchValidatorSlashed lib f opts operatorAddress)
        (StakeHubFilterer_WatchValidatorSlashed_step UnpackValidatorSlashed f) (StakeHubFilterer_ParseValidatorSlashed UnpackValidatorSlashed f)
    \<and> forwards_events (bound_WatchLogs lib (filterer_contract f) opts) ''ValidatorUnjailed'' [map VAddress operatorAddress]
        (StakeHubFilterer_WatchValidatorUnjailed lib f opts operatorAddress)
        (StakeHubFilterer_WatchValidatorUnjailed_step UnpackValidatorUnjailed f) (StakeHubFilterer_ParseValidatorUnjailed UnpackValidatorUnjailed f)
    \<and> forwards_events (bound_WatchLogs lib (filterer_contract f) opts) ''VoteAddressEdited'' [map VAddress operatorAddress]
        (StakeHubFilterer_WatchVoteAddressEdited lib f opts operatorAddress)
        (StakeHubFilterer_WatchVoteAddressEdited_step UnpackVoteAddressEdited f) (StakeHubFilterer_ParseVoteAddressEdited UnpackVoteAddressEdited f)"
  unfolding StakeHubFilterer_WatchClaimed_step_def StakeHubFilterer_ParseClaimed_def
    StakeHubFilterer_WatchCommissionRateEdited_step_def StakeHubFilterer_ParseCommissionRateEdited_def
    StakeHubFilterer_WatchConsensusAddressEdited_step_def StakeHubFilterer_ParseConsensusAddressEdited_def
    StakeHubFilterer_WatchDelegated_step_def StakeHubFilterer_ParseDelegated_def
    StakeHubFilterer_WatchDescriptionEdited_step_def StakeHubFilterer_ParseDescriptionEdited_def
    StakeHubFilterer_WatchInitialized_step_def StakeHubFilterer_ParseInitialized_def
    StakeHubFilterer_WatchParamChange_step_def StakeHubFilterer_ParseParamChange_def
    StakeHubFilterer_WatchPaused_step_def StakeHubFilterer_ParsePaused_def
    StakeHubFilterer_WatchRedelegated_step_def StakeHubFilterer_ParseRedelegated_def
    StakeHubFilterer_WatchResumed_step_def StakeHubFilterer_ParseResumed_def
    StakeHubFilterer_WatchRewardDistributeFailed_step_def StakeHubFilterer_ParseRewardDistributeFailed_def
    StakeHubFilterer_WatchRewardDistributed_step_def StakeHubFilterer_ParseRewardDistributed_def
    StakeHubFilterer_WatchUndelegated_step_def StakeHubFilterer_ParseUndelegated_def
    StakeHubFilterer_WatchValidatorCreated_step_def StakeHubFilterer_ParseValidatorCreated_def
    StakeHubFilterer_WatchValidatorEmptyJailed_step_def StakeHubFilterer_ParseValidatorEmptyJailed_def
    StakeHubFilterer_WatchValidatorJailed_step_def StakeHubFilterer_ParseValidatorJailed_def
    StakeHubFilterer_WatchValidatorSlashed_step_def StakeHubFilterer_ParseValidatorSlashed_def
    StakeHubFilterer_WatchValidatorUnjailed_step_def StakeHubFilterer_ParseValidatorUnjailed_def
    StakeHubFilterer_WatchVoteAddressEdited_step_def StakeHubFilterer_ParseVoteAddressEdited_def
  by (intro conjI forwards_eventsI queries_WatchClaimed queries_WatchCommissionRateEdited queries_WatchConsensusAddressEdited queries_WatchDelegated queries_WatchDescriptionEdited queries_WatchInitialized queries_WatchParamChange queries_WatchPaused queries_WatchRedelegated queries_WatchResumed queries_WatchRewardDistributeFailed queries_WatchRewardDistributed queries_WatchUndelegated queries_WatchValidatorCreated queries_WatchValidatorEmptyJailed queries_WatchValidatorJailed queries_WatchValidatorSlashed queries_WatchValidatorUnjailed queries_WatchVoteAddressEdited)

section \<open>Witnesses\<close>

text \<open>A node whose queries find three logs, the second of which does not unpack, and whose
  subscriptions begin with one log.\<close>

definition log_node :: "(unit, unit, unit, nat) bind_logs" where
  "log_node = \<lparr>
     bound_FilterLogs = \<lambda>c opts name rules w. (([5, 0, 7], idle_sub\<lparr>sub_closed := True\<rparr>, None), w),
     bound_WatchLogs = \<lambda>c opts name rules w. (([5], idle_sub, None), w)\<rparr>"

theorem filter_methods_read_witness:
  "\<exists>it it'. StakeHubFilterer_FilterPaused log_node \<lparr>filterer_contract = ()\<rparr> () () = (Ret (Some it, None), ())
     \<and> drain (StakeHubPausedIterator_Next nat_unpack) Event [True, False, True, True] it
         = Some ([Some \<lparr>Raw = Some 5\<rparr>], it')
     \<and> StakeHubPausedIterator_Error it' \<noteq> None"
proof -
  have r: "reads_events (bound_FilterLogs log_node (filterer_contract \<lparr>filterer_contract = ()\<rparr>) ()) ''Paused'' []
      (StakeHubFilterer_FilterPaused log_node \<lparr>filterer_contract = ()\<rparr> ())
      (StakeHubPausedIterator_Next nat_unpack) StakeHubPausedIterator_Error
      (StakeHubFilterer_ParsePaused nat_unpack \<lparr>filterer_contract = ()\<rparr>)"
    by (rule filter_methods_read [THEN conjunct2, THEN conjunct2, THEN conjunct2, THEN conjunct2,
          THEN conjunct2, THEN conjunct2, THEN conjunct2, THEN conjunct1])
  have p: "StakeHubFilterer_ParsePaused nat_unpack \<lparr>filterer_contract = ()\<rparr> log
      = (if log = 0 then (None, Some ''bad log'') else (Some \<lparr>Raw = Some log\<rparr>, None))" for log
    by (simp add: StakeHubFilterer_ParsePaused_def new_StakeHubPaused_def parse_log_def unpack_raw_def nat_unpack_def)
  from r obtain it where m: "StakeHubFilterer_FilterPaused log_node \<lparr>filterer_contract = ()\<rparr> () () = (Ret (Some it, None), ())"
    and d: "\<And>sub' choices. recv_err (idle_sub\<lparr>sub_closed := True\<rparr>) = Some (None, sub') \<Longrightarrow> 3 < length choices \<Longrightarrow>
        \<exists>it'. drain (StakeHubPausedIterator_Next nat_unpack) Event choices it = Some ([Some \<lparr>Raw = Some 5\<rparr>], it')
          \<and> StakeHubPausedIterator_Error it' \<noteq> None"
    by (auto simp: reads_events_def log_node_def p)
  have "recv_err (idle_sub\<lparr>sub_closed := True\<rparr>) = Some (None, idle_sub\<lparr>sub_closed := True\<rparr>)"
    by (simp add: recv_err_def idle_sub_def)
  from d [OF this, of "[True, False, True, True]"] m show ?thesis by auto
qed

theorem watch_methods_forward_witness:
  "\<exists>start wa. StakeHubFilterer_WatchPaused log_node \<lparr>filterer_contract = ()\<rparr> () () = (Ret (Some start, None), ())
     \<and> watch_runs (StakeHubFilterer_WatchPaused_step nat_unpack \<lparr>filterer_contract = ()\<rparr>) start wa
     \<and> wa_sent wa = [\<lparr>Raw = Some 5\<rparr>]
     \<and> (\<exists>n. map Some (wa_sent wa)
          = map (\<lambda>log. fst (StakeHubFilterer_ParsePaused nat_unpack \<lparr>filterer_contract = ()\<rparr> log)) (take n (wa_pushed wa)))"
proof -
  let ?f = "\<lparr>filterer_contract = ()\<rparr>"
  let ?go = "StakeHubFilterer_WatchPaused_step nat_unpack ?f"
  let ?w0 = "new_watch [5] idle_sub :: (nat, nat StakeHubPaused) watch"
  let ?w1 = "?w0\<lparr>wa_logs := [], wa_pc := Sending \<lparr>Raw = Some 5\<rparr>\<rparr>"
  let ?w2 = "?w1\<lparr>wa_sent := wa_sent ?w1 @ [\<lparr>Raw = Some 5\<rparr>], wa_pc := Selecting\<rparr>"
  have r: "forwards_events (bound_WatchLogs log_node (filterer_contract ?f) ()) ''Paused'' []
      (StakeHubFilterer_WatchPaused log_node ?f ()) ?go (StakeHubFilterer_ParsePaused nat_unpack ?f)"
    by (rule watch_methods_forward [THEN conjunct2, THEN conjunct2, THEN conjunct2, THEN conjunct2,
          THEN conjunct2, THEN conjunct2, THEN conjunct2, THEN conjunct1])
  have m: "StakeHubFilterer_WatchPaused log_node ?f () () = (Ret (Some ?w0, None), ())"
    by (simp add: StakeHubFilterer_WatchPaused_def log_node_def bindIO_def extern_def retIO_def)
  have 1: "?go ?w0 ?w1"
    unfolding StakeHubFilterer_WatchPaused_step_def
    by (rule watch_step.recv_log [where log = 5])
      (simp_all add: new_watch_def unpack_raw_def nat_unpack_def new_StakeHubPaused_def)
  have 2: "?go ?w1 ?w2"
    unfolding StakeHubFilterer_WatchPaused_step_def by (rule watch_step.send) simp
  have run: "watch_runs ?go ?w0 ?w2"
    by (rule watch_runs_go [where go = ?go, OF watch_runs_go [where go = ?go, OF watch_runs_start 1] 2])
  from r m have "(\<forall>wa. sub_unsubscribed idle_sub = 0 \<and> watch_runs ?go ?w0 wa \<longrightarrow>
      (\<exists>n. map Some (wa_sent wa) = map (\<lambda>log. fst (StakeHubFilterer_ParsePaused nat_unpack ?f log)) (take n (wa_pushed wa))))"
    unfolding forwards_events_def by (simp add: log_node_def)
  moreover have "sub_unsubscribed idle_sub = 0"
    by (simp add: idle_sub_def)
  ultimately have "\<exists>n. map Some (wa_sent ?w2) = map (\<lambda>log. fst (StakeHubFilterer_ParsePaused nat_unpack ?f log)) (take n (wa_pushed ?w2))"
    using run by blast
  with m run show ?thesis
    by (intro exI [of _ ?w0] exI [of _ ?w2] conjI) (auto simp: new_watch_def)
qed

end
