(* ===== verification/StakeHubReads.thy ===== *)
theory StakeHubReads
  imports StakeHubBinding
begin

text \<open>
  The read-only methods of the binding (\<open>StakeHubCaller\<close> and the two sessions): one
  constant call of the bound contract each, whose first error is returned with the zero value
  and whose outputs are indexed, converted and type-asserted.
  The lemmas show that under the documented behaviour of \<open>bind\<close> every method relays
  exactly the node's answer and cannot panic.
\<close>

section \<open>The shape shared by the single-result methods\<close>

definition new_StakeHubCommission :: StakeHubCommission where
  "new_StakeHubCommission = \<lparr>Rate = 0, MaxRate = 0, MaxChangeRate = 0\<rparr>"

definition new_StakeHubDescription :: StakeHubDescription where
  "new_StakeHubDescription = \<lparr>Moniker = [], Identity = [], Website = [], Details = []\<rparr>"

text \<open>
  \<^verbatim>\<open>
  var out []interface{}
  err := _StakeHub.contract.Call(opts, &out, name, args...)
  if err != nil { return *new(T), err }
  out0 := *abi.ConvertType(out[0], new(T)).(*T)
  return out0, err
  \<close>
\<close>

definition call_one ::
  "('w, 'c, 'o, 'tx) bind_rpc \<Rightarrow> 'c \<Rightarrow> 'o \<Rightarrow> string \<Rightarrow> go_value list \<Rightarrow>
     'a \<Rightarrow> go_type \<Rightarrow> (go_value \<Rightarrow> 'a go) \<Rightarrow> ('w, 'a \<times> go_error option) io" where
  "call_one lib contract opts name args zero ty asserted =
     bindIO (extern (bound_Call lib contract opts name args)) (\<lambda>(out, err). case err of
         Some e \<Rightarrow> retIO (zero, Some e)
       | None \<Rightarrow> liftIO (
         bindGo (bindGo (go_index out 0) (\<lambda>v. asserted (ConvertType lib v ty))) (\<lambda>out0.
         Ret (out0, None))))"

section \<open>The methods\<close>

definition StakeHubCaller_BREATHEBLOCKINTERVAL ::
  "('w, 'c, 'o, 'tx) bind_rpc \<Rightarrow> 'c StakeHubCaller \<Rightarrow> 'o \<Rightarrow> ('w, int option \<times> go_error option) io" where
  "StakeHubCaller_BREATHEBLOCKINTERVAL lib r opts =
     call_one lib (caller_contract r) opts ''BREATHE_BLOCK_INTERVAL'' [] None TBig as_Big"

definition StakeHubSession_BREATHEBLOCKINTERVAL ::
  "('w, 'c, 'o, 'tx) bind_rpc \<Rightarrow> ('c, 'o) StakeHubSession \<Rightarrow> ('w, int option \<times> go_error option) io" where
  "StakeHubSession_BREATHEBLOCKINTERVAL lib s =
     StakeHubCaller_BREATHEBLOCKINTERVAL lib (hub_Caller (session_Contract s)) (session_CallOpts s)"

definition StakeHubCallerSession_BREATHEBLOCKINTERVAL ::
  "('w, 'c, 'o, 'tx) bind_rpc \<Rightarrow> ('c, 'o) StakeHubCallerSession \<Rightarrow> ('w, int option \<times> go_error option) io" where
  "StakeHubCallerSession_BREATHEBLOCKINTERVAL lib s =
     StakeHubCaller_BREATHEBLOCKINTERVAL lib (csession_Contract s) (csession_CallOpts s)"

definition StakeHubCaller_DEADADDRESS ::
  "('w, 'c, 'o, 'tx) bind_rpc \<Rightarrow> 'c StakeHubCaller \<Rightarrow> 'o \<Rightarrow> ('w, address \<times> go_error option) io" where
  "StakeHubCaller_DEADADDRESS lib r opts =
     call_one lib (caller_contract r) opts ''DEAD_ADDRESS'' [] 0 TAddress as_Address"

definition StakeHubSession_DEADADDRESS ::
  "('w, 'c, 'o, 'tx) bind_rpc \<Rightarrow> ('c, 'o) StakeHubSession \<Rightarrow> ('w, address \<times> go_error option) io" where
  "StakeHubSession_DEADADDRESS lib s =
     StakeHubCaller_DEADADDRESS lib (hub_Caller (session_Contract s)) (session_CallOpts s)"

definition StakeHubCallerSession_DEADADDRESS ::
  "('w, 'c, 'o, 'tx) bind_rpc \<Rightarrow> ('c, 'o) StakeHubCallerSession \<Rightarrow> ('w, address \<times> go_error option) io" where
  "StakeHubCallerSession_DEADADDRESS lib s =
     StakeHubCaller_DEADADDRESS lib (csession_Contract s) (csession_CallOpts s)"

definition StakeHubCaller_LOCKAMOUNT ::
  "('w, 'c, 'o, 'tx) bind_rpc \<Rightarrow> 'c StakeHubCaller \<Rightarrow> 'o \<Rightarrow> ('w, int option \<times> go_error option) io" where
  "StakeHubCaller_LOCKAMOUNT lib r opts =
     call_one lib (caller_contract r) opts ''LOCK_AMOUNT'' [] None TBig as_Big"

definition StakeHubSession_LOCKAMOUNT ::
  "('w, 'c, 'o, 'tx) bind_rpc \<Rightarrow> ('c, 'o) StakeHubSession \<Rightarrow> ('w, int option \<times> go_error option) io" where
  "StakeHubSession_LOCKAMOUNT lib s =
     StakeHubCaller_LOCKAMOUNT lib (hub_Caller (session_Contract s)) (session_CallOpts s)"

definition StakeHubCallerSession_LOCKAMOUNT ::
  "('w, 'c, 'o, 'tx) bind_rpc \<Rightarrow> ('c, 'o) StakeHubCallerSession \<Rightarrow> ('w, int option \<times> go_error option) io" where
  "StakeHubCallerSession_LOCKAMOUNT lib s =
     StakeHubCaller_LOCKAMOUNT lib (csession_Contract s) (csession_CallOpts s)"

definition StakeHubCaller_REDELEGATEFEERATEBASE ::
  "('w, 'c, 'o, 'tx) bind_rpc \<Rightarrow> 'c StakeHubCaller \<Rightarrow> 'o \<Rightarrow> ('w, int option \<times> go_error option) io" where
  "StakeHubCaller_REDELEGATEFEERATEBASE lib r opts =
     call_one lib (caller_contract r) opts ''REDELEGATE_FEE_RATE_BASE'' [] None TBig as_Big"

definition StakeHubSession_REDELEGATEFEERATEBASE ::
  "('w, 'c, 'o, 'tx) bind_rpc \<Rightarrow> ('c, 'o) StakeHubSession \<Rightarrow> ('w, int option \<times> go_error option) io" where
  "StakeHubSession_REDELEGATEFEERATEBASE lib s =
     StakeHubCaller_REDELEGATEFEERATEBASE lib (hub_Caller (session_Contract s)) (session_CallOpts s)"

definition StakeHubCallerSession_REDELEGATEFEERATEBASE ::
  "('w, 'c, 'o, 'tx) bind_rpc \<Rightarrow> ('c, 'o) StakeHubCallerSession \<Rightarrow> ('w, int option \<times> go_error option) io" where
  "StakeHubCallerSession_REDELEGATEFEERATEBASE lib s =
     StakeHubCaller_REDELEGATEFEERATEBASE lib (csession_Contract s) (csession_CallOpts s)"

definition StakeHubCaller_AssetProtector ::
  "('w, 'c, 'o, 'tx) bind_rpc \<Rightarrow> 'c StakeHubCaller \<Rightarrow> 'o \<Rightarrow> ('w, address \<times> go_error option) io" where
  "StakeHubCaller_AssetProtector lib r opts =
     call_one lib (caller_contract r) opts ''assetProtector'' [] 0 TAddress as_Address"

definition StakeHubSession_AssetProtector ::
  "('w, 'c, 'o, 'tx) bind_rpc \<Rightarrow> ('c, 'o) StakeHubSession \<Rightarrow> ('w, address \<times> go_error option) io" where
  "StakeHubSession_AssetProtector lib s =
     StakeHubCaller_AssetProtector lib (hub_Caller (session_Contract s)) (session_CallOpts s)"

definition StakeHubCallerSession_AssetProtector ::
  "('w, 'c, 'o, 'tx) bind_rpc \<Rightarrow> ('c, 'o) StakeHubCallerSession \<Rightarrow> ('w, address \<times> go_error option) io" where
  "StakeHubCallerSession_AssetProtector lib s =
     StakeHubCaller_AssetProtector lib (csession_Contract s) (csession_CallOpts s)"

definition StakeHubCaller_BlackList ::
  "('w, 'c, 'o, 'tx) bind_rpc \<Rightarrow> 'c StakeHubCaller \<Rightarrow> 'o \<Rightarrow> address \<Rightarrow> ('w, bool \<times> go_error option) io" where
  "StakeHubCaller_BlackList lib r opts arg0 =
     call_one lib (caller_contract r) opts ''blackList'' [VAddress arg0] False TBool as_Bool"

definition StakeHubSession_BlackList ::
  "('w, 'c, 'o, 'tx) bind_rpc \<Rightarrow> ('c, 'o) StakeHubSession \<Rightarrow> address \<Rightarrow> ('w, bool \<times> go_error option) io" where
  "StakeHubSession_BlackList lib s arg0 =
     StakeHubCaller_BlackList lib (hub_Caller (session_Contract s)) (session_CallOpts s) arg0"

definition StakeHubCallerSession_BlackList ::
  "('w, 'c, 'o, 'tx) bind_rpc \<Rightarrow> ('c, 'o) StakeHubCallerSession \<Rightarrow> address \<Rightarrow> ('w, bool \<times> go_error option) io" where
  "StakeHubCallerSession_BlackList lib s arg0 =
     StakeHubCaller_BlackList lib (csession_Contract s) (csession_CallOpts s) arg0"

definition StakeHubCaller_ConsensusExpiration ::
  "('w, 'c, 'o, 'tx) bind_rpc \<Rightarrow> 'c StakeHubCaller \<Rightarrow> 'o \<Rightarrow> address \<Rightarrow> ('w, int option \<times> go_error option) io" where
  "StakeHubCaller_ConsensusExpiration lib r opts arg0 =
     call_one lib (caller_contract r) opts ''consensusExpiration'' [VAddress arg0] None TBig as_Big"

definition StakeHubSession_ConsensusExpiration ::
  "('w, 'c, 'o, 'tx) bind_rpc \<Rightarrow> ('c, 'o) StakeHubSession \<Rightarrow> address \<Rightarrow> ('w, int option \<times> go_error option) io" where
  "StakeHubSession_ConsensusExpiration lib s arg0 =
     StakeHubCaller_ConsensusExpiration lib (hub_Caller (session_Contract s)) (session_CallOpts s) arg0"

definition StakeHubCallerSession_ConsensusExpiration ::
  "('w, 'c, 'o, 'tx) bind_rpc \<Rightarrow> ('c, 'o) StakeHubCallerSession \<Rightarrow> address \<Rightarrow> ('w, int option \<times> go_error option) io" where
  "StakeHubCallerSession_ConsensusExpiration lib s arg0 =
     StakeHubCaller_ConsensusExpiration lib (csession_Contract s) (csession_CallOpts s) arg0"

definition StakeHubCaller_ConsensusToOperator ::
  "('w, 'c, 'o, 'tx) bind_rpc \<Rightarrow> 'c StakeHubCaller \<Rightarrow> 'o \<Rightarrow> address \<Rightarrow> ('w, address \<times> go_error option) io" where
  "StakeHubCaller_ConsensusToOperator lib r opts arg0 =
     call_one lib (caller_contract r) opts ''consensusToOperator'' [VAddress arg0] 0 TAddress as_Address"

definition StakeHubSession_ConsensusToOperator ::
  "('w, 'c, 'o, 'tx) bind_rpc \<Rightarrow> ('c, 'o) StakeHubSession \<Rightarrow> address \<Rightarrow> ('w, address \<times> go_error option) io" where
  "StakeHubSession_ConsensusToOperator lib s arg0 =
     StakeHubCaller_ConsensusToOperator lib (hub_Caller (session_Contract s)) (session_CallOpts s) arg0"

definition StakeHubCallerSession_ConsensusToOperator ::
  "('w, 'c, 'o, 'tx) bind_rpc \<Rightarrow> ('c, 'o) StakeHubCallerSession \<Rightarrow> address \<Rightarrow> ('w, address \<times> go_error option) io" where
  "StakeHubCallerSession_ConsensusToOperator lib s arg0 =
     StakeHubCaller_ConsensusToOperator lib (csession_Contract s) (csession_CallOpts s) arg0"

definition StakeHubCaller_DowntimeJailTime ::
  "('w, 'c, 'o, 'tx) bind_rpc \<Rightarrow> 'c StakeHubCaller \<Rightarrow> 'o \<Rightarrow> ('w, int option \<times> go_error option) io" where
  "StakeHubCaller_DowntimeJailTime lib r opts =
     call_one lib (caller_contract r) opts ''downtimeJailTime'' [] None TBig as_Big"

definition StakeHubSession_DowntimeJailTime ::
  "('w, 'c, 'o, 'tx) bind_rpc \<Rightarrow> ('c, 'o) StakeHubSession \<Rightarrow> ('w, int option \<times> go_error option) io" where
  "StakeHubSession_DowntimeJailTime lib s =
     StakeHubCaller_DowntimeJailTime lib (hub_Caller (session_Contract s)) (session_CallOpts s)"

definition StakeHubCallerSession_DowntimeJailTime ::
  "('w, 'c, 'o, 'tx) bind_rpc \<Rightarrow> ('c, 'o) StakeHubCallerSession \<Rightarrow> ('w, int option \<times> go_error option) io" where
  "StakeHubCallerSession_DowntimeJailTime lib s =
     StakeHubCaller_DowntimeJailTime lib (csession_Contract s) (csession_CallOpts s)"

definition StakeHubCaller_DowntimeSlashAmount ::
  "('w, 'c, 'o, 'tx) bind_rpc \<Rightarrow> 'c StakeHubCaller \<Rightarrow> 'o \<Rightarrow> ('w, int option \<times> go_error option) io" where
  "StakeHubCaller_DowntimeSlashAmount lib r opts =
     call_one lib (caller_contract r) opts ''downtimeSlashAmount'' [] None TBig as_Big"

definition StakeHubSession_DowntimeSlashAmount ::
  "('w, 'c, 'o, 'tx) bind_rpc \<Rightarrow> ('c, 'o) StakeHubSession \<Rightarrow> ('w, int option \<times> go_error option) io" where
  "StakeHubSession_DowntimeSlashAmount lib s =
     StakeHubCaller_DowntimeSlashAmount lib (hub_Caller (session_Contract s)) (session_CallOpts s)"

definition StakeHubCallerSession_DowntimeSlashAmount ::
  "('w, 'c, 'o, 'tx) bind_rpc \<Rightarrow> ('c, 'o) StakeHubCallerSession \<Rightarrow> ('w, int option \<times> go_error option) io" where
  "StakeHubCallerSession_DowntimeSlashAmount lib s =
     StakeHubCaller_DowntimeSlashAmount lib (csession_Contract s) (csession_CallOpts s)"

definition StakeHubCaller_FelonyJailTime ::
  "('w, 'c, 'o, 'tx) bind_rpc \<Rightarrow> 'c StakeHubCaller \<Rightarrow> 'o \<Rightarrow> ('w, int option \<times> go_error option) io" where
  "StakeHubCaller_FelonyJailTime lib r opts =
     call_one lib (caller_contract r) opts ''felonyJailTime'' [] None TBig as_Big"

definition StakeHubSession_FelonyJailTime ::
  "('w, 'c, 'o, 'tx) bind_rpc \<Rightarrow> ('c, 'o) StakeHubSession \<Rightarrow> ('w, int option \<times> go_error option) io" where
  "StakeHubSession_FelonyJailTime lib s =
     StakeHubCaller_FelonyJailTime lib (hub_Caller (session_Contract s)) (session_CallOpts s)"

definition StakeHubCallerSession_FelonyJailTime ::
  "('w, 'c, 'o, 'tx) bind_rpc \<Rightarrow> ('c, 'o) StakeHubCallerSession \<Rightarrow> ('w, int option \<times> go_error option) io" where
  "StakeHubCallerSession_FelonyJailTime lib s =
     StakeHubCaller_FelonyJailTime lib (csession_Contract s) (csession_CallOpts s)"

definition StakeHubCaller_FelonySlashAmount ::
  "('w, 'c, 'o, 'tx) bind_rpc \<Rightarrow> 'c StakeHubCaller \<Rightarrow> 'o \<Rightarrow> ('w, int option \<times> go_error option) io" where
  "StakeHubCaller_FelonySlashAmount lib r opts =
     call_one lib (caller_contract r) opts ''felonySlashAmount'' [] None TBig as_Big"

definition StakeHubSession_FelonySlashAmount ::
  "('w, 'c, 'o, 'tx) bind_rpc \<Rightarrow> ('c, 'o) StakeHubSession \<Rightarrow> ('w, int option \<times> go_error option) io" where
  "StakeHubSession_FelonySlashAmount lib s =
     StakeHubCaller_FelonySlashAmount lib (hub_Caller (session_Contract s)) (session_CallOpts s)"

definition StakeHubCallerSession_FelonySlashAmount ::
  "('w, 'c, 'o, 'tx) bind_rpc \<Rightarrow> ('c, 'o) StakeHubCallerSession \<Rightarrow> ('w, int option \<times> go_error option) io" where
  "StakeHubCallerSession_FelonySlashAmount lib s =
     StakeHubCaller_FelonySlashAmount lib (csession_Contract s) (csession_CallOpts s)"

record StakeHubValidatorBasicInfoOut =
  out_vbi_ConsensusAddress :: "address"
  out_vbi_CreditContract :: "address"
  out_vbi_CreatedTime :: "int option"
  out_vbi_VoteAddress :: "bytes"
  out_vbi_Jailed :: "bool"
  out_vbi_JailUntil :: "int option"

definition StakeHubCaller_GetValidatorBasicInfo ::
  "('w, 'c, 'o, 'tx) bind_rpc \<Rightarrow> 'c StakeHubCaller \<Rightarrow> 'o \<Rightarrow> address \<Rightarrow>
     ('w, StakeHubValidatorBasicInfoOut \<times> go_error option) io" where
  "StakeHubCaller_GetValidatorBasicInfo lib r opts operatorAddress =
     bindIO (extern (bound_Call lib (caller_contract r) opts ''getValidatorBasicInfo'' [VAddress operatorAddress])) (\<lambda>(out, err). case err of
         Some e \<Rightarrow> retIO (\<lparr>out_vbi_ConsensusAddress = 0, out_vbi_CreditContract = 0, out_vbi_CreatedTime = None, out_vbi_VoteAddress = [], out_vbi_Jailed = False, out_vbi_JailUntil = None\<rparr>, Some e)
       | None \<Rightarrow> liftIO (
         bindGo (bindGo (go_index out 0) (\<lambda>v. as_Address (ConvertType lib v TAddress))) (\<lambda>x0.
         bindGo (bindGo (go_index out 1) (\<lambda>v. as_Address (ConvertType lib v TAddress))) (\<lambda>x1.
         bindGo (bindGo (go_index out 2) (\<lambda>v. as_Big (ConvertType lib v TBig))) (\<lambda>x2.
         bindGo (bindGo (go_index out 3) (\<lambda>v. as_Bytes (ConvertType lib v TBytes))) (\<lambda>x3.
         bindGo (bindGo (go_index out 4) (\<lambda>v. as_Bool (ConvertType lib v TBool))) (\<lambda>x4.
         bindGo (bindGo (go_index out 5) (\<lambda>v. as_Big (ConvertType lib v TBig))) (\<lambda>x5.
         Ret (\<lparr>out_vbi_ConsensusAddress = x0, out_vbi_CreditContract = x1, out_vbi_CreatedTime = x2, out_vbi_VoteAddress = x3, out_vbi_Jailed = x4, out_vbi_JailUntil = x5\<rparr>, None)))))))))"

definition StakeHubSession_GetValidatorBasicInfo ::
  "('w, 'c, 'o, 'tx) bind_rpc \<Rightarrow> ('c, 'o) StakeHubSession \<Rightarrow> address \<Rightarrow> ('w, StakeHubValidatorBasicInfoOut \<times> go_error option) io" where
  "StakeHubSession_GetValidatorBasicInfo lib s operatorAddress =
     StakeHubCaller_GetValidatorBasicInfo lib (hub_Caller (session_Contract s)) (session_CallOpts s) operatorAddress"

definition StakeHubCallerSession_GetValidatorBasicInfo ::
  "('w, 'c, 'o, 'tx) bind_rpc \<Rightarrow> ('c, 'o) StakeHubCallerSession \<Rightarrow> address \<Rightarrow> ('w, StakeHubValidatorBasicInfoOut \<times> go_error option) io" where
  "StakeHubCallerSession_GetValidatorBasicInfo lib s operatorAddress =
     StakeHubCaller_GetValidatorBasicInfo lib (csession_Contract s) (csession_CallOpts s) operatorAddress"

definition StakeHubCaller_GetValidatorCommission ::
  "('w, 'c, 'o, 'tx) bind_rpc \<Rightarrow> 'c StakeHubCaller \<Rightarrow> 'o \<Rightarrow> address \<Rightarrow> ('w, StakeHubCommission \<times> go_error option) io" where
  "StakeHubCaller_GetValidatorCommission lib r opts operatorAddress =
     call_one lib (caller_contract r) opts ''getValidatorCommission'' [VAddress operatorAddress] new_StakeHubCommission TCommission as_Commission"

definition StakeHubSession_GetValidatorCommission ::
  "('w, 'c, 'o, 'tx) bind_rpc \<Rightarrow> ('c, 'o) StakeHubSession \<Rightarrow> address \<Rightarrow> ('w, StakeHubCommission \<times> go_error option) io" where
  "StakeHubSession_GetValidatorCommission lib s operatorAddress =
     StakeHubCaller_GetValidatorCommission lib (hub_Caller (session_Contract s)) (session_CallOpts s) operatorAddress"

definition StakeHubCallerSession_GetValidatorCommission ::
  "('w, 'c, 'o, 'tx) bind_rpc \<Rightarrow> ('c, 'o) StakeHubCallerSession \<Rightarrow> address \<Rightarrow> ('w, StakeHubCommission \<times> go_error option) io" where
  "StakeHubCallerSession_GetValidatorCommission lib s operatorAddress =
     StakeHubCaller_GetValidatorCommission lib (csession_Contract s) (csession_CallOpts s) operatorAddress"

definition StakeHubCaller_GetValidatorDescription ::
  "('w, 'c, 'o, 'tx) bind_rpc \<Rightarrow> 'c StakeHubCaller \<Rightarrow> 'o \<Rightarrow> address \<Rightarrow> ('w, StakeHubDescription \<times> go_error option) io" where
  "StakeHubCaller_GetValidatorDescription lib r opts operatorAddress =
     call_one lib (caller_contract r) opts ''getValidatorDescription'' [VAddress operatorAddress] new_StakeHubDescription TDescription as_Description"

definition StakeHubSession_GetValidatorDescription ::
  "('w, 'c, 'o, 'tx) bind_rpc \<Rightarrow> ('c, 'o) StakeHubSession \<Rightarrow> address \<Rightarrow> ('w, StakeHubDescription \<times> go_error option) io" where
  "StakeHubSession_GetValidatorDescription lib s operatorAddress =
     StakeHubCaller_GetValidatorDescription lib (hub_Caller (session_Contract s)) (session_CallOpts s) operatorAddress"

definition StakeHubCallerSession_GetValidatorDescription ::
  "('w, 'c, 'o, 'tx) bind_rpc \<Rightarrow> ('c, 'o) StakeHubCallerSession \<Rightarrow> address \<Rightarrow> ('w, StakeHubDescription \<times> go_error option) io" where
  "StakeHubCallerSession_GetValidatorDescription lib s operatorAddress =
     StakeHubCaller_GetValidatorDescription lib (csession_Contract s) (csession_CallOpts s) operatorAddress"

record StakeHubValidatorElectionInfoOut =
  out_vei_ConsensusAddrs :: "address list"
  out_vei_VotingPowers :: "int option list"
  out_vei_VoteAddrs :: "bytes list"
  out_vei_TotalLength :: "int option"

definition StakeHubCaller_GetValidatorElectionInfo ::
  "('w, 'c, 'o, 'tx) bind_rpc \<Rightarrow> 'c StakeHubCaller \<Rightarrow> 'o \<Rightarrow> int option \<Rightarrow> int option \<Rightarrow>
     ('w, StakeHubValidatorElectionInfoOut \<times> go_error option) io" where
  "StakeHubCaller_GetValidatorElectionInfo lib r opts offset limit =
     bindIO (extern (bound_Call lib (caller_contract r) opts ''getValidatorElectionInfo'' [VBig offset, VBig limit])) (\<lambda>(out, err). case err of
         Some e \<Rightarrow> retIO (\<lparr>out_vei_ConsensusAddrs = [], out_vei_VotingPowers = [], out_vei_VoteAddrs = [], out_vei_TotalLength = None\<rparr>, Some e)
       | None \<Rightarrow> liftIO (
         bindGo (bindGo (go_index out 0) (\<lambda>v. as_Addresses (ConvertType lib v TAddresses))) (\<lambda>x0.
         bindGo (bindGo (go_index out 1) (\<lambda>v. as_Bigs (ConvertType lib v TBigs))) (\<lambda>x1.
         bindGo (bindGo (go_index out 2) (\<lambda>v. as_BytesList (ConvertType lib v TBytesList))) (\<lambda>x2.
         bindGo (bindGo (go_index out 3) (\<lambda>v. as_Big (ConvertType lib v TBig))) (\<lambda>x3.
         Ret (\<lparr>out_vei_ConsensusAddrs = x0, out_vei_VotingPowers = x1, out_vei_VoteAddrs = x2, out_vei_TotalLength = x3\<rparr>, None)))))))"

definition StakeHubSession_GetValidatorElectionInfo ::
  "('w, 'c, 'o, 'tx) bind_rpc \<Rightarrow> ('c, 'o) StakeHubSession \<Rightarrow> int option \<Rightarrow> int option \<Rightarrow> ('w, StakeHubValidatorElectionInfoOut \<times> go_error option) io" where
  "StakeHubSession_GetValidatorElectionInfo lib s offset limit =
     StakeHubCaller_GetValidatorElectionInfo lib (hub_Caller (session_Contract s)) (session_CallOpts s) offset limit"

definition StakeHubCallerSession_GetValidatorElectionInfo ::
  "('w, 'c, 'o, 'tx) bind_rpc \<Rightarrow> ('c, 'o) StakeHubCallerSession \<Rightarrow> int option \<Rightarrow> int option \<Rightarrow> ('w, StakeHubValidatorElectionInfoOut \<times> go_error option) io" where
  "StakeHubCallerSession_GetValidatorElectionInfo lib s offset limit =
     StakeHubCaller_GetValidatorElectionInfo lib (csession_Contract s) (csession_CallOpts s) offset limit"

definition StakeHubCaller_GetValidatorRewardRecord ::
  "('w, 'c, 'o, 'tx) bind_rpc \<Rightarrow> 'c StakeHubCaller \<Rightarrow> 'o \<Rightarrow> address \<Rightarrow> int option \<Rightarrow> ('w, int option \<times> go_error option) io" where
  "StakeHubCaller_GetValidatorRewardRecord lib r opts operatorAddress index =
     call_one lib (caller_contract r) opts ''getValidatorRewardRecord'' [VAddress operatorAddress, VBig index] None TBig as_Big"

definition StakeHubSession_GetValidatorRewardRecord ::
  "('w, 'c, 'o, 'tx) bind_rpc \<Rightarrow> ('c, 'o) StakeHubSession \<Rightarrow> address \<Rightarrow> int option \<Rightarrow> ('w, int option \<times> go_error option) io" where
  "StakeHubSession_GetValidatorRewardRecord lib s operatorAddress index =
     StakeHubCaller_GetValidatorRewardRecord lib (hub_Caller (session_Contract s)) (session_CallOpts s) operatorAddress index"

definition StakeHubCallerSession_GetValidatorRewardRecord ::
  "('w, 'c, 'o, 'tx) bind_rpc \<Rightarrow> ('c, 'o) StakeHubCallerSession \<Rightarrow> address \<Rightarrow> int option \<Rightarrow> ('w, int option \<times> go_error option) io" where
  "StakeHubCallerSession_GetValidatorRewardRecord lib s operatorAddress index =
     StakeHubCaller_GetValidatorRewardRecord lib (csession_Contract s) (csession_CallOpts s) operatorAddress index"

definition StakeHubCaller_GetValidatorTotalPooledBNBRecord ::
  "('w, 'c, 'o, 'tx) bind_rpc \<Rightarrow> 'c StakeHubCaller \<Rightarrow> 'o \<Rightarrow> address \<Rightarrow> int option \<Rightarrow> ('w, int option \<times> go_error option) io" where
  "StakeHubCaller_GetValidatorTotalPooledBNBRecord lib r opts operatorAddress index =
     call_one lib (caller_contract r) opts ''getValidatorTotalPooledBNBRecord'' [VAddress operatorAddress, VBig index] None TBig as_Big"

definition StakeHubSession_GetValidatorTotalPooledBNBRecord ::
  "('w, 'c, 'o, 'tx) bind_rpc \<Rightarrow> ('c, 'o) StakeHubSession \<Rightarrow> address \<Rightarrow> int option \<Rightarrow> ('w, int option \<times> go_error option) io" where
  "StakeHubSession_GetValidatorTotalPooledBNBRecord lib s operatorAddress index =
     StakeHubCaller_GetValidatorTotalPooledBNBRecord lib (hub_Caller (session_Contract s)) (session_CallOpts s) operatorAddress index"

definition StakeHubCallerSession_GetValidatorTotalPooledBNBRecord ::
  "('w, 'c, 'o, 'tx) bind_rpc \<Rightarrow> ('c, 'o) StakeHubCallerSession \<Rightarrow> address \<Rightarrow> int option \<Rightarrow> ('w, int option \<times> go_error option) io" where
  "StakeHubCallerSession_GetValidatorTotalPooledBNBRecord lib s operatorAddress index =
     StakeHubCaller_GetValidatorTotalPooledBNBRecord lib (csession_Contract s) (csession_CallOpts s) operatorAddress index"

record StakeHubValidatorsOut =
  out_v_OperatorAddrs :: "address list"
  out_v_CreditAddrs :: "address list"
  out_v_TotalLength :: "int option"

definition StakeHubCaller_GetValidators ::
  "('w, 'c, 'o, 'tx) bind_rpc \<Rightarrow> 'c StakeHubCaller \<Rightarrow> 'o \<Rightarrow> int option \<Rightarrow> int option \<Rightarrow>
     ('w, StakeHubValidatorsOut \<times> go_error option) io" where
  "StakeHubCaller_GetValidators lib r opts offset limit =
     bindIO (extern (bound_Call lib (caller_contract r) opts ''getValidators'' [VBig offset, VBig limit])) (\<lambda>(out, err). case err of
         Some e \<Rightarrow> retIO (\<lparr>out_v_OperatorAddrs = [], out_v_CreditAddrs = [], out_v_TotalLength = None\<rparr>, Some e)
       | None \<Rightarrow> liftIO (
         bindGo (bindGo (go_index out 0) (\<lambda>v. as_Addresses (ConvertType lib v TAddresses))) (\<lambda>x0.
         bindGo (bindGo (go_index out 1) (\<lambda>v. as_Addresses (ConvertType lib v TAddresses))) (\<lambda>x1.
         bindGo (bindGo (go_index out 2) (\<lambda>v. as_Big (ConvertType lib v TBig))) (\<lambda>x2.
         Ret (\<lparr>out_v_OperatorAddrs = x0, out_v_CreditAddrs = x1, out_v_TotalLength = x2\<rparr>, None))))))"

definition StakeHubSession_GetValidators ::
  "('w, 'c, 'o, 'tx) bind_rpc \<Rightarrow> ('c, 'o) StakeHubSession \<Rightarrow> int option \<Rightarrow> int option \<Rightarrow> ('w, StakeHubValidatorsOut \<times> go_error option) io" where
  "StakeHubSession_GetValidators lib s offset limit =
     StakeHubCaller_GetValidators lib (hub_Caller (session_Contract s)) (session_CallOpts s) offset limit"

definition StakeHubCallerSession_GetValidators ::
  "('w, 'c, 'o, 'tx) bind_rpc \<Rightarrow> ('c, 'o) StakeHubCallerSession \<Rightarrow> int option \<Rightarrow> int option \<Rightarrow> ('w, StakeHubValidatorsOut \<times> go_error option) io" where
  "StakeHubCallerSession_GetValidators lib s offset limit =
     StakeHubCaller_GetValidators lib (csession_Contract s) (csession_CallOpts s) offset limit"

definition StakeHubCaller_IsPaused ::
  "('w, 'c, 'o, 'tx) bind_rpc \<Rightarrow> 'c StakeHubCaller \<Rightarrow> 'o \<Rightarrow> ('w, bool \<times> go_error option) io" where
  "StakeHubCaller_IsPaused lib r opts =
     call_one lib (caller_contract r) opts ''isPaused'' [] False TBool as_Bool"

definition StakeHubSession_IsPaused ::
  "('w, 'c, 'o, 'tx) bind_rpc \<Rightarrow> ('c, 'o) StakeHubSession \<Rightarrow> ('w, bool \<times> go_error option) io" where
  "StakeHubSession_IsPaused lib s =
     StakeHubCaller_IsPaused lib (hub_Caller (session_Contract s)) (session_CallOpts s)"

definition StakeHubCallerSession_IsPaused ::
  "('w, 'c, 'o, 'tx) bind_rpc \<Rightarrow> ('c, 'o) StakeHubCallerSession \<Rightarrow> ('w, bool \<times> go_error option) io" where
  "StakeHubCallerSession_IsPaused lib s =
     StakeHubCaller_IsPaused lib (csession_Contract s) (csession_CallOpts s)"

definition StakeHubCaller_MaxElectedValidators ::
  "('w, 'c, 'o, 'tx) bind_rpc \<Rightarrow> 'c StakeHubCaller \<Rightarrow> 'o \<Rightarrow> ('w, int option \<times> go_error option) io" where
  "StakeHubCaller_MaxElectedValidators lib r opts =
     call_one lib (caller_contract r) opts ''maxElectedValidators'' [] None TBig as_Big"

definition StakeHubSession_MaxElectedValidators ::
  "('w, 'c, 'o, 'tx) bind_rpc \<Rightarrow> ('c, 'o) StakeHubSession \<Rightarrow> ('w, int option \<times> go_error option) io" where
  "StakeHubSession_MaxElectedValidators lib s =
     StakeHubCaller_MaxElectedValidators lib (hub_Caller (session_Contract s)) (session_CallOpts s)"

definition StakeHubCallerSession_MaxElectedValidators ::
  "('w, 'c, 'o, 'tx) bind_rpc \<Rightarrow> ('c, 'o) StakeHubCallerSession \<Rightarrow> ('w, int option \<times> go_error option) io" where
  "StakeHubCallerSession_MaxElectedValidators lib s =
     StakeHubCaller_MaxElectedValidators lib (csession_Contract s) (csession_CallOpts s)"

definition StakeHubCaller_MaxFelonyBetweenBreatheBlock ::
  "('w, 'c, 'o, 'tx) bind_rpc \<Rightarrow> 'c StakeHubCaller \<Rightarrow> 'o \<Rightarrow> ('w, int option \<times> go_error option) io" where
  "StakeHubCaller_MaxFelonyBetweenBreatheBlock lib r opts =
     call_one lib (caller_contract r) opts ''maxFelonyBetweenBreatheBlock'' [] None TBig as_Big"

definition StakeHubSession_MaxFelonyBetweenBreatheBlock ::
  "('w, 'c, 'o, 'tx) bind_rpc \<Rightarrow> ('c, 'o) StakeHubSession \<Rightarrow> ('w, int option \<times> go_error option) io" where
  "StakeHubSession_MaxFelonyBetweenBreatheBlock lib s =
     StakeHubCaller_MaxFelonyBetweenBreatheBlock lib (hub_Caller (session_Contract s)) (session_CallOpts s)"

definition StakeHubCallerSession_MaxFelonyBetweenBreatheBlock ::
  "('w, 'c, 'o, 'tx) bind_rpc \<Rightarrow> ('c, 'o) StakeHubCallerSession \<Rightarrow> ('w, int option \<times> go_error option) io" where
  "StakeHubCallerSession_MaxFelonyBetweenBreatheBlock lib s =
     StakeHubCaller_MaxFelonyBetweenBreatheBlock lib (csession_Contract s) (csession_CallOpts s)"

definition StakeHubCaller_MinDelegationBNBChange ::
  "('w, 'c, 'o, 'tx) bind_rpc \<Rightarrow> 'c StakeHubCaller \<Rightarrow> 'o \<Rightarrow> ('w, int option \<times> go_error option) io" where
  "StakeHubCaller_MinDelegationBNBChange lib r opts =
     call_one lib (caller_contract r) opts ''minDelegationBNBChange'' [] None TBig as_Big"

definition StakeHubSession_MinDelegationBNBChange ::
  "('w, 'c, 'o, 'tx) bind_rpc \<Rightarrow> ('c, 'o) StakeHubSession \<Rightarrow> ('w, int option \<times> go_error option) io" where
  "StakeHubSession_MinDelegationBNBChange lib s =
     StakeHubCaller_MinDelegationBNBChange lib (hub_Caller (session_Contract s)) (session_CallOpts s)"

definition StakeHubCallerSession_MinDelegationBNBChange ::
  "('w, 'c, 'o, 'tx) bind_rpc \<Rightarrow> ('c, 'o) StakeHubCallerSession \<Rightarrow> ('w, int option \<times> go_error option) io" where
  "StakeHubCallerSession_MinDelegationBNBChange lib s =
     StakeHubCaller_MinDelegationBNBChange lib (csession_Contract s) (csession_CallOpts s)"

definition StakeHubCaller_MinSelfDelegationBNB ::
  "('w, 'c, 'o, 'tx) bind_rpc \<Rightarrow> 'c StakeHubCaller \<Rightarrow> 'o \<Rightarrow> ('w, int option \<times> go_error option) io" where
  "StakeHubCaller_MinSelfDelegationBNB lib r opts =
     call_one lib (caller_contract r) opts ''minSelfDelegationBNB'' [] None TBig as_Big"

definition StakeHubSession_MinSelfDelegationBNB ::
  "('w, 'c, 'o, 'tx) bind_rpc \<Rightarrow> ('c, 'o) StakeHubSession \<Rightarrow> ('w, int option \<times> go_error option) io" where
  "StakeHubSession_MinSelfDelegationBNB lib s =
     StakeHubCaller_MinSelfDelegationBNB lib (hub_Caller (session_Contract s)) (session_CallOpts s)"

definition StakeHubCallerSession_MinSelfDelegationBNB ::
  "('w, 'c, 'o, 'tx) bind_rpc \<Rightarrow> ('c, 'o) StakeHubCallerSession \<Rightarrow> ('w, int option \<times> go_error option) io" where
  "StakeHubCallerSession_MinSelfDelegationBNB lib s =
     StakeHubCaller_MinSelfDelegationBNB lib (csession_Contract s) (csession_CallOpts s)"

definition StakeHubCaller_NumOfJailed ::
  "('w, 'c, 'o, 'tx) bind_rpc \<Rightarrow> 'c StakeHubCaller \<Rightarrow> 'o \<Rightarrow> ('w, int option \<times> go_error option) io" where
  "StakeHubCaller_NumOfJailed lib r opts =
     call_one lib (caller_contract r) opts ''numOfJailed'' [] None TBig as_Big"

definition StakeHubSession_NumOfJailed ::
  "('w, 'c, 'o, 'tx) bind_rpc \<Rightarrow> ('c, 'o) StakeHubSession \<Rightarrow> ('w, int option \<times> go_error option) io" where
  "StakeHubSession_NumOfJailed lib s =
     StakeHubCaller_NumOfJailed lib (hub_Caller (session_Contract s)) (session_CallOpts s)"

definition StakeHubCallerSession_NumOfJailed ::
  "('w, 'c, 'o, 'tx) bind_rpc \<Rightarrow> ('c, 'o) StakeHubCallerSession \<Rightarrow> ('w, int option \<times> go_error option) io" where
  "StakeHubCallerSession_NumOfJailed lib s =
     StakeHubCaller_NumOfJailed lib (csession_Contract s) (csession_CallOpts s)"

definition StakeHubCaller_RedelegateFeeRate ::
  "('w, 'c, 'o, 'tx) bind_rpc \<Rightarrow> 'c StakeHubCaller \<Rightarrow> 'o \<Rightarrow> ('w, int option \<times> go_error option) io" where
  "StakeHubCaller_RedelegateFeeRate lib r opts =
     call_one lib (caller_contract r) opts ''redelegateFeeRate'' [] None TBig as_Big"

definition StakeHubSession_RedelegateFeeRate ::
  "('w, 'c, 'o, 'tx) bind_rpc \<Rightarrow> ('c, 'o) StakeHubSession \<Rightarrow> ('w, int option \<times> go_error option) io" where
  "StakeHubSession_RedelegateFeeRate lib s =
     StakeHubCaller_RedelegateFeeRate lib (hub_Caller (session_Contract s)) (session_CallOpts s)"

definition StakeHubCallerSession_RedelegateFeeRate ::
  "('w, 'c, 'o, 'tx) bind_rpc \<Rightarrow> ('c, 'o) StakeHubCallerSession \<Rightarrow> ('w, int option \<times> go_error option) io" where
  "StakeHubCallerSession_RedelegateFeeRate lib s =
     StakeHubCaller_RedelegateFeeRate lib (csession_Contract s) (csession_CallOpts s)"

definition StakeHubCaller_TransferGasLimit ::
  "('w, 'c, 'o, 'tx) bind_rpc \<Rightarrow> 'c StakeHubCaller \<Rightarrow> 'o \<Rightarrow> ('w, int option \<times> go_error option) io" where
  "StakeHubCaller_TransferGasLimit lib r opts =
     call_one lib (caller_contract r) opts ''transferGasLimit'' [] None TBig as_Big"

definition StakeHubSession_TransferGasLimit ::
  "('w, 'c, 'o, 'tx) bind_rpc \<Rightarrow> ('c, 'o) StakeHubSession \<Rightarrow> ('w, int option \<times> go_error option) io" where
  "StakeHubSession_TransferGasLimit lib s =
     StakeHubCaller_TransferGasLimit lib (hub_Caller (session_Contract s)) (session_CallOpts s)"

definition StakeHubCallerSession_TransferGasLimit ::
  "('w, 'c, 'o, 'tx) bind_rpc \<Rightarrow> ('c, 'o) StakeHubCallerSession \<Rightarrow> ('w, int option \<times> go_error option) io" where
  "StakeHubCallerSession_TransferGasLimit lib s =
     StakeHubCaller_TransferGasLimit lib (csession_Contract s) (csession_CallOpts s)"

definition StakeHubCaller_UnbondPeriod ::
  "('w, 'c, 'o, 'tx) bind_rpc \<Rightarrow> 'c StakeHubCaller \<Rightarrow> 'o \<Rightarrow> ('w, int option \<times> go_error option) io" where
  "StakeHubCaller_UnbondPeriod lib r opts =
     call_one lib (caller_contract r) opts ''unbondPeriod'' [] None TBig as_Big"

definition StakeHubSession_UnbondPeriod ::
  "('w, 'c, 'o, 'tx) bind_rpc \<Rightarrow> ('c, 'o) StakeHubSession \<Rightarrow> ('w, int option \<times> go_error option) io" where
  "StakeHubSession_UnbondPeriod lib s =
     StakeHubCaller_UnbondPeriod lib (hub_Caller (session_Contract s)) (session_CallOpts s)"

definition StakeHubCallerSession_UnbondPeriod ::
  "('w, 'c, 'o, 'tx) bind_rpc \<Rightarrow> ('c, 'o) StakeHubCallerSession \<Rightarrow> ('w, int option \<times> go_error option) io" where
  "StakeHubCallerSession_UnbondPeriod lib s =
     StakeHubCaller_UnbondPeriod lib (csession_Contract s) (csession_CallOpts s)"

definition StakeHubCaller_VoteExpiration ::
  "('w, 'c, 'o, 'tx) bind_rpc \<Rightarrow> 'c StakeHubCaller \<Rightarrow> 'o \<Rightarrow> bytes \<Rightarrow> ('w, int option \<times> go_error option) io" where
  "StakeHubCaller_VoteExpiration lib r opts arg0 =
     call_one lib (caller_contract r) opts ''voteExpiration'' [VBytes arg0] None TBig as_Big"

definition StakeHubSession_VoteExpiration ::
  "('w, 'c, 'o, 'tx) bind_rpc \<Rightarrow> ('c, 'o) StakeHubSession \<Rightarrow> bytes \<Rightarrow> ('w, int option \<times> go_error option) io" where
  "StakeHubSession_VoteExpiration lib s arg0 =
     StakeHubCaller_VoteExpiration lib (hub_Caller (session_Contract s)) (session_CallOpts s) arg0"

definition StakeHubCallerSession_VoteExpiration ::
  "('w, 'c, 'o, 'tx) bind_rpc \<Rightarrow> ('c, 'o) StakeHubCallerSession \<Rightarrow> bytes \<Rightarrow> ('w, int option \<times> go_error option) io" where
  "StakeHubCallerSession_VoteExpiration lib s arg0 =
     StakeHubCaller_VoteExpiration lib (csession_Contract s) (csession_CallOpts s) arg0"

definition StakeHubCaller_VoteToOperator ::
  "('w, 'c, 'o, 'tx) bind_rpc \<Rightarrow> 'c StakeHubCaller \<Rightarrow> 'o \<Rightarrow> bytes \<Rightarrow> ('w, address \<times> go_error option) io" where
  "StakeHubCaller_VoteToOperator lib r opts arg0 =
     call_one lib (caller_contract r) opts ''voteToOperator'' [VBytes arg0] 0 TAddress as_Address"

definition StakeHubSession_VoteToOperator ::
  "('w, 'c, 'o, 'tx) bind_rpc \<Rightarrow> ('c, 'o) StakeHubSession \<Rightarrow> bytes \<Rightarrow> ('w, address \<times> go_error option) io" where
  "StakeHubSession_VoteToOperator lib s arg0 =
     StakeHubCaller_VoteToOperator lib (hub_Caller (session_Contract s)) (session_CallOpts s) arg0"

definition StakeHubCallerSession_VoteToOperator ::
  "('w, 'c, 'o, 'tx) bind_rpc \<Rightarrow> ('c, 'o) StakeHubCallerSession \<Rightarrow> bytes \<Rightarrow> ('w, address \<times> go_error option) io" where
  "StakeHubCallerSession_VoteToOperator lib s arg0 =
     StakeHubCaller_VoteToOperator lib (csession_Contract s) (csession_CallOpts s) arg0"

section \<open>What a read method relays\<close>

text \<open>A method relays the call \<open>name(args)\<close> when \<open>name\<close> is a view function of the
  ABI that takes arguments of these types, and the method makes exactly that call, returns its
  error unchanged, and on success returns the value whose dynamic form is what the node sent;
  in neither case does it panic.\<close>

definition fits_abi :: "(mutability \<Rightarrow> bool) \<Rightarrow> string \<Rightarrow> go_value list \<Rightarrow> bool" where
  "fits_abi P name args \<longleftrightarrow> (case find_function name of
       None \<Rightarrow> False
     | Some f \<Rightarrow> P (fn_mutability f) \<and> list_all2 packs (fn_inputs f) args)"

definition relays ::
  "('w, 'c, 'o, 'tx) bind_rpc \<Rightarrow> 'c \<Rightarrow> 'o \<Rightarrow> string \<Rightarrow> go_value list \<Rightarrow>
     ('a \<Rightarrow> go_value list) \<Rightarrow> ('w, 'a \<times> go_error option) io \<Rightarrow> bool" where
  "relays lib contract opts name args shown m \<longleftrightarrow> fits_abi (\<lambda>mu. mu = View) name args \<and>
     (\<forall>w. case bound_Call lib contract opts name args w of
        ((out, Some e), w') \<Rightarrow> (\<exists>z. m w = (Ret (z, Some e), w'))
      | ((out, None), w') \<Rightarrow> (\<exists>x. m w = (Ret (x, None), w') \<and> out = shown x))"

definition basic_info_values :: "StakeHubValidatorBasicInfoOut \<Rightarrow> go_value list" where
  "basic_info_values r =
     [VAddress (out_vbi_ConsensusAddress r), VAddress (out_vbi_CreditContract r),
      VBig (out_vbi_CreatedTime r), VBytes (out_vbi_VoteAddress r),
      VBool (out_vbi_Jailed r), VBig (out_vbi_JailUntil r)]"

definition election_info_values :: "StakeHubValidatorElectionInfoOut \<Rightarrow> go_value list" where
  "election_info_values r =
     [VAddresses (out_vei_ConsensusAddrs r), VBigs (out_vei_VotingPowers r),
      VBytesList (out_vei_VoteAddrs r), VBig (out_vei_TotalLength r)]"

definition validators_values :: "StakeHubValidatorsOut \<Rightarrow> go_value list" where
  "validators_values r =
     [VAddresses (out_v_OperatorAddrs r), VAddresses (out_v_CreditAddrs r),
      VBig (out_v_TotalLength r)]"

text \<open>A single output of ABI type \<open>t\<close>, read through \<open>ty\<close> and its assertion,
  comes back as the value it was sent as.\<close>

definition reads_back :: "abi_type \<Rightarrow> go_type \<Rightarrow> (go_value \<Rightarrow> 'a go) \<Rightarrow> ('a \<Rightarrow> go_value list) \<Rightarrow> bool" where
  "reads_back t ty asserted shown \<longleftrightarrow>
     (\<forall>conv v. convert_spec conv \<longrightarrow> unpacks t v \<longrightarrow> (\<exists>x. asserted (conv v ty) = Ret x \<and> [v] = shown x))"

named_theorems read_laws "outputs that read back"

lemma reads_back_Big [read_laws]: "reads_back (AUint 256) TBig as_Big (\<lambda>x. [VBig x])"
  by (auto simp: reads_back_def convert_spec_def)

lemma reads_back_Address [read_laws]: "reads_back AAddress TAddress as_Address (\<lambda>a. [VAddress a])"
  by (auto simp: reads_back_def convert_spec_def)

lemma reads_back_Bool [read_laws]: "reads_back ABool TBool as_Bool (\<lambda>b. [VBool b])"
  by (auto simp: reads_back_def convert_spec_def)

lemma reads_back_Commission [read_laws]:
  "reads_back (ATuple [AUint 64, AUint 64, AUint 64]) TCommission as_Commission
     (\<lambda>c. [VAnon [VU64 (Rate c), VU64 (MaxRate c), VU64 (MaxChangeRate c)]])"
  by (auto simp: reads_back_def convert_spec_def)

lemma reads_back_Description [read_laws]:
  "reads_back (ATuple [AString, AString, AString, AString]) TDescription as_Description
     (\<lambda>d. [VAnon [VString (Moniker d), VString (Identity d), VString (Website d), VString (Details d)]])"
  by (auto simp: reads_back_def convert_spec_def)

definition outputs_of :: "string \<Rightarrow> abi_type list option" where
  "outputs_of name = map_option fn_outputs (find_function name)"

lemma call_spec_outputs:
  assumes "call_spec lib" and "bound_Call lib c opts name args w = ((out, None), w')"
    and "outputs_of name = Some ts"
  shows "list_all2 unpacks ts out"
  using assms by (force simp: call_spec_def outputs_of_def)

text \<open>The shape of every read method: call, return the error, or decode the outputs.\<close>

lemma relays_decoded:
  assumes lib: "call_spec lib" and fits: "fits_abi (\<lambda>mu. mu = View) name args"
    and ts: "outputs_of name = Some ts"
    and dec: "\<And>out. list_all2 unpacks ts out \<Longrightarrow> \<exists>x. decode out = Ret (x, None) \<and> out = shown x"
  shows "relays lib contract opts name args shown
     (bindIO (extern (bound_Call lib contract opts name args)) (\<lambda>(out, err). case err of
         Some e \<Rightarrow> retIO (zero, Some e) | None \<Rightarrow> liftIO (decode out)))"
proof -
  have "\<exists>x. liftIO (decode out) w' = (Ret (x, None), w') \<and> out = shown x"
    if "bound_Call lib contract opts name args w = ((out, None), w')" for w out w'
    using dec [OF call_spec_outputs [OF lib that ts]] by force
  then show ?thesis
    using fits unfolding relays_def by (auto split: prod.split option.split)
qed

lemma relays_call_one:
  assumes lib: "call_spec lib" and fits: "fits_abi (\<lambda>mu. mu = View) name args"
    and t: "outputs_of name = Some [t]"
    and rb: "reads_back t ty asserted shown"
  shows "relays lib contract opts name args shown (call_one lib contract opts name args zero ty asserted)"
  unfolding call_one_def
proof (rule relays_decoded [OF lib fits t])
  fix out
  assume "list_all2 unpacks [t] out"
  then obtain v where v: "out = [v]" and u: "unpacks t v"
    by (auto simp: list_all2_Cons1)
  have "convert_spec (ConvertType lib)"
    using lib by (simp add: call_spec_def)
  then obtain x where x: "asserted (ConvertType lib v ty) = Ret x" "[v] = shown x"
    using rb u unfolding reads_back_def by blast
  have "bindGo (bindGo (go_index out 0) (\<lambda>v. asserted (ConvertType lib v ty))) (\<lambda>out0. Ret (out0, None))
      = Ret (x, None)"
    using x(1) by (simp add: v)
  then show "\<exists>x. bindGo (bindGo (go_index out 0) (\<lambda>v. asserted (ConvertType lib v ty)))
                  (\<lambda>out0. Ret (out0, None)) = Ret (x, None) \<and> out = shown x"
    using x(2) v by blast
qed

section \<open>The ABI entries the methods name\<close>

lemma relays_BREATHEBLOCKINTERVAL:
  assumes "call_spec lib"
  shows "relays lib (caller_contract r) opts ''BREATHE_BLOCK_INTERVAL'' [] (\<lambda>x. [VBig x])
        (StakeHubCaller_BREATHEBLOCKINTERVAL lib r opts)"
  unfolding StakeHubCaller_BREATHEBLOCKINTERVAL_def
  by (rule relays_call_one [OF assms _ _ reads_back_Big])
    (simp_all add: fits_abi_def outputs_of_def find_function_def StakeHub_functions_def)

lemma relays_DEADADDRESS:
  assumes "call_spec lib"
  shows "relays lib (caller_contract r) opts ''DEAD_ADDRESS'' [] (\<lambda>a. [VAddress a])
        (StakeHubCaller_DEADADDRESS lib r opts)"
  unfolding StakeHubCaller_DEADADDRESS_def
  by (rule relays_call_one [OF assms _ _ reads_back_Address])
    (simp_all add: fits_abi_def outputs_of_def find_function_def StakeHub_functions_def)

lemma relays_LOCKAMOUNT:
  assumes "call_spec lib"
  shows "relays lib (caller_contract r) opts ''LOCK_AMOUNT'' [] (\<lambda>x. [VBig x])
        (StakeHubCaller_LOCKAMOUNT lib r opts)"
  unfolding StakeHubCaller_LOCKAMOUNT_def
  by (rule relays_call_one [OF assms _ _ reads_back_Big])
    (simp_all add: fits_abi_def outputs_of_def find_function_def StakeHub_functions_def)

lemma relays_REDELEGATEFEERATEBASE:
  assumes "call_spec lib"
  shows "relays lib (caller_contract r) opts ''REDELEGATE_FEE_RATE_BASE'' [] (\<lambda>x. [VBig x])
        (StakeHubCaller_REDELEGATEFEERATEBASE lib r opts)"
  unfolding StakeHubCaller_REDELEGATEFEERATEBASE_def
  by (rule relays_call_one [OF assms _ _ reads_back_Big])
    (simp_all add: fits_abi_def outputs_of_def find_function_def StakeHub_functions_def)

lemma relays_AssetProtector:
  assumes "call_spec lib"
  shows "relays lib (caller_contract r) opts ''assetProtector'' [] (\<lambda>a. [VAddress a])
        (StakeHubCaller_AssetProtector lib r opts)"
  unfolding StakeHubCaller_AssetProtector_def
  by (rule relays_call_one [OF assms _ _ reads_back_Address])
    (simp_all add: fits_abi_def outputs_of_def find_function_def StakeHub_functions_def)

lemma relays_BlackList:
  assumes "call_spec lib"
  shows "relays lib (caller_contract r) opts ''blackList'' [VAddress arg0] (\<lambda>b. [VBool b])
        (StakeHubCaller_BlackList lib r opts arg0)"
  unfolding StakeHubCaller_BlackList_def
  by (rule relays_call_one [OF assms _ _ reads_back_Bool])
    (simp_all add: fits_abi_def outputs_of_def find_function_def StakeHub_functions_def)

lemma relays_ConsensusExpiration:
  assumes "call_spec lib"
  shows "relays lib (caller_contract r) opts ''consensusExpiration'' [VAddress arg0] (\<lambda>x. [VBig x])
        (StakeHubCaller_ConsensusExpiration lib r opts arg0)"
  unfolding StakeHubCaller_ConsensusExpiration_def
  by (rule relays_call_one [OF assms _ _ reads_back_Big])
    (simp_all add: fits_abi_def outputs_of_def find_function_def StakeHub_functions_def)

lemma relays_ConsensusToOperator:
  assumes "call_spec lib"
  shows "relays lib (caller_contract r) opts ''consensusToOperator'' [VAddress arg0] (\<lambda>a. [VAddress a])
        (StakeHubCaller_ConsensusToOperator lib r opts arg0)"
  unfolding StakeHubCaller_ConsensusToOperator_def
  by (rule relays_call_one [OF assms _ _ reads_back_Address])
    (simp_all add: fits_abi_def outputs_of_def find_function_def StakeHub_functions_def)

lemma relays_DowntimeJailTime:
  assumes "call_spec lib"
  shows "relays lib (caller_contract r) opts ''downtimeJailTime'' [] (\<lambda>x. [VBig x])
        (StakeHubCaller_DowntimeJailTime lib r opts)"
  unfolding StakeHubCaller_DowntimeJailTime_def
  by (rule relays_call_one [OF assms _ _ reads_back_Big])
    (simp_all add: fits_abi_def outputs_of_def find_function_def StakeHub_functions_def)

lemma relays_DowntimeSlashAmount:
  assumes "call_spec lib"
  shows "relays lib (caller_contract r) opts ''downtimeSlashAmount'' [] (\<lambda>x. [VBig x])
        (StakeHubCaller_DowntimeSlashAmount lib r opts)"
  unfolding StakeHubCaller_DowntimeSlashAmount_def
  by (rule relays_call_one [OF assms _ _ reads_back_Big])
    (simp_all add: fits_abi_def outputs_of_def find_function_def StakeHub_functions_def)

lemma relays_FelonyJailTime:
  assumes "call_spec lib"
  shows "relays lib (caller_contract r) opts ''felonyJailTime'' [] (\<lambda>x. [VBig x])
        (StakeHubCaller_FelonyJailTime lib r opts)"
  unfolding StakeHubCaller_FelonyJailTime_def
  by (rule relays_call_one [OF assms _ _ reads_back_Big])
    (simp_all add: fits_abi_def outputs_of_def find_function_def StakeHub_functions_def)

lemma relays_FelonySlashAmount:
  assumes "call_spec lib"
  shows "relays lib (caller_contract r) opts ''felonySlashAmount'' [] (\<lambda>x. [VBig x])
        (StakeHubCaller_FelonySlashAmount lib r opts)"
  unfolding StakeHubCaller_FelonySlashAmount_def
  by (rule relays_call_one [OF assms _ _ reads_back_Big])
    (simp_all add: fits_abi_def outputs_of_def find_function_def StakeHub_functions_def)

lemma relays_GetValidatorBasicInfo:
  assumes "call_spec lib"
  shows "relays lib (caller_contract r) opts ''getValidatorBasicInfo'' [VAddress operatorAddress] basic_info_values
        (StakeHubCaller_GetValidatorBasicInfo lib r opts operatorAddress)"
  unfolding StakeHubCaller_GetValidatorBasicInfo_def
proof (rule relays_decoded [OF assms, where ts = "[AAddress, AAddress, AUint 256, ABytes, ABool, AUint 256]"], goal_cases)
  case 1
  show ?case by (simp add: fits_abi_def find_function_def StakeHub_functions_def)
next
  case 2
  show ?case by (simp add: outputs_of_def find_function_def StakeHub_functions_def)
next
  case (3 out)
  have "convert_spec (ConvertType lib)"
    using assms by (simp add: call_spec_def)
  then show ?case
    using 3 by (force simp: basic_info_values_def list_all2_Cons1 go_index_def convert_spec_def
        elim!: StakeHubValidatorBasicInfoOut.cases)
qed

lemma relays_GetValidatorCommission:
  assumes "call_spec lib"
  shows "relays lib (caller_contract r) opts ''getValidatorCommission'' [VAddress operatorAddress] (\<lambda>c. [VAnon [VU64 (Rate c), VU64 (MaxRate c), VU64 (MaxChangeRate c)]])
        (StakeHubCaller_GetValidatorCommission lib r opts operatorAddress)"
  unfolding StakeHubCaller_GetValidatorCommission_def
  by (rule relays_call_one [OF assms _ _ reads_back_Commission])
    (simp_all add: fits_abi_def outputs_of_def find_function_def StakeHub_functions_def)

lemma relays_GetValidatorDescription:
  assumes "call_spec lib"
  shows "relays lib (caller_contract r) opts ''getValidatorDescription'' [VAddress operatorAddress] (\<lambda>d. [VAnon [VString (Moniker d), VString (Identity d), VString (Website d), VString (Details d)]])
        (StakeHubCaller_GetValidatorDescription lib r opts operatorAddress)"
  unfolding StakeHubCaller_GetValidatorDescription_def
  by (rule relays_call_one [OF assms _ _ reads_back_Description])
    (simp_all add: fits_abi_def outputs_of_def find_function_def StakeHub_functions_def)

lemma relays_GetValidatorElectionInfo:
  assumes "call_spec lib"
  shows "relays lib (caller_contract r) opts ''getValidatorElectionInfo'' [VBig offset, VBig limit] election_info_values
        (StakeHubCaller_GetValidatorElectionInfo lib r opts offset limit)"
  unfolding StakeHubCaller_GetValidatorElectionInfo_def
proof (rule relays_decoded [OF assms, where ts = "[AArray AAddress, AArray (AUint 256), AArray ABytes, AUint 256]"], goal_cases)
  case 1
  show ?case by (simp add: fits_abi_def find_function_def StakeHub_functions_def)
next
  case 2
  show ?case by (simp add: outputs_of_def find_function_def StakeHub_functions_def)
next
  case (3 out)
  have "convert_spec (ConvertType lib)"
    using assms by (simp add: call_spec_def)
  then show ?case
    using 3 by (force simp: election_info_values_def list_all2_Cons1 go_index_def convert_spec_def
        elim!: StakeHubValidatorElectionInfoOut.cases)
qed

lemma relays_GetValidatorRewardRecord:
  assumes "call_spec lib"
  shows "relays lib (caller_contract r) opts ''getValidatorRewardRecord'' [VAddress operatorAddress, VBig index] (\<lambda>x. [VBig x])
        (StakeHubCaller_GetValidatorRewardRecord lib r opts operatorAddress index)"
  unfolding StakeHubCaller_GetValidatorRewardRecord_def
  by (rule relays_call_one [OF assms _ _ reads_back_Big])
    (simp_all add: fits_abi_def outputs_of_def find_function_def StakeHub_functions_def)

lemma relays_GetValidatorTotalPooledBNBRecord:
  assumes "call_spec lib"
  shows "relays lib (caller_contract r) opts ''getValidatorTotalPooledBNBRecord'' [VAddress operatorAddress, VBig index] (\<lambda>x. [VBig x])
        (StakeHubCaller_GetValidatorTotalPooledBNBRecord lib r opts operatorAddress index)"
  unfolding StakeHubCaller_GetValidatorTotalPooledBNBRecord_def
  by (rule relays_call_one [OF assms _ _ reads_back_Big])
    (simp_all add: fits_abi_def outputs_of_def find_function_def StakeHub_functions_def)

lemma relays_GetValidators:
  assumes "call_spec lib"
  shows "relays lib (caller_contract r) opts ''getValidators'' [VBig offset, VBig limit] validators_values
        (StakeHubCaller_GetValidators lib r opts offset limit)"
  unfolding StakeHubCaller_GetValidators_def
proof (rule relays_decoded [OF assms, where ts = "[AArray AAddress, AArray AAddress, AUint 256]"], goal_cases)
  case 1
  show ?case by (simp add: fits_abi_def find_function_def StakeHub_functions_def)
next
  case 2
  show ?case by (simp add: outputs_of_def find_function_def StakeHub_functions_def)
next
  case (3 out)
  have "convert_spec (ConvertType lib)"
    using assms by (simp add: call_spec_def)
  then show ?case
    using 3 by (force simp: validators_values_def list_all2_Cons1 go_index_def convert_spec_def
        elim!: StakeHubValidatorsOut.cases)
qed

lemma relays_IsPaused:
  assumes "call_spec lib"
  shows "relays lib (caller_contract r) opts ''isPaused'' [] (\<lambda>b. [VBool b])
        (StakeHubCaller_IsPaused lib r opts)"
  unfolding StakeHubCaller_IsPaused_def
  by (rule relays_call_one [OF assms _ _ reads_back_Bool])
    (simp_all add: fits_abi_def outputs_of_def find_function_def StakeHub_functions_def)

lemma relays_MaxElectedValidators:
  assumes "call_spec lib"
  shows "relays lib (caller_contract r) opts ''maxElectedValidators'' [] (\<lambda>x. [VBig x])
        (StakeHubCaller_MaxElectedValidators lib r opts)"
  unfolding StakeHubCaller_MaxElectedValidators_def
  by (rule relays_call_one [OF assms _ _ reads_back_Big])
    (simp_all add: fits_abi_def outputs_of_def find_function_def StakeHub_functions_def)

lemma relays_MaxFelonyBetweenBreatheBlock:
  assumes "call_spec lib"
  shows "relays lib (caller_contract r) opts ''maxFelonyBetweenBreatheBlock'' [] (\<lambda>x. [VBig x])
        (StakeHubCaller_MaxFelonyBetweenBreatheBlock lib r opts)"
  unfolding StakeHubCaller_MaxFelonyBetweenBreatheBlock_def
  by (rule relays_call_one [OF assms _ _ reads_back_Big])
    (simp_all add: fits_abi_def outputs_of_def find_function_def StakeHub_functions_def)

lemma relays_MinDelegationBNBChange:
  assumes "call_spec lib"
  shows "relays lib (caller_contract r) opts ''minDelegationBNBChange'' [] (\<lambda>x. [VBig x])
        (StakeHubCaller_MinDelegationBNBChange lib r opts)"
  unfolding StakeHubCaller_MinDelegationBNBChange_def
  by (rule relays_call_one [OF assms _ _ reads_back_Big])
    (simp_all add: fits_abi_def outputs_of_def find_function_def StakeHub_functions_def)

lemma relays_MinSelfDelegationBNB:
  assumes "call_spec lib"
  shows "relays lib (caller_contract r) opts ''minSelfDelegationBNB'' [] (\<lambda>x. [VBig x])
        (StakeHubCaller_MinSelfDelegationBNB lib r opts)"
  unfolding StakeHubCaller_MinSelfDelegationBNB_def
  by (rule relays_call_one [OF assms _ _ reads_back_Big])
    (simp_all add: fits_abi_def outputs_of_def find_function_def StakeHub_functions_def)

lemma relays_NumOfJailed:
  assumes "call_spec lib"
  shows "relays lib (caller_contract r) opts ''numOfJailed'' [] (\<lambda>x. [VBig x])
        (StakeHubCaller_NumOfJailed lib r opts)"
  unfolding StakeHubCaller_NumOfJailed_def
  by (rule relays_call_one [OF assms _ _ reads_back_Big])
    (simp_all add: fits_abi_def outputs_of_def find_function_def StakeHub_functions_def)

lemma relays_RedelegateFeeRate:
  assumes "call_spec lib"
  shows "relays lib (caller_contract r) opts ''redelegateFeeRate'' [] (\<lambda>x. [VBig x])
        (StakeHubCaller_RedelegateFeeRate lib r opts)"
  unfolding StakeHubCaller_RedelegateFeeRate_def
  by (rule relays_call_one [OF assms _ _ reads_back_Big])
    (simp_all add: fits_abi_def outputs_of_def find_function_def StakeHub_functions_def)

lemma relays_TransferGasLimit:
  assumes "call_spec lib"
  shows "relays lib (caller_contract r) opts ''transferGasLimit'' [] (\<lambda>x. [VBig x])
        (StakeHubCaller_TransferGasLimit lib r opts)"
  unfolding StakeHubCaller_TransferGasLimit_def
  by (rule relays_call_one [OF assms _ _ reads_back_Big])
    (simp_all add: fits_abi_def outputs_of_def find_function_def StakeHub_functions_def)

lemma relays_UnbondPeriod:
  assumes "call_spec lib"
  shows "relays lib (caller_contract r) opts ''unbondPeriod'' [] (\<lambda>x. [VBig x])
        (StakeHubCaller_UnbondPeriod lib r opts)"
  unfolding StakeHubCaller_UnbondPeriod_def
  by (rule relays_call_one [OF assms _ _ reads_back_Big])
    (simp_all add: fits_abi_def outputs_of_def find_function_def StakeHub_functions_def)

lemma relays_VoteExpiration:
  assumes "call_spec lib"
  shows "relays lib (caller_contract r) opts ''voteExpiration'' [VBytes arg0] (\<lambda>x. [VBig x])
        (StakeHubCaller_VoteExpiration lib r opts arg0)"
  unfolding StakeHubCaller_VoteExpiration_def
  by (rule relays_call_one [OF assms _ _ reads_back_Big])
    (simp_all add: fits_abi_def outputs_of_def find_function_def StakeHub_functions_def)

lemma relays_VoteToOperator:
  assumes "call_spec lib"
  shows "relays lib (caller_contract r) opts ''voteToOperator'' [VBytes arg0] (\<lambda>a. [VAddress a])
        (StakeHubCaller_VoteToOperator lib r opts arg0)"
  unfolding StakeHubCaller_VoteToOperator_def
  by (rule relays_call_one [OF assms _ _ reads_back_Address])
    (simp_all add: fits_abi_def outputs_of_def find_function_def StakeHub_functions_def)

section \<open>Every read method relays its call\<close>

text \<open>C37: under the documented behaviour of the bind package (a call succeeds only with outputs
  of the function's ABI types), each of the 30 read methods names a view function of the embedded
  ABI with arguments of its input types, makes exactly that call, passes a call error on, and
  otherwise returns exactly the value the node sent; no method can panic on an index or a type
  assertion.\<close>

theorem read_methods_relay_call:
  assumes "call_spec lib"
  shows "relays lib (caller_contract r) opts ''BREATHE_BLOCK_INTERVAL'' [] (\<lambda>x. [VBig x])
        (StakeHubCaller_BREATHEBLOCKINTERVAL lib r opts)
    \<and> relays lib (caller_contract r) opts ''DEAD_ADDRESS'' [] (\<lambda>a. [VAddress a])
        (StakeHubCaller_DEADADDRESS lib r opts)
    \<and> relays lib (caller_contract r) opts ''LOCK_AMOUNT'' [] (\<lambda>x. [VBig x])
        (StakeHubCaller_LOCKAMOUNT lib r opts)
    \<and> relays lib (caller_contract r) opts ''REDELEGATE_FEE_RATE_BASE'' [] (\<lambda>x. [VBig x])
        (StakeHubCaller_REDELEGATEFEERATEBASE lib r opts)
    \<and> relays lib (caller_contract r) opts ''assetProtector'' [] (\<lambda>a. [VAddress a])
        (StakeHubCaller_AssetProtector lib r opts)
    \<and> relays lib (caller_contract r) opts ''blackList'' [VAddress arg0] (\<lambda>b. [VBool b])
        (StakeHubCaller_BlackList lib r opts arg0)
    \<and> relays lib (caller_contract r) opts ''consensusExpiration'' [VAddress arg0] (\<lambda>x. [VBig x])
        (StakeHubCaller_ConsensusExpiration lib r opts arg0)
    \<and> relays lib (caller_contract r) opts ''consensusToOperator'' [VAddress arg0] (\<lambda>a. [VAddress a])
        (StakeHubCaller_ConsensusToOperator lib r opts arg0)
    \<and> relays lib (caller_contract r) opts ''downtimeJailTime'' [] (\<lambda>x. [VBig x])
        (StakeHubCaller_DowntimeJailTime lib r opts)
    \<and> relays lib (caller_contract r) opts ''downtimeSlashAmount'' [] (\<lambda>x. [VBig x])
        (StakeHubCaller_DowntimeSlashAmount lib r opts)
    \<and> relays lib (caller_contract r) opts ''felonyJailTime'' [] (\<lambda>x. [VBig x])
        (StakeHubCaller_FelonyJailTime lib r opts)
    \<and> relays lib (caller_contract r) opts ''felonySlashAmount'' [] (\<lambda>x. [VBig x])
        (StakeHubCaller_FelonySlashAmount lib r opts)
    \<and> relays lib (caller_contract r) opts ''getValidatorBasicInfo'' [VAddress operatorAddress] basic_info_values
        (StakeHubCaller_GetValidatorBasicInfo lib r opts operatorAddress)
    \<and> relays lib (caller_contract r) opts ''getValidatorCommission'' [VAddress operatorAddress] (\<lambda>c. [VAnon [VU64 (Rate c), VU64 (MaxRate c), VU64 (MaxChangeRate c)]])
        (StakeHubCaller_GetValidatorCommission lib r opts operatorAddress)
    \<and> relays lib (caller_contract r) opts ''getValidatorDescription'' [VAddress operatorAddress] (\<lambda>d. [VAnon [VString (Moniker d), VString (Identity d), VString (Website d), VString (Details d)]])
        (StakeHubCaller_GetValidatorDescription lib r opts operatorAddress)
    \<and> relays lib (caller_contract r) opts ''getValidatorElectionInfo'' [VBig offset, VBig limit] election_info_values
        (StakeHubCaller_GetValidatorElectionInfo lib r opts offset limit)
    \<and> relays lib (caller_contract r) opts ''getValidatorRewardRecord'' [VAddress operatorAddress, VBig index] (\<lambda>x. [VBig x])
        (StakeHubCaller_GetValidatorRewardRecord lib r opts operatorAddress index)
    \<and> relays lib (caller_contract r) opts ''getValidatorTotalPooledBNBRecord'' [VAddress operatorAddress, VBig index] (\<lambda>x. [VBig x])
        (StakeHubCaller_GetValidatorTotalPooledBNBRecord lib r opts operatorAddress index)
    \<and> relays lib (caller_contract r) opts ''getValidators'' [VBig offset, VBig limit] validators_values
        (StakeHubCaller_GetValidators lib r opts offset limit)
    \<and> relays lib (caller_contract r) opts ''isPaused'' [] (\<lambda>b. [VBool b])
        (StakeHubCaller_IsPaused lib r opts)
    \<and> relays lib (caller_contract r) opts ''maxElectedValidators'' [] (\<lambda>x. [VBig x])
        (StakeHubCaller_MaxElectedValidators lib r opts)
    \<and> relays lib (caller_contract r) opts ''maxFelonyBetweenBreatheBlock'' [] (\<lambda>x. [VBig x])
        (StakeHubCaller_MaxFelonyBetweenBreatheBlock lib r opts)
    \<and> relays lib (caller_contract r) opts ''minDelegationBNBChange'' [] (\<lambda>x. [VBig x])
        (StakeHubCaller_MinDelegationBNBChange lib r opts)
    \<and> relays lib (caller_contract r) opts ''minSelfDelegationBNB'' [] (\<lambda>x. [VBig x])
        (StakeHubCaller_MinSelfDelegationBNB lib r opts)
    \<and> relays lib (caller_contract r) opts ''numOfJailed'' [] (\<lambda>x. [VBig x])
        (StakeHubCaller_NumOfJailed lib r opts)
    \<and> relays lib (caller_contract r) opts ''redelegateFeeRate'' [] (\<lambda>x. [VBig x])
        (StakeHubCaller_RedelegateFeeRate lib r opts)
    \<and> relays lib (caller_contract r) opts ''transferGasLimit'' [] (\<lambda>x. [VBig x])
        (StakeHubCaller_TransferGasLimit lib r opts)
    \<and> relays lib (caller_contract r) opts ''unbondPeriod'' [] (\<lambda>x. [VBig x])
        (StakeHubCaller_UnbondPeriod lib r opts)
    \<and> relays lib (caller_contract r) opts ''voteExpiration'' [VBytes voteAddress] (\<lambda>x. [VBig x])
        (StakeHubCaller_VoteExpiration lib r opts voteAddress)
    \<and> relays lib (caller_contract r) opts ''voteToOperator'' [VBytes voteAddress] (\<lambda>a. [VAddress a])
        (StakeHubCaller_VoteToOperator lib r opts voteAddress)"
  by (intro conjI relays_BREATHEBLOCKINTERVAL [OF assms] relays_DEADADDRESS [OF assms] relays_LOCKAMOUNT [OF assms] relays_REDELEGATEFEERATEBASE [OF assms] relays_AssetProtector [OF assms] relays_BlackList [OF assms] relays_ConsensusExpiration [OF assms] relays_ConsensusToOperator [OF assms] relays_DowntimeJailTime [OF assms] relays_DowntimeSlashAmount [OF assms] relays_FelonyJailTime [OF assms] relays_FelonySlashAmount [OF assms] relays_GetValidatorBasicInfo [OF assms] relays_GetValidatorCommission [OF assms] relays_GetValidatorDescription [OF assms] relays_GetValidatorElectionInfo [OF assms] relays_GetValidatorRewardRecord [OF assms] relays_GetValidatorTotalPooledBNBRecord [OF assms] relays_GetValidators [OF assms] relays_IsPaused [OF assms] relays_MaxElectedValidators [OF assms] relays_MaxFelonyBetweenBreatheBlock [OF assms] relays_MinDelegationBNBChange [OF assms] relays_MinSelfDelegationBNB [OF assms] relays_NumOfJailed [OF assms] relays_RedelegateFeeRate [OF assms] relays_TransferGasLimit [OF assms] relays_UnbondPeriod [OF assms] relays_VoteExpiration [OF assms] relays_VoteToOperator [OF assms])

text \<open>A bound contract that answers every function of the ABI with sample outputs and counts
  the calls made of it.\<close>

fun sample :: "abi_type \<Rightarrow> go_value" where
  "sample AAddress = VAddress 1"
| "sample (AUint n) = (if n = 256 then VBig (Some 45) else VU64 7)"
| "sample ABool = VBool True"
| "sample ABytes = VBytes [1]"
| "sample AString = VString ''x''"
| "sample (AArray t) = (if t = AAddress then VAddresses [2] else if t = ABytes then VBytesList [] else VBigs [])"
| "sample (ATuple ts) = VAnon (map sample ts)"

definition u64_of :: "go_value \<Rightarrow> 64 word" where
  "u64_of v = (case v of VU64 x \<Rightarrow> x | _ \<Rightarrow> 0)"

definition string_of :: "go_value \<Rightarrow> string" where
  "string_of v = (case v of VString x \<Rightarrow> x | _ \<Rightarrow> [])"

definition sample_convert :: "go_value \<Rightarrow> go_type \<Rightarrow> go_value" where
  "sample_convert v t = (case v of
       VAnon vs \<Rightarrow>
         if t = TCommission \<and> length vs = 3
         then VCommission \<lparr>Rate = u64_of (vs ! 0), MaxRate = u64_of (vs ! 1), MaxChangeRate = u64_of (vs ! 2)\<rparr>
         else if t = TDescription \<and> length vs = 4
         then VDescription \<lparr>Moniker = string_of (vs ! 0), Identity = string_of (vs ! 1),
                Website = string_of (vs ! 2), Details = string_of (vs ! 3)\<rparr>
         else v
     | _ \<Rightarrow> v)"

definition sample_rpc :: "(nat, unit, unit, unit) bind_rpc" where
  "sample_rpc = \<lparr>
     bound_Call = (\<lambda>c opts name args w. (case find_function name of
         None \<Rightarrow> ([], Some ''no method'')
       | Some f \<Rightarrow> (map sample (fn_outputs f), None), Suc w)),
     bound_Transact = (\<lambda>c opts name args w. ((Some (), None), w)),
     bound_RawTransact = (\<lambda>c opts data w. ((Some (), None), w)),
     bound_Transfer = (\<lambda>c opts w. ((Some (), None), w)),
     ConvertType = sample_convert\<rparr>"

lemma sample_unpacks:
  "list_all (\<lambda>f. list_all (\<lambda>t. unpacks t (sample t)) (fn_outputs f)) StakeHub_functions"
  by (auto simp: StakeHub_functions_def)

lemma find_function_in: "find_function name = Some f \<Longrightarrow> f \<in> set StakeHub_functions"
  by (auto simp: find_function_def find_Some_iff)

lemma call_spec_sample: "call_spec sample_rpc"
proof -
  have conv: "convert_spec sample_convert"
    by (simp add: convert_spec_def sample_convert_def u64_of_def string_of_def)
  have "list_all2 unpacks (fn_outputs f) (map sample (fn_outputs f))"
    if "find_function name = Some f" for name f
    using sample_unpacks find_function_in [OF that]
    by (force simp: list_all_iff list_all2_conv_all_nth)
  with conv show ?thesis
    by (auto simp: call_spec_def sample_rpc_def split: option.splits)
qed

theorem read_methods_relay_call_witness:
  "call_spec sample_rpc \<and>
   StakeHubCaller_MaxElectedValidators sample_rpc \<lparr>caller_contract = ()\<rparr> () 0 = (Ret (Some 45, None), 1)"
proof -
  have "relays sample_rpc () () ''maxElectedValidators'' [] (\<lambda>x. [VBig x])
      (StakeHubCaller_MaxElectedValidators sample_rpc \<lparr>caller_contract = ()\<rparr> ())"
    using read_methods_relay_call [OF call_spec_sample, of "\<lparr>caller_contract = ()\<rparr>"] by simp
  then show ?thesis
    using call_spec_sample
    by (simp add: relays_def sample_rpc_def find_function_def StakeHub_functions_def)
qed

end
