(* ===== verification/StakeHubWrites.thy ===== *)
theory StakeHubWrites
  imports StakeHubReads
begin

text \<open>
  The paid mutator methods of the binding (\<open>StakeHubTransactor\<close> and the two sessions):
  each submits one transaction through the bound contract.  The lemmas show that each names a
  state-changing function of the embedded ABI with arguments that pack at its input types.
\<close>

section \<open>The methods\<close>

definition StakeHubTransactor_AddToBlackList ::
  "('w, 'c, 'o, 'tx) bind_rpc \<Rightarrow> 'c StakeHubTransactor \<Rightarrow> 'o \<Rightarrow> address \<Rightarrow>
     ('w, 'tx option \<times> go_error option) io" where
  "StakeHubTransactor_AddToBlackList lib r opts account =
     extern (bound_Transact lib (transactor_contract r) opts ''addToBlackList'' [VAddress account])"

definition StakeHubSession_AddToBlackList ::
  "('w, 'c, 'o, 'tx) bind_rpc \<Rightarrow> ('c, 'o) StakeHubSession \<Rightarrow> address \<Rightarrow>
     ('w, 'tx option \<times> go_error option) io" where
  "StakeHubSession_AddToBlackList lib s account =
     StakeHubTransactor_AddToBlackList lib (hub_Transactor (session_Contract s)) (session_TransactOpts s) account"

definition StakeHubTransactorSession_AddToBlackList ::
  "('w, 'c, 'o, 'tx) bind_rpc \<Rightarrow> ('c, 'o) StakeHubTransactorSession \<Rightarrow> address \<Rightarrow>
     ('w, 'tx option \<times> go_error option) io" where
  "StakeHubTransactorSession_AddToBlackList lib s account =
     StakeHubTransactor_AddToBlackList lib (tsession_Contract s) (tsession_TransactOpts s) account"

definition StakeHubTransactor_Claim ::
  "('w, 'c, 'o, 'tx) bind_rpc \<Rightarrow> 'c StakeHubTransactor \<Rightarrow> 'o \<Rightarrow> address \<Rightarrow> int option \<Rightarrow>
     ('w, 'tx option \<times> go_error option) io" where
  "StakeHubTransactor_Claim lib r opts operatorAddress requestNumber =
     extern (bound_Transact lib (transactor_contract r) opts ''claim'' [VAddress operatorAddress, VBig requestNumber])"

definition StakeHubSession_Claim ::
  "('w, 'c, 'o, 'tx) bind_rpc \<Rightarrow> ('c, 'o) StakeHubSession \<Rightarrow> address \<Rightarrow> int option \<Rightarrow>
     ('w, 'tx option \<times> go_error option) io" where
  "StakeHubSession_Claim lib s operatorAddress requestNumber =
     StakeHubTransactor_Claim lib (hub_Transactor (session_Contract s)) (session_TransactOpts s) operatorAddress requestNumber"

definition StakeHubTransactorSession_Claim ::
  "('w, 'c, 'o, 'tx) bind_rpc \<Rightarrow> ('c, 'o) StakeHubTransactorSession \<Rightarrow> address \<Rightarrow> int option \<Rightarrow>
     ('w, 'tx option \<times> go_error option) io" where
  "StakeHubTransactorSession_Claim lib s operatorAddress requestNumber =
     StakeHubTransactor_Claim lib (tsession_Contract s) (tsession_TransactOpts s) operatorAddress requestNumber"

definition StakeHubTransactor_ClaimBatch ::
  "('w, 'c, 'o, 'tx) bind_rpc \<Rightarrow> 'c StakeHubTransactor \<Rightarrow> 'o \<Rightarrow> address list \<Rightarrow> int option list \<Rightarrow>
     ('w, 'tx option \<times> go_error option) io" where
  "StakeHubTransactor_ClaimBatch lib r opts operatorAddresses requestNumbers =
     extern (bound_Transact lib (transactor_contract r) opts ''claimBatch'' [VAddresses operatorAddresses, VBigs requestNumbers])"

definition StakeHubSession_ClaimBatch ::
  "('w, 'c, 'o, 'tx) bind_rpc \<Rightarrow> ('c, 'o) StakeHubSession \<Rightarrow> address list \<Rightarrow> int option list \<Rightarrow>
     ('w, 'tx option \<times> go_error option) io" where
  "StakeHubSession_ClaimBatch lib s operatorAddresses requestNumbers =
     StakeHubTransactor_ClaimBatch lib (hub_Transactor (session_Contract s)) (session_TransactOpts s) operatorAddresses requestNumbers"

definition StakeHubTransactorSession_ClaimBatch ::
  "('w, 'c, 'o, 'tx) bind_rpc \<Rightarrow> ('c, 'o) StakeHubTransactorSession \<Rightarrow> address list \<Rightarrow> int option list \<Rightarrow>
     ('w, 'tx option \<times> go_error option) io" where
  "StakeHubTransactorSession_ClaimBatch lib s operatorAddresses requestNumbers =
     StakeHubTransactor_ClaimBatch lib (tsession_Contract s) (tsession_TransactOpts s) operatorAddresses requestNumbers"

definition StakeHubTransactor_CreateValidator ::
  "('w, 'c, 'o, 'tx) bind_rpc \<Rightarrow> 'c StakeHubTransactor \<Rightarrow> 'o \<Rightarrow> address \<Rightarrow> bytes \<Rightarrow> bytes \<Rightarrow> StakeHubCommission \<Rightarrow> StakeHubDescription \<Rightarrow>
     ('w, 'tx option \<times> go_error option) io" where
  "StakeHubTransactor_CreateValidator lib r opts consensusAddress voteAddress blsProof commission description =
     extern (bound_Transact lib (transactor_contract r) opts ''createValidator'' [VAddress consensusAddress, VBytes voteAddress, VBytes blsProof, VCommission commission, VDescription description])"

definition StakeHubSession_CreateValidator ::
  "('w, 'c, 'o, 'tx) bind_rpc \<Rightarrow> ('c, 'o) StakeHubSession \<Rightarrow> address \<Rightarrow> bytes \<Rightarrow> bytes \<Rightarrow> StakeHubCommission \<Rightarrow> StakeHubDescription \<Rightarrow>
     ('w, 'tx option \<times> go_error option) io" where
  "StakeHubSession_CreateValidator lib s consensusAddress voteAddress blsProof commission description =
     StakeHubTransactor_CreateValidator lib (hub_Transactor (session_Contract s)) (session_TransactOpts s) consensusAddress voteAddress blsProof commission description"

definition StakeHubTransactorSession_CreateValidator ::
  "('w, 'c, 'o, 'tx) bind_rpc \<Rightarrow> ('c, 'o) StakeHubTransactorSession \<Rightarrow> address \<Rightarrow> bytes \<Rightarrow> bytes \<Rightarrow> StakeHubCommission \<Rightarrow> StakeHubDescription \<Rightarrow>
     ('w, 'tx option \<times> go_error option) io" where
  "StakeHubTransactorSession_CreateValidator lib s consensusAddress voteAddress blsProof commission description =
     StakeHubTransactor_CreateValidator lib (tsession_Contract s) (tsession_TransactOpts s) consensusAddress voteAddress blsProof commission description"

definition StakeHubTransactor_Delegate ::
  "('w, 'c, 'o, 'tx) bind_rpc \<Rightarrow> 'c StakeHubTransactor \<Rightarrow> 'o \<Rightarrow> address \<Rightarrow> bool \<Rightarrow>
     ('w, 'tx option \<times> go_error option) io" where
  "StakeHubTransactor_Delegate lib r opts operatorAddress delegateVotePower =
     extern (bound_Transact lib (transactor_contract r) opts ''delegate'' [VAddress operatorAddress, VBool delegateVotePower])"

definition StakeHubSession_Delegate ::
  "('w, 'c, 'o, 'tx) bind_rpc \<Rightarrow> ('c, 'o) StakeHubSession \<Rightarrow> address \<Rightarrow> bool \<Rightarrow>
     ('w, 'tx option \<times> go_error option) io" where
  "StakeHubSession_Delegate lib s operatorAddress delegateVotePower =
     StakeHubTransactor_Delegate lib (hub_Transactor (session_Contract s)) (session_TransactOpts s) operatorAddress delegateVotePower"

definition StakeHubTransactorSession_Delegate ::
  "('w, 'c, 'o, 'tx) bind_rpc \<Rightarrow> ('c, 'o) StakeHubTransactorSession \<Rightarrow> address \<Rightarrow> bool \<Rightarrow>
     ('w, 'tx option \<times> go_error option) io" where
  "StakeHubTransactorSession_Delegate lib s operatorAddress delegateVotePower =
     StakeHubTransactor_Delegate lib (tsession_Contract s) (tsession_TransactOpts s) operatorAddress delegateVotePower"

definition StakeHubTransactor_DistributeReward ::
  "('w, 'c, 'o, 'tx) bind_rpc \<Rightarrow> 'c StakeHubTransactor \<Rightarrow> 'o \<Rightarrow> address \<Rightarrow>
     ('w, 'tx option \<times> go_error option) io" where
  "StakeHubTransactor_DistributeReward lib r opts consensusAddress =
     extern (bound_Transact lib (transactor_contract r) opts ''distributeReward'' [VAddress consensusAddress])"

definition StakeHubSession_DistributeReward ::
  "('w, 'c, 'o, 'tx) bind_rpc \<Rightarrow> ('c, 'o) StakeHubSession \<Rightarrow> address \<Rightarrow>
     ('w, 'tx option \<times> go_error option) io" where
  "StakeHubSession_DistributeReward lib s consensusAddress =
     StakeHubTransactor_DistributeReward lib (hub_Transactor (session_Contract s)) (session_TransactOpts s) consensusAddress"

definition StakeHubTransactorSession_DistributeReward ::
  "('w, 'c, 'o, 'tx) bind_rpc \<Rightarrow> ('c, 'o) StakeHubTransactorSession \<Rightarrow> address \<Rightarrow>
     ('w, 'tx option \<times> go_error option) io" where
  "StakeHubTransactorSession_DistributeReward lib s consensusAddress =
     StakeHubTransactor_DistributeReward lib (tsession_Contract s) (tsession_TransactOpts s) consensusAddress"

definition StakeHubTransactor_DoubleSignSlash ::
  "('w, 'c, 'o, 'tx) bind_rpc \<Rightarrow> 'c StakeHubTransactor \<Rightarrow> 'o \<Rightarrow> address \<Rightarrow>
     ('w, 'tx option \<times> go_error option) io" where
  "StakeHubTransactor_DoubleSignSlash lib r opts consensusAddress =
     extern (bound_Transact lib (transactor_contract r) opts ''doubleSignSlash'' [VAddress consensusAddress])"

definition StakeHubSession_DoubleSignSlash ::
  "('w, 'c, 'o, 'tx) bind_rpc \<Rightarrow> ('c, 'o) StakeHubSession \<Rightarrow> address \<Rightarrow>
     ('w, 'tx option \<times> go_error option) io" where
  "StakeHubSession_DoubleSignSlash lib s consensusAddress =
     StakeHubTransactor_DoubleSignSlash lib (hub_Transactor (session_Contract s)) (session_TransactOpts s) consensusAddress"

definition StakeHubTransactorSession_DoubleSignSlash ::
  "('w, 'c, 'o, 'tx) bind_rpc \<Rightarrow> ('c, 'o) StakeHubTransactorSession \<Rightarrow> address \<Rightarrow>
     ('w, 'tx option \<times> go_error option) io" where
  "StakeHubTransactorSession_DoubleSignSlash lib s consensusAddress =
     StakeHubTransactor_DoubleSignSlash lib (tsession_Contract s) (tsession_TransactOpts s) consensusAddress"

definition StakeHubTransactor_DowntimeSlash ::
  "('w, 'c, 'o, 'tx) bind_rpc \<Rightarrow> 'c StakeHubTransactor \<Rightarrow> 'o \<Rightarrow> address \<Rightarrow>
     ('w, 'tx option \<times> go_error option) io" where
  "StakeHubTransactor_DowntimeSlash lib r opts consensusAddress =
     extern (bound_Transact lib (transactor_contract r) opts ''downtimeSlash'' [VAddress consensusAddress])"

definition StakeHubSession_DowntimeSlash ::
  "('w, 'c, 'o, 'tx) bind_rpc \<Rightarrow> ('c, 'o) StakeHubSession \<Rightarrow> address \<Rightarrow>
     ('w, 'tx option \<times> go_error option) io" where
  "StakeHubSession_DowntimeSlash lib s consensusAddress =
     StakeHubTransactor_DowntimeSlash lib (hub_Transactor (session_Contract s)) (session_TransactOpts s) consensusAddress"

definition StakeHubTransactorSession_DowntimeSlash ::
  "('w, 'c, 'o, 'tx) bind_rpc \<Rightarrow> ('c, 'o) StakeHubTransactorSession \<Rightarrow> address \<Rightarrow>
     ('w, 'tx option \<times> go_error option) io" where
  "StakeHubTransactorSession_DowntimeSlash lib s consensusAddress =
     StakeHubTransactor_DowntimeSlash lib (tsession_Contract s) (tsession_TransactOpts s) consensusAddress"

definition StakeHubTransactor_EditCommissionRate ::
  "('w, 'c, 'o, 'tx) bind_rpc \<Rightarrow> 'c StakeHubTransactor \<Rightarrow> 'o \<Rightarrow> 64 word \<Rightarrow>
     ('w, 'tx option \<times> go_error option) io" where
  "StakeHubTransactor_EditCommissionRate lib r opts commissionRate =
     extern (bound_Transact lib (transactor_contract r) opts ''editCommissionRate'' [VU64 commissionRate])"

definition StakeHubSession_EditCommissionRate ::
  "('w, 'c, 'o, 'tx) bind_rpc \<Rightarrow> ('c, 'o) StakeHubSession \<Rightarrow> 64 word \<Rightarrow>
     ('w, 'tx option \<times> go_error option) io" where
  "StakeHubSession_EditCommissionRate lib s commissionRate =
     StakeHubTransactor_EditCommissionRate lib (hub_Transactor (session_Contract s)) (session_TransactOpts s) commissionRate"

definition StakeHubTransactorSession_EditCommissionRate ::
  "('w, 'c, 'o, 'tx) bind_rpc \<Rightarrow> ('c, 'o) StakeHubTransactorSession \<Rightarrow> 64 word \<Rightarrow>
     ('w, 'tx option \<times> go_error option) io" where
  "StakeHubTransactorSession_EditCommissionRate lib s commissionRate =
     StakeHubTransactor_EditCommissionRate lib (tsession_Contract s) (tsession_TransactOpts s) commissionRate"

definition StakeHubTransactor_EditConsensusAddress ::
  "('w, 'c, 'o, 'tx) bind_rpc \<Rightarrow> 'c StakeHubTransactor \<Rightarrow> 'o \<Rightarrow> address \<Rightarrow>
     ('w, 'tx option \<times> go_error option) io" where
  "StakeHubTransactor_EditConsensusAddress lib r opts newConsensusAddress =
     extern (bound_Transact lib (transactor_contract r) opts ''editConsensusAddress'' [VAddress newConsensusAddress])"

definition StakeHubSession_EditConsensusAddress ::
  "('w, 'c, 'o, 'tx) bind_rpc \<Rightarrow> ('c, 'o) StakeHubSession \<Rightarrow> address \<Rightarrow>
     ('w, 'tx option \<times> go_error option) io" where
  "StakeHubSession_EditConsensusAddress lib s newConsensusAddress =
     StakeHubTransactor_EditConsensusAddress lib (hub_Transactor (session_Contract s)) (session_TransactOpts s) newConsensusAddress"

definition StakeHubTransactorSession_EditConsensusAddress ::
  "('w, 'c, 'o, 'tx) bind_rpc \<Rightarrow> ('c, 'o) StakeHubTransactorSession \<Rightarrow> address \<Rightarrow>
     ('w, 'tx option \<times> go_error option) io" where
  "StakeHubTransactorSession_EditConsensusAddress lib s newConsensusAddress =
     StakeHubTransactor_EditConsensusAddress lib (tsession_Contract s) (tsession_TransactOpts s) newConsensusAddress"

definition StakeHubTransactor_EditDescription ::
  "('w, 'c, 'o, 'tx) bind_rpc \<Rightarrow> 'c StakeHubTransactor \<Rightarrow> 'o \<Rightarrow> StakeHubDescription \<Rightarrow>
     ('w, 'tx option \<times> go_error option) io" where
  "StakeHubTransactor_EditDescription lib r opts description =
     extern (bound_Transact lib (transactor_contract r) opts ''editDescription'' [VDescription description])"

definition StakeHubSession_EditDescription ::
  "('w, 'c, 'o, 'tx) bind_rpc \<Rightarrow> ('c, 'o) StakeHubSession \<Rightarrow> StakeHubDescription \<Rightarrow>
     ('w, 'tx option \<times> go_error option) io" where
  "StakeHubSession_EditDescription lib s description =
     StakeHubTransactor_EditDescription lib (hub_Transactor (session_Contract s)) (session_TransactOpts s) description"

definition StakeHubTransactorSession_EditDescription ::
  "('w, 'c, 'o, 'tx) bind_rpc \<Rightarrow> ('c, 'o) StakeHubTransactorSession \<Rightarrow> StakeHubDescription \<Rightarrow>
     ('w, 'tx option \<times> go_error option) io" where
  "StakeHubTransactorSession_EditDescription lib s description =
     StakeHubTransactor_EditDescription lib (tsession_Contract s) (tsession_TransactOpts s) description"

definition StakeHubTransactor_EditVoteAddress ::
  "('w, 'c, 'o, 'tx) bind_rpc \<Rightarrow> 'c StakeHubTransactor \<Rightarrow> 'o \<Rightarrow> bytes \<Rightarrow> bytes \<Rightarrow>
     ('w, 'tx option \<times> go_error option) io" where
  "StakeHubTransactor_EditVoteAddress lib r opts newVoteAddress blsProof =
     extern (bound_Transact lib (transactor_contract r) opts ''editVoteAddress'' [VBytes newVoteAddress, VBytes blsProof])"

definition StakeHubSession_EditVoteAddress ::
  "('w, 'c, 'o, 'tx) bind_rpc \<Rightarrow> ('c, 'o) StakeHubSession \<Rightarrow> bytes \<Rightarrow> bytes \<Rightarrow>
     ('w, 'tx option \<times> go_error option) io" where
  "StakeHubSession_EditVoteAddress lib s newVoteAddress blsProof =
     StakeHubTransactor_EditVoteAddress lib (hub_Transactor (session_Contract s)) (session_TransactOpts s) newVoteAddress blsProof"

definition StakeHubTransactorSession_EditVoteAddress ::
  "('w, 'c, 'o, 'tx) bind_rpc \<Rightarrow> ('c, 'o) StakeHubTransactorSession \<Rightarrow> bytes \<Rightarrow> bytes \<Rightarrow>
     ('w, 'tx option \<times> go_error option) io" where
  "StakeHubTransactorSession_EditVoteAddress lib s newVoteAddress blsProof =
     StakeHubTransactor_EditVoteAddress lib (tsession_Contract s) (tsession_TransactOpts s) newVoteAddress blsProof"

definition StakeHubTransactor_Initialize ::
  "('w, 'c, 'o, 'tx) bind_rpc \<Rightarrow> 'c StakeHubTransactor \<Rightarrow> 'o \<Rightarrow>
     ('w, 'tx option \<times> go_error option) io" where
  "StakeHubTransactor_Initialize lib r opts =
     extern (bound_Transact lib (transactor_contract r) opts ''initialize'' [])"

definition StakeHubSession_Initialize ::
  "('w, 'c, 'o, 'tx) bind_rpc \<Rightarrow> ('c, 'o) StakeHubSession \<Rightarrow>
     ('w, 'tx option \<times> go_error option) io" where
  "StakeHubSession_Initialize lib s =
     StakeHubTransactor_Initialize lib (hub_Transactor (session_Contract s)) (session_TransactOpts s)"

definition StakeHubTransactorSession_Initialize ::
  "('w, 'c, 'o, 'tx) bind_rpc \<Rightarrow> ('c, 'o) StakeHubTransactorSession \<Rightarrow>
     ('w, 'tx option \<times> go_error option) io" where
  "StakeHubTransactorSession_Initialize lib s =
     StakeHubTransactor_Initialize lib (tsession_Contract s) (tsession_TransactOpts s)"

definition StakeHubTransactor_MaliciousVoteSlash ::
  "('w, 'c, 'o, 'tx) bind_rpc \<Rightarrow> 'c StakeHubTransactor \<Rightarrow> 'o \<Rightarrow> bytes \<Rightarrow>
     ('w, 'tx option \<times> go_error option) io" where
  "StakeHubTransactor_MaliciousVoteSlash lib r opts voteAddress =
     extern (bound_Transact lib (transactor_contract r) opts ''maliciousVoteSlash'' [VBytes voteAddress])"

definition StakeHubSession_MaliciousVoteSlash ::
  "('w, 'c, 'o, 'tx) bind_rpc \<Rightarrow> ('c, 'o) StakeHubSession \<Rightarrow> bytes \<Rightarrow>
     ('w, 'tx option \<times> go_error option) io" where
  "StakeHubSession_MaliciousVoteSlash lib s voteAddress =
     StakeHubTransactor_MaliciousVoteSlash lib (hub_Transactor (session_Contract s)) (session_TransactOpts s) voteAddress"

definition StakeHubTransactorSession_MaliciousVoteSlash ::
  "('w, 'c, 'o, 'tx) bind_rpc \<Rightarrow> ('c, 'o) StakeHubTransactorSession \<Rightarrow> bytes \<Rightarrow>
     ('w, 'tx option \<times> go_error option) io" where
  "StakeHubTransactorSession_MaliciousVoteSlash lib s voteAddress =
     StakeHubTransactor_MaliciousVoteSlash lib (tsession_Contract s) (tsession_TransactOpts s) voteAddress"

definition StakeHubTransactor_Pause ::
  "('w, 'c, 'o, 'tx) bind_rpc \<Rightarrow> 'c StakeHubTransactor \<Rightarrow> 'o \<Rightarrow>
     ('w, 'tx option \<times> go_error option) io" where
  "StakeHubTransactor_Pause lib r opts =
     extern (bound_Transact lib (transactor_contract r) opts ''pause'' [])"

definition StakeHubSession_Pause ::
  "('w, 'c, 'o, 'tx) bind_rpc \<Rightarrow> ('c, 'o) StakeHubSession \<Rightarrow>
     ('w, 'tx option \<times> go_error option) io" where
  "StakeHubSession_Pause lib s =
     StakeHubTransactor_Pause lib (hub_Transactor (session_Contract s)) (session_TransactOpts s)"

definition StakeHubTransactorSession_Pause ::
  "('w, 'c, 'o, 'tx) bind_rpc \<Rightarrow> ('c, 'o) StakeHubTransactorSession \<Rightarrow>
     ('w, 'tx option \<times> go_error option) io" where
  "StakeHubTransactorSession_Pause lib s =
     StakeHubTransactor_Pause lib (tsession_Contract s) (tsession_TransactOpts s)"

definition StakeHubTransactor_Redelegate ::
  "('w, 'c, 'o, 'tx) bind_rpc \<Rightarrow> 'c StakeHubTransactor \<Rightarrow> 'o \<Rightarrow> address \<Rightarrow> address \<Rightarrow> int option \<Rightarrow> bool \<Rightarrow>
     ('w, 'tx option \<times> go_error option) io" where
  "StakeHubTransactor_Redelegate lib r opts srcValidator dstValidator shares delegateVotePower =
     extern (bound_Transact lib (transactor_contract r) opts ''redelegate'' [VAddress srcValidator, VAddress dstValidator, VBig shares, VBool delegateVotePower])"

definition StakeHubSession_Redelegate ::
  "('w, 'c, 'o, 'tx) bind_rpc \<Rightarrow> ('c, 'o) StakeHubSession \<Rightarrow> address \<Rightarrow> address \<Rightarrow> int option \<Rightarrow> bool \<Rightarrow>
     ('w, 'tx option \<times> go_error option) io" where
  "StakeHubSession_Redelegate lib s srcValidator dstValidator shares delegateVotePower =
     StakeHubTransactor_Redelegate lib (hub_Transactor (session_Contract s)) (session_TransactOpts s) srcValidator dstValidator shares delegateVotePower"

definition StakeHubTransactorSession_Redelegate ::
  "('w, 'c, 'o, 'tx) bind_rpc \<Rightarrow> ('c, 'o) StakeHubTransactorSession \<Rightarrow> address \<Rightarrow> address \<Rightarrow> int option \<Rightarrow> bool \<Rightarrow>
     ('w, 'tx option \<times> go_error option) io" where
  "StakeHubTransactorSession_Redelegate lib s srcValidator dstValidator shares delegateVotePower =
     StakeHubTransactor_Redelegate lib (tsession_Contract s) (tsession_TransactOpts s) srcValidator dstValidator shares delegateVotePower"

definition StakeHubTransactor_RemoveFromBlackList ::
  "('w, 'c, 'o, 'tx) bind_rpc \<Rightarrow> 'c StakeHubTransactor \<Rightarrow> 'o \<Rightarrow> address \<Rightarrow>
     ('w, 'tx option \<times> go_error option) io" where
  "StakeHubTransactor_RemoveFromBlackList lib r opts account =
     extern (bound_Transact lib (transactor_contract r) opts ''removeFromBlackList'' [VAddress account])"

definition StakeHubSession_RemoveFromBlackList ::
  "('w, 'c, 'o, 'tx) bind_rpc \<Rightarrow> ('c, 'o) StakeHubSession \<Rightarrow> address \<Rightarrow>
     ('w, 'tx option \<times> go_error option) io" where
  "StakeHubSession_RemoveFromBlackList lib s account =
     StakeHubTransactor_RemoveFromBlackList lib (hub_Transactor (session_Contract s)) (session_TransactOpts s) account"

definition StakeHubTransactorSession_RemoveFromBlackList ::
  "('w, 'c, 'o, 'tx) bind_rpc \<Rightarrow> ('c, 'o) StakeHubTransactorSession \<Rightarrow> address \<Rightarrow>
     ('w, 'tx option \<times> go_error option) io" where
  "StakeHubTransactorSession_RemoveFromBlackList lib s account =
     StakeHubTransactor_RemoveFromBlackList lib (tsession_Contract s) (tsession_TransactOpts s) account"

definition StakeHubTransactor_Resume ::
  "('w, 'c, 'o, 'tx) bind_rpc \<Rightarrow> 'c StakeHubTransactor \<Rightarrow> 'o \<Rightarrow>
     ('w, 'tx option \<times> go_error option) io" where
  "StakeHubTransactor_Resume lib r opts =
     extern (bound_Transact lib (transactor_contract r) opts ''resume'' [])"

definition StakeHubSession_Resume ::
  "('w, 'c, 'o, 'tx) bind_rpc \<Rightarrow> ('c, 'o) StakeHubSession \<Rightarrow>
     ('w, 'tx option \<times> go_error option) io" where
  "StakeHubSession_Resume lib s =
     StakeHubTransactor_Resume lib (hub_Transactor (session_Contract s)) (session_TransactOpts s)"

definition StakeHubTransactorSession_Resume ::
  "('w, 'c, 'o, 'tx) bind_rpc \<Rightarrow> ('c, 'o) StakeHubTransactorSession \<Rightarrow>
     ('w, 'tx option \<times> go_error option) io" where
  "StakeHubTransactorSession_Resume lib s =
     StakeHubTransactor_Resume lib (tsession_Contract s) (tsession_TransactOpts s)"

definition StakeHubTransactor_SyncGovToken ::
  "('w, 'c, 'o, 'tx) bind_rpc \<Rightarrow> 'c StakeHubTransactor \<Rightarrow> 'o \<Rightarrow> address list \<Rightarrow> address \<Rightarrow>
     ('w, 'tx option \<times> go_error option) io" where
  "StakeHubTransactor_SyncGovToken lib r opts operatorAddresses account =
     extern (bound_Transact lib (transactor_contract r) opts ''syncGovToken'' [VAddresses operatorAddresses, VAddress account])"

definition StakeHubSession_SyncGovToken ::
  "('w, 'c, 'o, 'tx) bind_rpc \<Rightarrow> ('c, 'o) StakeHubSession \<Rightarrow> address list \<Rightarrow> address \<Rightarrow>
     ('w, 'tx option \<times> go_error option) io" where
  "StakeHubSession_SyncGovToken lib s operatorAddresses account =
     StakeHubTransactor_SyncGovToken lib (hub_Transactor (session_Contract s)) (session_TransactOpts s) operatorAddresses account"

definition StakeHubTransactorSession_SyncGovToken ::
  "('w, 'c, 'o, 'tx) bind_rpc \<Rightarrow> ('c, 'o) StakeHubTransactorSession \<Rightarrow> address list \<Rightarrow> address \<Rightarrow>
     ('w, 'tx option \<times> go_error option) io" where
  "StakeHubTransactorSession_SyncGovToken lib s operatorAddresses account =
     StakeHubTransactor_SyncGovToken lib (tsession_Contract s) (tsession_TransactOpts s) operatorAddresses account"

definition StakeHubTransactor_Undelegate ::
  "('w, 'c, 'o, 'tx) bind_rpc \<Rightarrow> 'c StakeHubTransactor \<Rightarrow> 'o \<Rightarrow> address \<Rightarrow> int option \<Rightarrow>
     ('w, 'tx option \<times> go_error option) io" where
  "StakeHubTransactor_Undelegate lib r opts operatorAddress shares =
     extern (bound_Transact lib (transactor_contract r) opts ''undelegate'' [VAddress operatorAddress, VBig shares])"

definition StakeHubSession_Undelegate ::
  "('w, 'c, 'o, 'tx) bind_rpc \<Rightarrow> ('c, 'o) StakeHubSession \<Rightarrow> address \<Rightarrow> int option \<Rightarrow>
     ('w, 'tx option \<times> go_error option) io" where
  "StakeHubSession_Undelegate lib s operatorAddress shares =
     StakeHubTransactor_Undelegate lib (hub_Transactor (session_Contract s)) (session_TransactOpts s) operatorAddress shares"

definition StakeHubTransactorSession_Undelegate ::
  "('w, 'c, 'o, 'tx) bind_rpc \<Rightarrow> ('c, 'o) StakeHubTransactorSession \<Rightarrow> address \<Rightarrow> int option \<Rightarrow>
     ('w, 'tx option \<times> go_error option) io" where
  "StakeHubTransactorSession_Undelegate lib s operatorAddress shares =
     StakeHubTransactor_Undelegate lib (tsession_Contract s) (tsession_TransactOpts s) operatorAddress shares"

definition StakeHubTransactor_Unjail ::
  "('w, 'c, 'o, 'tx) bind_rpc \<Rightarrow> 'c StakeHubTransactor \<Rightarrow> 'o \<Rightarrow> address \<Rightarrow>
     ('w, 'tx option \<times> go_error option) io" where
  "StakeHubTransactor_Unjail lib r opts operatorAddress =
     extern (bound_Transact lib (transactor_contract r) opts ''unjail'' [VAddress operatorAddress])"

definition StakeHubSession_Unjail ::
  "('w, 'c, 'o, 'tx) bind_rpc \<Rightarrow> ('c, 'o) StakeHubSession \<Rightarrow> address \<Rightarrow>
     ('w, 'tx option \<times> go_error option) io" where
  "StakeHubSession_Unjail lib s operatorAddress =
     StakeHubTransactor_Unjail lib (hub_Transactor (session_Contract s)) (session_TransactOpts s) operatorAddress"

definition StakeHubTransactorSession_Unjail ::
  "('w, 'c, 'o, 'tx) bind_rpc \<Rightarrow> ('c, 'o) StakeHubTransactorSession \<Rightarrow> address \<Rightarrow>
     ('w, 'tx option \<times> go_error option) io" where
  "StakeHubTransactorSession_Unjail lib s operatorAddress =
     StakeHubTransactor_Unjail lib (tsession_Contract s) (tsession_TransactOpts s) operatorAddress"

definition StakeHubTransactor_UpdateParam ::
  "('w, 'c, 'o, 'tx) bind_rpc \<Rightarrow> 'c StakeHubTransactor \<Rightarrow> 'o \<Rightarrow> string \<Rightarrow> bytes \<Rightarrow>
     ('w, 'tx option \<times> go_error option) io" where
  "StakeHubTransactor_UpdateParam lib r opts key val =
     extern (bound_Transact lib (transactor_contract r) opts ''updateParam'' [VString key, VBytes val])"

definition StakeHubSession_UpdateParam ::
  "('w, 'c, 'o, 'tx) bind_rpc \<Rightarrow> ('c, 'o) StakeHubSession \<Rightarrow> string \<Rightarrow> bytes \<Rightarrow>
     ('w, 'tx option \<times> go_error option) io" where
  "StakeHubSession_UpdateParam lib s key val =
     StakeHubTransactor_UpdateParam lib (hub_Transactor (session_Contract s)) (session_TransactOpts s) key val"

definition StakeHubTransactorSession_UpdateParam ::
  "('w, 'c, 'o, 'tx) bind_rpc \<Rightarrow> ('c, 'o) StakeHubTransactorSession \<Rightarrow> string \<Rightarrow> bytes \<Rightarrow>
     ('w, 'tx option \<times> go_error option) io" where
  "StakeHubTransactorSession_UpdateParam lib s key val =
     StakeHubTransactor_UpdateParam lib (tsession_Contract s) (tsession_TransactOpts s) key val"

definition StakeHubTransactor_Receive ::
  "('w, 'c, 'o, 'tx) bind_rpc \<Rightarrow> 'c StakeHubTransactor \<Rightarrow> 'o \<Rightarrow>
     ('w, 'tx option \<times> go_error option) io" where
  "StakeHubTransactor_Receive lib r opts =
     extern (bound_RawTransact lib (transactor_contract r) opts None)"

definition StakeHubSession_Receive ::
  "('w, 'c, 'o, 'tx) bind_rpc \<Rightarrow> ('c, 'o) StakeHubSession \<Rightarrow>
     ('w, 'tx option \<times> go_error option) io" where
  "StakeHubSession_Receive lib s =
     StakeHubTransactor_Receive lib (hub_Transactor (session_Contract s)) (session_TransactOpts s)"

definition StakeHubTransactorSession_Receive ::
  "('w, 'c, 'o, 'tx) bind_rpc \<Rightarrow> ('c, 'o) StakeHubTransactorSession \<Rightarrow>
     ('w, 'tx option \<times> go_error option) io" where
  "StakeHubTransactorSession_Receive lib s =
     StakeHubTransactor_Receive lib (tsession_Contract s) (tsession_TransactOpts s)"

section \<open>What a mutator submits\<close>

text \<open>One transaction \<open>name(args)\<close>, for a function of the ABI that may change state,
  returns nothing, and takes arguments of these types.\<close>

definition submits ::
  "('w, 'c, 'o, 'tx) bind_rpc \<Rightarrow> 'c \<Rightarrow> 'o \<Rightarrow> string \<Rightarrow> go_value list \<Rightarrow>
     ('w, 'tx option \<times> go_error option) io \<Rightarrow> bool" where
  "submits lib contract opts name args m \<longleftrightarrow>
     fits_abi (\<lambda>mu. mu \<noteq> View) name args \<and> outputs_of name = Some [] \<and>
     (\<forall>w. m w = (Ret (fst (bound_Transact lib contract opts name args w)),
                 snd (bound_Transact lib contract opts name args w)))"

lemma submitsI:
  assumes "fits_abi (\<lambda>mu. mu \<noteq> View) name args" and "outputs_of name = Some []"
  shows "submits lib contract opts name args (extern (bound_Transact lib contract opts name args))"
  using assms by (simp add: submits_def)

lemma submits_AddToBlackList:
  "submits lib (transactor_contract r) opts ''addToBlackList'' [VAddress account]
        (StakeHubTransactor_AddToBlackList lib r opts account)"
  unfolding StakeHubTransactor_AddToBlackList_def
  by (rule submitsI) (simp_all add: fits_abi_def outputs_of_def find_function_def StakeHub_functions_def)

lemma submits_Claim:
  "submits lib (transactor_contract r) opts ''claim'' [VAddress operatorAddress, VBig requestNumber]
        (StakeHubTransactor_Claim lib r opts operatorAddress requestNumber)"
  unfolding StakeHubTransactor_Claim_def
  by (rule submitsI) (simp_all add: fits_abi_def outputs_of_def find_function_def StakeHub_functions_def)

lemma submits_ClaimBatch:
  "submits lib (transactor_contract r) opts ''claimBatch'' [VAddresses operatorAddresses, VBigs requestNumbers]
        (StakeHubTransactor_ClaimBatch lib r opts operatorAddresses requestNumbers)"
  unfolding StakeHubTransactor_ClaimBatch_def
  by (rule submitsI) (simp_all add: fits_abi_def outputs_of_def find_function_def StakeHub_functions_def)

lemma submits_CreateValidator:
  "submits lib (transactor_contract r) opts ''createValidator'' [VAddress consensusAddress, VBytes voteAddress, VBytes blsProof, VCommission commission, VDescription description]
        (StakeHubTransactor_CreateValidator lib r opts consensusAddress voteAddress blsProof commission description)"
  unfolding StakeHubTransactor_CreateValidator_def
  by (rule submitsI) (simp_all add: fits_abi_def outputs_of_def find_function_def StakeHub_functions_def)

lemma submits_Delegate:
  "submits lib (transactor_contract r) opts ''delegate'' [VAddress operatorAddress, VBool delegateVotePower]
        (StakeHubTransactor_Delegate lib r opts operatorAddress delegateVotePower)"
  unfolding StakeHubTransactor_Delegate_def
  by (rule submitsI) (simp_all add: fits_abi_def outputs_of_def find_function_def StakeHub_functions_def)

lemma submits_DistributeReward:
  "submits lib (transactor_contract r) opts ''distributeReward'' [VAddress consensusAddress]
        (StakeHubTransactor_DistributeReward lib r opts consensusAddress)"
  unfolding StakeHubTransactor_DistributeReward_def
  by (rule submitsI) (simp_all add: fits_abi_def outputs_of_def find_function_def StakeHub_functions_def)

lemma submits_DoubleSignSlash:
  "submits lib (transactor_contract r) opts ''doubleSignSlash'' [VAddress consensusAddress]
        (StakeHubTransactor_DoubleSignSlash lib r opts consensusAddress)"
  unfolding StakeHubTransactor_DoubleSignSlash_def
  by (rule submitsI) (simp_all add: fits_abi_def outputs_of_def find_function_def StakeHub_functions_def)

lemma submits_DowntimeSlash:
  "submits lib (transactor_contract r) opts ''downtimeSlash'' [VAddress consensusAddress]
        (StakeHubTransactor_DowntimeSlash lib r opts consensusAddress)"
  unfolding StakeHubTransactor_DowntimeSlash_def
  by (rule submitsI) (simp_all add: fits_abi_def outputs_of_def find_function_def StakeHub_functions_def)

lemma submits_EditCommissionRate:
  "submits lib (transactor_contract r) opts ''editCommissionRate'' [VU64 commissionRate]
        (StakeHubTransactor_EditCommissionRate lib r opts commissionRate)"
  unfolding StakeHubTransactor_EditCommissionRate_def
  by (rule submitsI) (simp_all add: fits_abi_def outputs_of_def find_function_def StakeHub_functions_def)

lemma submits_EditConsensusAddress:
  "submits lib (transactor_contract r) opts ''editConsensusAddress'' [VAddress newConsensusAddress]
        (StakeHubTransactor_EditConsensusAddress lib r opts newConsensusAddress)"
  unfolding StakeHubTransactor_EditConsensusAddress_def
  by (rule submitsI) (simp_all add: fits_abi_def outputs_of_def find_function_def StakeHub_functions_def)

lemma submits_EditDescription:
  "submits lib (transactor_contract r) opts ''editDescription'' [VDescription description]
        (StakeHubTransactor_EditDescription lib r opts description)"
  unfolding StakeHubTransactor_EditDescription_def
  by (rule submitsI) (simp_all add: fits_abi_def outputs_of_def find_function_def StakeHub_functions_def)

lemma submits_EditVoteAddress:
  "submits lib (transactor_contract r) opts ''editVoteAddress'' [VBytes newVoteAddress, VBytes blsProof]
        (StakeHubTransactor_EditVoteAddress lib r opts newVoteAddress blsProof)"
  unfolding StakeHubTransactor_EditVoteAddress_def
  by (rule submitsI) (simp_all add: fits_abi_def outputs_of_def find_function_def StakeHub_functions_def)

lemma submits_Initialize:
  "submits lib (transactor_contract r) opts ''initialize'' []
        (StakeHubTransactor_Initialize lib r opts)"
  unfolding StakeHubTransactor_Initialize_def
  by (rule submitsI) (simp_all add: fits_abi_def outputs_of_def find_function_def StakeHub_functions_def)

lemma submits_MaliciousVoteSlash:
  "submits lib (transactor_contract r) opts ''maliciousVoteSlash'' [VBytes voteAddress]
        (StakeHubTransactor_MaliciousVoteSlash lib r opts voteAddress)"
  unfolding StakeHubTransactor_MaliciousVoteSlash_def
  by (rule submitsI) (simp_all add: fits_abi_def outputs_of_def find_function_def StakeHub_functions_def)

lemma submits_Pause:
  "submits lib (transactor_contract r) opts ''pause'' []
        (StakeHubTransactor_Pause lib r opts)"
  unfolding StakeHubTransactor_Pause_def
  by (rule submitsI) (simp_all add: fits_abi_def outputs_of_def find_function_def StakeHub_functions_def)

lemma submits_Redelegate:
  "submits lib (transactor_contract r) opts ''redelegate'' [VAddress srcValidator, VAddress dstValidator, VBig shares, VBool delegateVotePower]
        (StakeHubTransactor_Redelegate lib r opts srcValidator dstValidator shares delegateVotePower)"
  unfolding StakeHubTransactor_Redelegate_def
  by (rule submitsI) (simp_all add: fits_abi_def outputs_of_def find_function_def StakeHub_functions_def)

lemma submits_RemoveFromBlackList:
  "submits lib (transactor_contract r) opts ''removeFromBlackList'' [VAddress account]
        (StakeHubTransactor_RemoveFromBlackList lib r opts account)"
  unfolding StakeHubTransactor_RemoveFromBlackList_def
  by (rule submitsI) (simp_all add: fits_abi_def outputs_of_def find_function_def StakeHub_functions_def)

lemma submits_Resume:
  "submits lib (transactor_contract r) opts ''resume'' []
        (StakeHubTransactor_Resume lib r opts)"
  unfolding StakeHubTransactor_Resume_def
  by (rule submitsI) (simp_all add: fits_abi_def outputs_of_def find_function_def StakeHub_functions_def)

lemma submits_SyncGovToken:
  "submits lib (transactor_contract r) opts ''syncGovToken'' [VAddresses operatorAddresses, VAddress account]
        (StakeHubTransactor_SyncGovToken lib r opts operatorAddresses account)"
  unfolding StakeHubTransactor_SyncGovToken_def
  by (rule submitsI) (simp_all add: fits_abi_def outputs_of_def find_function_def StakeHub_functions_def)

lemma submits_Undelegate:
  "submits lib (transactor_contract r) opts ''undelegate'' [VAddress operatorAddress, VBig shares]
        (StakeHubTransactor_Undelegate lib r opts operatorAddress shares)"
  unfolding StakeHubTransactor_Undelegate_def
  by (rule submitsI) (simp_all add: fits_abi_def outputs_of_def find_function_def StakeHub_functions_def)

lemma submits_Unjail:
  "submits lib (transactor_contract r) opts ''unjail'' [VAddress operatorAddress]
        (StakeHubTransactor_Unjail lib r opts operatorAddress)"
  unfolding StakeHubTransactor_Unjail_def
  by (rule submitsI) (simp_all add: fits_abi_def outputs_of_def find_function_def StakeHub_functions_def)

lemma submits_UpdateParam:
  "submits lib (transactor_contract r) opts ''updateParam'' [VString key, VBytes val]
        (StakeHubTransactor_UpdateParam lib r opts key val)"
  unfolding StakeHubTransactor_UpdateParam_def
  by (rule submitsI) (simp_all add: fits_abi_def outputs_of_def find_function_def StakeHub_functions_def)

section \<open>Every mutator submits a transaction the ABI accepts\<close>

text \<open>Each of the 22 mutators that name a function of the ABI (\<open>Receive\<close>, a raw transaction,
  names none) submits exactly one transaction, for a function that is not a view function and returns
  nothing, with arguments that pack at its declared input types, and hands back the library's
  transaction and error unchanged.\<close>

theorem mutators_submit_abi_calls:
  "submits lib (transactor_contract r) opts ''addToBlackList'' [VAddress account]
        (StakeHubTransactor_AddToBlackList lib r opts account)
    \<and> submits lib (transactor_contract r) opts ''claim'' [VAddress operatorAddress, VBig requestNumber]
        (StakeHubTransactor_Claim lib r opts operatorAddress requestNumber)
    \<and> submits lib (transactor_contract r) opts ''claimBatch'' [VAddresses operatorAddresses, VBigs requestNumbers]
        (StakeHubTransactor_ClaimBatch lib r opts operatorAddresses requestNumbers)
    \<and> submits lib (transactor_contract r) opts ''createValidator'' [VAddress consensusAddress, VBytes voteAddress, VBytes blsProof, VCommission commission, VDescription description]
        (StakeHubTransactor_CreateValidator lib r opts consensusAddress voteAddress blsProof commission description)
    \<and> submits lib (transactor_contract r) opts ''delegate'' [VAddress operatorAddress, VBool delegateVotePower]
        (StakeHubTransactor_Delegate lib r opts operatorAddress delegateVotePower)
    \<and> submits lib (transactor_contract r) opts ''distributeReward'' [VAddress consensusAddress]
        (StakeHubTransactor_DistributeReward lib r opts consensusAddress)
    \<and> submits lib (transactor_contract r) opts ''doubleSignSlash'' [VAddress consensusAddress]
        (StakeHubTransactor_DoubleSignSlash lib r opts consensusAddress)
    \<and> submits lib (transactor_contract r) opts ''downtimeSlash'' [VAddress consensusAddress]
        (StakeHubTransactor_DowntimeSlash lib r opts consensusAddress)
    \<and> submits lib (transactor_contract r) opts ''editCommissionRate'' [VU64 commissionRate]
        (StakeHubTransactor_EditCommissionRate lib r opts commissionRate)
    \<and> submits lib (transactor_contract r) opts ''editConsensusAddress'' [VAddress newConsensusAddress]
        (StakeHubTransactor_EditConsensusAddress lib r opts newConsensusAddress)
    \<and> submits lib (transactor_contract r) opts ''editDescription'' [VDescription description]
        (StakeHubTransactor_EditDescription lib r opts description)
    \<and> submits lib (transactor_contract r) opts ''editVoteAddress'' [VBytes newVoteAddress, VBytes blsProof]
        (StakeHubTransactor_EditVoteAddress lib r opts newVoteAddress blsProof)
    \<and> submits lib (transactor_contract r) opts ''initialize'' []
        (StakeHubTransactor_Initialize lib r opts)
    \<and> submits lib (transactor_contract r) opts ''maliciousVoteSlash'' [VBytes voteAddress]
        (StakeHubTransactor_MaliciousVoteSlash lib r opts voteAddress)
    \<and> submits lib (transactor_contract r) opts ''pause'' []
        (StakeHubTransactor_Pause lib r opts)
    \<and> submits lib (transactor_contract r) opts ''redelegate'' [VAddress srcValidator, VAddress dstValidator, VBig shares, VBool delegateVotePower]
        (StakeHubTransactor_Redelegate lib r opts srcValidator dstValidator shares delegateVotePower)
    \<and> submits lib (transactor_contract r) opts ''removeFromBlackList'' [VAddress account]
        (StakeHubTransactor_RemoveFromBlackList lib r opts account)
    \<and> submits lib (transactor_contract r) opts ''resume'' []
        (StakeHubTransactor_Resume lib r opts)
    \<and> submits lib (transactor_contract r) opts ''syncGovToken'' [VAddresses operatorAddresses, VAddress account]
        (StakeHubTransactor_SyncGovToken lib r opts operatorAddresses account)
    \<and> submits lib (transactor_contract r) opts ''undelegate'' [VAddress operatorAddress, VBig shares]
        (StakeHubTransactor_Undelegate lib r opts operatorAddress shares)
    \<and> submits lib (transactor_contract r) opts ''unjail'' [VAddress operatorAddress]
        (StakeHubTransactor_Unjail lib r opts operatorAddress)
    \<and> submits lib (transactor_contract r) opts ''updateParam'' [VString key, VBytes val]
        (StakeHubTransactor_UpdateParam lib r opts key val)"
  by (intro conjI submits_AddToBlackList submits_Claim submits_ClaimBatch submits_CreateValidator submits_Delegate submits_DistributeReward submits_DoubleSignSlash submits_DowntimeSlash submits_EditCommissionRate submits_EditConsensusAddress submits_EditDescription submits_EditVoteAddress submits_Initialize submits_MaliciousVoteSlash submits_Pause submits_Redelegate submits_RemoveFromBlackList submits_Resume submits_SyncGovToken submits_Undelegate submits_Unjail submits_UpdateParam)

end
