(* ===== verification/CreateValidator.thy ===== *)
theory CreateValidator
  imports StakeHubWrites
begin

text \<open>
  The command \<open>create-validator\<close> (\<open>main.go\<close>): it reads the flags, the password
  file, the consensus keystore and the BLS wallet, signs a proof of possession of the vote key
  and sends one \<open>createValidator\<close> transaction to the StakeHub.
  Everything it calls of go-ethereum, prysm, the file system and the network is a field of
  \<open>validator_lib\<close>; each such call returns and may change the world.  \<open>main\<close> itself,
  with its panics and the order of its calls, is translated in full.
\<close>

section \<open>Flags\<close>

text \<open>The flag variables once \<open>flag.Parse\<close> has run; \<open>amount\<close> is an \<open>int\<close> of
  64 bits.\<close>

record flags =
  valDescription :: string
  amount :: "64 word"
  rpcUrl :: string
  consensusKeyDir :: string
  voteKeyDir :: string
  passwordPath :: string

definition default_flags :: flags where
  "default_flags = \<lparr>valDescription = ''test-val'', amount = 2001, rpcUrl = ''http://127.0.0.1:8545'',
     consensusKeyDir = [], voteKeyDir = [], passwordPath = []\<rparr>"

section \<open>What main calls\<close>

record SignRequest =
  PublicKey :: bytes
  SigningRoot :: bytes

record LegacyTx =
  Nonce :: "64 word"
  To :: "address option"
  Value :: int
  Gas :: "64 word"
  GasPrice :: "int option"
  Data :: bytes

record ('w, 'cl, 'ks, 'wal, 'km, 'sig, 'abi, 'tx) validator_lib =
  Dial :: "string \<Rightarrow> 'w \<Rightarrow> ('cl \<times> go_error option) \<times> 'w"
  ReadFile :: "string \<Rightarrow> 'w \<Rightarrow> (bytes \<times> go_error option) \<times> 'w"
  StandardScryptN :: int
  StandardScryptP :: int
  NewKeyStore :: "string \<Rightarrow> int \<Rightarrow> int \<Rightarrow> 'w \<Rightarrow> 'ks \<times> 'w"
  Accounts :: "'ks \<Rightarrow> 'w \<Rightarrow> address list \<times> 'w"
  Unlock :: "'ks \<Rightarrow> address \<Rightarrow> string \<Rightarrow> 'w \<Rightarrow> (unit \<times> go_error option) \<times> 'w"
  OpenWallet :: "string \<Rightarrow> string \<Rightarrow> 'w \<Rightarrow> ('wal \<times> go_error option) \<times> 'w"
  InitializeKeymanager :: "'wal \<Rightarrow> bool \<Rightarrow> 'w \<Rightarrow> ('km \<times> go_error option) \<times> 'w"
  FetchValidatingPublicKeys :: "'km \<Rightarrow> 'w \<Rightarrow> (384 word list \<times> go_error option) \<times> 'w"
  ChainID :: "'cl \<Rightarrow> 'w \<Rightarrow> (int option \<times> go_error option) \<times> 'w"
  Keccak256 :: "bytes \<Rightarrow> bytes"
  Sign :: "'km \<Rightarrow> SignRequest \<Rightarrow> 'w \<Rightarrow> ('sig \<times> go_error option) \<times> 'w"
  Marshal :: "'sig \<Rightarrow> bytes"
  MetaGetAbi :: "'w \<Rightarrow> ('abi option \<times> go_error option) \<times> 'w"
  Pack :: "'abi \<Rightarrow> string \<Rightarrow> go_value list \<Rightarrow> 'w \<Rightarrow> (bytes \<times> go_error option) \<times> 'w"
  PendingNonceAt :: "'cl \<Rightarrow> address \<Rightarrow> 'w \<Rightarrow> (64 word \<times> go_error option) \<times> 'w"
  SuggestGasPrice :: "'cl \<Rightarrow> 'w \<Rightarrow> (int option \<times> go_error option) \<times> 'w"
  HexToAddress :: "string \<Rightarrow> address"
  NewTx :: "LegacyTx \<Rightarrow> 'tx"
  SignTx :: "'ks \<Rightarrow> address \<Rightarrow> 'tx \<Rightarrow> int option \<Rightarrow> 'w \<Rightarrow> ('tx \<times> go_error option) \<times> 'w"
  SendTransaction :: "'cl \<Rightarrow> 'tx \<Rightarrow> 'w \<Rightarrow> (unit \<times> go_error option) \<times> 'w"
  HashHex :: "'tx \<Rightarrow> string"

section \<open>The pure parts of main\<close>

text \<open>\<open>new(big.Int).Mul(big.NewInt(int64(*amount)), big.NewInt(1e18))\<close>\<close>

definition delegation :: "64 word \<Rightarrow> int" where
  "delegation amt = sint amt * 10 ^ 18"

definition description :: "string \<Rightarrow> StakeHubDescription" where
  "description desc = \<lparr>Moniker = desc, Identity = desc, Website = desc, Details = desc\<rparr>"

definition commission :: StakeHubCommission where
  "commission = \<lparr>Rate = 100, MaxRate = 1000, MaxChangeRate = 100\<rparr>"

text \<open>\<open>paddedChainIdBytes := make([]byte, 32)\<close> and the \<open>copy\<close> into its tail.\<close>

definition paddedChainIdBytes :: "int option \<Rightarrow> bytes go" where
  "paddedChainIdBytes chainId = (case chainId of
       None \<Rightarrow> Panic NilDereference
     | Some c \<Rightarrow> copy_from (replicate 32 0) (32 - int (length (big_Bytes c))) (big_Bytes c))"

text \<open>\<open>append(consensusAddr.Bytes(), append(pubKey[:], paddedChainIdBytes...)...)\<close>: both
  appends grow a full slice, so neither overwrites the array it started from.\<close>

definition proof_message :: "address \<Rightarrow> 384 word \<Rightarrow> bytes \<Rightarrow> bytes" where
  "proof_message consensusAddr pubKey padded = word_bytes 20 consensusAddr @ (word_bytes 48 pubKey @ padded)"

definition create_validator_args ::
  "address \<Rightarrow> 384 word \<Rightarrow> bytes \<Rightarrow> StakeHubDescription \<Rightarrow> go_value list" where
  "create_validator_args consensusAddr pubKey proof_bytes desc =
     [VAddress consensusAddr, VBytes (word_bytes 48 pubKey), VBytes proof_bytes,
      VCommission commission, VDescription desc]"

definition stakeHubAddr_hex :: string where
  "stakeHubAddr_hex = ''0x0000000000000000000000000000000000002002''"

section \<open>main\<close>

definition getBlsKeymanager ::
  "('w, 'cl, 'ks, 'wal, 'km, 'sig, 'abi, 'tx) validator_lib \<Rightarrow> string \<Rightarrow> string \<Rightarrow> ('w, 'km \<times> go_error option) io" where
  "getBlsKeymanager lib walletPath password =
     bindIO (must (extern (OpenWallet lib walletPath password))) (\<lambda>wal.
     bindIO (must (extern (InitializeKeymanager lib wal False))) (\<lambda>km.
     retIO (km, None)))"

text \<open>From the signed proof on: pack the call, build, sign and send the transaction.\<close>

definition send_create_validator ::
  "('w, 'cl, 'ks, 'wal, 'km, 'sig, 'abi, 'tx) validator_lib \<Rightarrow> flags \<Rightarrow> 'cl \<Rightarrow> 'ks \<Rightarrow> address \<Rightarrow>
     384 word \<Rightarrow> int option \<Rightarrow> bytes \<Rightarrow> ('w, string) io" where
  "send_create_validator lib fl client consensusKs consensusAddr pubKey chainId proof_bytes =
     bindIO (must (extern (MetaGetAbi lib))) (\<lambda>stakeHubAbi.
     case stakeHubAbi of None \<Rightarrow> panicIO NilDereference | Some parsed \<Rightarrow>
     bindIO (must (extern (Pack lib parsed ''createValidator''
        (create_validator_args consensusAddr pubKey proof_bytes (description (valDescription fl)))))) (\<lambda>dat.
     bindIO (must (extern (PendingNonceAt lib client consensusAddr))) (\<lambda>nonce.
     bindIO (must (extern (SuggestGasPrice lib client))) (\<lambda>gasPrice.
     bindIO (must (extern (SignTx lib consensusKs consensusAddr (NewTx lib
        \<lparr>Nonce = nonce, To = Some (HexToAddress lib stakeHubAddr_hex), Value = delegation (amount fl),
         Gas = 2000000, GasPrice = gasPrice, Data = dat\<rparr>) chainId))) (\<lambda>signedTx.
     bindIO (must (extern (SendTransaction lib client signedTx))) (\<lambda>_.
     retIO (''send createValidator. Tx hash: '' @ HashHex lib signedTx)))))))"

definition main ::
  "('w, 'cl, 'ks, 'wal, 'km, 'sig, 'abi, 'tx) validator_lib \<Rightarrow> flags \<Rightarrow> ('w, string) io" where
  "main lib fl =
     (if consensusKeyDir fl = [] then panicIO (PanicMsg ''consensus-keys-dir is required'')
      else if voteKeyDir fl = [] then panicIO (PanicMsg ''vote-keys-dir is required'')
      else if passwordPath fl = [] then panicIO (PanicMsg ''password-path is required'')
      else
     bindIO (must (extern (Dial lib (rpcUrl fl)))) (\<lambda>client.
     bindIO (must (extern (ReadFile lib (passwordPath fl)))) (\<lambda>bz.
     let password = string_of_bytes (TrimSpace bz) in
     bindIO (extern (NewKeyStore lib (consensusKeyDir fl @ ''/keystore'') (StandardScryptN lib) (StandardScryptP lib))) (\<lambda>consensusKs.
     bindIO (extern (Accounts lib consensusKs)) (\<lambda>accounts.
     bindIO (liftIO (go_index accounts 0)) (\<lambda>consensusAddr.
     bindIO (must (extern (Unlock lib consensusKs consensusAddr password))) (\<lambda>_.
     bindIO (must (getBlsKeymanager lib (voteKeyDir fl @ ''/bls/wallet'') password)) (\<lambda>voteKm.
     bindIO (must (extern (FetchValidatingPublicKeys lib voteKm))) (\<lambda>pubkeys.
     bindIO (liftIO (go_index pubkeys 0)) (\<lambda>pubKey.
     bindIO (must (extern (ChainID lib client))) (\<lambda>chainId.
     bindIO (liftIO (paddedChainIdBytes chainId)) (\<lambda>padded.
     bindIO (must (extern (Sign lib voteKm
        \<lparr>PublicKey = word_bytes 48 pubKey,
         SigningRoot = Keccak256 lib (proof_message consensusAddr pubKey padded)\<rparr>))) (\<lambda>sig.
     send_create_validator lib fl client consensusKs consensusAddr pubKey chainId (Marshal lib sig))))))))))))))"

section \<open>The padded chain id and the signed message\<close>

lemma padded_chain_id_eq:
  "paddedChainIdBytes (Some c) =
     (if \<bar>c\<bar> < 2 ^ 256 then Ret (be_fixed 32 (nat \<bar>c\<bar>)) else Panic SliceOutOfRange)"
proof -
  let ?n = "nat \<bar>c\<bar>"
  have p: "(256::nat) ^ 32 = 2 ^ 256"
    by (simp add: power_mult [symmetric, of 2 8 32, simplified])
  have iff: "length (nat_bytes ?n) \<le> 32 \<longleftrightarrow> \<bar>c\<bar> < 2 ^ 256"
    unfolding length_nat_bytes_le p by (simp add: nat_less_iff)
  show ?thesis
  proof (cases "\<bar>c\<bar> < 2 ^ 256")
    case True
    then have l: "length (nat_bytes ?n) \<le> 32" and n: "?n < 256 ^ 32"
      by (simp_all only: iff) (simp add: length_nat_bytes_le [symmetric] iff)
    have "nat (32 - int (length (nat_bytes ?n))) = 32 - length (nat_bytes ?n)"
      by simp
    with l be_fixed_pad [OF n] True show ?thesis
      by (simp add: paddedChainIdBytes_def big_Bytes_def copy_from_def)
  next
    case False
    with iff have "\<not> length (nat_bytes ?n) \<le> 32" by simp
    with False show ?thesis
      by (simp add: paddedChainIdBytes_def big_Bytes_def copy_from_def)
  qed
qed

text \<open>The chain id is padded to exactly its 32-byte big-endian form (of its absolute value),
  for every id below 2 to the 256; a larger one makes the slice bound negative and panics, and so
  does a nil id.\<close>

theorem padded_chain_id:
  "paddedChainIdBytes (Some c) =
     (if \<bar>c\<bar> < 2 ^ 256 then Ret (be_fixed 32 (nat \<bar>c\<bar>)) else Panic SliceOutOfRange)"
  by (rule padded_chain_id_eq)

text \<open>C38: the signed proof message is 100 bytes and determines its parts: two runs whose messages
  agree have the same consensus address, the same BLS vote key and the same (non-negative) chain
  id, so a proof of possession made for one validator or chain is not one for another.\<close>

theorem proof_message_injective:
  assumes "paddedChainIdBytes (Some c) = Ret p" and "paddedChainIdBytes (Some c') = Ret p'"
    and "0 \<le> c" and "0 \<le> c'" and "proof_message a k p = proof_message a' k' p'"
  shows "a = a' \<and> k = k' \<and> c = c' \<and> length (proof_message a k p) = 100"
proof -
  have p: "p = be_fixed 32 (nat \<bar>c\<bar>)" "\<bar>c\<bar> < 2 ^ 256" and p': "p' = be_fixed 32 (nat \<bar>c'\<bar>)" "\<bar>c'\<bar> < 2 ^ 256"
    using assms(1,2) unfolding padded_chain_id_eq by (auto split: if_splits)
  have 1: "word_bytes 20 a = word_bytes 20 a'" and r: "word_bytes 48 k @ p = word_bytes 48 k' @ p'"
    using append_same_length [OF assms(5) [unfolded proof_message_def]] by simp_all
  have 2: "word_bytes 48 k = word_bytes 48 k'" and 3: "p = p'"
    using append_same_length [OF r] by simp_all
  have "nat \<bar>c\<bar> = nat \<bar>c'\<bar>"
  proof (rule be_fixed_inject)
    show "be_fixed 32 (nat \<bar>c\<bar>) = be_fixed 32 (nat \<bar>c'\<bar>)"
      using 3 p p' by simp
    have q: "(256::nat) ^ 32 = 2 ^ 256"
      by (simp add: power_mult [symmetric, of 2 8 32, simplified])
    show "nat \<bar>c\<bar> < 256 ^ 32" "nat \<bar>c'\<bar> < 256 ^ 32"
      using p(2) p'(2) unfolding q by (simp_all add: nat_less_iff)
  qed
  with assms(3,4) have "c = c'" by simp
  moreover have "a = a'" by (rule word_bytes_inject [OF 1]) simp
  moreover have "k = k'" by (rule word_bytes_inject [OF 2]) simp
  ultimately show ?thesis
    using p by (simp add: proof_message_def)
qed

section \<open>What a run does\<close>

definition validator_tx ::
  "('w, 'cl, 'ks, 'wal, 'km, 'sig, 'abi, 'tx) validator_lib \<Rightarrow> flags \<Rightarrow> 64 word \<Rightarrow> int option \<Rightarrow> bytes \<Rightarrow> LegacyTx" where
  "validator_tx lib fl nonce gasPrice dat =
     \<lparr>Nonce = nonce, To = Some (HexToAddress lib stakeHubAddr_hex), Value = delegation (amount fl),
      Gas = 2000000, GasPrice = gasPrice, Data = dat\<rparr>"

lemma extern_eq_Ret: "extern f w = (Ret a, w') \<longleftrightarrow> f w = (a, w')"
  by (auto simp: extern_def split: prod.splits)

lemma liftIO_eq_Ret: "liftIO g w = (Ret a, w') \<longleftrightarrow> g = Ret a \<and> w' = w"
  by (cases g) auto

lemmas run_simps = bindIO_eq_Ret must_eq_Ret extern_eq_Ret liftIO_eq_Ret go_index_Ret

lemma send_create_validator_success:
  assumes "send_create_validator lib fl client ks addr k chainId proof_bytes w = (Ret out, w')"
  shows "\<exists>parsed dat nonce gasPrice stx w1 w2 w3 w4.
     Pack lib parsed ''createValidator''
       (create_validator_args addr k proof_bytes (description (valDescription fl))) w1 = ((dat, None), w2)
     \<and> SignTx lib ks addr (NewTx lib (validator_tx lib fl nonce gasPrice dat)) chainId w3 = ((stx, None), w4)
     \<and> SendTransaction lib client stx w4 = (((), None), w')
     \<and> out = ''send createValidator. Tx hash: '' @ HashHex lib stx"
  using assms unfolding send_create_validator_def validator_tx_def
  by (auto simp: run_simps simp del: bindIO_extern extern_apply split: option.splits) blast

lemma deref_eq_Ret:
  "(case x of None \<Rightarrow> panicIO e | Some p \<Rightarrow> f p) w = (Ret a, w') \<longleftrightarrow> (\<exists>p. x = Some p \<and> f p w = (Ret a, w'))"
  by (cases x) auto

lemma send_create_validator_returns:
  "send_create_validator lib fl client ks addr k chainId proof_bytes w = (Ret out, w') \<longleftrightarrow>
     (\<exists>parsed dat nonce gasPrice stx w1 w2 w3 w4 w5.
        MetaGetAbi lib w = ((Some parsed, None), w1)
      \<and> Pack lib parsed ''createValidator''
          (create_validator_args addr k proof_bytes (description (valDescription fl))) w1 = ((dat, None), w2)
      \<and> PendingNonceAt lib client addr w2 = ((nonce, None), w3)
      \<and> SuggestGasPrice lib client w3 = ((gasPrice, None), w4)
      \<and> SignTx lib ks addr (NewTx lib (validator_tx lib fl nonce gasPrice dat)) chainId w4 = ((stx, None), w5)
      \<and> SendTransaction lib client stx w5 = (((), None), w')
      \<and> out = ''send createValidator. Tx hash: '' @ HashHex lib stx)"
  unfolding send_create_validator_def validator_tx_def
  by (simp add: run_simps deref_eq_Ret del: bindIO_extern extern_apply) blast

lemma getBlsKeymanager_returns:
  "getBlsKeymanager lib path pw w = (Ret (km, err), w') \<longleftrightarrow> err = None \<and>
     (\<exists>wal w1. OpenWallet lib path pw w = ((wal, None), w1) \<and> InitializeKeymanager lib wal False w1 = ((km, None), w'))"
  unfolding getBlsKeymanager_def
  by (auto simp: run_simps simp del: bindIO_extern extern_apply)

lemma padded_Ret: "paddedChainIdBytes chainId = Ret p \<longleftrightarrow>
    (\<exists>c. chainId = Some c \<and> \<bar>c\<bar> < 2 ^ 256 \<and> p = be_fixed 32 (nat \<bar>c\<bar>))"
proof (cases chainId)
  case None
  then show ?thesis by (simp add: paddedChainIdBytes_def)
next
  case (Some c)
  then show ?thesis by (auto simp: padded_chain_id_eq)
qed

lemma first_element: "go_index xs 0 = Ret x \<longleftrightarrow> (\<exists>ys. xs = x # ys)"
  by (cases xs) auto

text \<open>C11: main returns exactly when the three directories are given and every call succeeds, in
  this order: it dials the node and reads the password file, opens the keystore of the consensus
  directory and unlocks its first account with the trimmed password, opens the BLS wallet with the
  same password and takes its first vote key, asks the node for its chain id (below 2 to the 256),
  has the wallet sign the hash of account, vote key and padded chain id, packs
  \<open>createValidator\<close> with account, key and that proof, asks for nonce and gas price, signs a
  transaction to the StakeHub address with that account that carries the packed data and delegates
  \<open>amount\<close> times 10 to the 18 wei, and sends it; it then prints the hash of what it sent. In
  every other case it panics.\<close>

theorem main_returns_iff:
  "main lib fl w = (Ret out, w') \<longleftrightarrow>
     consensusKeyDir fl \<noteq> [] \<and> voteKeyDir fl \<noteq> [] \<and> passwordPath fl \<noteq> [] \<and>
     (\<exists>client bz password ks addr addrs wal km k keys c sig parsed dat nonce gasPrice stx
        w1 w2 w3 w4 w5 w6 w7 w8 w9 w10 w11 w12 w13 w14 w15.
        Dial lib (rpcUrl fl) w = ((client, None), w1)
      \<and> ReadFile lib (passwordPath fl) w1 = ((bz, None), w2)
      \<and> password = string_of_bytes (TrimSpace bz)
      \<and> NewKeyStore lib (consensusKeyDir fl @ ''/keystore'') (StandardScryptN lib) (StandardScryptP lib) w2 = (ks, w3)
      \<and> Accounts lib ks w3 = (addr # addrs, w4)
      \<and> Unlock lib ks addr password w4 = (((), None), w5)
      \<and> OpenWallet lib (voteKeyDir fl @ ''/bls/wallet'') password w5 = ((wal, None), w6)
      \<and> InitializeKeymanager lib wal False w6 = ((km, None), w7)
      \<and> FetchValidatingPublicKeys lib km w7 = ((k # keys, None), w8)
      \<and> ChainID lib client w8 = ((Some c, None), w9) \<and> \<bar>c\<bar> < 2 ^ 256
      \<and> Sign lib km \<lparr>PublicKey = word_bytes 48 k, SigningRoot = Keccak256 lib
            (word_bytes 20 addr @ word_bytes 48 k @ be_fixed 32 (nat \<bar>c\<bar>))\<rparr> w9 = ((sig, None), w10)
      \<and> MetaGetAbi lib w10 = ((Some parsed, None), w11)
      \<and> Pack lib parsed ''createValidator''
            (create_validator_args addr k (Marshal lib sig) (description (valDescription fl))) w11 = ((dat, None), w12)
      \<and> PendingNonceAt lib client addr w12 = ((nonce, None), w13)
      \<and> SuggestGasPrice lib client w13 = ((gasPrice, None), w14)
      \<and> SignTx lib ks addr (NewTx lib \<lparr>Nonce = nonce, To = Some (HexToAddress lib stakeHubAddr_hex),
            Value = sint (amount fl) * 10 ^ 18, Gas = 2000000, GasPrice = gasPrice, Data = dat\<rparr>) (Some c) w14
          = ((stx, None), w15)
      \<and> SendTransaction lib client stx w15 = (((), None), w')
      \<and> out = ''send createValidator. Tx hash: '' @ HashHex lib stx)"
  unfolding main_def Let_def
  by (auto simp: bindIO_eq_Ret must_eq_Ret extern_eq_Ret liftIO_eq_Ret first_element padded_Ret
      getBlsKeymanager_returns send_create_validator_returns proof_message_def validator_tx_def delegation_def
      simp del: bindIO_extern extern_apply)

text \<open>In particular such a run has, in this order, taken the first account of the keystore and
  the first vote key of the BLS wallet, had the wallet sign the hash of the proof message of
  exactly these two and the node's chain id, packed \<open>createValidator\<close> with the account, the
  key and that proof, signed with that account a transaction to the StakeHub address that carries
  the packed data and delegates \<open>amount\<close> times 10 to the 18 wei, and sent that signed
  transaction as its very last effect; it prints the hash of what it sent.\<close>

theorem main_success:
  assumes "main lib fl w = (Ret out, w')"
  shows "\<exists>client ks km addr addrs k keys chainId padded sig parsed dat nonce gasPrice stx
       w1 w2 w3 w4 w5 w6 w7 w8 w9 w10.
     Accounts lib ks w1 = (addr # addrs, w2)
     \<and> FetchValidatingPublicKeys lib km w3 = ((k # keys, None), w4)
     \<and> ChainID lib client w4 = ((chainId, None), w5)
     \<and> paddedChainIdBytes chainId = Ret padded
     \<and> Sign lib km \<lparr>PublicKey = word_bytes 48 k,
           SigningRoot = Keccak256 lib (proof_message addr k padded)\<rparr> w5 = ((sig, None), w6)
     \<and> Pack lib parsed ''createValidator''
           (create_validator_args addr k (Marshal lib sig) (description (valDescription fl))) w7 = ((dat, None), w8)
     \<and> SignTx lib ks addr (NewTx lib (validator_tx lib fl nonce gasPrice dat)) chainId w9 = ((stx, None), w10)
     \<and> SendTransaction lib client stx w10 = (((), None), w')
     \<and> Value (validator_tx lib fl nonce gasPrice dat) = sint (amount fl) * 10 ^ 18
     \<and> out = ''send createValidator. Tx hash: '' @ HashHex lib stx"
proof -
  obtain client ks km accounts keys chainId padded sig w1 w2 w3 w4 w5 w6 where
    1: "Accounts lib ks w1 = (accounts, w2)" "0 < length accounts"
       "FetchValidatingPublicKeys lib km w3 = ((keys, None), w4)" "0 < length keys"
       "ChainID lib client w4 = ((chainId, None), w5)" "paddedChainIdBytes chainId = Ret padded"
       "Sign lib km \<lparr>PublicKey = word_bytes 48 (keys ! 0),
           SigningRoot = Keccak256 lib (proof_message (accounts ! 0) (keys ! 0) padded)\<rparr> w5 = ((sig, None), w6)"
    and 2: "send_create_validator lib fl client ks (accounts ! 0) (keys ! 0) chainId (Marshal lib sig) w6 = (Ret out, w')"
    using assms unfolding main_def Let_def
    by (auto simp: run_simps simp del: bindIO_extern extern_apply split: if_splits)
  from 1 obtain addr addrs k ks' where "accounts = addr # addrs" "keys = k # ks'"
    by (cases accounts; cases keys) auto
  moreover have "Value (validator_tx lib fl nonce gasPrice dat) = sint (amount fl) * 10 ^ 18" for nonce gasPrice dat
    by (simp add: validator_tx_def delegation_def)
  ultimately show ?thesis
    using 1 2 send_create_validator_success [OF 2] by simp metis
qed

text \<open>A property of the world that every library call but \<open>SendTransaction\<close> keeps; for
  instance, that no transaction has been sent.\<close>

definition spares where
  "spares lib P \<longleftrightarrow>
     (\<forall>a. keeps P (extern (Dial lib a))) \<and> (\<forall>a. keeps P (extern (ReadFile lib a))) \<and>
     (\<forall>a b c. keeps P (extern (NewKeyStore lib a b c))) \<and> (\<forall>a. keeps P (extern (Accounts lib a))) \<and>
     (\<forall>a b c. keeps P (extern (Unlock lib a b c))) \<and> (\<forall>a b. keeps P (extern (OpenWallet lib a b))) \<and>
     (\<forall>a b. keeps P (extern (InitializeKeymanager lib a b))) \<and>
     (\<forall>a. keeps P (extern (FetchValidatingPublicKeys lib a))) \<and> (\<forall>a. keeps P (extern (ChainID lib a))) \<and>
     (\<forall>a b. keeps P (extern (Sign lib a b))) \<and> keeps P (extern (MetaGetAbi lib)) \<and>
     (\<forall>a b c. keeps P (extern (Pack lib a b c))) \<and> (\<forall>a b. keeps P (extern (PendingNonceAt lib a b))) \<and>
     (\<forall>a. keeps P (extern (SuggestGasPrice lib a))) \<and> (\<forall>a b c d. keeps P (extern (SignTx lib a b c d)))"

text \<open>Either the run kept \<open>P\<close>, or its last effect was one \<open>SendTransaction\<close> from a
  world in which \<open>P\<close> still held.\<close>

definition sends_last where
  "sends_last lib P m \<longleftrightarrow> (\<forall>w r w'. P w \<longrightarrow> m w = (r, w') \<longrightarrow>
     P w' \<or> (\<exists>client stx w1 err. P w1 \<and> SendTransaction lib client stx w1 = (((), err), w')
        \<and> (case err of None \<Rightarrow> \<exists>out. r = Ret out | Some e \<Rightarrow> r = Panic (PanicErr e))))"

lemma sends_last_keeps: "keeps P m \<Longrightarrow> sends_last lib P m"
  by (auto simp: sends_last_def dest: keepsD)

lemma sends_last_bindIO:
  assumes m: "keeps P m" and k: "\<And>a. sends_last lib P (k a)"
  shows "sends_last lib P (bindIO m k)"
  unfolding sends_last_def
proof (intro allI impI)
  fix w r w'
  assume P: "P w" and run: "bindIO m k w = (r, w')"
  obtain g w1 where g: "m w = (g, w1)" by (metis surj_pair)
  with m P have P1: "P w1" by (blast dest: keepsD)
  show "P w' \<or> (\<exists>client stx w1 err. P w1 \<and> SendTransaction lib client stx w1 = (((), err), w')
        \<and> (case err of None \<Rightarrow> \<exists>out. r = Ret out | Some e \<Rightarrow> r = Panic (PanicErr e)))"
  proof (cases g)
    case (Ret a)
    with run g have "k a w1 = (r, w')" by (simp add: bindIO_def)
    with k [of a] P1 show ?thesis unfolding sends_last_def by blast
  next
    case (Panic p)
    with run g P1 show ?thesis by (simp add: bindIO_def)
  qed
qed

lemma sends_last_send:
  "sends_last lib P (bindIO (must (extern (SendTransaction lib client stx))) (\<lambda>_. retIO out))"
  unfolding sends_last_def
  by (auto simp: must_def bindIO_def retIO_def panicIO_def extern_def split: prod.splits option.splits go.splits) blast+

lemma sends_last_panic: "sends_last lib P (panicIO p)"
  by (simp add: sends_last_keeps)

text \<open>C23: whatever the library calls do, a run of main sends at most one transaction and sends it
  last: if a property of the world survives every call but \<open>SendTransaction\<close>, then either it
  survives the whole run (every panic before the sending, so nothing was sent), or the run's final
  effect is a single \<open>SendTransaction\<close> made while the property still held, and the run
  returns or panics with the error of that very call.\<close>

theorem main_sends_last:
  assumes "spares lib P"
  shows "sends_last lib P (main lib fl)"
proof -
  have k: "keeps P (getBlsKeymanager lib path pw)" for path pw
    unfolding getBlsKeymanager_def using assms
    by (intro keeps_must keeps_bindIO) (auto simp: spares_def)
  show ?thesis
    unfolding main_def send_create_validator_def Let_def
    using assms k
    by (auto intro!: sends_last_bindIO sends_last_send sends_last_panic keeps_must
        simp: spares_def simp del: bindIO_extern extern_apply split: option.split)
qed

text \<open>A missing flag stops the command before it touches anything: without a consensus key
  directory, a vote key directory and a password path, main panics with a message and the world is
  unchanged.  The defaults are such flags.\<close>

theorem main_requires_flags:
  "(consensusKeyDir fl = [] \<or> voteKeyDir fl = [] \<or> passwordPath fl = []
      \<longrightarrow> (\<exists>msg. main lib fl w = (Panic (PanicMsg msg), w)))
   \<and> main lib default_flags w = (Panic (PanicMsg ''consensus-keys-dir is required''), w)"
  by (auto simp: main_def default_flags_def)

text \<open>What main packs is what the binding would send: the arguments it gives \<open>Pack\<close> are
  those \<open>StakeHubTransactor.CreateValidator\<close> passes for the same values, and they fit the
  ABI's payable function \<open>createValidator\<close>, which returns nothing.\<close>

theorem main_packs_createValidator:
  "StakeHubTransactor_CreateValidator rpc r opts addr (word_bytes 48 k) proof_bytes commission (description d)
     = extern (bound_Transact rpc (transactor_contract r) opts ''createValidator''
                 (create_validator_args addr k proof_bytes (description d)))
   \<and> fits_abi (\<lambda>mu. mu = Payable) ''createValidator'' (create_validator_args addr k proof_bytes (description d))
   \<and> outputs_of ''createValidator'' = Some []"
  by (simp add: StakeHubTransactor_CreateValidator_def create_validator_args_def fits_abi_def
      outputs_of_def find_function_def StakeHub_functions_def)

section \<open>Witnesses\<close>

text \<open>A dry run: the world is the list of transactions sent; the keystore holds account 7, the
  wallet key 9, the chain id is 714.\<close>

definition dry_run :: "(LegacyTx list, unit, unit, unit, unit, bytes, unit, LegacyTx) validator_lib" where
  "dry_run = \<lparr>
     Dial = (\<lambda>_ w. (((), None), w)), ReadFile = (\<lambda>_ w. (([112, 119, 10], None), w)),
     StandardScryptN = 262144, StandardScryptP = 1,
     NewKeyStore = (\<lambda>_ _ _ w. ((), w)), Accounts = (\<lambda>_ w. ([7], w)),
     Unlock = (\<lambda>_ _ pw w. (((), if pw = ''pw'' then None else Some ''bad password''), w)),
     OpenWallet = (\<lambda>_ pw w. (((), if pw = ''pw'' then None else Some ''bad password''), w)),
     InitializeKeymanager = (\<lambda>_ _ w. (((), None), w)),
     FetchValidatingPublicKeys = (\<lambda>_ w. (([9], None), w)),
     ChainID = (\<lambda>_ w. ((Some 714, None), w)), Keccak256 = take 32,
     Sign = (\<lambda>_ req w. ((SigningRoot req, None), w)), Marshal = (\<lambda>s. s),
     MetaGetAbi = (\<lambda>w. ((Some (), None), w)), Pack = (\<lambda>_ _ _ w. (([1], None), w)),
     PendingNonceAt = (\<lambda>_ _ w. ((word_of_nat (length w), None), w)),
     SuggestGasPrice = (\<lambda>_ w. ((Some 5, None), w)), HexToAddress = (\<lambda>_. 0x2002), NewTx = (\<lambda>tx. tx),
     SignTx = (\<lambda>_ _ tx _ w. ((tx, None), w)),
     SendTransaction = (\<lambda>_ tx w. (((), None), w @ [tx])), HashHex = (\<lambda>_. ''0xab'')\<rparr>"

definition dry_flags :: flags where
  "dry_flags = default_flags\<lparr>consensusKeyDir := ''c'', voteKeyDir := ''v'', passwordPath := ''p''\<rparr>"

lemma padded_714: "paddedChainIdBytes (Some 714) = Ret (be_fixed 32 714)"
  by (simp add: padded_chain_id_eq)

lemma pw_trimmed: "string_of_bytes (TrimSpace [112, 119, 10]) = ''pw''"
  by code_simp

lemma dry_run_main:
  "main dry_run dry_flags [] = (Ret ''send createValidator. Tx hash: 0xab'',
     [validator_tx dry_run dry_flags 0 (Some 5) [1]])"
  by (simp add: main_def send_create_validator_def getBlsKeymanager_def must_def dry_run_def dry_flags_def
      default_flags_def padded_714 pw_trimmed validator_tx_def bindIO_def retIO_def extern_def liftIO_def)

theorem main_success_witness:
  "\<exists>stx w10. SendTransaction dry_run () stx w10 = (((), None), [validator_tx dry_run dry_flags 0 (Some 5) [1]])
     \<and> delegation (amount dry_flags) = 2001 * 10 ^ 18"
  using main_success [OF dry_run_main]
  by (auto simp: delegation_def dry_flags_def default_flags_def)

theorem main_returns_iff_witness:
  "\<exists>c sig w9 w10. Sign dry_run () \<lparr>PublicKey = word_bytes 48 (9 :: 384 word), SigningRoot = Keccak256 dry_run
       (word_bytes 20 (7 :: address) @ word_bytes 48 (9 :: 384 word) @ be_fixed 32 (nat \<bar>c\<bar>))\<rparr> w9 = ((sig, None), w10)
     \<and> c = 714"
  using dry_run_main [unfolded main_returns_iff] by (auto simp: dry_run_def)

theorem main_sends_last_witness:
  "spares dry_run (\<lambda>w. w = []) \<and> sends_last dry_run (\<lambda>w. w = []) (main dry_run dry_flags)"
proof -
  have s: "spares dry_run (\<lambda>w. w = [])"
    by (simp add: spares_def keeps_def dry_run_def)
  then show ?thesis using main_sends_last [OF s] by blast
qed

theorem main_requires_flags_witness:
  "main dry_run (dry_flags\<lparr>voteKeyDir := []\<rparr>) [] = (Panic (PanicMsg ''vote-keys-dir is required''), [])"
  using main_requires_flags [of "dry_flags\<lparr>voteKeyDir := []\<rparr>" dry_run "[]"]
  by (auto simp: main_def dry_flags_def default_flags_def)

theorem proof_message_injective_witness:
  "length (proof_message 7 9 (be_fixed 32 714)) = 100"
  using proof_message_injective [OF padded_714 padded_714, of 7 9 7 9] by simp

end
