(* ===== verification/SolBase.thy ===== *)
theory SolBase
  imports Prelude
begin

text \<open>
  What the contracts under \<open>contracts/\<close> share: the values of a transaction and its block,
  reverts as values, the checked arithmetic of Solidity 0.8, \<open>abi.encode\<close> with its
  injectivity on values of one type, and the modifiers and constants of
  \<open>abstract/Shared.sol\<close>.
  The cryptographic primitives of the EVM, \<open>keccak256\<close> and \<open>ecrecover\<close>, are
  the fields of \<open>evm\<close>, arguments of the definitions that use them.
\<close>

section \<open>Reverts, transactions, primitives\<close>

text \<open>A revert with a reason string, without one, by a checked operation (Panic 0x11, 0x12),
  by an external call whose own revert is passed on, or with a custom error of the Multicall.\<close>

datatype sol_error = Revert string | RevertEmpty | ArithmeticPanic | DivisionByZero | CallReverted
  | AlreadyRunning | TransferFailed | CallFailed uint256 bytes

type_synonym 'a sol = "sol_error + 'a"

record env =
  msg_sender :: address
  tx_origin :: address
  msg_value :: uint256
  block_timestamp :: uint256
  block_chainid :: uint256

record evm =
  keccak256 :: "bytes \<Rightarrow> bytes32"
  ecrecover :: "bytes32 \<Rightarrow> 8 word \<Rightarrow> bytes32 \<Rightarrow> bytes32 \<Rightarrow> address"

section \<open>Checked arithmetic\<close>

definition checked_add :: "'a::len word \<Rightarrow> 'a word \<Rightarrow> 'a word sol" where
  "checked_add a b = (if unat a + unat b < 2 ^ LENGTH('a) then Inr (a + b) else Inl ArithmeticPanic)"

definition checked_sub :: "'a::len word \<Rightarrow> 'a word \<Rightarrow> 'a word sol" where
  "checked_sub a b = (if b \<le> a then Inr (a - b) else Inl ArithmeticPanic)"

definition checked_mul :: "'a::len word \<Rightarrow> 'a word \<Rightarrow> 'a word sol" where
  "checked_mul a b = (if unat a * unat b < 2 ^ LENGTH('a) then Inr (a * b) else Inl ArithmeticPanic)"

definition checked_div :: "'a::len word \<Rightarrow> 'a word \<Rightarrow> 'a word sol" where
  "checked_div a b = (if b = 0 then Inl DivisionByZero else Inr (a div b))"

text \<open>\<open>mulmod\<close> computes the product without wrap-around.\<close>

definition mulmod :: "uint256 \<Rightarrow> uint256 \<Rightarrow> uint256 \<Rightarrow> uint256" where
  "mulmod a b m = word_of_nat ((unat a * unat b) mod unat m)"

lemma unat_word_of_nat_less: "n < 2 ^ LENGTH('a::len) \<Longrightarrow> unat (word_of_nat n :: 'a word) = n"
  by (simp add: unat_of_nat take_bit_nat_eq_self)

lemma unat_add_eq:
  fixes a b c :: "'a::len word"
  assumes "unat c = unat a + unat b"
  shows "a + b = c"
  using assms by (metis dual_order.refl le_unat_uoi word_arith_nat_add word_unat_eq_iff)

lemma checked_add_Inr [res_simps]:
  "checked_add a b = Inr (c :: 'a::len word) \<longleftrightarrow> unat c = unat a + unat b"
proof
  assume "checked_add a b = Inr c"
  then show "unat c = unat a + unat b"
    by (auto simp: checked_add_def unat_word_ariths split: if_splits)
next
  assume c: "unat c = unat a + unat b"
  then show "checked_add a b = Inr c"
    using unat_lt2p [of c] by (simp add: checked_add_def unat_add_eq)
qed

lemma checked_sub_Inr [res_simps]:
  "checked_sub a b = Inr (c :: 'a::len word) \<longleftrightarrow> b \<le> a \<and> unat c = unat a - unat b"
  by (auto simp: checked_sub_def unat_sub word_unat_eq_iff)

lemma checked_mul_Inr [res_simps]:
  "checked_mul a b = Inr (c :: 'a::len word) \<longleftrightarrow> unat c = unat a * unat b"
proof
  assume "checked_mul a b = Inr c"
  then show "unat c = unat a * unat b"
    by (auto simp: checked_mul_def unat_word_ariths split: if_splits)
next
  assume c: "unat c = unat a * unat b"
  then have "a * b = c"
    by (metis word_unat_eq_iff word_arith_nat_mult le_unat_uoi nat_le_linear)
  then show "checked_mul a b = Inr c"
    using c unat_lt2p [of c] by (simp add: checked_mul_def)
qed

lemma checked_div_Inr [res_simps]:
  "checked_div a b = Inr (c :: 'a::len word) \<longleftrightarrow> b \<noteq> 0 \<and> unat c = unat a div unat b"
  by (auto simp: checked_div_def unat_div_distrib word_unat_eq_iff)

lemma unat_mulmod: "m \<noteq> 0 \<Longrightarrow> unat (mulmod a b m) = (unat a * unat b) mod unat m"
proof -
  assume "m \<noteq> 0"
  then have "0 < unat m"
    by (simp add: unat_gt_0)
  then have "(unat a * unat b) mod unat m < unat m"
    by simp
  moreover have "unat m < 2 ^ 256"
    using unat_lt2p [of m] by simp
  ultimately show ?thesis
    unfolding mulmod_def by (intro unat_word_of_nat_less) simp
qed

section \<open>Guards of \<open>abstract/Shared.sol\<close>\<close>

definition NATIVE_ADDR :: address where
  "NATIVE_ADDR = 0xEeeeeEeeeEeEeeEeEeEeeEEEeeeeEeeeeeeeEEeE"

definition ZERO_ADDR :: address where
  "ZERO_ADDR = 0"

definition nzUint :: "uint256 \<Rightarrow> 'a sol \<Rightarrow> 'a sol" where
  "nzUint u k = rensure (u \<noteq> 0) (Revert ''Shared: uint input is empty'') k"

definition nzAddr :: "address \<Rightarrow> 'a sol \<Rightarrow> 'a sol" where
  "nzAddr a k = rensure (a \<noteq> ZERO_ADDR) (Revert ''Shared: address input is empty'') k"

definition nzBytes32 :: "bytes32 \<Rightarrow> 'a sol \<Rightarrow> 'a sol" where
  "nzBytes32 b k = rensure (b \<noteq> 0) (Revert ''Shared: bytes32 input is empty'') k"

text \<open>The structs of \<open>interfaces/IShared.sol\<close> that the signed calls take.\<close>

record Key =
  pubKeyX :: uint256
  pubKeyYParity :: "8 word"

record SigData =
  sig :: uint256
  nonce :: uint256
  kTimesGAddress :: address

record TransferParams =
  tp_token :: address
  tp_recipient :: address
  tp_amount :: uint256

record DeployFetchParams =
  df_swapID :: bytes32
  df_token :: address

record FetchParams =
  fp_fetchContract :: address
  fp_token :: address

definition nzKey :: "Key \<Rightarrow> 'a sol \<Rightarrow> 'a sol" where
  "nzKey k m = rensure (pubKeyX k \<noteq> 0) (Revert ''Shared: pubKeyX is empty'') m"

lemmas guard_defs = nzUint_def nzAddr_def nzBytes32_def nzKey_def ZERO_ADDR_def

text \<open>A transaction of the account \<open>a\<close>, for concrete runs.\<close>

definition sender_env :: "address \<Rightarrow> env" where
  "sender_env a = \<lparr>msg_sender = a, tx_origin = a, msg_value = 0, block_timestamp = 1000, block_chainid = 1\<rparr>"

end
