(* ===== verification/Schnorr.thy ===== *)
theory Schnorr
  imports SolBase
begin

text \<open>
  \<open>abstract/SchnorrSECP256K1.sol\<close>: verification of Schnorr signatures through
  \<open>ecrecover\<close>. The curve is a parameter: \<open>secp256k1\<close> states its group laws on the
  multiples of the generator and what the \<open>ecrecover\<close> precompile documents, the address of
  the point \<open>(s*R - z*G)/r\<close>. Under it the contract's check is the textbook equation
  \<open>addr (e*PK + s*G) = addr (k*G)\<close>.
\<close>

section \<open>The contract\<close>

definition Q :: uint256 where
  "Q = 0xFFFFFFFFFFFFFFFFFFFFFFFFFFFFFFFEBAAEDCE6AF48A03BBFD25E8CD0364141"

definition HALF_Q :: uint256 where
  "HALF_Q = drop_bit 1 Q + 1"

definition msgChallenge :: "evm \<Rightarrow> uint256 \<Rightarrow> 8 word \<Rightarrow> bytes32 \<Rightarrow> address \<Rightarrow> uint256" where
  "msgChallenge V signingPubKeyX parity msgHash nonceTimesG =
     keccak256 V (word_bytes 32 signingPubKeyX @ word_bytes 1 parity @ word_bytes 32 msgHash @
       word_bytes 20 nonceTimesG)"

definition verifySignature ::
  "evm \<Rightarrow> bytes32 \<Rightarrow> uint256 \<Rightarrow> uint256 \<Rightarrow> 8 word \<Rightarrow> address \<Rightarrow> bool sol" where
  "verifySignature V msgHash signature signingPubKeyX parity nonceTimesG =
     rensure (signingPubKeyX < HALF_Q) (Revert ''Public-key x >= HALF_Q'')
    (rensure (signature < Q) (Revert ''Sig must be reduced modulo Q'')
    (rensure (nonceTimesG \<noteq> 0 \<and> signingPubKeyX > 0 \<and> signature > 0 \<and> msgHash > 0)
       (Revert ''No zero inputs allowed'')
    (rbind (checked_sub Q (mulmod signingPubKeyX signature Q)) (\<lambda>z.
     let e = msgChallenge V signingPubKeyX parity msgHash nonceTimesG;
         recovered = ecrecover V z (if parity = 0 then 27 else 28) signingPubKeyX
           (mulmod e signingPubKeyX Q)
     in rensure (recovered \<noteq> 0) (Revert ''Schnorr: recoveredAddress is 0'')
        (Inr (nonceTimesG = recovered))))))"

definition verifySigningKeyX :: "uint256 \<Rightarrow> 'a sol \<Rightarrow> 'a sol" where
  "verifySigningKeyX x k = rensure (x < HALF_Q) (Revert ''Public-key x >= HALF_Q'') k"

section \<open>The curve\<close>

text \<open>Points are reached as multiples of the generator; \<open>smul n P\<close> is scalar
  multiplication, \<open>point_addr\<close> the Ethereum address of a point.\<close>

record 'p curve =
  generator :: 'p
  padd :: "'p \<Rightarrow> 'p \<Rightarrow> 'p"
  smul :: "nat \<Rightarrow> 'p \<Rightarrow> 'p"
  x_coord :: "'p \<Rightarrow> uint256"
  y_odd :: "'p \<Rightarrow> bool"
  point_addr :: "'p \<Rightarrow> address"

definition group_laws :: "'p curve \<Rightarrow> bool" where
  "group_laws C \<longleftrightarrow>
     (\<forall>m n. padd C (smul C m (generator C)) (smul C n (generator C)) = smul C (m + n) (generator C)) \<and>
     (\<forall>m n. smul C m (smul C n (generator C)) = smul C (m * n) (generator C)) \<and>
     (\<forall>m n. smul C m (generator C) = smul C n (generator C) \<longleftrightarrow> m mod unat Q = n mod unat Q)"

text \<open>\<open>ecrecover(z, v, r, s)\<close> for a point \<open>R\<close> of x coordinate \<open>r\<close> and the parity \<open>v\<close>
  names: the address of the point \<open>P\<close> with \<open>r*P + z*G = s*R\<close>, unless that is the point
  at infinity.\<close>

definition ecrecover_law :: "'p curve \<Rightarrow> evm \<Rightarrow> bool" where
  "ecrecover_law C V \<longleftrightarrow>
     (\<forall>z s k m. let G = generator C; R = smul C m G; P = smul C k G; r = x_coord C R in
        0 < r \<longrightarrow> r < Q \<longrightarrow> k mod unat Q \<noteq> 0 \<longrightarrow> 0 < s \<longrightarrow> s < Q \<longrightarrow>
        padd C (smul C (unat r) P) (smul C (unat z) G) = smul C (unat s) R \<longrightarrow>
        ecrecover V z (if y_odd C R then 28 else 27) r s = point_addr C P)"

definition secp256k1 :: "'p curve \<Rightarrow> evm \<Rightarrow> bool" where
  "secp256k1 C V \<longleftrightarrow> group_laws C \<and> ecrecover_law C V"

section \<open>What the check computes\<close>

lemma unat_Q: "unat Q = 0xFFFFFFFFFFFFFFFFFFFFFFFFFFFFFFFEBAAEDCE6AF48A03BBFD25E8CD0364141"
  by (simp add: Q_def)

lemma HALF_Q_less_Q: "HALF_Q < Q"
  by (simp add: HALF_Q_def Q_def)

lemma unat_mulmod_Q: "unat (mulmod a b Q) = (unat a * unat b) mod unat Q"
  by (rule unat_mulmod) (simp add: Q_def)

lemma mulmod_Q_less: "mulmod a b Q < Q"
  by (simp add: word_less_nat_alt unat_mulmod_Q unat_Q)

lemma verifySignature_eq:
  "verifySignature V h s x p a =
    (if \<not> x < HALF_Q then Inl (Revert ''Public-key x >= HALF_Q'')
     else if \<not> s < Q then Inl (Revert ''Sig must be reduced modulo Q'')
     else if a = 0 \<or> x = 0 \<or> s = 0 \<or> h = 0 then Inl (Revert ''No zero inputs allowed'')
     else let rec = ecrecover V (Q - mulmod x s Q) (if p = 0 then 27 else 28) x
                      (mulmod (msgChallenge V x p h a) x Q)
          in if rec = 0 then Inl (Revert ''Schnorr: recoveredAddress is 0'') else Inr (a = rec))"
  using mulmod_Q_less [of x s]
  by (auto simp: verifySignature_def rensure_def checked_sub_def Let_def word_greater_zero_iff
      not_le [symmetric] less_imp_le split: if_splits)

lemma scalar_equation:
  fixes x s e d q :: nat
  assumes "0 < q"
  shows "(x * (e * d + s) + (q - x * s mod q)) mod q = (e * x mod q) * d mod q"
proof -
  have "x * s mod q \<le> q"
    using assms by (simp add: less_imp_le)
  then have "int (x * (e * d + s) + (q - x * s mod q)) =
      int x * (int e * int d + int s) + (int q - int x * int s mod int q)"
    by (simp only: of_nat_add of_nat_mult of_nat_diff zmod_int)
  also have "\<dots> mod int q = (int x * (int e * int d + int s) + (0 - int x * int s)) mod int q"
    by (metis (no_types, opaque_lifting) mod_add_right_eq mod_diff_eq mod_mod_trivial mod_self mod_0)
  also have "int x * (int e * int d + int s) + (0 - int x * int s) = int e * int x * int d"
    by (simp add: algebra_simps)
  also have "int e * int x * int d mod int q = int ((e * x mod q) * d mod q)"
    by (simp add: zmod_int mod_mult_left_eq)
  finally show ?thesis
    by (simp only: zmod_int [symmetric] of_nat_eq_iff)
qed

text \<open>The recovered point is \<open>e*PK + s*G\<close>.\<close>

lemma recovered_point:
  fixes V :: evm and C :: "'p curve"
  assumes C: "secp256k1 C V" and x: "x_coord C (smul C d (generator C)) = x"
    and par: "y_odd C (smul C d (generator C)) = (p \<noteq> 0)"
    and "0 < x" "x < HALF_Q" and ex: "mulmod e x Q \<noteq> 0"
    and inf: "(unat e * d + unat s) mod unat Q \<noteq> 0"
  shows "ecrecover V (Q - mulmod x s Q) (if p = 0 then 27 else 28) x (mulmod e x Q)
    = point_addr C (smul C (unat e * d + unat s) (generator C))"
proof -
  let ?G = "generator C" and ?k = "unat e * d + unat s"
  have grp: "padd C (smul C m ?G) (smul C n ?G) = smul C (m + n) ?G"
    "smul C m (smul C n ?G) = smul C (m * n) ?G"
    "smul C m ?G = smul C n ?G \<longleftrightarrow> m mod unat Q = n mod unat Q" for m n
    using C by (auto simp: secp256k1_def group_laws_def)
  have "unat (Q - mulmod x s Q) = unat Q - unat x * unat s mod unat Q"
    using mulmod_Q_less [of x s] by (simp add: unat_sub less_imp_le unat_mulmod_Q)
  moreover have "0 < unat Q"
    by (simp add: unat_Q)
  ultimately have "(unat x * ?k + unat (Q - mulmod x s Q)) mod unat Q = (unat (mulmod e x Q) * d) mod unat Q"
    using scalar_equation by (simp only: unat_mulmod_Q)
  then have "padd C (smul C (unat x) (smul C ?k ?G)) (smul C (unat (Q - mulmod x s Q)) ?G) =
      smul C (unat (mulmod e x Q)) (smul C d ?G)"
    by (simp only: grp)
  moreover have "x < Q"
    using assms(5) HALF_Q_less_Q by (rule less_trans)
  moreover have "0 < mulmod e x Q"
    using ex by (simp add: word_greater_zero_iff)
  ultimately have "ecrecover V (Q - mulmod x s Q) (if y_odd C (smul C d ?G) then 28 else 27) x (mulmod e x Q)
      = point_addr C (smul C ?k ?G)"
    using C assms(4) mulmod_Q_less inf unfolding secp256k1_def ecrecover_law_def Let_def x [symmetric]
    by blast
  then show ?thesis
    using par by (cases "p = 0") simp_all
qed

section \<open>Textbook verification\<close>

text \<open>C15: for a public key \<open>PK = d*G\<close> the contract accepts exactly when the given nonce
  address is the address of \<open>e*PK + s*G\<close>: the use of \<open>ecrecover\<close> computes the
  Schnorr equation, whatever the parity of the key.\<close>

theorem verifySignature_textbook:
  fixes C :: "'p curve"
  assumes "secp256k1 C V" and PK: "PK = smul C d (generator C)"
    and "x_coord C PK = x" and "y_odd C PK = (p \<noteq> 0)"
    and "0 < x" "x < HALF_Q" "0 < s" "s < Q" "h \<noteq> 0" "a \<noteq> 0"
    and e: "e = msgChallenge V x p h a" and "mulmod e x Q \<noteq> 0"
    and "(unat e * d + unat s) mod unat Q \<noteq> 0"
    and S: "S = padd C (smul C (unat e) PK) (smul C (unat s) (generator C))" "point_addr C S \<noteq> 0"
  shows "verifySignature V h s x p a = Inr (a = point_addr C S)"
proof -
  have pt: "S = smul C (unat e * d + unat s) (generator C)"
    using assms(1) by (simp add: PK S secp256k1_def group_laws_def)
  have "ecrecover V (Q - mulmod x s Q) (if p = 0 then 27 else 28) x (mulmod e x Q) =
      point_addr C (smul C (unat e * d + unat s) (generator C))"
    using assms by (intro recovered_point) simp_all
  then show ?thesis
    using assms(5-11) S(2) by (simp add: verifySignature_eq pt Let_def word_greater_zero_iff)
qed

text \<open>C30: the signature \<open>s = k - d*e mod Q\<close> that the documentation prescribes for the
  secret key \<open>d\<close> and the nonce \<open>k\<close> is accepted.\<close>

theorem honest_signature_verifies:
  fixes C :: "'p curve"
  assumes C: "secp256k1 C V" and x: "x_coord C (smul C d (generator C)) = x"
    and p: "y_odd C (smul C d (generator C)) = (p \<noteq> 0)"
    and x0: "0 < x" "x < HALF_Q" and h: "h \<noteq> 0"
    and a: "a = point_addr C (smul C k (generator C))" "a \<noteq> 0" and k: "k mod unat Q \<noteq> 0"
    and e: "e = msgChallenge V x p h a" "mulmod e x Q \<noteq> 0"
    and s: "int (unat s) = (int k - int d * int (unat e)) mod int (unat Q)" "s \<noteq> 0"
  shows "verifySignature V h s x p a = Inr True"
proof -
  have "int ((unat e * d + unat s) mod unat Q) = int (k mod unat Q)"
    unfolding zmod_int of_nat_add of_nat_mult s(1)
    by (simp add: mod_add_right_eq algebra_simps)
  then have pt: "(unat e * d + unat s) mod unat Q = k mod unat Q"
    by simp
  have "smul C (unat e * d + unat s) (generator C) = smul C k (generator C)"
    using C pt by (simp add: secp256k1_def group_laws_def)
  moreover have "ecrecover V (Q - mulmod x s Q) (if p = 0 then 27 else 28) x (mulmod e x Q) =
      point_addr C (smul C (unat e * d + unat s) (generator C))"
    using C x p x0 e(2) pt k by (intro recovered_point) simp_all
  moreover have "s < Q"
  proof -
    have "int (unat s) < int (unat Q)"
      unfolding s(1) by (simp add: unat_Q)
    then show ?thesis
      by (simp only: word_less_nat_alt of_nat_less_iff)
  qed
  ultimately show ?thesis
    using x0 h a e s(2) by (simp add: verifySignature_eq Let_def)
qed

section \<open>An instance of the curve hypothesis\<close>

text \<open>The integers modulo \<open>Q\<close>, where only the point 2 has a usable x coordinate: enough to
  evaluate the theorems at a concrete key and signature.\<close>

definition mod_curve :: "nat curve" where
  "mod_curve = \<lparr>generator = 1, padd = \<lambda>a b. (a + b) mod unat Q, smul = \<lambda>n p. (n * p) mod unat Q,
     x_coord = \<lambda>p. if p = 2 then 1 else 0, y_odd = \<lambda>p. False, point_addr = \<lambda>p. word_of_nat (p + 1)\<rparr>"

definition mod_evm :: "(bytes \<Rightarrow> bytes32) \<Rightarrow> evm" where
  "mod_evm h = \<lparr>keccak256 = h, ecrecover = \<lambda>z v r s.
     if r = 1 \<and> v = 27 then word_of_nat ((2 * unat s + (unat Q - unat z mod unat Q)) mod unat Q + 1) else 0\<rparr>"

lemma mod_difference:
  fixes k z s q :: nat
  assumes "0 < q" and "(k mod q + z mod q) mod q = t mod q"
  shows "k mod q = (t + (q - z mod q)) mod q"
proof -
  have "(t + (q - z mod q)) mod q = ((k mod q + z mod q) + (q - z mod q)) mod q"
    using assms(2) by (metis mod_add_left_eq)
  also have "\<dots> = (k mod q + q) mod q"
    using assms(1) by (simp add: less_imp_le)
  finally show ?thesis
    by simp
qed

lemma mod_curve_secp256k1: "secp256k1 mod_curve (mod_evm h)"
proof -
  have "group_laws mod_curve"
    by (simp add: group_laws_def mod_curve_def mod_mult_right_eq mod_add_eq)
  moreover have "ecrecover_law mod_curve (mod_evm h)"
    unfolding ecrecover_law_def Let_def
  proof (intro allI impI)
    fix z s :: uint256 and k m :: nat
    let ?G = "generator mod_curve" and ?q = "unat Q"
    let ?r = "x_coord mod_curve (smul mod_curve m ?G)"
    assume "0 < ?r"
      and eq: "padd mod_curve (smul mod_curve (unat ?r) (smul mod_curve k ?G)) (smul mod_curve (unat z) ?G) =
        smul mod_curve (unat s) (smul mod_curve m ?G)"
    then have m: "m mod ?q = 2" and r: "?r = 1"
      by (auto simp: mod_curve_def split: if_splits)
    have "(k mod ?q + unat z mod ?q) mod ?q = (2 * unat s) mod ?q"
      using eq r m by (simp add: mod_curve_def mult.commute mod_simps)
    then have "k mod ?q = (2 * unat s + (?q - unat z mod ?q)) mod ?q"
      by (intro mod_difference) (simp_all add: unat_Q)
    then show "ecrecover (mod_evm h) z (if y_odd mod_curve (smul mod_curve m ?G) then 28 else 27) ?r s =
        point_addr mod_curve (smul mod_curve k ?G)"
      using r by (simp add: mod_evm_def) (simp add: mod_curve_def)
  qed
  ultimately show ?thesis
    by (simp add: secp256k1_def)
qed

lemma verifySignature_textbook_witness:
  "verifySignature (mod_evm (\<lambda>b. 5)) 9 3 1 0 14 = Inr True"
  using verifySignature_textbook [OF mod_curve_secp256k1, of _ 2 1 0 3 9 14 5]
  by (simp add: mod_curve_def mod_evm_def msgChallenge_def mulmod_def Q_def HALF_Q_def)

lemma honest_signature_witness:
  "verifySignature (mod_evm (\<lambda>b. 5)) 9 (Q - 3) 1 0 8 = Inr True"
  using honest_signature_verifies [OF mod_curve_secp256k1, of 2 1 0 9 8 7 5 "\<lambda>b. 5" "Q - 3"]
  by (simp add: mod_curve_def mod_evm_def msgChallenge_def mulmod_def Q_def HALF_Q_def)

end
