(* ===== verification/SolAbi.thy ===== *)
theory SolAbi
  imports SolBase
begin

text \<open>
  \<open>abi.encode\<close> of the contract ABI: head and tail layout, dynamic values behind offsets,
  byte strings padded to 32 bytes. Its injectivity on values of one type shows that a digest
  over an encoding commits to every encoded value. \<open>abi.encodePacked\<close> is plain
  concatenation of \<open>word_bytes\<close>. A selector is \<open>keccak256\<close> of the signature,
  cut to four bytes.
\<close>

section \<open>Values, types and the encoding\<close>

text \<open>Every elementary value (\<open>uint\<close>, \<open>address\<close>, \<open>bool\<close>,
  \<open>bytes4\<close>, \<open>bytes32\<close>) is encoded as one word; \<open>SBytes\<close> is
  \<open>bytes\<close> or \<open>string\<close>, \<open>SArray\<close> is \<open>T[]\<close>, \<open>STuple\<close> a struct.\<close>

datatype sol_value = SWord uint256 | SBytes bytes | SArray "sol_value list" | STuple "sol_value list"

datatype sol_type = TWord | TBytes | TArray sol_type | TTuple "sol_type list"

fun has_type :: "sol_value \<Rightarrow> sol_type \<Rightarrow> bool" where
  "has_type (SWord w) t = (t = TWord)"
| "has_type (SBytes b) t = (t = TBytes \<and> length b < 2 ^ 256)"
| "has_type (SArray vs) t = (case t of TArray u \<Rightarrow> length vs < 2 ^ 256 \<and> list_all (\<lambda>v. has_type v u) vs | _ \<Rightarrow> False)"
| "has_type (STuple vs) t = (case t of TTuple us \<Rightarrow> list_all2 has_type vs us | _ \<Rightarrow> False)"

fun dynamic :: "sol_value \<Rightarrow> bool" where
  "dynamic (SWord w) = False"
| "dynamic (SBytes b) = True"
| "dynamic (SArray vs) = True"
| "dynamic (STuple vs) = list_ex dynamic vs"

text \<open>The heads and tails of a sequence of encoded components, each with its dynamic flag;
  \<open>off\<close> is the offset of the next tail.\<close>

definition head_size :: "bool \<times> bytes \<Rightarrow> nat" where
  "head_size p = (if fst p then 32 else length (snd p))"

fun heads :: "nat \<Rightarrow> (bool \<times> bytes) list \<Rightarrow> bytes" where
  "heads off [] = []"
| "heads off ((dyn, b) # ps) =
     (if dyn then word_bytes 32 (word_of_nat off :: uint256) @ heads (off + length b) ps
      else b @ heads off ps)"

fun tails_of :: "(bool \<times> bytes) list \<Rightarrow> bytes" where
  "tails_of [] = []"
| "tails_of ((dyn, b) # ps) = (if dyn then b else []) @ tails_of ps"

definition seq_encode :: "(bool \<times> bytes) list \<Rightarrow> bytes" where
  "seq_encode ps = heads (sum_list (map head_size ps)) ps @ tails_of ps"

definition padding :: "nat \<Rightarrow> bytes" where
  "padding n = replicate ((32 - n mod 32) mod 32) 0"

fun encode_value :: "sol_value \<Rightarrow> bytes" where
  "encode_value (SWord w) = word_bytes 32 w"
| "encode_value (SBytes b) = word_bytes 32 (word_of_nat (length b) :: uint256) @ b @ padding (length b)"
| "encode_value (SArray vs) = word_bytes 32 (word_of_nat (length vs) :: uint256) @
     seq_encode (map (\<lambda>v. (dynamic v, encode_value v)) vs)"
| "encode_value (STuple vs) = seq_encode (map (\<lambda>v. (dynamic v, encode_value v)) vs)"

definition abi_encode :: "sol_value list \<Rightarrow> bytes" where
  "abi_encode vs = encode_value (STuple vs)"

text \<open>\<open>this.f.selector\<close>, padded on the right as \<open>bytes4\<close> is in \<open>abi.encode\<close>.\<close>

definition selector :: "evm \<Rightarrow> string \<Rightarrow> 32 word" where
  "selector V sg = ucast (drop_bit 224 (keccak256 V (map (\<lambda>c. word_of_nat (of_char c)) sg)))"

definition SSelector :: "32 word \<Rightarrow> sol_value" where
  "SSelector s = SWord (push_bit 224 (ucast s))"

definition SAddress :: "address \<Rightarrow> sol_value" where
  "SAddress a = SWord (ucast a)"

definition SBool :: "bool \<Rightarrow> sol_value" where
  "SBool b = SWord (if b then 1 else 0)"

definition SUint :: "'a::len word \<Rightarrow> sol_value" where
  "SUint w = SWord (ucast w)"

lemma ucast_256_inject:
  fixes v w :: "'a::len word"
  assumes "LENGTH('a) \<le> 256" and "(ucast v :: uint256) = ucast w"
  shows "v = w"
proof -
  have u: "unat (ucast x :: uint256) = unat x" for x :: "'a word"
  proof -
    have "unat x < 2 ^ 256"
      using unat_lt2p [of x] power_increasing [OF assms(1), of "2::nat"] by linarith
    then show ?thesis
      by (simp add: unsigned_ucast_eq take_bit_nat_eq_self)
  qed
  show ?thesis
    using assms(2) u [of v] u [of w] by (metis unsigned_word_eqI)
qed

lemma SUint_inject [simp]: "LENGTH('a) \<le> 256 \<Longrightarrow> SUint (v :: 'a::len word) = SUint w \<longleftrightarrow> v = w"
  by (auto simp: SUint_def intro: ucast_256_inject)

lemma SAddress_inject [simp]: "SAddress a = SAddress b \<longleftrightarrow> a = b"
  by (auto simp: SAddress_def intro: ucast_256_inject)

lemma SBool_inject [simp]: "SBool a = SBool b \<longleftrightarrow> a = b"
  by (auto simp: SBool_def)

lemma word_value_type [simp]:
  "has_type (SSelector s) TWord" "has_type (SAddress a) TWord" "has_type (SBool c) TWord"
  "has_type (SUint w) TWord"
  by (simp_all add: SSelector_def SAddress_def SBool_def SUint_def)

section \<open>Injectivity\<close>

text \<open>Two values of one type are both dynamic or both static, and static ones have the same
  length.\<close>

lemma has_type_TTuple: "has_type v (TTuple us) \<longleftrightarrow> (\<exists>vs. v = STuple vs \<and> list_all2 has_type vs us)"
  by (cases v) auto

lemma has_type_TArray:
  "has_type v (TArray u) \<longleftrightarrow> (\<exists>vs. v = SArray vs \<and> length vs < 2 ^ 256 \<and> list_all (\<lambda>v. has_type v u) vs)"
  by (cases v) auto

lemma has_type_TWord: "has_type v TWord \<longleftrightarrow> (\<exists>w. v = SWord w)"
  by (cases v) auto

lemma has_type_TBytes: "has_type v TBytes \<longleftrightarrow> (\<exists>b. v = SBytes b \<and> length b < 2 ^ 256)"
  by (cases v) auto

lemmas has_type_cases = has_type_TWord has_type_TBytes has_type_TArray has_type_TTuple

fun dynamic_type :: "sol_type \<Rightarrow> bool" where
  "dynamic_type TWord = False"
| "dynamic_type TBytes = True"
| "dynamic_type (TArray t) = True"
| "dynamic_type (TTuple ts) = list_ex dynamic_type ts"

lemma dynamic_type: "has_type v t \<Longrightarrow> dynamic v = dynamic_type t"
proof (induction t arbitrary: v)
  case (TTuple us)
  then obtain vs where v: "v = STuple vs" and vs: "list_all2 has_type vs us"
    by (auto simp: has_type_TTuple)
  have "dynamic (vs ! i) = dynamic_type (us ! i)" if "i < length us" for i
    using TTuple.IH vs that by (auto simp: list_all2_conv_all_nth)
  then show ?case
    using v vs by (auto simp: list_ex_length list_all2_conv_all_nth)
qed (auto simp: has_type_cases)

text \<open>The static size of a type, and the head sizes of typed sequences.\<close>

fun static_size :: "sol_type \<Rightarrow> nat" where
  "static_size (TTuple ts) = sum_list (map static_size ts)"
| "static_size t = 32"

definition part :: "sol_value \<Rightarrow> bool \<times> bytes" where
  "part v = (dynamic v, encode_value v)"

lemma part_map: "map (\<lambda>v. (dynamic v, encode_value v)) vs = map part vs"
  by (simp add: part_def)

lemma heads_part:
  "heads m (part v # ps) =
     (if dynamic v then word_bytes 32 (word_of_nat m :: uint256) @ heads (m + length (encode_value v)) ps
      else encode_value v @ heads m ps)"
  by (simp add: part_def)

lemma tails_part: "tails_of (part v # ps) = (if dynamic v then encode_value v else []) @ tails_of ps"
  by (simp add: part_def)

lemma length_heads: "length (heads off ps) = sum_list (map head_size ps)"
  by (induction off ps rule: heads.induct) (auto simp: head_size_def)

lemma static_tails: "\<not> list_ex dynamic vs \<Longrightarrow> tails_of (map part vs) = []"
  by (induction vs) (auto simp: part_def)

lemma static_length: "has_type v t \<Longrightarrow> \<not> dynamic v \<Longrightarrow> length (encode_value v) = static_size t"
proof (induction t arbitrary: v)
  case (TTuple us)
  then obtain vs where v: "v = STuple vs" and vs: "list_all2 has_type vs us"
    by (auto simp: has_type_TTuple)
  have stat: "\<not> dynamic (vs ! i)" if "i < length vs" for i
    using TTuple.prems(2) v that by (auto simp: list_ex_length)
  have "map head_size (map part vs) = map static_size us"
  proof (rule nth_equalityI)
    show "length (map head_size (map part vs)) = length (map static_size us)"
      using vs by (simp add: list_all2_lengthD)
    fix i assume "i < length (map head_size (map part vs))"
    then have i: "i < length vs" "i < length us" "has_type (vs ! i) (us ! i)"
      using vs by (auto simp: list_all2_conv_all_nth)
    then have "length (encode_value (vs ! i)) = static_size (us ! i)"
      using TTuple.IH stat by auto
    then show "map head_size (map part vs) ! i = map static_size us ! i"
      using i stat by (simp add: head_size_def part_def)
  qed
  moreover have "tails_of (map part vs) = []"
    using TTuple.prems(2) v by (intro static_tails) simp
  ultimately show ?case
    by (simp add: v part_map seq_encode_def length_heads del: map_map)
qed (auto simp: has_type_cases)

lemma head_sizes:
  "list_all2 has_type vs us \<Longrightarrow>
   map head_size (map part vs) = map (\<lambda>t. if dynamic_type t then 32 else static_size t) us"
  by (induction vs us rule: list_all2_induct)
     (auto simp: head_size_def part_def dynamic_type static_length)

text \<open>\<open>prefix_free t\<close>: encodings at type \<open>t\<close> followed by anything can be told apart.\<close>

definition prefix_free :: "sol_type \<Rightarrow> bool" where
  "prefix_free t \<longleftrightarrow> (\<forall>v w r r'. has_type v t \<longrightarrow> has_type w t \<longrightarrow>
     encode_value v @ r = encode_value w @ r' \<longrightarrow> v = w \<and> r = r')"

lemma prefix_freeD:
  "prefix_free t \<Longrightarrow> has_type v t \<Longrightarrow> has_type w t \<Longrightarrow> encode_value v @ r = encode_value w @ r' \<Longrightarrow>
   v = w \<and> r = r'"
  unfolding prefix_free_def by blast

lemma heads_static_eq:
  assumes "list_all2 has_type vs us" and "list_all2 has_type ws us"
    and "heads m (map part vs) = heads n (map part ws)"
  shows "list_all2 (\<lambda>v w. \<not> dynamic v \<longrightarrow> encode_value v = encode_value w) vs ws"
  using assms
proof (induction vs us arbitrary: m n ws rule: list_all2_induct)
  case Nil
  then show ?case by simp
next
  case (Cons v vs u us)
  then obtain w ws' where ws: "ws = w # ws'" "has_type w u" "list_all2 has_type ws' us"
    by (auto simp: list_all2_Cons2)
  have d: "dynamic w = dynamic v"
    using ws(2) Cons.hyps(1) by (simp add: dynamic_type)
  have "(\<not> dynamic v \<longrightarrow> encode_value v = encode_value w) \<and>
        (\<exists>m' n'. heads m' (map part vs) = heads n' (map part ws'))"
  proof (cases "dynamic v")
    case True
    let ?l = "length (encode_value v)" and ?k = "length (encode_value w)"
    have "word_bytes 32 (word_of_nat m :: uint256) @ heads (m + ?l) (map part vs) =
          word_bytes 32 (word_of_nat n :: uint256) @ heads (n + ?k) (map part ws')"
      using Cons.prems(2) True d by (simp add: ws(1) heads_part)
    then have "heads (m + ?l) (map part vs) = heads (n + ?k) (map part ws')"
      by simp
    then show ?thesis
      using True by blast
  next
    case False
    have "length (encode_value v) = length (encode_value w)"
      using False d ws(2) Cons.hyps(1) by (simp add: static_length)
    moreover have "encode_value v @ heads m (map part vs) = encode_value w @ heads n (map part ws')"
      using Cons.prems(2) d False by (simp add: ws(1) heads_part)
    ultimately have "encode_value v = encode_value w \<and> heads m (map part vs) = heads n (map part ws')"
      by simp
    then show ?thesis by blast
  qed
  then show ?case
    using Cons.IH ws by auto
qed

lemma tails_dynamic_eq:
  assumes "list_all2 has_type vs us" and "list_all2 has_type ws us" and "\<forall>u\<in>set us. prefix_free u"
    and "tails_of (map part vs) @ r = tails_of (map part ws) @ r'"
  shows "list_all2 (\<lambda>v w. dynamic v \<longrightarrow> v = w) vs ws \<and> r = r'"
  using assms
proof (induction vs us arbitrary: ws rule: list_all2_induct)
  case Nil
  then show ?case by simp
next
  case (Cons v vs u us)
  then obtain w ws' where ws: "ws = w # ws'" "has_type w u" "list_all2 has_type ws' us"
    by (auto simp: list_all2_Cons2)
  have d: "dynamic w = dynamic v"
    using ws(2) Cons.hyps(1) by (simp add: dynamic_type)
  have "(dynamic v \<longrightarrow> v = w) \<and> tails_of (map part vs) @ r = tails_of (map part ws') @ r'"
  proof (cases "dynamic v")
    case True
    then have "encode_value v @ tails_of (map part vs) @ r = encode_value w @ tails_of (map part ws') @ r'"
      using Cons.prems(3) d by (simp add: ws(1) tails_part)
    then show ?thesis
      using prefix_freeD [OF _ Cons.hyps(1) ws(2)] Cons.prems(2) by simp
  next
    case False
    then show ?thesis
      using Cons.prems(3) d by (simp add: ws(1) tails_part)
  qed
  then show ?case
    using Cons.IH [OF ws(3)] Cons.prems(2) ws(1) by auto
qed

lemma seq_encode_inject:
  assumes vs: "list_all2 has_type vs us" and ws: "list_all2 has_type ws us"
    and pf: "\<forall>u\<in>set us. prefix_free u"
    and eq: "seq_encode (map part vs) @ r = seq_encode (map part ws) @ r'"
  shows "vs = ws \<and> r = r'"
proof -
  let ?hv = "heads (sum_list (map head_size (map part vs))) (map part vs)"
  let ?hw = "heads (sum_list (map head_size (map part ws))) (map part ws)"
  have sizes: "map head_size (map part vs) = map head_size (map part ws)"
    using head_sizes [OF vs] head_sizes [OF ws] by simp
  have "length ?hv = length ?hw"
    unfolding length_heads using sizes by simp
  moreover have "?hv @ (tails_of (map part vs) @ r) = ?hw @ (tails_of (map part ws) @ r')"
    using eq by (simp add: seq_encode_def)
  ultimately have hs: "?hv = ?hw" and ts: "tails_of (map part vs) @ r = tails_of (map part ws) @ r'"
    by (metis append_eq_append_conv)+
  have r: "r = r'" and dyn: "list_all2 (\<lambda>v w. dynamic v \<longrightarrow> v = w) vs ws"
    using tails_dynamic_eq [OF vs ws pf ts] by simp_all
  have len: "length vs = length ws" "length vs = length us"
    using list_all2_lengthD [OF vs] list_all2_lengthD [OF ws] by simp_all
  have "vs ! i = ws ! i" if i: "i < length vs" for i
  proof (cases "dynamic (vs ! i)")
    case True
    then show ?thesis
      using dyn i by (auto dest: list_all2_nthD)
  next
    case False
    then have "encode_value (vs ! i) @ [] = encode_value (ws ! i) @ []"
      using list_all2_nthD [OF heads_static_eq [OF vs ws hs] i] by simp
    moreover have "has_type (vs ! i) (us ! i)" "has_type (ws ! i) (us ! i)" "us ! i \<in> set us"
      using vs ws i len by (auto dest: list_all2_nthD)
    ultimately show ?thesis
      using pf prefix_freeD by blast
  qed
  then show ?thesis
    using len r by (simp add: nth_equalityI)
qed

lemma length_word_inject:
  "m < 2 ^ 256 \<Longrightarrow> n < 2 ^ 256 \<Longrightarrow> word_bytes 32 (word_of_nat m :: uint256) = word_bytes 32 (word_of_nat n :: uint256) \<Longrightarrow> m = n"
proof -
  assume m: "m < 2 ^ 256" and n: "n < 2 ^ 256"
    and "word_bytes 32 (word_of_nat m :: uint256) = word_bytes 32 (word_of_nat n :: uint256)"
  then have "(word_of_nat m :: uint256) = word_of_nat n"
    by (intro word_bytes_inject [of 32]) simp_all
  then have "unat (word_of_nat m :: uint256) = unat (word_of_nat n :: uint256)"
    by simp
  then show "m = n"
    using unat_word_of_nat_less [where 'a=256, of m] unat_word_of_nat_less [where 'a=256, of n] m n by simp
qed

lemma replicate_const_types: "list_all (\<lambda>v. has_type v u) vs \<Longrightarrow> list_all2 has_type vs (replicate (length vs) u)"
  by (induction vs) auto

lemma prefix_free: "prefix_free t"
proof (induction t)
  case TWord
  show ?case
    unfolding prefix_free_def by (auto simp: has_type_TWord dest!: word_bytes_inject append_same_length)
next
  case TBytes
  show ?case
    unfolding prefix_free_def
  proof (intro allI impI)
    fix v w r r'
    assume "has_type v TBytes" "has_type w TBytes" and eq: "encode_value v @ r = encode_value w @ r'"
    then obtain b c where v: "v = SBytes b" "length b < 2 ^ 256" and w: "w = SBytes c" "length c < 2 ^ 256"
      by (auto simp: has_type_TBytes)
    have "word_bytes 32 (word_of_nat (length b) :: uint256) @ (b @ padding (length b) @ r) =
          word_bytes 32 (word_of_nat (length c) :: uint256) @ (c @ padding (length c) @ r')"
      using eq v w by simp
    then have "word_bytes 32 (word_of_nat (length b) :: uint256) = word_bytes 32 (word_of_nat (length c) :: uint256)"
      and rest: "b @ padding (length b) @ r = c @ padding (length c) @ r'"
      by (auto dest!: append_same_length)
    then have "length b = length c"
      using v w length_word_inject by blast
    then show "v = w \<and> r = r'"
      using rest v w by simp
  qed
next
  case (TArray t)
  show ?case
    unfolding prefix_free_def
  proof (intro allI impI)
    fix v w r r'
    assume "has_type v (TArray t)" "has_type w (TArray t)" and eq: "encode_value v @ r = encode_value w @ r'"
    then obtain vs ws where v: "v = SArray vs" "length vs < 2 ^ 256" "list_all (\<lambda>v. has_type v t) vs"
      and w: "w = SArray ws" "length ws < 2 ^ 256" "list_all (\<lambda>v. has_type v t) ws"
      by (auto simp: has_type_TArray)
    have "word_bytes 32 (word_of_nat (length vs) :: uint256) @ (seq_encode (map part vs) @ r) =
          word_bytes 32 (word_of_nat (length ws) :: uint256) @ (seq_encode (map part ws) @ r')"
      using eq v w by (simp add: part_map)
    then have "word_bytes 32 (word_of_nat (length vs) :: uint256) = word_bytes 32 (word_of_nat (length ws) :: uint256)"
      and rest: "seq_encode (map part vs) @ r = seq_encode (map part ws) @ r'"
      by (auto dest!: append_same_length)
    then have "length vs = length ws"
      using v w length_word_inject by blast
    then show "v = w \<and> r = r'"
      using seq_encode_inject [OF replicate_const_types [OF v(3)] _ _ rest] replicate_const_types [OF w(3)]
        TArray v w by simp
  qed
next
  case (TTuple ts)
  show ?case
    unfolding prefix_free_def
  proof (intro allI impI)
    fix v w r r'
    assume "has_type v (TTuple ts)" "has_type w (TTuple ts)" and eq: "encode_value v @ r = encode_value w @ r'"
    then obtain vs ws where "v = STuple vs" "list_all2 has_type vs ts" "w = STuple ws" "list_all2 has_type ws ts"
      by (auto simp: has_type_TTuple)
    then show "v = w \<and> r = r'"
      using seq_encode_inject [of vs ts ws r r'] TTuple eq by (simp add: part_map)
  qed
qed

theorem abi_encode_inject:
  assumes "list_all2 has_type vs ts" and "list_all2 has_type ws ts" and "abi_encode vs = abi_encode ws"
  shows "vs = ws"
  using seq_encode_inject [OF assms(1,2), of "[]" "[]"] assms(3) prefix_free
  by (simp add: abi_encode_def part_map)

lemma length_abi_encode_words: "length (abi_encode (map SWord ws)) = 32 * length ws"
proof -
  have "length (abi_encode (map SWord ws)) = static_size (TTuple (replicate (length ws) TWord))"
    unfolding abi_encode_def
    by (rule static_length) (auto simp: list_all2_conv_all_nth list_ex_length)
  then show ?thesis
    by (simp add: sum_list_replicate)
qed

end
