(* ===== verification/NonceKeeper.thy ===== *)
theory NonceKeeper
  imports SolBase
begin

text \<open>
  Sequences of transactions on a contract and the interface of a contract that spends nonces.
  A transaction that reverts leaves the state alone. A nonce keeper accepts a nonce only while
  it is unused, marks it, and never frees one; whatever it is asked to do, every nonce is then
  accepted at most once.
\<close>

section \<open>Transactions\<close>

fun run_calls :: "('c \<Rightarrow> 's \<Rightarrow> ('s \<times> 'e) sol) \<Rightarrow> 'c list \<Rightarrow> 's \<Rightarrow> 's" where
  "run_calls exec [] s = s"
| "run_calls exec (c # cs) s =
     (case exec c s of Inl err \<Rightarrow> run_calls exec cs s | Inr (s', evs) \<Rightarrow> run_calls exec cs s')"

text \<open>The calls of a sequence that did not revert.\<close>

fun accepted :: "('c \<Rightarrow> 's \<Rightarrow> ('s \<times> 'e) sol) \<Rightarrow> 'c list \<Rightarrow> 's \<Rightarrow> 'c list" where
  "accepted exec [] s = []"
| "accepted exec (c # cs) s =
     (case exec c s of Inl err \<Rightarrow> accepted exec cs s | Inr (s', evs) \<Rightarrow> c # accepted exec cs s')"

text \<open>All events of a sequence, in order.\<close>

fun run_log :: "('c \<Rightarrow> 's \<Rightarrow> ('s \<times> 'e list) sol) \<Rightarrow> 'c list \<Rightarrow> 's \<Rightarrow> 'e list" where
  "run_log exec [] s = []"
| "run_log exec (c # cs) s =
     (case exec c s of Inl err \<Rightarrow> run_log exec cs s | Inr (s', evs) \<Rightarrow> evs @ run_log exec cs s')"

text \<open>What holds of the state after each call until an event is emitted holds at the end, or the
  event is in the log.\<close>

lemma run_calls_until:
  assumes step: "\<And>c s s' evs. c \<in> set cs \<Longrightarrow> exec c s = Inr (s', evs) \<Longrightarrow> P s \<Longrightarrow> P s' \<or> e \<in> set evs"
    and "P s"
  shows "P (run_calls exec cs s) \<or> e \<in> set (run_log exec cs s)"
  using assms
proof (induction cs arbitrary: s)
  case (Cons c cs)
  show ?case
  proof (cases "exec c s")
    case (Inl err)
    have "P (run_calls exec cs s) \<or> e \<in> set (run_log exec cs s)"
      by (rule Cons.IH) (use Cons.prems in auto)
    with Inl show ?thesis by simp
  next
    case (Inr r)
    then obtain s' evs where r: "exec c s = Inr (s', evs)"
      by (cases r) auto
    then have "P s' \<or> e \<in> set evs"
      using Cons.prems by (meson list.set_intros(1))
    then show ?thesis
      using Cons.IH [of s'] Cons.prems(1) r by auto
  qed
qed simp

lemma run_calls_append: "run_calls exec (cs @ ds) s = run_calls exec ds (run_calls exec cs s)"
  by (induction exec cs s rule: run_calls.induct) (auto split: sum.splits)

text \<open>What every successful call keeps holds after any sequence.\<close>

lemma run_calls_invariant:
  assumes "\<And>c s s' evs. I s \<Longrightarrow> exec c s = Inr (s', evs) \<Longrightarrow> I s'" and "I s"
  shows "I (run_calls exec cs s)"
  using assms(2)
proof (induction cs arbitrary: s)
  case (Cons c cs)
  then show ?case
    using assms(1) [of s c] by (cases "exec c s") (auto split: prod.splits)
qed simp

section \<open>Nonce keepers\<close>

locale nonce_keeper =
  fixes used :: "'s \<Rightarrow> uint256 \<Rightarrow> bool"
    and exec :: "'c \<Rightarrow> 's \<Rightarrow> ('s \<times> 'e) sol"
    and spends :: "'c \<Rightarrow> uint256 option"
  assumes fresh: "exec c s = Inr (s', evs) \<Longrightarrow> spends c = Some n \<Longrightarrow> \<not> used s n"
    and marks: "exec c s = Inr (s', evs) \<Longrightarrow> spends c = Some n \<Longrightarrow> used s' n"
    and keeps: "exec c s = Inr (s', evs) \<Longrightarrow> used s n \<Longrightarrow> used s' n"
begin

lemma used_run: "used s n \<Longrightarrow> used (run_calls exec cs s) n"
  by (rule run_calls_invariant [where I = "\<lambda>s. used s n"]) (auto intro: keeps)

lemma used_rejected:
  assumes "used s n" and "spends c = Some n"
  shows "\<exists>err. exec c s = Inl err"
proof (cases "exec c s")
  case (Inr r)
  then show ?thesis
    using fresh assms by (cases r) blast
qed simp

lemma spent_unused:
  assumes "spends c = Some n"
  shows "c \<in> set (accepted exec cs s) \<Longrightarrow> \<not> used s n"
proof (induction cs arbitrary: s)
  case (Cons d cs)
  show ?case
  proof (cases "exec d s")
    case (Inr r)
    then obtain s' evs where r: "exec d s = Inr (s', evs)"
      by (cases r) auto
    then consider "c = d" | "c \<in> set (accepted exec cs s')"
      using Cons.prems by auto
    then show ?thesis
      using fresh r assms Cons.IH keeps by cases blast+
  qed (use Cons in simp)
qed simp

lemma spent_once: "distinct (List.map_filter spends (accepted exec cs s))"
proof (induction cs arbitrary: s)
  case (Cons c cs)
  show ?case
  proof (cases "exec c s")
    case (Inr r)
    then obtain s' evs where r: "exec c s = Inr (s', evs)"
      by (cases r) auto
    have "n \<notin> set (List.map_filter spends (accepted exec cs s'))" if "spends c = Some n" for n
      using marks [OF r that] spent_unused [where cs = cs and s = s' and n = n] by (auto simp: List.map_filter_def)
    then show ?thesis
      using Cons r by (auto simp: map_filter_simps split: option.split)
  qed (simp add: Cons)
qed (simp add: map_filter_simps)

end

end
