(* ===== verification/KeyManager.thy ===== *)
theory KeyManager
  imports Schnorr SolAbi NonceKeeper
begin

text \<open>
  \<open>KeyManager.sol\<close>: the aggregate, governance and community keys, and the consumption of
  signed nonces that every other contract of the protocol calls. Modifiers run in the order the
  source lists them; events are returned with the new state, and a revert returns no state.
  The contract is a nonce keeper, whatever sequence of calls reaches it.
\<close>

section \<open>State, events and messages\<close>

record key_manager =
  aggKey :: Key
  govKey :: address
  commKey :: address
  lastValidateTime :: uint256
  isNonceUsed :: "uint256 \<Rightarrow> bool"

datatype km_event =
    AggKeySetByAggKey Key Key
  | AggKeySetByGovKey Key Key
  | GovKeySetByAggKey address address
  | GovKeySetByGovKey address address
  | CommKeySetByAggKey address address
  | CommKeySetByCommKey address address
  | SignatureAccepted SigData address
  | GovernanceAction bytes32

type_synonym km_result = "(key_manager \<times> km_event list) sol"

definition AGG_KEY_TIMEOUT :: uint256 where
  "AGG_KEY_TIMEOUT = 2 * 24 * 60 * 60"

definition SKey :: "Key \<Rightarrow> sol_value" where
  "SKey k = STuple [SUint (pubKeyX k), SUint (pubKeyYParity k)]"

text \<open>What is signed for a call of \<open>sender\<close>: the hash of the call's parameters, the nonce,
  the sender, the chain and the KeyManager itself.\<close>

definition signed_values :: "env \<Rightarrow> address \<Rightarrow> address \<Rightarrow> uint256 \<Rightarrow> bytes32 \<Rightarrow> sol_value list" where
  "signed_values E this sender n contractMsgHash =
     [SUint contractMsgHash, SUint n, SAddress sender, SUint (block_chainid E), SAddress this]"

definition signed_hash :: "evm \<Rightarrow> env \<Rightarrow> address \<Rightarrow> address \<Rightarrow> uint256 \<Rightarrow> bytes32 \<Rightarrow> bytes32" where
  "signed_hash V E this sender n contractMsgHash =
     keccak256 V (abi_encode (signed_values E this sender n contractMsgHash))"

section \<open>Construction\<close>

definition validAggKey :: "Key \<Rightarrow> 'a sol \<Rightarrow> 'a sol" where
  "validAggKey k m = verifySigningKeyX (pubKeyX k) m"

definition km_constructor :: "Key \<Rightarrow> address \<Rightarrow> address \<Rightarrow> key_manager sol" where
  "km_constructor initialAggKey initialGovKey initialCommKey =
     nzAddr initialGovKey (nzKey initialAggKey (validAggKey initialAggKey
       (Inr \<lparr>aggKey = initialAggKey, govKey = initialGovKey, commKey = initialCommKey,
             lastValidateTime = 0, isNonceUsed = (\<lambda>n. False)\<rparr>)))"

section \<open>Nonce consumption\<close>

definition consumeKeyNonce_internal :: "evm \<Rightarrow> env \<Rightarrow> SigData \<Rightarrow> bytes32 \<Rightarrow> key_manager \<Rightarrow> km_result" where
  "consumeKeyNonce_internal V E sigData msgHash km =
     rbind (verifySignature V msgHash (sig sigData) (pubKeyX (aggKey km)) (pubKeyYParity (aggKey km))
              (kTimesGAddress sigData)) (\<lambda>valid.
     rensure valid (Revert ''KeyManager: Sig invalid'')
    (rensure (\<not> isNonceUsed km (nonce sigData)) (Revert ''KeyManager: nonce already used'')
    (Inr (km\<lparr>lastValidateTime := block_timestamp E,
            isNonceUsed := (isNonceUsed km)(nonce sigData := True)\<rparr>,
          [SignatureAccepted sigData (tx_origin E)]))))"

definition consumeKeyNonce ::
  "evm \<Rightarrow> address \<Rightarrow> env \<Rightarrow> SigData \<Rightarrow> bytes32 \<Rightarrow> key_manager \<Rightarrow> km_result" where
  "consumeKeyNonce V this E sigData contractMsgHash km =
     consumeKeyNonce_internal V E sigData
       (signed_hash V E this (msg_sender E) (nonce sigData) contractMsgHash) km"

text \<open>The modifier \<open>consumeKeyNonceKeyManager\<close> followed by the body \<open>k\<close>, whose events
  come after \<open>SignatureAccepted\<close>.\<close>

definition consumeKeyNonceKeyManager ::
  "evm \<Rightarrow> address \<Rightarrow> env \<Rightarrow> SigData \<Rightarrow> bytes32 \<Rightarrow> (key_manager \<Rightarrow> km_result) \<Rightarrow> key_manager \<Rightarrow> km_result" where
  "consumeKeyNonceKeyManager V this E sigData contractMsgHash k km =
     rbind (consumeKeyNonce_internal V E sigData
              (signed_hash V E this this (nonce sigData) contractMsgHash) km) (\<lambda>(km', evs).
     rbind (k km') (\<lambda>(km'', evs'). Inr (km'', evs @ evs')))"

section \<open>Modifiers\<close>

definition timeoutEmergency :: "env \<Rightarrow> key_manager \<Rightarrow> 'a sol \<Rightarrow> 'a sol" where
  "timeoutEmergency E km m =
     rbind (checked_sub (block_timestamp E) (lastValidateTime km)) (\<lambda>elapsed.
     rensure (elapsed \<ge> AGG_KEY_TIMEOUT) (Revert ''KeyManager: not enough time'') m)"

definition km_onlyGovernor :: "env \<Rightarrow> key_manager \<Rightarrow> 'a sol \<Rightarrow> 'a sol" where
  "km_onlyGovernor E km m = rensure (msg_sender E = govKey km) (Revert ''KeyManager: not governor'') m"

definition km_onlyCommunityKey :: "env \<Rightarrow> key_manager \<Rightarrow> 'a sol \<Rightarrow> 'a sol" where
  "km_onlyCommunityKey E km m =
     rensure (msg_sender E = commKey km) (Revert ''KeyManager: not Community Key'') m"

section \<open>Key updates\<close>

definition setAggKeyWithAggKey_values :: "evm \<Rightarrow> Key \<Rightarrow> sol_value list" where
  "setAggKeyWithAggKey_values V newAggKey =
     [SSelector (selector V ''setAggKeyWithAggKey((uint256,uint256,address),(uint256,uint8))''), SKey newAggKey]"

definition setAggKeyWithAggKey_msg :: "evm \<Rightarrow> Key \<Rightarrow> bytes32" where
  "setAggKeyWithAggKey_msg V newAggKey = keccak256 V (abi_encode (setAggKeyWithAggKey_values V newAggKey))"

definition setAggKeyWithAggKey :: "evm \<Rightarrow> address \<Rightarrow> env \<Rightarrow> SigData \<Rightarrow> Key \<Rightarrow> key_manager \<Rightarrow> km_result" where
  "setAggKeyWithAggKey V this E sigData newAggKey km =
     nzKey newAggKey (validAggKey newAggKey
      (consumeKeyNonceKeyManager V this E sigData (setAggKeyWithAggKey_msg V newAggKey)
        (\<lambda>km. Inr (km\<lparr>aggKey := newAggKey\<rparr>, [AggKeySetByAggKey (aggKey km) newAggKey])) km))"

definition setAggKeyWithGovKey :: "env \<Rightarrow> Key \<Rightarrow> key_manager \<Rightarrow> km_result" where
  "setAggKeyWithGovKey E newAggKey km =
     nzKey newAggKey (validAggKey newAggKey (timeoutEmergency E km (km_onlyGovernor E km
       (Inr (km\<lparr>aggKey := newAggKey\<rparr>, [AggKeySetByGovKey (aggKey km) newAggKey])))))"

definition setGovKeyWithAggKey_msg :: "evm \<Rightarrow> address \<Rightarrow> bytes32" where
  "setGovKeyWithAggKey_msg V newGovKey = keccak256 V (abi_encode
     [SSelector (selector V ''setGovKeyWithAggKey((uint256,uint256,address),address)''), SAddress newGovKey])"

definition setGovKeyWithAggKey :: "evm \<Rightarrow> address \<Rightarrow> env \<Rightarrow> SigData \<Rightarrow> address \<Rightarrow> key_manager \<Rightarrow> km_result" where
  "setGovKeyWithAggKey V this E sigData newGovKey km =
     consumeKeyNonceKeyManager V this E sigData (setGovKeyWithAggKey_msg V newGovKey)
       (\<lambda>km. Inr (km\<lparr>govKey := newGovKey\<rparr>, [GovKeySetByAggKey (govKey km) newGovKey])) km"

definition setGovKeyWithGovKey :: "env \<Rightarrow> address \<Rightarrow> key_manager \<Rightarrow> km_result" where
  "setGovKeyWithGovKey E newGovKey km =
     km_onlyGovernor E km (Inr (km\<lparr>govKey := newGovKey\<rparr>, [GovKeySetByGovKey (govKey km) newGovKey]))"

definition setCommKeyWithAggKey_msg :: "evm \<Rightarrow> address \<Rightarrow> bytes32" where
  "setCommKeyWithAggKey_msg V newCommKey = keccak256 V (abi_encode
     [SSelector (selector V ''setCommKeyWithAggKey((uint256,uint256,address),address)''), SAddress newCommKey])"

definition setCommKeyWithAggKey :: "evm \<Rightarrow> address \<Rightarrow> env \<Rightarrow> SigData \<Rightarrow> address \<Rightarrow> key_manager \<Rightarrow> km_result" where
  "setCommKeyWithAggKey V this E sigData newCommKey km =
     consumeKeyNonceKeyManager V this E sigData (setCommKeyWithAggKey_msg V newCommKey)
       (\<lambda>km. Inr (km\<lparr>commKey := newCommKey\<rparr>, [CommKeySetByAggKey (commKey km) newCommKey])) km"

definition setCommKeyWithCommKey :: "env \<Rightarrow> address \<Rightarrow> key_manager \<Rightarrow> km_result" where
  "setCommKeyWithCommKey E newCommKey km =
     km_onlyCommunityKey E km (Inr (km\<lparr>commKey := newCommKey\<rparr>, [CommKeySetByCommKey (commKey km) newCommKey]))"

definition govAction :: "env \<Rightarrow> bytes32 \<Rightarrow> key_manager \<Rightarrow> km_result" where
  "govAction E message km = km_onlyGovernor E km (Inr (km, [GovernanceAction message]))"

text \<open>The external getters.\<close>

definition getAggregateKey :: "key_manager \<Rightarrow> Key" where
  "getAggregateKey km = aggKey km"

definition getGovernanceKey :: "key_manager \<Rightarrow> address" where
  "getGovernanceKey km = govKey km"

definition getCommunityKey :: "key_manager \<Rightarrow> address" where
  "getCommunityKey km = commKey km"

definition getLastValidateTime :: "key_manager \<Rightarrow> uint256" where
  "getLastValidateTime km = lastValidateTime km"

definition isNonceUsedByAggKey :: "key_manager \<Rightarrow> uint256 \<Rightarrow> bool" where
  "isNonceUsedByAggKey km n = isNonceUsed km n"

lemmas km_getters = getAggregateKey_def getGovernanceKey_def getCommunityKey_def
  getLastValidateTime_def isNonceUsedByAggKey_def

section \<open>All calls\<close>

datatype km_call =
    ConsumeKeyNonce SigData bytes32
  | SetAggKeyWithAggKey SigData Key
  | SetAggKeyWithGovKey Key
  | SetGovKeyWithAggKey SigData address
  | SetGovKeyWithGovKey address
  | SetCommKeyWithAggKey SigData address
  | SetCommKeyWithCommKey address
  | GovAction bytes32

fun km_exec :: "evm \<Rightarrow> address \<Rightarrow> env \<times> km_call \<Rightarrow> key_manager \<Rightarrow> km_result" where
  "km_exec V this (E, ConsumeKeyNonce sd h) km = consumeKeyNonce V this E sd h km"
| "km_exec V this (E, SetAggKeyWithAggKey sd k) km = setAggKeyWithAggKey V this E sd k km"
| "km_exec V this (E, SetAggKeyWithGovKey k) km = setAggKeyWithGovKey E k km"
| "km_exec V this (E, SetGovKeyWithAggKey sd a) km = setGovKeyWithAggKey V this E sd a km"
| "km_exec V this (E, SetGovKeyWithGovKey a) km = setGovKeyWithGovKey E a km"
| "km_exec V this (E, SetCommKeyWithAggKey sd a) km = setCommKeyWithAggKey V this E sd a km"
| "km_exec V this (E, SetCommKeyWithCommKey a) km = setCommKeyWithCommKey E a km"
| "km_exec V this (E, GovAction m) km = govAction E m km"

fun km_spends :: "env \<times> km_call \<Rightarrow> uint256 option" where
  "km_spends (E, ConsumeKeyNonce sd h) = Some (nonce sd)"
| "km_spends (E, SetAggKeyWithAggKey sd k) = Some (nonce sd)"
| "km_spends (E, SetGovKeyWithAggKey sd a) = Some (nonce sd)"
| "km_spends (E, SetCommKeyWithAggKey sd a) = Some (nonce sd)"
| "km_spends (E, c) = None"

lemmas km_op_defs = consumeKeyNonce_def setAggKeyWithAggKey_def setAggKeyWithGovKey_def
  setGovKeyWithAggKey_def setGovKeyWithGovKey_def setCommKeyWithAggKey_def
  setCommKeyWithCommKey_def govAction_def

lemmas km_guard_defs = guard_defs validAggKey_def verifySigningKeyX_def timeoutEmergency_def
  km_onlyGovernor_def km_onlyCommunityKey_def

section \<open>Consumption\<close>

lemma consume_internal_Inr:
  "consumeKeyNonce_internal V E sd h km = Inr (km', evs) \<longleftrightarrow>
     verifySignature V h (sig sd) (pubKeyX (aggKey km)) (pubKeyYParity (aggKey km)) (kTimesGAddress sd) = Inr True \<and>
     \<not> isNonceUsed km (nonce sd) \<and>
     km' = km\<lparr>lastValidateTime := block_timestamp E, isNonceUsed := (isNonceUsed km)(nonce sd := True)\<rparr> \<and>
     evs = [SignatureAccepted sd (tx_origin E)]"
  by (auto simp: consumeKeyNonce_internal_def res_simps)

lemma consume_modifier_Inr:
  "consumeKeyNonceKeyManager V this E sd h k km = Inr (km', evs) \<longleftrightarrow>
     (\<exists>km1 evs1 evs2. consumeKeyNonce_internal V E sd (signed_hash V E this this (nonce sd) h) km = Inr (km1, evs1) \<and>
        k km1 = Inr (km', evs2) \<and> evs = evs1 @ evs2)"
  by (auto simp: consumeKeyNonceKeyManager_def res_simps)

lemmas km_success = km_op_defs km_guard_defs res_simps consume_modifier_Inr consume_internal_Inr

lemma km_exec_nonces:
  "km_exec V this c km = Inr (km', evs) \<Longrightarrow>
   isNonceUsed km' = (case km_spends c of None \<Rightarrow> isNonceUsed km | Some n \<Rightarrow> (isNonceUsed km)(n := True)) \<and>
   (\<forall>n. km_spends c = Some n \<longrightarrow> \<not> isNonceUsed km n)"
  by (cases "(V, this, c, km)" rule: km_exec.cases) (auto simp: km_success)

interpretation km: nonce_keeper isNonceUsed "km_exec V this" km_spends for V this
  by unfold_locales (auto dest!: km_exec_nonces split: option.splits)

lemma km_exec_time:
  "km_exec V this (E, c) km = Inr (km', evs) \<Longrightarrow>
   lastValidateTime km' = (if km_spends (E, c) = None then lastValidateTime km else block_timestamp E)"
  by (cases c) (auto simp: km_success)

section \<open>Reachable states\<close>

text \<open>Transactions execute at non-decreasing block times; \<open>t\<close> is the time of the last one.\<close>

inductive km_reach :: "evm \<Rightarrow> address \<Rightarrow> uint256 \<Rightarrow> key_manager \<Rightarrow> bool" for V this where
  deployed: "km_constructor k g c = Inr km \<Longrightarrow> km_reach V this t km"
| transact: "km_reach V this t km \<Longrightarrow> t \<le> block_timestamp E \<Longrightarrow>
    km_exec V this (E, c) km = Inr (km', evs) \<Longrightarrow> km_reach V this (block_timestamp E) km'"

definition valid_key :: "Key \<Rightarrow> bool" where
  "valid_key k \<longleftrightarrow> 0 < pubKeyX k \<and> pubKeyX k < HALF_Q"

lemma km_exec_aggKey:
  "km_exec V this (E, c) km = Inr (km', evs) \<Longrightarrow> aggKey km' = aggKey km \<or> valid_key (aggKey km')"
  by (cases c) (auto simp: km_success valid_key_def word_greater_zero_iff)

lemma km_reach_time: "km_reach V this t km \<Longrightarrow> lastValidateTime km \<le> t"
proof (induction rule: km_reach.induct)
  case (deployed k g c km t)
  then show ?case
    by (auto simp: km_constructor_def km_guard_defs res_simps)
next
  case (transact t km E c km' evs)
  then show ?case
    using km_exec_time by (metis order_trans order_refl)
qed

lemma km_reach_key: "km_reach V this t km \<Longrightarrow> valid_key (aggKey km)"
proof (induction rule: km_reach.induct)
  case (deployed k g c km t)
  then show ?case
    by (auto simp: km_constructor_def km_guard_defs res_simps valid_key_def word_greater_zero_iff)
next
  case (transact t km E c km' evs)
  then show ?case
    using km_exec_aggKey by metis
qed

text \<open>In every reachable state the aggregate key can have its signatures verified (its x
  coordinate is positive and below \<open>HALF_Q\<close>) and the last validation lies in the past, so
  the emergency timeout never underflows.\<close>

theorem km_reach_valid:
  assumes "km_reach V this t km"
  shows "valid_key (aggKey km) \<and> lastValidateTime km \<le> t"
  using assms by (simp add: km_reach_key km_reach_time)

text \<open>No signed nonce is ever accepted twice, whatever calls are sent to the KeyManager, by
  whom, and however the keys change in between.\<close>

theorem km_nonce_accepted_once:
  "distinct (List.map_filter km_spends (accepted (km_exec V this) cs km))"
  by (rule km.spent_once)

text \<open>Once a signed call has been accepted, every later call with its nonce reverts, after
  any sequence of calls.\<close>

theorem km_replay_reverts:
  assumes "km_exec V this c km = Inr (km', evs)" and "km_spends c = Some n" and "km_spends d = Some n"
  shows "\<exists>err. km_exec V this d (run_calls (km_exec V this) cs km') = Inl err"
  using km.marks [OF assms(1,2)] assms(3) by (blast intro: km.used_run km.used_rejected)

text \<open>C9: the aggregate key changes only by a call signed by the current aggregate key over the
  new one, or by the governor when no signature has been accepted for two days.\<close>

theorem aggKey_change_authorised:
  assumes "km_exec V this (E, c) km = Inr (km', evs)" and "aggKey km' \<noteq> aggKey km"
  shows "(\<exists>sd. c = SetAggKeyWithAggKey sd (aggKey km') \<and> \<not> isNonceUsed km (nonce sd) \<and>
            verifySignature V (signed_hash V E this this (nonce sd) (setAggKeyWithAggKey_msg V (aggKey km')))
              (sig sd) (pubKeyX (aggKey km)) (pubKeyYParity (aggKey km)) (kTimesGAddress sd) = Inr True) \<or>
         (c = SetAggKeyWithGovKey (aggKey km') \<and> msg_sender E = govKey km \<and>
            unat (lastValidateTime km) + 172800 \<le> unat (block_timestamp E))"
proof (cases c)
  case (SetAggKeyWithGovKey k)
  then show ?thesis
    using assms by (auto simp: km_success AGG_KEY_TIMEOUT_def word_le_nat_alt)
qed (use assms in \<open>auto simp: km_success\<close>)

text \<open>What \<open>setAggKeyWithGovKey\<close> does in a reachable state, on every branch: two
  days after the last accepted signature the governor, and nobody else, installs any valid key,
  and nothing else changes; the elapsed time never underflows.\<close>

theorem setAggKeyWithGovKey_outcome:
  assumes "km_reach V this t km" and "t \<le> block_timestamp E"
  shows "setAggKeyWithGovKey E k km =
    (if pubKeyX k = 0 then Inl (Revert ''Shared: pubKeyX is empty'')
     else if \<not> pubKeyX k < HALF_Q then Inl (Revert ''Public-key x >= HALF_Q'')
     else if unat (block_timestamp E) < unat (lastValidateTime km) + 172800
       then Inl (Revert ''KeyManager: not enough time'')
     else if msg_sender E \<noteq> govKey km then Inl (Revert ''KeyManager: not governor'')
     else Inr (km\<lparr>aggKey := k\<rparr>, [AggKeySetByGovKey (aggKey km) k]))"
proof -
  have le: "lastValidateTime km \<le> block_timestamp E"
    using km_reach_time [OF assms(1)] assms(2) by (rule order_trans)
  then have "AGG_KEY_TIMEOUT \<le> block_timestamp E - lastValidateTime km \<longleftrightarrow>
      \<not> unat (block_timestamp E) < unat (lastValidateTime km) + 172800"
    by (auto simp: word_le_nat_alt unat_sub AGG_KEY_TIMEOUT_def)
  then show ?thesis
    using le by (simp add: setAggKeyWithGovKey_def km_guard_defs checked_sub_def rensure_def)
qed

text \<open>\<open>consumeKeyNonce\<close> succeeds exactly when the signature verifies under the current
  aggregate key for the message bound to the caller and the nonce is unused; it then marks that
  nonce, records the time and touches no key.\<close>

theorem consumeKeyNonce_outcome:
  "consumeKeyNonce V this E sd h km =
    (case verifySignature V (signed_hash V E this (msg_sender E) (nonce sd) h) (sig sd)
            (pubKeyX (aggKey km)) (pubKeyYParity (aggKey km)) (kTimesGAddress sd) of
       Inl err \<Rightarrow> Inl err
     | Inr False \<Rightarrow> Inl (Revert ''KeyManager: Sig invalid'')
     | Inr True \<Rightarrow>
         if isNonceUsed km (nonce sd) then Inl (Revert ''KeyManager: nonce already used'')
         else Inr (km\<lparr>lastValidateTime := block_timestamp E,
                      isNonceUsed := (isNonceUsed km)(nonce sd := True)\<rparr>,
                   [SignatureAccepted sd (tx_origin E)]))"
  by (auto simp: consumeKeyNonce_def consumeKeyNonce_internal_def rbind_def rensure_def
      split: sum.splits bool.splits)

section \<open>What a signature covers\<close>

definition collision :: "evm \<Rightarrow> bytes \<Rightarrow> bytes \<Rightarrow> bool" where
  "collision V x y \<longleftrightarrow> x \<noteq> y \<and> keccak256 V x = keccak256 V y"

lemma digest_binds:
  assumes "list_all2 has_type vs ts" "list_all2 has_type ws ts"
    and "keccak256 V (abi_encode vs) = keccak256 V (abi_encode ws)"
  shows "vs = ws \<or> collision V (abi_encode vs) (abi_encode ws)"
  using assms abi_encode_inject by (auto simp: collision_def)

text \<open>Two signed messages are equal only when they agree on the call's parameter hash, the
  nonce, the sender, the chain and the KeyManager, or their two encodings are a collision of
  \<open>keccak256\<close>: a signature for one contract, chain or nonce is none for another.\<close>

theorem signed_hash_binds:
  assumes "signed_hash V E this s n h = signed_hash V E' this' s' n' h'"
  shows "(h = h' \<and> n = n' \<and> s = s' \<and> block_chainid E = block_chainid E' \<and> this = this') \<or>
    collision V (abi_encode (signed_values E this s n h)) (abi_encode (signed_values E' this' s' n' h'))"
  using digest_binds [of "signed_values E this s n h" "replicate 5 TWord" "signed_values E' this' s' n' h'" V]
    assms
  by (auto simp: signed_hash_def signed_values_def numeral_eq_Suc)

text \<open>The parameter hash that \<open>setAggKeyWithAggKey\<close> signs commits to both parts of the
  new key.\<close>

theorem setAggKey_msg_binds:
  assumes "setAggKeyWithAggKey_msg V k = setAggKeyWithAggKey_msg V k'"
  shows "(pubKeyX k = pubKeyX k' \<and> pubKeyYParity k = pubKeyYParity k') \<or>
    collision V (abi_encode (setAggKeyWithAggKey_values V k)) (abi_encode (setAggKeyWithAggKey_values V k'))"
  using digest_binds [of "setAggKeyWithAggKey_values V k" "[TWord, TTuple [TWord, TWord]]"
      "setAggKeyWithAggKey_values V k'" V] assms
  by (auto simp: setAggKeyWithAggKey_msg_def setAggKeyWithAggKey_values_def SKey_def)

section \<open>Witnesses\<close>

definition sample_env :: env where
  "sample_env = \<lparr>msg_sender = 7, tx_origin = 7, msg_value = 0, block_timestamp = 1000, block_chainid = 1\<rparr>"

definition sample_km :: key_manager where
  "sample_km = \<lparr>aggKey = \<lparr>pubKeyX = 1, pubKeyYParity = 0\<rparr>, govKey = 3, commKey = 4,
     lastValidateTime = 0, isNonceUsed = (\<lambda>n. False)\<rparr>"

text \<open>A signature of the sample key on a message hashed to 5, with \<open>k = 7\<close> and
  \<open>d = 2\<close>.\<close>

definition sample_sig :: "uint256 \<Rightarrow> SigData" where
  "sample_sig n = \<lparr>sig = Q - 3, nonce = n, kTimesGAddress = 8\<rparr>"

abbreviation sample_evm :: evm where
  "sample_evm \<equiv> mod_evm (\<lambda>b. 5)"

lemma sample_verifies: "verifySignature sample_evm 5 (Q - 3) 1 0 8 = Inr True"
  by (simp add: verifySignature_eq mod_evm_def msgChallenge_def mulmod_def Q_def HALF_Q_def)

lemma sample_hash: "signed_hash sample_evm E this s n h = 5" "setAggKeyWithAggKey_msg sample_evm k = 5"
  by (simp_all add: signed_hash_def setAggKeyWithAggKey_msg_def mod_evm_def)

lemma sample_x: "(1 :: uint256) < HALF_Q" "(2 :: uint256) < HALF_Q"
  by (simp_all add: HALF_Q_def Q_def)

lemmas sample_defs = sample_env_def sample_km_def sample_sig_def

lemma sample_reach: "km_reach V this 0 sample_km"
  by (rule km_reach.deployed [of "\<lparr>pubKeyX = 1, pubKeyYParity = 0\<rparr>" 3 4])
     (simp add: km_constructor_def km_guard_defs sample_km_def sample_x)

lemma sample_consume:
  "km_exec sample_evm 9 (sample_env, ConsumeKeyNonce (sample_sig 6) 2) sample_km =
    Inr (sample_km\<lparr>lastValidateTime := 1000, isNonceUsed := (\<lambda>n. n = 6)\<rparr>, [SignatureAccepted (sample_sig 6) 7])"
  by (simp add: consumeKeyNonce_def consume_internal_Inr sample_hash sample_verifies sample_defs fun_upd_def)

lemma km_reach_valid_witness: "valid_key (aggKey sample_km) \<and> lastValidateTime sample_km \<le> 0"
  by (rule km_reach_valid [OF sample_reach])

lemma km_replay_reverts_witness:
  "\<exists>err. km_exec sample_evm 9 (sample_env, SetGovKeyWithAggKey (sample_sig 6) 1)
     (run_calls (km_exec sample_evm 9) [] (sample_km\<lparr>lastValidateTime := 1000, isNonceUsed := (\<lambda>n. n = 6)\<rparr>)) = Inl err"
  by (rule km_replay_reverts [OF sample_consume]) (simp_all add: sample_sig_def)

lemma aggKey_change_authorised_witness:
  "\<exists>sd. SetAggKeyWithAggKey (sample_sig 6) \<lparr>pubKeyX = 2, pubKeyYParity = 1\<rparr> = SetAggKeyWithAggKey sd \<lparr>pubKeyX = 2, pubKeyYParity = 1\<rparr> \<and>
     verifySignature sample_evm 5 (sig sd) 1 0 (kTimesGAddress sd) = Inr True"
  using aggKey_change_authorised [of sample_evm 9 sample_env
      "SetAggKeyWithAggKey (sample_sig 6) \<lparr>pubKeyX = 2, pubKeyYParity = 1\<rparr>" sample_km
      "sample_km\<lparr>lastValidateTime := 1000, isNonceUsed := (\<lambda>n. n = 6), aggKey := \<lparr>pubKeyX = 2, pubKeyYParity = 1\<rparr>\<rparr>"
      "[SignatureAccepted (sample_sig 6) 7, AggKeySetByAggKey \<lparr>pubKeyX = 1, pubKeyYParity = 0\<rparr> \<lparr>pubKeyX = 2, pubKeyYParity = 1\<rparr>]"]
  by (simp add: km_success sample_hash sample_verifies sample_defs sample_x fun_upd_def)

lemma setAggKeyWithGovKey_outcome_witness:
  "setAggKeyWithGovKey (sample_env\<lparr>msg_sender := 3, block_timestamp := 172800\<rparr>) \<lparr>pubKeyX = 2, pubKeyYParity = 1\<rparr> sample_km =
    Inr (sample_km\<lparr>aggKey := \<lparr>pubKeyX = 2, pubKeyYParity = 1\<rparr>\<rparr>,
      [AggKeySetByGovKey \<lparr>pubKeyX = 1, pubKeyYParity = 0\<rparr> \<lparr>pubKeyX = 2, pubKeyYParity = 1\<rparr>])"
  by (subst setAggKeyWithGovKey_outcome [OF sample_reach [of sample_evm 9]])
     (simp_all add: sample_defs sample_x)

lemma signed_hash_binds_witness:
  "collision sample_evm (abi_encode (signed_values sample_env 9 7 1 2)) (abi_encode (signed_values sample_env 9 7 3 2))"
  using signed_hash_binds [of sample_evm sample_env 9 7 1 2 sample_env 9 7 3 2]
  by (simp add: sample_hash)

lemma setAggKey_msg_binds_witness:
  "collision sample_evm (abi_encode (setAggKeyWithAggKey_values sample_evm \<lparr>pubKeyX = 1, pubKeyYParity = 0\<rparr>))
     (abi_encode (setAggKeyWithAggKey_values sample_evm \<lparr>pubKeyX = 1, pubKeyYParity = 1\<rparr>))"
  using setAggKey_msg_binds [of sample_evm "\<lparr>pubKeyX = 1, pubKeyYParity = 0\<rparr>" "\<lparr>pubKeyX = 1, pubKeyYParity = 1\<rparr>"]
  by (simp add: sample_hash)

end
