(* ===== verification/SolAction.thy ===== *)
theory SolAction
  imports SolBase
begin

text \<open>
  Bodies of contract functions as actions: an action reads and updates the state, emits events
  and returns a value, or reverts, and then neither state nor events remain. A modifier is a
  check followed by the rest of the function.
\<close>

type_synonym ('s, 'e, 'a) action = "'s \<Rightarrow> sol_error + ('a \<times> 's \<times> 'e list)"

definition ret :: "'a \<Rightarrow> ('s, 'e, 'a) action" where
  "ret a s = Inr (a, s, [])"

definition revert :: "sol_error \<Rightarrow> ('s, 'e, 'a) action" where
  "revert e s = Inl e"

definition andthen :: "('s, 'e, 'a) action \<Rightarrow> ('a \<Rightarrow> ('s, 'e, 'b) action) \<Rightarrow> ('s, 'e, 'b) action" where
  "andthen m k s = rbind (m s) (\<lambda>(a, s1, l1). rbind (k a s1) (\<lambda>(b, s2, l2). Inr (b, s2, l1 @ l2)))"

definition require :: "('s \<Rightarrow> bool) \<Rightarrow> sol_error \<Rightarrow> ('s, 'e, 'a) action \<Rightarrow> ('s, 'e, 'a) action" where
  "require P e m s = (if P s then m s else Inl e)"

definition reads :: "('s \<Rightarrow> 'a) \<Rightarrow> ('s, 'e, 'a) action" where
  "reads f s = Inr (f s, s, [])"

definition modify :: "('s \<Rightarrow> 's) \<Rightarrow> ('s, 'e, unit) action" where
  "modify f s = Inr ((), f s, [])"

definition emit :: "'e \<Rightarrow> ('s, 'e, unit) action" where
  "emit e s = Inr ((), s, [e])"

text \<open>A checked computation that does not touch the state.\<close>

definition checked :: "'a sol \<Rightarrow> ('s, 'e, 'a) action" where
  "checked r s = rbind r (\<lambda>a. Inr (a, s, []))"

text \<open>The transaction of an action: its state and events.\<close>

definition transaction :: "('s, 'e, 'a) action \<Rightarrow> 's \<Rightarrow> ('s \<times> 'e list) sol" where
  "transaction m s = rbind (m s) (\<lambda>(a, s', l). Inr (s', l))"

lemma andthen_Inr [res_simps]:
  "andthen m k s = Inr (b, s'', l) \<longleftrightarrow>
     (\<exists>a s' l1 l2. m s = Inr (a, s', l1) \<and> k a s' = Inr (b, s'', l2) \<and> l = l1 @ l2)"
  by (auto simp: andthen_def rbind_eq_Inr)

lemma andthen_Inl [res_simps]:
  "andthen m k s = Inl e \<longleftrightarrow> m s = Inl e \<or> (\<exists>a s' l1. m s = Inr (a, s', l1) \<and> k a s' = Inl e)"
  by (auto simp: andthen_def rbind_eq_Inl rbind_eq_Inr)

lemma action_Inr [res_simps]:
  "ret a s = Inr (b, s', l) \<longleftrightarrow> b = a \<and> s' = s \<and> l = []"
  "reads f s = Inr (b, s', l) \<longleftrightarrow> b = f s \<and> s' = s \<and> l = []"
  "modify g s = Inr (u, s', l) \<longleftrightarrow> s' = g s \<and> l = []"
  "emit e s = Inr (u, s', l) \<longleftrightarrow> s' = s \<and> l = [e]"
  "revert err s \<noteq> Inr (b, s', l)"
  "checked r s = Inr (b, s', l) \<longleftrightarrow> r = Inr b \<and> s' = s \<and> l = []"
  "require P err m s = Inr (b, s', l) \<longleftrightarrow> P s \<and> m s = Inr (b, s', l)"
  by (auto simp: ret_def reads_def modify_def emit_def revert_def checked_def require_def rbind_eq_Inr)

lemma transaction_Inr [res_simps]:
  "transaction m s = Inr (s', l) \<longleftrightarrow> (\<exists>a. m s = Inr (a, s', l))"
  by (auto simp: transaction_def rbind_eq_Inr)

text \<open>Evaluation of an action on a given state.\<close>

lemma andthen_eval: "m s = Inr (a, s1, l1) \<Longrightarrow> andthen m k s = rbind (k a s1) (\<lambda>(b, s2, l2). Inr (b, s2, l1 @ l2))"
  by (simp add: andthen_def)

lemmas action_defs = andthen_def ret_def revert_def require_def reads_def modify_def emit_def
  checked_def transaction_def

lemma require_if: "require P e m s = (if P s then m s else Inl e)"
  by (simp add: require_def)

section \<open>Relations that actions conform to\<close>

text \<open>What an action that succeeds does to the state, with the events it emits, as a relation. A
  relation that holds when nothing happens, and of one thing after the other when it holds of both,
  covers an action as soon as it covers its parts.\<close>

definition conforms :: "('s \<Rightarrow> 'e list \<Rightarrow> 's \<Rightarrow> bool) \<Rightarrow> ('s, 'e, 'a) action \<Rightarrow> bool" where
  "conforms R m \<longleftrightarrow> (\<forall>s a s' l. m s = Inr (a, s', l) \<longrightarrow> R s l s')"

lemma conformsD: "conforms R m \<Longrightarrow> m s = Inr (a, s', l) \<Longrightarrow> R s l s'"
  by (simp add: conforms_def)

lemma conforms_require: "conforms R m \<Longrightarrow> conforms R (require P e m)"
  by (simp add: conforms_def action_Inr)

lemma conforms_if: "conforms R m \<Longrightarrow> conforms R n \<Longrightarrow> conforms R (if P then m else n)"
  by simp

locale action_relation =
  fixes R :: "'s \<Rightarrow> 'e list \<Rightarrow> 's \<Rightarrow> bool"
  assumes idle: "R s [] s"
    and sequence: "R s l s1 \<Longrightarrow> R s1 l' s2 \<Longrightarrow> R s (l @ l') s2"
begin

lemma conforms_andthen:
  assumes "conforms R m" and "\<And>a. conforms R (k a)"
  shows "conforms R (andthen m k)"
  unfolding conforms_def
proof (intro allI impI)
  fix s b s2 l
  assume "andthen m k s = Inr (b, s2, l)"
  then obtain a s1 l1 l2 where "m s = Inr (a, s1, l1)" "k a s1 = Inr (b, s2, l2)" "l = l1 @ l2"
    by (auto simp: andthen_Inr)
  then show "R s l s2"
    using sequence [OF conformsD [OF assms(1)] conformsD [OF assms(2)]] by simp
qed

lemma conforms_still: "conforms R (ret a)" "conforms R (reads f)" "conforms R (checked r)" "conforms R (revert e)"
  by (auto simp: conforms_def action_Inr intro: idle)

lemmas conforms_intros = conforms_andthen conforms_still conforms_require [where R = R] conforms_if [where R = R]

end

end
