(* ===== verification/Guard.thy ===== *)
theory Guard
  imports SolAction NonceKeeper
begin

text \<open>
  \<open>GovernanceCommunityGuarded.sol\<close>: the community guard and the suspension that the Vault
  and the StateChainGateway inherit. The governor and the community key are asked from the child
  contract, here arguments. A contract whose gated calls check the suspension is an
  \<open>emergency_stop\<close>: while suspended it accepts none of them.
\<close>

record guard =
  communityGuardDisabled :: bool
  suspended :: bool

datatype guard_event = CommunityGuardDisabled bool | Suspended bool

type_synonym guard_action = "(guard, guard_event, unit) action"

definition initial_guard :: guard where
  "initial_guard = \<lparr>communityGuardDisabled = False, suspended = False\<rparr>"

text \<open>Modifiers; \<open>key\<close> is what \<open>_getCommunityKey()\<close> or \<open>_getGovernor()\<close> returns.\<close>

definition onlyCommunityKey :: "env \<Rightarrow> address \<Rightarrow> ('s, 'e, 'a) action \<Rightarrow> ('s, 'e, 'a) action" where
  "onlyCommunityKey E key = require (\<lambda>s. msg_sender E = key) (Revert ''Governance: not Community Key'')"

definition onlyGovernor :: "env \<Rightarrow> address \<Rightarrow> ('s, 'e, 'a) action \<Rightarrow> ('s, 'e, 'a) action" where
  "onlyGovernor E key = require (\<lambda>s. msg_sender E = key) (Revert ''Governance: not governor'')"

definition onlyCommunityGuardDisabled :: "('s \<Rightarrow> guard) \<Rightarrow> ('s, 'e, 'a) action \<Rightarrow> ('s, 'e, 'a) action" where
  "onlyCommunityGuardDisabled g =
     require (\<lambda>s. communityGuardDisabled (g s)) (Revert ''Governance: community guard enabled'')"

definition onlyCommunityGuardEnabled :: "('s \<Rightarrow> guard) \<Rightarrow> ('s, 'e, 'a) action \<Rightarrow> ('s, 'e, 'a) action" where
  "onlyCommunityGuardEnabled g =
     require (\<lambda>s. \<not> communityGuardDisabled (g s)) (Revert ''Governance: community guard disabled'')"

definition onlySuspended :: "('s \<Rightarrow> guard) \<Rightarrow> ('s, 'e, 'a) action \<Rightarrow> ('s, 'e, 'a) action" where
  "onlySuspended g = require (\<lambda>s. suspended (g s)) (Revert ''Governance: not suspended'')"

definition onlyNotSuspended :: "('s \<Rightarrow> guard) \<Rightarrow> ('s, 'e, 'a) action \<Rightarrow> ('s, 'e, 'a) action" where
  "onlyNotSuspended g = require (\<lambda>s. \<not> suspended (g s)) (Revert ''Governance: suspended'')"

definition enableCommunityGuard :: "env \<Rightarrow> address \<Rightarrow> guard_action" where
  "enableCommunityGuard E commKey = onlyCommunityKey E commKey (onlyCommunityGuardDisabled id
     (andthen (modify (communityGuardDisabled_update (\<lambda>_. False))) (\<lambda>_. emit (CommunityGuardDisabled False))))"

definition disableCommunityGuard :: "env \<Rightarrow> address \<Rightarrow> guard_action" where
  "disableCommunityGuard E commKey = onlyCommunityKey E commKey (onlyCommunityGuardEnabled id
     (andthen (modify (communityGuardDisabled_update (\<lambda>_. True))) (\<lambda>_. emit (CommunityGuardDisabled True))))"

definition suspend :: "env \<Rightarrow> address \<Rightarrow> guard_action" where
  "suspend E governor = onlyGovernor E governor (onlyNotSuspended id
     (andthen (modify (suspended_update (\<lambda>_. True))) (\<lambda>_. emit (Suspended True))))"

definition resume :: "env \<Rightarrow> address \<Rightarrow> guard_action" where
  "resume E governor = onlyGovernor E governor (onlySuspended id
     (andthen (modify (suspended_update (\<lambda>_. False))) (\<lambda>_. emit (Suspended False))))"

definition getCommunityGuardDisabled :: "guard \<Rightarrow> bool" where
  "getCommunityGuardDisabled g = communityGuardDisabled g"

definition getSuspendedState :: "guard \<Rightarrow> bool" where
  "getSuspendedState g = suspended g"

datatype guard_call = EnableCommunityGuard | DisableCommunityGuard | Suspend | Resume

text \<open>The four calls, for given keys of the child.\<close>

fun guard_op :: "env \<Rightarrow> address \<Rightarrow> address \<Rightarrow> guard_call \<Rightarrow> guard_action" where
  "guard_op E governor commKey EnableCommunityGuard = enableCommunityGuard E commKey"
| "guard_op E governor commKey DisableCommunityGuard = disableCommunityGuard E commKey"
| "guard_op E governor commKey Suspend = suspend E governor"
| "guard_op E governor commKey Resume = resume E governor"

lemmas guard_modifiers = onlyCommunityKey_def onlyGovernor_def onlyCommunityGuardDisabled_def
  onlyCommunityGuardEnabled_def onlySuspended_def onlyNotSuspended_def

lemmas guard_op_defs = enableCommunityGuard_def disableCommunityGuard_def suspend_def resume_def

text \<open>Only the community key moves the community guard, only the governor the suspension, and
  each accepted call changes exactly its own flag.\<close>

lemma guard_op_Inr:
  "guard_op E governor commKey c g = Inr (u, g', l) \<Longrightarrow>
   (case c of
      EnableCommunityGuard \<Rightarrow> msg_sender E = commKey \<and> communityGuardDisabled g \<and> g' = g\<lparr>communityGuardDisabled := False\<rparr>
    | DisableCommunityGuard \<Rightarrow> msg_sender E = commKey \<and> \<not> communityGuardDisabled g \<and> g' = g\<lparr>communityGuardDisabled := True\<rparr>
    | Suspend \<Rightarrow> msg_sender E = governor \<and> \<not> suspended g \<and> g' = g\<lparr>suspended := True\<rparr>
    | Resume \<Rightarrow> msg_sender E = governor \<and> suspended g \<and> g' = g\<lparr>suspended := False\<rparr>)"
  by (cases c) (auto simp: guard_op_defs guard_modifiers res_simps)

section \<open>Sequences of transactions\<close>

context action_relation begin

lemma conforms_run:
  assumes "\<And>c. conforms R (act c)"
  shows "R s (run_log (\<lambda>c. transaction (act c)) cs s) (run_calls (\<lambda>c. transaction (act c)) cs s)"
proof (induction cs arbitrary: s)
  case (Cons c cs)
  show ?case
  proof (cases "transaction (act c) s")
    case (Inr r)
    then obtain s1 l1 where r: "transaction (act c) s = Inr (s1, l1)"
      by (cases r) auto
    then have "R s l1 s1"
      using conformsD [OF assms] by (auto simp: transaction_Inr)
    then show ?thesis
      using sequence Cons.IH by (simp add: r)
  qed (simp add: Cons.IH)
qed (simp add: idle)

end

section \<open>Emergency stop\<close>

locale emergency_stop =
  fixes stopped :: "'s \<Rightarrow> bool"
    and exec :: "'c \<Rightarrow> 's \<Rightarrow> ('s \<times> 'e) sol"
    and gated :: "'c \<Rightarrow> bool"
    and resuming :: "'c \<Rightarrow> bool"
  assumes gated_running: "exec c s = Inr (s', evs) \<Longrightarrow> gated c \<Longrightarrow> \<not> stopped s"
    and stays_stopped: "exec c s = Inr (s', evs) \<Longrightarrow> stopped s \<Longrightarrow> \<not> resuming c \<Longrightarrow> stopped s'"
begin

lemma stopped_accepts_no_gated:
  assumes "stopped s" and "\<forall>c\<in>set cs. \<not> resuming c"
  shows "(\<forall>c\<in>set (accepted exec cs s). \<not> gated c) \<and> stopped (run_calls exec cs s)"
  using assms
proof (induction cs arbitrary: s)
  case (Cons c cs)
  show ?case
  proof (cases "exec c s")
    case (Inr r)
    then obtain s' evs where r: "exec c s = Inr (s', evs)"
      by (cases r) auto
    then have "\<not> gated c" "stopped s'"
      using gated_running stays_stopped Cons.prems by auto
    then show ?thesis
      using Cons r by auto
  qed (use Cons in simp)
qed simp

end

end
