(* ===== verification/Flip.thy ===== *)
theory Flip
  imports NonceKeeper
begin

text \<open>
  \<open>FLIP.sol\<close>: the token of the protocol, an OpenZeppelin ERC20 with an issuer that mints
  and burns. The ERC20 base contract is not part of the repository: its storage is the type
  \<open>'t\<close> and its functions are the record \<open>erc20\<close>, an argument of every definition;
  \<open>erc20_spec\<close> states what OpenZeppelin documents of them.
\<close>

section \<open>The ERC20 base contract\<close>

record 't erc20 =
  erc20_new :: 't
  erc20_totalSupply :: "'t \<Rightarrow> uint256"
  erc20_balanceOf :: "'t \<Rightarrow> address \<Rightarrow> uint256"
  erc20_allowance :: "'t \<Rightarrow> address \<Rightarrow> address \<Rightarrow> uint256"
  erc20_mint :: "address \<Rightarrow> uint256 \<Rightarrow> 't \<Rightarrow> 't sol"
  erc20_burn :: "address \<Rightarrow> uint256 \<Rightarrow> 't \<Rightarrow> 't sol"
  erc20_transfer :: "address \<Rightarrow> address \<Rightarrow> uint256 \<Rightarrow> 't \<Rightarrow> 't sol"
  erc20_transferFrom :: "address \<Rightarrow> address \<Rightarrow> address \<Rightarrow> uint256 \<Rightarrow> 't \<Rightarrow> 't sol"
  erc20_approve :: "address \<Rightarrow> address \<Rightarrow> uint256 \<Rightarrow> 't \<Rightarrow> 't sol"

text \<open>\<open>moved\<close>: the balances after \<open>n\<close> went from one account to another.\<close>

definition moved :: "(address \<Rightarrow> uint256) \<Rightarrow> address \<Rightarrow> address \<Rightarrow> uint256 \<Rightarrow> (address \<Rightarrow> uint256) \<Rightarrow> bool" where
  "moved f from to n g \<longleftrightarrow> n \<le> f from \<and>
     (if from = to then g = f
      else unat (g from) = unat (f from) - unat n \<and> unat (g to) = unat (f to) + unat n \<and>
        (\<forall>a. a \<noteq> from \<longrightarrow> a \<noteq> to \<longrightarrow> g a = f a))"

definition erc20_new_spec :: "'t erc20 \<Rightarrow> bool" where
  "erc20_new_spec T \<longleftrightarrow> erc20_totalSupply T (erc20_new T) = 0 \<and> (\<forall>a. erc20_balanceOf T (erc20_new T) a = 0)"

definition erc20_mint_spec :: "'t erc20 \<Rightarrow> bool" where
  "erc20_mint_spec T \<longleftrightarrow>
     (\<forall>a n t t'. erc20_mint T a n t = Inr t' \<longrightarrow> a \<noteq> 0 \<and>
        unat (erc20_totalSupply T t') = unat (erc20_totalSupply T t) + unat n \<and>
        unat (erc20_balanceOf T t' a) = unat (erc20_balanceOf T t a) + unat n \<and>
        (\<forall>b. b \<noteq> a \<longrightarrow> erc20_balanceOf T t' b = erc20_balanceOf T t b)) \<and>
     (\<forall>a n t. a \<noteq> 0 \<longrightarrow> unat (erc20_totalSupply T t) + unat n < 2 ^ 256 \<longrightarrow>
        unat (erc20_balanceOf T t a) + unat n < 2 ^ 256 \<longrightarrow> (\<exists>t'. erc20_mint T a n t = Inr t'))"

definition erc20_burn_spec :: "'t erc20 \<Rightarrow> bool" where
  "erc20_burn_spec T \<longleftrightarrow>
     (\<forall>a n t t'. erc20_burn T a n t = Inr t' \<longrightarrow> a \<noteq> 0 \<and> n \<le> erc20_balanceOf T t a \<and>
        n \<le> erc20_totalSupply T t \<and>
        unat (erc20_totalSupply T t') = unat (erc20_totalSupply T t) - unat n \<and>
        unat (erc20_balanceOf T t' a) = unat (erc20_balanceOf T t a) - unat n \<and>
        (\<forall>b. b \<noteq> a \<longrightarrow> erc20_balanceOf T t' b = erc20_balanceOf T t b)) \<and>
     (\<forall>a n t. a \<noteq> 0 \<longrightarrow> n \<le> erc20_balanceOf T t a \<longrightarrow> n \<le> erc20_totalSupply T t \<longrightarrow>
        (\<exists>t'. erc20_burn T a n t = Inr t'))"

definition erc20_transfer_spec :: "'t erc20 \<Rightarrow> bool" where
  "erc20_transfer_spec T \<longleftrightarrow>
     (\<forall>f r n t t'. erc20_transfer T f r n t = Inr t' \<longrightarrow>
        erc20_totalSupply T t' = erc20_totalSupply T t \<and>
        moved (erc20_balanceOf T t) f r n (erc20_balanceOf T t')) \<and>
     (\<forall>f r n t. f \<noteq> 0 \<longrightarrow> r \<noteq> 0 \<longrightarrow> n \<le> erc20_balanceOf T t f \<longrightarrow>
        unat (erc20_balanceOf T t r) + unat n < 2 ^ 256 \<longrightarrow> (\<exists>t'. erc20_transfer T f r n t = Inr t')) \<and>
     (\<forall>s f r n t t'. erc20_transferFrom T s f r n t = Inr t' \<longrightarrow>
        erc20_totalSupply T t' = erc20_totalSupply T t \<and>
        moved (erc20_balanceOf T t) f r n (erc20_balanceOf T t')) \<and>
     (\<forall>o' s n t t'. erc20_approve T o' s n t = Inr t' \<longrightarrow>
        erc20_totalSupply T t' = erc20_totalSupply T t \<and>
        erc20_balanceOf T t' = erc20_balanceOf T t)"

definition erc20_spec :: "'t erc20 \<Rightarrow> bool" where
  "erc20_spec T \<longleftrightarrow> erc20_new_spec T \<and> erc20_mint_spec T \<and> erc20_burn_spec T \<and> erc20_transfer_spec T"

lemma erc20_newD:
  "erc20_spec T \<Longrightarrow> erc20_totalSupply T (erc20_new T) = 0"
  "erc20_spec T \<Longrightarrow> erc20_balanceOf T (erc20_new T) a = 0"
  by (simp_all add: erc20_spec_def erc20_new_spec_def)

lemma erc20_mintD:
  assumes "erc20_spec T" and "erc20_mint T a n t = Inr t'"
  shows "a \<noteq> 0" "unat (erc20_totalSupply T t') = unat (erc20_totalSupply T t) + unat n"
    "unat (erc20_balanceOf T t' a) = unat (erc20_balanceOf T t a) + unat n"
    "b \<noteq> a \<Longrightarrow> erc20_balanceOf T t' b = erc20_balanceOf T t b"
  using assms unfolding erc20_spec_def erc20_mint_spec_def by blast+

lemma erc20_burnD:
  assumes "erc20_spec T" and "erc20_burn T a n t = Inr t'"
  shows "n \<le> erc20_balanceOf T t a" "unat (erc20_totalSupply T t') = unat (erc20_totalSupply T t) - unat n"
    "unat (erc20_balanceOf T t' a) = unat (erc20_balanceOf T t a) - unat n"
    "b \<noteq> a \<Longrightarrow> erc20_balanceOf T t' b = erc20_balanceOf T t b" "n \<le> erc20_totalSupply T t"
  using assms unfolding erc20_spec_def erc20_burn_spec_def by blast+

lemma erc20_transferD:
  assumes "erc20_spec T" and "erc20_transfer T f r n t = Inr t'"
  shows "erc20_totalSupply T t' = erc20_totalSupply T t"
    "moved (erc20_balanceOf T t) f r n (erc20_balanceOf T t')"
  using assms unfolding erc20_spec_def erc20_transfer_spec_def by blast+

lemma erc20_transfer_ok:
  "erc20_spec T \<Longrightarrow> f \<noteq> 0 \<Longrightarrow> r \<noteq> 0 \<Longrightarrow> n \<le> erc20_balanceOf T t f \<Longrightarrow>
   unat (erc20_balanceOf T t r) + unat n < 2 ^ 256 \<Longrightarrow> \<exists>t'. erc20_transfer T f r n t = Inr t'"
  unfolding erc20_spec_def erc20_transfer_spec_def by blast

lemma erc20_transferFromD:
  assumes "erc20_spec T" and "erc20_transferFrom T s f r n t = Inr t'"
  shows "erc20_totalSupply T t' = erc20_totalSupply T t"
    "moved (erc20_balanceOf T t) f r n (erc20_balanceOf T t')"
  using assms unfolding erc20_spec_def erc20_transfer_spec_def by blast+

lemma erc20_approveD:
  assumes "erc20_spec T" and "erc20_approve T a s n t = Inr t'"
  shows "erc20_totalSupply T t' = erc20_totalSupply T t" "erc20_balanceOf T t' = erc20_balanceOf T t"
  using assms unfolding erc20_spec_def erc20_transfer_spec_def by blast+

section \<open>FLIP\<close>

record 't flip =
  token :: 't
  issuer :: address

datatype flip_event = IssuerUpdated address address

type_synonym 't flip_result = "('t flip \<times> flip_event list) sol"

definition flip_constructor ::
  "'t erc20 \<Rightarrow> uint256 \<Rightarrow> uint256 \<Rightarrow> uint256 \<Rightarrow> address \<Rightarrow> address \<Rightarrow> address \<Rightarrow> 't flip sol" where
  "flip_constructor T flipTotalSupply numGenesisValidators genesisStake
      receiverGenesisValidatorFlip receiverGenesisFlip genesisIssuer =
     nzAddr receiverGenesisValidatorFlip (nzAddr receiverGenesisFlip (nzUint flipTotalSupply (nzAddr genesisIssuer
    (rbind (checked_mul numGenesisValidators genesisStake) (\<lambda>genesisValidatorFlip.
     rbind (erc20_mint T receiverGenesisValidatorFlip genesisValidatorFlip (erc20_new T)) (\<lambda>t.
     rbind (checked_sub flipTotalSupply genesisValidatorFlip) (\<lambda>rest.
     rbind (erc20_mint T receiverGenesisFlip rest t) (\<lambda>t.
     Inr \<lparr>token = t, issuer = genesisIssuer\<rparr>))))))))"

definition onlyIssuer :: "env \<Rightarrow> 't flip \<Rightarrow> 'a sol \<Rightarrow> 'a sol" where
  "onlyIssuer E F m = rensure (msg_sender E = issuer F) (Revert ''FLIP: not issuer'') m"

definition with_token :: "'t sol \<Rightarrow> 't flip \<Rightarrow> 't flip_result" where
  "with_token m F = rbind m (\<lambda>t. Inr (F\<lparr>token := t\<rparr>, []))"

definition flip_mint :: "'t erc20 \<Rightarrow> env \<Rightarrow> address \<Rightarrow> uint256 \<Rightarrow> 't flip \<Rightarrow> 't flip_result" where
  "flip_mint T E account amount F = onlyIssuer E F (with_token (erc20_mint T account amount (token F)) F)"

definition flip_burn :: "'t erc20 \<Rightarrow> env \<Rightarrow> address \<Rightarrow> uint256 \<Rightarrow> 't flip \<Rightarrow> 't flip_result" where
  "flip_burn T E account amount F = onlyIssuer E F (with_token (erc20_burn T account amount (token F)) F)"

text \<open>As in the source, the modifier \<open>nzAddr\<close> is applied to the current issuer, not to the
  new one.\<close>

definition updateIssuer :: "env \<Rightarrow> address \<Rightarrow> 't flip \<Rightarrow> 't flip_result" where
  "updateIssuer E newIssuer F = nzAddr (issuer F) (onlyIssuer E F
     (Inr (F\<lparr>issuer := newIssuer\<rparr>, [IssuerUpdated (issuer F) newIssuer])))"

definition getIssuer :: "'t flip \<Rightarrow> address" where
  "getIssuer F = issuer F"

text \<open>The functions inherited from ERC20, called by \<open>msg.sender\<close>.\<close>

definition flip_transfer :: "'t erc20 \<Rightarrow> env \<Rightarrow> address \<Rightarrow> uint256 \<Rightarrow> 't flip \<Rightarrow> 't flip_result" where
  "flip_transfer T E to amount F = with_token (erc20_transfer T (msg_sender E) to amount (token F)) F"

definition flip_transferFrom ::
  "'t erc20 \<Rightarrow> env \<Rightarrow> address \<Rightarrow> address \<Rightarrow> uint256 \<Rightarrow> 't flip \<Rightarrow> 't flip_result" where
  "flip_transferFrom T E from to amount F =
     with_token (erc20_transferFrom T (msg_sender E) from to amount (token F)) F"

definition flip_approve :: "'t erc20 \<Rightarrow> env \<Rightarrow> address \<Rightarrow> uint256 \<Rightarrow> 't flip \<Rightarrow> 't flip_result" where
  "flip_approve T E spender amount F = with_token (erc20_approve T (msg_sender E) spender amount (token F)) F"

definition flip_totalSupply :: "'t erc20 \<Rightarrow> 't flip \<Rightarrow> uint256" where
  "flip_totalSupply T F = erc20_totalSupply T (token F)"

definition flip_balanceOf :: "'t erc20 \<Rightarrow> 't flip \<Rightarrow> address \<Rightarrow> uint256" where
  "flip_balanceOf T F a = erc20_balanceOf T (token F) a"

datatype flip_call =
    FlipMint address uint256 | FlipBurn address uint256 | FlipUpdateIssuer address
  | FlipTransfer address uint256 | FlipTransferFrom address address uint256 | FlipApprove address uint256

fun flip_exec :: "'t erc20 \<Rightarrow> env \<times> flip_call \<Rightarrow> 't flip \<Rightarrow> 't flip_result" where
  "flip_exec T (E, FlipMint a n) F = flip_mint T E a n F"
| "flip_exec T (E, FlipBurn a n) F = flip_burn T E a n F"
| "flip_exec T (E, FlipUpdateIssuer a) F = updateIssuer E a F"
| "flip_exec T (E, FlipTransfer a n) F = flip_transfer T E a n F"
| "flip_exec T (E, FlipTransferFrom f r n) F = flip_transferFrom T E f r n F"
| "flip_exec T (E, FlipApprove s n) F = flip_approve T E s n F"

lemmas flip_op_defs = flip_mint_def flip_burn_def updateIssuer_def flip_transfer_def
  flip_transferFrom_def flip_approve_def with_token_def onlyIssuer_def

lemmas flip_views = flip_totalSupply_def flip_balanceOf_def getIssuer_def

lemma flip_mint_Inr:
  "flip_mint T E a n F = Inr (F', evs) \<longleftrightarrow> msg_sender E = issuer F \<and>
     (\<exists>t. erc20_mint T a n (token F) = Inr t \<and> F' = F\<lparr>token := t\<rparr>) \<and> evs = []"
  by (auto simp: flip_mint_def onlyIssuer_def with_token_def res_simps)

lemma flip_burn_Inr:
  "flip_burn T E a n F = Inr (F', evs) \<longleftrightarrow> msg_sender E = issuer F \<and>
     (\<exists>t. erc20_burn T a n (token F) = Inr t \<and> F' = F\<lparr>token := t\<rparr>) \<and> evs = []"
  by (auto simp: flip_burn_def onlyIssuer_def with_token_def res_simps)

lemma flip_balanceOf_fun: "flip_balanceOf T F = erc20_balanceOf T (token F)"
  by (rule ext) (simp add: flip_balanceOf_def)

section \<open>Supply and issuer\<close>

text \<open>At genesis the supply is the requested total: the validators' receiver holds the
  stake of every genesis validator, the other receiver the rest, and the issuer is set. Token
  amounts are exact: the product and the difference do not wrap.\<close>

theorem flip_genesis:
  assumes T: "erc20_spec T" and F: "flip_constructor T supply num stake vr gr iss = Inr F" and "vr \<noteq> gr"
  shows "flip_totalSupply T F = supply \<and>
    unat (flip_balanceOf T F vr) = unat num * unat stake \<and>
    unat (flip_balanceOf T F gr) = unat supply - unat num * unat stake \<and>
    getIssuer F = iss \<and> iss \<noteq> 0"
proof -
  obtain v t1 r t2 where v: "unat v = unat num * unat stake" and t1: "erc20_mint T vr v (erc20_new T) = Inr t1"
    and r: "v \<le> supply" "unat r = unat supply - unat v" and t2: "erc20_mint T gr r t1 = Inr t2"
    and F': "F = \<lparr>token = t2, issuer = iss\<rparr>" "iss \<noteq> 0"
    using F by (auto simp: flip_constructor_def guard_defs res_simps)
  have "unat (erc20_totalSupply T t2) = unat supply"
    using erc20_mintD(2) [OF T t1] erc20_mintD(2) [OF T t2] r by (simp add: erc20_newD [OF T] word_le_nat_alt)
  moreover have "erc20_balanceOf T t2 vr = erc20_balanceOf T t1 vr"
    using erc20_mintD(4) [OF T t2] assms(3) by simp
  moreover have "erc20_balanceOf T t1 gr = 0"
    using erc20_mintD(4) [OF T t1] assms(3) by (simp add: erc20_newD [OF T])
  ultimately show ?thesis
    using erc20_mintD(3) [OF T t1] erc20_mintD(3) [OF T t2] v r F'
    by (simp add: flip_views erc20_newD [OF T] word_unat_eq_iff)
qed

text \<open>The total supply changes only by a mint or a burn that the issuer itself sends, and by
  exactly the amount asked for.\<close>

theorem flip_supply_change:
  assumes T: "erc20_spec T" and ex: "flip_exec T (E, c) F = Inr (F', evs)"
    and "flip_totalSupply T F' \<noteq> flip_totalSupply T F"
  shows "msg_sender E = issuer F \<and>
    (\<exists>a n. (c = FlipMint a n \<and> unat (flip_totalSupply T F') = unat (flip_totalSupply T F) + unat n) \<or>
           (c = FlipBurn a n \<and> unat (flip_totalSupply T F') + unat n = unat (flip_totalSupply T F)))"
proof (cases c)
  case (FlipMint a n)
  then show ?thesis
    using ex erc20_mintD(2) [OF T] by (auto simp: flip_op_defs flip_views res_simps)
next
  case (FlipBurn a n)
  then obtain t where "erc20_burn T a n (token F) = Inr t" "F' = F\<lparr>token := t\<rparr>" "msg_sender E = issuer F"
    using ex by (auto simp: flip_op_defs res_simps)
  then show ?thesis
    using FlipBurn erc20_burnD(2,5) [OF T] by (fastforce simp: flip_views word_le_nat_alt)
next
  case (FlipTransferFrom f r n)
  then show ?thesis
    using assms by (auto simp: flip_op_defs flip_views res_simps dest: erc20_transferFromD)
qed (use assms in \<open>auto simp: flip_op_defs flip_views res_simps guard_defs dest: erc20_transferD erc20_approveD\<close>)

text \<open>C39: the issuer can be set to the zero address, since the zero check of \<open>updateIssuer\<close>
  tests the issuer being replaced; from then on no account can mint, burn or name an issuer.\<close>

theorem updateIssuer_zero_locks:
  assumes "msg_sender E = issuer F" and "issuer F \<noteq> 0"
  shows "\<exists>F'. updateIssuer E 0 F = Inr (F', [IssuerUpdated (issuer F) 0]) \<and>
    (msg_sender E' \<noteq> 0 \<longrightarrow>
       flip_mint T E' a n F' = Inl (Revert ''FLIP: not issuer'') \<and>
       flip_burn T E' a n F' = Inl (Revert ''FLIP: not issuer'') \<and>
       updateIssuer E' b F' = Inl (Revert ''Shared: address input is empty''))"
  using assms by (simp add: flip_op_defs guard_defs)

section \<open>A ledger that meets the ERC20 hypothesis\<close>

record ledger =
  ledger_total :: uint256
  ledger_bal :: "address \<Rightarrow> uint256"
  ledger_allow :: "address \<Rightarrow> address \<Rightarrow> uint256"

definition ledger_move :: "address \<Rightarrow> address \<Rightarrow> uint256 \<Rightarrow> ledger \<Rightarrow> ledger sol" where
  "ledger_move f r n t =
     rensure (f \<noteq> 0) (Revert ''ERC20: transfer from the zero address'')
    (rensure (r \<noteq> 0) (Revert ''ERC20: transfer to the zero address'')
    (rensure (n \<le> ledger_bal t f) (Revert ''ERC20: transfer amount exceeds balance'')
    (if f = r then Inr t
     else rbind (checked_add (ledger_bal t r) n) (\<lambda>b.
       Inr (t\<lparr>ledger_bal := (ledger_bal t)(f := ledger_bal t f - n, r := b)\<rparr>)))))"

definition ledger_erc20 :: "ledger erc20" where
  "ledger_erc20 = \<lparr>
     erc20_new = \<lparr>ledger_total = 0, ledger_bal = (\<lambda>a. 0), ledger_allow = (\<lambda>a b. 0)\<rparr>,
     erc20_totalSupply = ledger_total, erc20_balanceOf = ledger_bal, erc20_allowance = ledger_allow,
     erc20_mint = (\<lambda>a n t. rensure (a \<noteq> 0) (Revert ''ERC20: mint to the zero address'')
       (rbind (checked_add (ledger_total t) n) (\<lambda>s. rbind (checked_add (ledger_bal t a) n) (\<lambda>b.
          Inr (t\<lparr>ledger_total := s, ledger_bal := (ledger_bal t)(a := b)\<rparr>))))),
     erc20_burn = (\<lambda>a n t. rensure (a \<noteq> 0) (Revert ''ERC20: burn from the zero address'')
       (rensure (n \<le> ledger_bal t a) (Revert ''ERC20: burn amount exceeds balance'')
       (rbind (checked_sub (ledger_total t) n) (\<lambda>s.
          Inr (t\<lparr>ledger_total := s, ledger_bal := (ledger_bal t)(a := ledger_bal t a - n)\<rparr>))))),
     erc20_transfer = ledger_move,
     erc20_transferFrom = (\<lambda>s f r n t. rensure (n \<le> ledger_allow t f s) (Revert ''ERC20: insufficient allowance'')
       (ledger_move f r n (t\<lparr>ledger_allow := (ledger_allow t)(f := (ledger_allow t f)(s := ledger_allow t f s - n))\<rparr>))),
     erc20_approve = (\<lambda>a s n t. Inr (t\<lparr>ledger_allow := (ledger_allow t)(a := (ledger_allow t a)(s := n))\<rparr>))\<rparr>"

lemma checked_add_ok: "unat a + unat b < 2 ^ LENGTH('a) \<Longrightarrow> checked_add a b = Inr (a + b :: 'a::len word)"
  by (simp add: checked_add_def)

lemma checked_sub_ok: "b \<le> a \<Longrightarrow> checked_sub a b = Inr (a - b :: 'a::len word)"
  by (simp add: checked_sub_def)

lemma ledger_move_spec:
  "ledger_move f r n t = Inr t' \<Longrightarrow>
   ledger_total t' = ledger_total t \<and> moved (ledger_bal t) f r n (ledger_bal t')"
  by (auto simp: ledger_move_def moved_def res_simps unat_sub split: if_splits)

lemma ledger_move_ok:
  "f \<noteq> 0 \<Longrightarrow> r \<noteq> 0 \<Longrightarrow> n \<le> ledger_bal t f \<Longrightarrow> unat (ledger_bal t r) + unat n < 2 ^ 256 \<Longrightarrow>
   \<exists>t'. ledger_move f r n t = Inr t'"
  using checked_add_ok [of "ledger_bal t r" n] by (simp add: ledger_move_def)

lemma ledger_mint_spec: "erc20_mint_spec ledger_erc20"
  unfolding erc20_mint_spec_def
  by (rule conjI; (auto simp: ledger_erc20_def res_simps; fail)?) (auto simp: ledger_erc20_def checked_add_def)

lemma ledger_burn_spec: "erc20_burn_spec ledger_erc20"
  unfolding erc20_burn_spec_def
  by (rule conjI; (auto simp: ledger_erc20_def res_simps unat_sub; fail)?) (auto simp: ledger_erc20_def checked_sub_def)

lemma ledger_transfer_spec: "erc20_transfer_spec ledger_erc20"
  unfolding erc20_transfer_spec_def
  using ledger_move_ok by (auto simp: ledger_erc20_def res_simps dest!: ledger_move_spec)

lemma ledger_erc20_spec: "erc20_spec ledger_erc20"
  using ledger_mint_spec ledger_burn_spec ledger_transfer_spec
  by (simp add: erc20_spec_def erc20_new_spec_def) (simp add: ledger_erc20_def)

section \<open>Witnesses\<close>

definition sample_flip :: "ledger flip" where
  "sample_flip = \<lparr>token = \<lparr>ledger_total = 100, ledger_bal = (\<lambda>a. 0)(1 := 30, 2 := 70),
     ledger_allow = (\<lambda>a b. 0)\<rparr>, issuer = 1\<rparr>"

lemma flip_genesis_witness: "flip_totalSupply ledger_erc20 sample_flip = 100"
proof -
  have "flip_constructor ledger_erc20 100 3 10 1 2 1 = Inr sample_flip"
    by (simp add: flip_constructor_def guard_defs checked_mul_def checked_sub_def checked_add_def
        ledger_erc20_def sample_flip_def fun_eq_iff)
  from flip_genesis [OF ledger_erc20_spec this] show ?thesis by simp
qed

lemma flip_supply_change_witness: "\<exists>F'. flip_exec ledger_erc20 (sender_env 1, FlipMint 2 5) sample_flip = Inr (F', []) \<and>
    unat (flip_totalSupply ledger_erc20 F') = unat (flip_totalSupply ledger_erc20 sample_flip) + 5"
proof -
  let ?F = "sample_flip\<lparr>token := \<lparr>ledger_total = 105, ledger_bal = (\<lambda>a. 0)(1 := 30, 2 := 75),
     ledger_allow = (\<lambda>a b. 0)\<rparr>\<rparr>"
  have ex: "flip_exec ledger_erc20 (sender_env 1, FlipMint 2 5) sample_flip = Inr (?F, [])"
    by (simp add: flip_op_defs checked_add_def ledger_erc20_def sample_flip_def sender_env_def fun_eq_iff)
  moreover have "flip_totalSupply ledger_erc20 ?F \<noteq> flip_totalSupply ledger_erc20 sample_flip"
    by (simp add: flip_views ledger_erc20_def sample_flip_def)
  ultimately show ?thesis
    using flip_supply_change [OF ledger_erc20_spec ex] by auto
qed

lemma updateIssuer_zero_locks_witness:
  "\<exists>F'. updateIssuer (sender_env 1) 0 sample_flip = Inr (F', [IssuerUpdated 1 0]) \<and>
     flip_mint ledger_erc20 (sender_env 1) 2 5 F' = Inl (Revert ''FLIP: not issuer'')"
  using updateIssuer_zero_locks [of "sender_env 1" sample_flip "sender_env 1" ledger_erc20 2 5]
  by (auto simp: sender_env_def sample_flip_def)

end
