(* ===== verification/NonceConsumer.thy ===== *)
theory NonceConsumer
  imports KeyManager Guard Flip
begin

text \<open>
  The protocol's contracts by address, the calls between them, and \<open>AggKeyNonceConsumer.sol\<close>,
  through which the Vault and the StateChainGateway have every signed call checked and its nonce
  spent by the KeyManager they refer to.
  A call to an address where the world holds no contract of the expected kind reverts; only the
  getters of a KeyManager may be answered by other contracts too.
\<close>

section \<open>The world\<close>

text \<open>What a contract that is not \<open>KeyManager.sol\<close> answers to the getters of
  \<open>IKeyManager\<close>, as the contracts of \<open>mocks/KeyManagerMock.sol\<close> do: nothing where the
  getter is missing, reverts or returns no such value.\<close>

record km_answers =
  ans_aggregateKey :: "Key option"
  ans_governanceKey :: "address option"
  ans_communityKey :: "address option"
  ans_lastValidateTime :: "uint256 option"

text \<open>An address that answers none of them.\<close>

definition no_answers :: "address \<Rightarrow> km_answers" where
  "no_answers a = \<lparr>ans_aggregateKey = None, ans_governanceKey = None, ans_communityKey = None, ans_lastValidateTime = None\<rparr>"

record 't world =
  key_managers :: "address \<Rightarrow> key_manager option"
  other_km :: "address \<Rightarrow> km_answers"
  flips :: "address \<Rightarrow> 't flip option"
  has_code :: "address \<Rightarrow> bool"
  issuer_FLIP :: "address \<Rightarrow> address option"

datatype protocol_log =
    KmLog address km_event
  | FlipLog address flip_event

text \<open>The environment of a call that the contract \<open>this\<close> makes without value.\<close>

definition call_env :: "env \<Rightarrow> address \<Rightarrow> env" where
  "call_env E this = E\<lparr>msg_sender := this, msg_value := 0\<rparr>"

definition call_km ::
  "address \<Rightarrow> (key_manager \<Rightarrow> (key_manager \<times> km_event list) sol) \<Rightarrow> ('t world, protocol_log, unit) action" where
  "call_km a f W = (case key_managers W a of
     None \<Rightarrow> Inl CallReverted
   | Some km \<Rightarrow> rbind (f km) (\<lambda>(km', evs).
       Inr ((), W\<lparr>key_managers := (key_managers W)(a \<mapsto> km')\<rparr>, map (KmLog a) evs)))"

text \<open>A getter called at \<open>a\<close>: \<open>f\<close> is what a KeyManager answers, \<open>g\<close> what another
  contract does.\<close>

definition key_answer :: "'t world \<Rightarrow> address \<Rightarrow> (key_manager \<Rightarrow> 'a) \<Rightarrow> (km_answers \<Rightarrow> 'a option) \<Rightarrow> 'a option" where
  "key_answer W a f g = (case key_managers W a of
     Some km \<Rightarrow> Some (f km)
   | None \<Rightarrow> if has_code W a then g (other_km W a) else None)"

definition view_km ::
  "address \<Rightarrow> (key_manager \<Rightarrow> 'a) \<Rightarrow> (km_answers \<Rightarrow> 'a option) \<Rightarrow> ('t world, protocol_log, 'a) action" where
  "view_km a f g W = (case key_answer W a f g of None \<Rightarrow> Inl CallReverted | Some x \<Rightarrow> Inr (x, W, []))"

abbreviation aggregate_key :: "'t world \<Rightarrow> address \<Rightarrow> Key option" where
  "aggregate_key W a \<equiv> key_answer W a getAggregateKey ans_aggregateKey"

abbreviation governance_key :: "'t world \<Rightarrow> address \<Rightarrow> address option" where
  "governance_key W a \<equiv> key_answer W a getGovernanceKey ans_governanceKey"

abbreviation community_key :: "'t world \<Rightarrow> address \<Rightarrow> address option" where
  "community_key W a \<equiv> key_answer W a getCommunityKey ans_communityKey"

abbreviation last_validate_time :: "'t world \<Rightarrow> address \<Rightarrow> uint256 option" where
  "last_validate_time W a \<equiv> key_answer W a getLastValidateTime ans_lastValidateTime"

definition call_flip ::
  "address \<Rightarrow> ('t flip \<Rightarrow> ('t flip \<times> flip_event list) sol) \<Rightarrow> ('t world, protocol_log, unit) action" where
  "call_flip a f W = (case flips W a of
     None \<Rightarrow> Inl CallReverted
   | Some F \<Rightarrow> rbind (f F) (\<lambda>(F', evs).
       Inr ((), W\<lparr>flips := (flips W)(a \<mapsto> F')\<rparr>, map (FlipLog a) evs)))"

definition view_flip :: "address \<Rightarrow> ('t flip \<Rightarrow> 'a) \<Rightarrow> ('t world, protocol_log, 'a) action" where
  "view_flip a f W = (case flips W a of None \<Rightarrow> Inl CallReverted | Some F \<Rightarrow> Inr (f F, W, []))"

text \<open>\<open>IFlipIssuer(a).getFLIP()\<close>\<close>

definition view_issuer_FLIP :: "address \<Rightarrow> ('t world, protocol_log, address) action" where
  "view_issuer_FLIP a W = (case issuer_FLIP W a of None \<Rightarrow> Inl CallReverted | Some f \<Rightarrow> Inr (f, W, []))"

lemma call_km_Inr [res_simps]:
  "call_km a f W = Inr (u, W', l) \<longleftrightarrow>
     (\<exists>km km' evs. key_managers W a = Some km \<and> f km = Inr (km', evs) \<and>
        W' = W\<lparr>key_managers := (key_managers W)(a \<mapsto> km')\<rparr> \<and> l = map (KmLog a) evs)"
  by (auto simp: call_km_def rbind_eq_Inr split: option.splits)

lemma call_flip_Inr [res_simps]:
  "call_flip a f W = Inr (u, W', l) \<longleftrightarrow>
     (\<exists>F F' evs. flips W a = Some F \<and> f F = Inr (F', evs) \<and>
        W' = W\<lparr>flips := (flips W)(a \<mapsto> F')\<rparr> \<and> l = map (FlipLog a) evs)"
  by (auto simp: call_flip_def rbind_eq_Inr split: option.splits)

lemma view_Inr [res_simps]:
  "view_km a h k W = Inr (x, W', l) \<longleftrightarrow> key_answer W a h k = Some x \<and> W' = W \<and> l = []"
  "view_flip a g W = Inr (y, W', l) \<longleftrightarrow> (\<exists>F. flips W a = Some F \<and> y = g F \<and> W' = W \<and> l = [])"
  "view_issuer_FLIP a W = Inr (z, W', l) \<longleftrightarrow> issuer_FLIP W a = Some z \<and> W' = W \<and> l = []"
  by (auto simp: view_km_def view_flip_def view_issuer_FLIP_def split: option.splits)

lemma key_answer_of [simp]: "key_managers W a = Some km \<Longrightarrow> key_answer W a f g = Some (f km)"
  by (simp add: key_answer_def)

lemma key_answer_cong:
  "key_managers W' a = key_managers W a \<Longrightarrow> other_km W' = other_km W \<Longrightarrow> has_code W' = has_code W \<Longrightarrow>
   key_answer W' a f g = key_answer W a f g"
  by (cases "key_managers W a") (simp_all add: key_answer_def)

section \<open>Contracts in the world\<close>

text \<open>The state of a contract is its own storage and the world; \<open>in_world\<close> lifts a call.
  \<open>'e\<close> are the events the contract itself emits.\<close>

datatype 'e log = Own 'e | Guarded guard_event | Other protocol_log

definition in_world ::
  "('t world, protocol_log, 'a) action \<Rightarrow> ('s \<times> 't world, 'e log, 'a) action" where
  "in_world m = (\<lambda>(s, W). rbind (m W) (\<lambda>(a, W', l). Inr (a, (s, W'), map Other l)))"

definition on_storage :: "('s \<Rightarrow> 's) \<Rightarrow> ('s \<times> 't world, 'e log, unit) action" where
  "on_storage f = modify (\<lambda>(s, W). (f s, W))"

lemma in_world_Inr [res_simps]:
  "in_world m (s, W) = Inr (a, (s', W'), l) \<longleftrightarrow> (\<exists>l'. m W = Inr (a, W', l') \<and> s' = s \<and> l = map Other l')"
  by (auto simp: in_world_def rbind_eq_Inr)

lemma on_storage_Inr [res_simps]:
  "on_storage f (s, W) = Inr (u, (s', W'), l) \<longleftrightarrow> s' = f s \<and> W' = W \<and> l = []"
  by (auto simp: on_storage_def modify_def)

section \<open>AggKeyNonceConsumer\<close>

text \<open>\<open>km\<close> reads the KeyManager reference from the contract's storage.\<close>

definition consumesKeyNonce ::
  "evm \<Rightarrow> address \<Rightarrow> env \<Rightarrow> ('s \<Rightarrow> address) \<Rightarrow> SigData \<Rightarrow> bytes32 \<Rightarrow>
   ('s \<times> 't world, 'e log, 'a) action \<Rightarrow> ('s \<times> 't world, 'e log, 'a) action" where
  "consumesKeyNonce V this E km sigData contractMsgHash m =
     andthen (reads (\<lambda>(s, W). km s)) (\<lambda>a.
     andthen (in_world (call_km a (consumeKeyNonce V a (call_env E this) sigData contractMsgHash))) (\<lambda>_. m))"

definition updateKeyManager_values :: "evm \<Rightarrow> address \<Rightarrow> bool \<Rightarrow> sol_value list" where
  "updateKeyManager_values V keyManager omitChecks =
     [SSelector (selector V ''updateKeyManager((uint256,uint256,address),address,bool)''),
      SAddress keyManager, SBool omitChecks]"

text \<open>\<open>check\<close> is the child's \<open>_checkUpdateKeyManager\<close>, \<open>upd\<close> writes the
  reference, \<open>updated\<close> is the event.\<close>

definition updateKeyManager ::
  "evm \<Rightarrow> address \<Rightarrow> env \<Rightarrow> ('s \<Rightarrow> address) \<Rightarrow> (address \<Rightarrow> 's \<Rightarrow> 's) \<Rightarrow> (address \<Rightarrow> 'e) \<Rightarrow>
   (address \<Rightarrow> bool \<Rightarrow> ('s \<times> 't world, 'e log, unit) action) \<Rightarrow>
   SigData \<Rightarrow> address \<Rightarrow> bool \<Rightarrow> ('s \<times> 't world, 'e log, unit) action" where
  "updateKeyManager V this E km upd updated check sigData keyManager omitChecks =
     require (\<lambda>_. keyManager \<noteq> 0) (Revert ''Shared: address input is empty'')
    (consumesKeyNonce V this E km sigData
       (keccak256 V (abi_encode (updateKeyManager_values V keyManager omitChecks)))
    (require (\<lambda>(s, W). has_code W keyManager) RevertEmpty
    (andthen (check keyManager omitChecks) (\<lambda>_.
     andthen (on_storage (upd keyManager)) (\<lambda>_.
     emit (Own (updated keyManager)))))))"

lemma consumesKeyNonce_Inr [res_simps]:
  "consumesKeyNonce V this E km sd h m (s, W) = Inr (x, (s', W'), l) \<longleftrightarrow>
     (\<exists>k k' evs l'. key_managers W (km s) = Some k \<and>
        consumeKeyNonce V (km s) (call_env E this) sd h k = Inr (k', evs) \<and>
        m (s, W\<lparr>key_managers := (key_managers W)(km s \<mapsto> k')\<rparr>) = Inr (x, (s', W'), l') \<and>
        l = map (Other \<circ> KmLog (km s)) evs @ l')"
  by (auto simp: consumesKeyNonce_def res_simps)

end
