(* ===== verification/StateChainGateway.thy ===== *)
theory StateChainGateway
  imports NonceConsumer
begin

text \<open>
  \<open>StateChainGateway.sol\<close>: funding of State Chain accounts, registered redemptions that
  can be executed after a delay and before their expiry, the supply of FLIP, and the emergency
  withdrawal. The state is the contract's storage and the world of \<open>NonceConsumer\<close>.
\<close>

section \<open>Storage and events\<close>

record Redemption =
  red_amount :: uint256
  redeemAddress :: address
  startTime :: "48 word"
  expiryTime :: "48 word"
  executor :: address

definition no_redemption :: Redemption where
  "no_redemption = \<lparr>red_amount = 0, redeemAddress = 0, startTime = 0, expiryTime = 0, executor = 0\<rparr>"

record gateway =
  gw_keyManager :: address
  gw_guard :: guard
  FLIP :: address
  minFunding :: uint256
  pendingRedemptions :: "bytes32 \<Rightarrow> Redemption"
  REDEMPTION_DELAY :: "48 word"
  lastSupplyUpdateBlockNum :: uint256

datatype gw_event =
    Funded bytes32 uint256 address
  | RedemptionRegistered bytes32 uint256 address "48 word" "48 word" address
  | RedemptionExecuted bytes32 uint256
  | RedemptionExpired bytes32 uint256
  | MinFundingChanged uint256 uint256
  | GovernanceWithdrawal address uint256
  | FLIPSet address
  | FlipSupplyUpdated uint256 uint256 uint256
  | UpdatedKeyManager address

type_synonym ('t, 'a) gw_action = "(gateway \<times> 't world, gw_event log, 'a) action"

definition gw_constructor :: "address \<Rightarrow> uint256 \<Rightarrow> 48 word \<Rightarrow> gateway sol" where
  "gw_constructor keyManager minFund redemptionDelay =
     nzAddr keyManager (nzUint (ucast redemptionDelay)
       (Inr \<lparr>gw_keyManager = keyManager, gw_guard = initial_guard, FLIP = 0, minFunding = minFund,
             pendingRedemptions = (\<lambda>_. no_redemption), REDEMPTION_DELAY = redemptionDelay,
             lastSupplyUpdateBlockNum = 0\<rparr>))"

section \<open>Reads of the KeyManager\<close>

definition gw_view_km :: "(key_manager \<Rightarrow> 'a) \<Rightarrow> (km_answers \<Rightarrow> 'a option) \<Rightarrow> ('t, 'a) gw_action" where
  "gw_view_km f g = andthen (reads (\<lambda>(s, W). gw_keyManager s)) (\<lambda>a. in_world (view_km a f g))"

definition gw_getGovernor :: "('t, address) gw_action" where
  "gw_getGovernor = gw_view_km getGovernanceKey ans_governanceKey"

definition gw_getCommunityKey :: "('t, address) gw_action" where
  "gw_getCommunityKey = gw_view_km getCommunityKey ans_communityKey"

definition gw_onlyGovernor :: "env \<Rightarrow> ('t, 'a) gw_action \<Rightarrow> ('t, 'a) gw_action" where
  "gw_onlyGovernor E m = andthen gw_getGovernor (\<lambda>governor. onlyGovernor E governor m)"

abbreviation gw_guard_of :: "gateway \<times> 't world \<Rightarrow> guard" where
  "gw_guard_of s \<equiv> gw_guard (fst s)"

definition gw_checkUpdateKeyManager :: "address \<Rightarrow> bool \<Rightarrow> ('t, unit) gw_action" where
  "gw_checkUpdateKeyManager keyManager omitChecks =
     andthen (in_world (view_km keyManager getGovernanceKey ans_governanceKey)) (\<lambda>newGovKey.
     andthen (in_world (view_km keyManager getCommunityKey ans_communityKey)) (\<lambda>newCommKey.
     if \<not> omitChecks then
       andthen gw_getGovernor (\<lambda>governor.
       andthen gw_getCommunityKey (\<lambda>commKey.
       require (\<lambda>_. newGovKey = governor \<and> newCommKey = commKey) RevertEmpty
      (andthen (in_world (view_km keyManager getAggregateKey ans_aggregateKey)) (\<lambda>newAggKey.
       andthen (gw_view_km getAggregateKey ans_aggregateKey) (\<lambda>currentAggKey.
       require (\<lambda>_. pubKeyX newAggKey = pubKeyX currentAggKey \<and>
                    pubKeyYParity newAggKey = pubKeyYParity currentAggKey) RevertEmpty
      (ret ()))))))
     else require (\<lambda>_. newGovKey \<noteq> 0 \<and> newCommKey \<noteq> 0) RevertEmpty (ret ())))"

definition gw_updateKeyManager ::
  "evm \<Rightarrow> address \<Rightarrow> env \<Rightarrow> SigData \<Rightarrow> address \<Rightarrow> bool \<Rightarrow> ('t, unit) gw_action" where
  "gw_updateKeyManager V this E =
     updateKeyManager V this E gw_keyManager (\<lambda>a. gw_keyManager_update (\<lambda>_. a)) UpdatedKeyManager
       gw_checkUpdateKeyManager"

text \<open>The guard's functions, run on this contract's guard with this contract's keys. Which key
  the modifier asks for depends on the function.\<close>

definition gw_guard_call :: "env \<Rightarrow> guard_call \<Rightarrow> ('t, unit) gw_action" where
  "gw_guard_call E c =
     andthen (if c \<in> {EnableCommunityGuard, DisableCommunityGuard} then gw_getCommunityKey else gw_getGovernor) (\<lambda>key.
     (\<lambda>(s, W). rbind (guard_op E key key c (gw_guard s)) (\<lambda>(u, g, l).
        Inr (u, (s\<lparr>gw_guard := g\<rparr>, W), map Guarded l))))"

section \<open>Calls to FLIP\<close>

definition gw_call_flip :: "('t flip \<Rightarrow> 't flip_result) \<Rightarrow> ('t, unit) gw_action" where
  "gw_call_flip f = andthen (reads (\<lambda>(s, W). FLIP s)) (\<lambda>a. in_world (call_flip a f))"

definition gw_view_flip :: "('t flip \<Rightarrow> 'a) \<Rightarrow> ('t, 'a) gw_action" where
  "gw_view_flip f = andthen (reads (\<lambda>(s, W). FLIP s)) (\<lambda>a. in_world (view_flip a f))"

section \<open>Funding and redemption\<close>

definition setFlip :: "address \<Rightarrow> ('t, unit) gw_action" where
  "setFlip flip =
     require (\<lambda>_. flip \<noteq> ZERO_ADDR) (Revert ''Shared: address input is empty'')
    (require (\<lambda>(s, W). FLIP s = 0) (Revert ''Gateway: Flip address already set'')
    (andthen (on_storage (FLIP_update (\<lambda>_. flip))) (\<lambda>_.
     emit (Own (FLIPSet flip)))))"

definition fundStateChainAccount ::
  "'t erc20 \<Rightarrow> address \<Rightarrow> env \<Rightarrow> bytes32 \<Rightarrow> uint256 \<Rightarrow> ('t, unit) gw_action" where
  "fundStateChainAccount T this E nodeID amount =
     require (\<lambda>_. nodeID \<noteq> 0) (Revert ''Shared: bytes32 input is empty'')
    (require (\<lambda>(s, W). FLIP s \<noteq> 0) (Revert ''Gateway: Flip not set'')
    (require (\<lambda>(s, W). amount \<ge> minFunding s) (Revert ''Gateway: not enough funds'')
    (andthen (gw_call_flip (flip_transferFrom T (call_env E this) (msg_sender E) this amount)) (\<lambda>_.
     emit (Own (Funded nodeID amount (msg_sender E)))))))"

definition registerRedemption_values ::
  "evm \<Rightarrow> bytes32 \<Rightarrow> uint256 \<Rightarrow> address \<Rightarrow> 48 word \<Rightarrow> address \<Rightarrow> sol_value list" where
  "registerRedemption_values V nodeID amount redeemAddr expiry exec =
     [SSelector (selector V ''registerRedemption((uint256,uint256,address),bytes32,uint256,address,uint48,address)''),
      SUint nodeID, SUint amount, SAddress redeemAddr, SUint expiry, SAddress exec]"

definition registerRedemption ::
  "evm \<Rightarrow> address \<Rightarrow> env \<Rightarrow> SigData \<Rightarrow> bytes32 \<Rightarrow> uint256 \<Rightarrow> address \<Rightarrow> 48 word \<Rightarrow> address \<Rightarrow>
   ('t, unit) gw_action" where
  "registerRedemption V this E sigData nodeID amount redeemAddr expiry exec =
     onlyNotSuspended gw_guard_of
    (require (\<lambda>_. nodeID \<noteq> 0) (Revert ''Shared: bytes32 input is empty'')
    (require (\<lambda>_. amount \<noteq> 0) (Revert ''Shared: uint input is empty'')
    (require (\<lambda>_. redeemAddr \<noteq> ZERO_ADDR) (Revert ''Shared: address input is empty'')
    (consumesKeyNonce V this E gw_keyManager sigData
       (keccak256 V (abi_encode (registerRedemption_values V nodeID amount redeemAddr expiry exec)))
    (require (\<lambda>(s, W). block_timestamp E > ucast (expiryTime (pendingRedemptions s nodeID)))
       (Revert ''Gateway: a pending redemption exists'')
    (andthen (reads (\<lambda>(s, W). REDEMPTION_DELAY s)) (\<lambda>delay.
     andthen (checked (checked_add (ucast (block_timestamp E)) delay)) (\<lambda>start.
     require (\<lambda>_. expiry > start) (Revert ''Gateway: expiry time too soon'')
    (andthen (on_storage (\<lambda>s. s\<lparr>pendingRedemptions := (pendingRedemptions s)(nodeID :=
        \<lparr>red_amount = amount, redeemAddress = redeemAddr, startTime = start, expiryTime = expiry,
          executor = exec\<rparr>)\<rparr>)) (\<lambda>_.
     emit (Own (RedemptionRegistered nodeID amount redeemAddr start expiry exec))))))))))))"

definition executeRedemption ::
  "'t erc20 \<Rightarrow> address \<Rightarrow> env \<Rightarrow> bytes32 \<Rightarrow> ('t, address \<times> uint256) gw_action" where
  "executeRedemption T this E nodeID =
     onlyNotSuspended gw_guard_of
    (andthen (reads (\<lambda>(s, W). pendingRedemptions s nodeID)) (\<lambda>redemption.
     require (\<lambda>_. block_timestamp E \<ge> ucast (startTime redemption) \<and> expiryTime redemption > 0)
       (Revert ''Gateway: early or already execd'')
    (andthen (on_storage (\<lambda>s. s\<lparr>pendingRedemptions := (pendingRedemptions s)(nodeID := no_redemption)\<rparr>)) (\<lambda>_.
     if block_timestamp E \<le> ucast (expiryTime redemption) then
       require (\<lambda>_. executor redemption \<noteq> 0 \<longrightarrow> msg_sender E = executor redemption) (Revert ''Gateway: not executor'')
      (andthen (emit (Own (RedemptionExecuted nodeID (red_amount redemption)))) (\<lambda>_.
       andthen (gw_call_flip (flip_transfer T (call_env E this) (redeemAddress redemption) (red_amount redemption))) (\<lambda>_.
       ret (redeemAddress redemption, red_amount redemption))))
     else
       andthen (emit (Own (RedemptionExpired nodeID (red_amount redemption)))) (\<lambda>_.
       ret (redeemAddress redemption, 0))))))"

section \<open>Supply and issuer\<close>

definition updateFlipSupply_values :: "evm \<Rightarrow> uint256 \<Rightarrow> uint256 \<Rightarrow> sol_value list" where
  "updateFlipSupply_values V newTotalSupply stateChainBlockNumber =
     [SSelector (selector V ''updateFlipSupply((uint256,uint256,address),uint256,uint256)''),
      SUint newTotalSupply, SUint stateChainBlockNumber]"

definition adjustSupply :: "'t erc20 \<Rightarrow> address \<Rightarrow> env \<Rightarrow> uint256 \<Rightarrow> uint256 \<Rightarrow> ('t, unit) gw_action" where
  "adjustSupply T this E newTotalSupply oldSupply =
     (if newTotalSupply < oldSupply then
        andthen (checked (checked_sub oldSupply newTotalSupply)) (\<lambda>amount.
        gw_call_flip (flip_burn T (call_env E this) this amount))
      else if newTotalSupply > oldSupply then
        andthen (checked (checked_sub newTotalSupply oldSupply)) (\<lambda>amount.
        gw_call_flip (flip_mint T (call_env E this) this amount))
      else ret ())"

definition updateFlipSupply ::
  "evm \<Rightarrow> 't erc20 \<Rightarrow> address \<Rightarrow> env \<Rightarrow> SigData \<Rightarrow> uint256 \<Rightarrow> uint256 \<Rightarrow> ('t, unit) gw_action" where
  "updateFlipSupply V T this E sigData newTotalSupply stateChainBlockNumber =
     onlyNotSuspended gw_guard_of
    (require (\<lambda>_. newTotalSupply \<noteq> 0) (Revert ''Shared: uint input is empty'')
    (consumesKeyNonce V this E gw_keyManager sigData
       (keccak256 V (abi_encode (updateFlipSupply_values V newTotalSupply stateChainBlockNumber)))
    (require (\<lambda>(s, W). stateChainBlockNumber > lastSupplyUpdateBlockNum s) (Revert ''Gateway: old FLIP supply update'')
    (andthen (on_storage (lastSupplyUpdateBlockNum_update (\<lambda>_. stateChainBlockNumber))) (\<lambda>_.
     andthen (gw_view_flip (flip_totalSupply T)) (\<lambda>oldSupply.
     andthen (adjustSupply T this E newTotalSupply oldSupply) (\<lambda>_.
     emit (Own (FlipSupplyUpdated oldSupply newTotalSupply stateChainBlockNumber)))))))))"

definition updateFlipIssuer_values :: "evm \<Rightarrow> address \<Rightarrow> bool \<Rightarrow> sol_value list" where
  "updateFlipIssuer_values V newIssuer omitChecks =
     [SSelector (selector V ''updateFlipIssuer((uint256,uint256,address),address,bool)''),
      SAddress newIssuer, SBool omitChecks]"

definition updateFlipIssuer ::
  "evm \<Rightarrow> address \<Rightarrow> env \<Rightarrow> SigData \<Rightarrow> address \<Rightarrow> bool \<Rightarrow> ('t, unit) gw_action" where
  "updateFlipIssuer V this E sigData newIssuer omitChecks =
     onlyNotSuspended gw_guard_of
    (require (\<lambda>_. newIssuer \<noteq> ZERO_ADDR) (Revert ''Shared: address input is empty'')
    (consumesKeyNonce V this E gw_keyManager sigData
       (keccak256 V (abi_encode (updateFlipIssuer_values V newIssuer omitChecks)))
    (andthen (if \<not> omitChecks then
                andthen (in_world (view_issuer_FLIP newIssuer)) (\<lambda>f.
                require (\<lambda>(s, W). f = FLIP s) (Revert ''Gateway: wrong FLIP ref'') (ret ()))
              else require (\<lambda>(s, W). has_code W newIssuer) RevertEmpty (ret ())) (\<lambda>_.
     gw_call_flip (updateIssuer (call_env E this) newIssuer)))))"

section \<open>Governance\<close>

definition setMinFunding :: "env \<Rightarrow> uint256 \<Rightarrow> ('t, unit) gw_action" where
  "setMinFunding E newMinFunding =
     require (\<lambda>_. newMinFunding \<noteq> 0) (Revert ''Shared: uint input is empty'')
    (gw_onlyGovernor E
    (andthen (reads (\<lambda>(s, W). minFunding s)) (\<lambda>oldMinFunding.
     andthen (emit (Own (MinFundingChanged oldMinFunding newMinFunding))) (\<lambda>_.
     on_storage (minFunding_update (\<lambda>_. newMinFunding))))))"

definition gw_govWithdraw :: "'t erc20 \<Rightarrow> address \<Rightarrow> env \<Rightarrow> ('t, unit) gw_action" where
  "gw_govWithdraw T this E =
     gw_onlyGovernor E (onlyCommunityGuardDisabled gw_guard_of (onlySuspended gw_guard_of
    (andthen (gw_view_flip (\<lambda>F. flip_balanceOf T F this)) (\<lambda>amount.
     andthen gw_getGovernor (\<lambda>governor.
     andthen (gw_call_flip (flip_transfer T (call_env E this) governor amount)) (\<lambda>_.
     andthen (emit (Own (GovernanceWithdrawal governor amount))) (\<lambda>_.
     andthen (gw_view_flip getIssuer) (\<lambda>iss.
     if iss = this then gw_call_flip (updateIssuer (call_env E this) governor) else ret ()))))))))"

definition govUpdateFlipIssuer :: "address \<Rightarrow> env \<Rightarrow> ('t, unit) gw_action" where
  "govUpdateFlipIssuer this E =
     gw_onlyGovernor E (onlyCommunityGuardDisabled gw_guard_of (onlySuspended gw_guard_of
    (andthen gw_getGovernor (\<lambda>governor.
     gw_call_flip (updateIssuer (call_env E this) governor)))))"

text \<open>Getters.\<close>

definition getFLIP :: "gateway \<Rightarrow> address" where
  "getFLIP s = FLIP s"

definition getMinimumFunding :: "gateway \<Rightarrow> uint256" where
  "getMinimumFunding s = minFunding s"

definition getPendingRedemption :: "gateway \<Rightarrow> bytes32 \<Rightarrow> Redemption" where
  "getPendingRedemption s nodeID = pendingRedemptions s nodeID"

definition getLastSupplyUpdateBlockNumber :: "gateway \<Rightarrow> uint256" where
  "getLastSupplyUpdateBlockNumber s = lastSupplyUpdateBlockNum s"


section \<open>All calls\<close>

text \<open>\<open>GwOutside W\<close> is whatever other contracts and accounts do between two calls: it
  replaces the world, never the gateway's storage.\<close>

datatype 't gw_call =
    GwSetFlip address
  | GwFund bytes32 uint256
  | GwRegister SigData bytes32 uint256 address "48 word" address
  | GwExecute bytes32
  | GwUpdateSupply SigData uint256 uint256
  | GwUpdateIssuer SigData address bool
  | GwSetMinFunding uint256
  | GwGovWithdraw
  | GwGovUpdateIssuer
  | GwUpdateKeyManager SigData address bool
  | GwGuard guard_call
  | GwOutside "'t world"

fun gw_action :: "evm \<Rightarrow> 't erc20 \<Rightarrow> address \<Rightarrow> env \<Rightarrow> 't gw_call \<Rightarrow> ('t, unit) gw_action" where
  "gw_action V T this E (GwSetFlip a) = setFlip a"
| "gw_action V T this E (GwFund n a) = fundStateChainAccount T this E n a"
| "gw_action V T this E (GwRegister sd n a r x ex) = registerRedemption V this E sd n a r x ex"
| "gw_action V T this E (GwExecute n) = andthen (executeRedemption T this E n) (\<lambda>_. ret ())"
| "gw_action V T this E (GwUpdateSupply sd n b) = updateFlipSupply V T this E sd n b"
| "gw_action V T this E (GwUpdateIssuer sd a om) = updateFlipIssuer V this E sd a om"
| "gw_action V T this E (GwSetMinFunding n) = setMinFunding E n"
| "gw_action V T this E GwGovWithdraw = gw_govWithdraw T this E"
| "gw_action V T this E GwGovUpdateIssuer = govUpdateFlipIssuer this E"
| "gw_action V T this E (GwUpdateKeyManager sd a om) = gw_updateKeyManager V this E sd a om"
| "gw_action V T this E (GwGuard c) = gw_guard_call E c"
| "gw_action V T this E (GwOutside W) = modify (\<lambda>(s, _). (s, W))"

definition gw_exec ::
  "evm \<Rightarrow> 't erc20 \<Rightarrow> address \<Rightarrow> env \<times> 't gw_call \<Rightarrow> gateway \<times> 't world \<Rightarrow>
   ((gateway \<times> 't world) \<times> gw_event log list) sol" where
  "gw_exec V T this c = transaction (gw_action V T this (fst c) (snd c))"

lemmas gw_reads = gw_view_km_def gw_getGovernor_def gw_getCommunityKey_def gw_onlyGovernor_def
  gw_call_flip_def gw_view_flip_def

lemmas gw_op_defs = setFlip_def fundStateChainAccount_def registerRedemption_def executeRedemption_def
  updateFlipSupply_def updateFlipIssuer_def setMinFunding_def gw_govWithdraw_def govUpdateFlipIssuer_def
  gw_updateKeyManager_def updateKeyManager_def gw_guard_call_def gw_checkUpdateKeyManager_def

section \<open>What calls leave alone\<close>

text \<open>A relation on the gateway's state: what holds of its views and modifiers whatever the
  relation is.\<close>

locale gateway_relation = action_relation R
  for R :: "gateway \<times> 't world \<Rightarrow> gw_event log list \<Rightarrow> gateway \<times> 't world \<Rightarrow> bool"
begin

lemma conforms_view:
  "conforms R (in_world (view_km a f k))" "conforms R (in_world (view_flip a g))" "conforms R (in_world (view_issuer_FLIP a))"
  by (auto simp: conforms_def in_world_Inr view_Inr idle)

lemma conforms_modifiers:
  "conforms R m \<Longrightarrow> conforms R (onlyNotSuspended g m)" "conforms R m \<Longrightarrow> conforms R (onlySuspended g m)"
  "conforms R m \<Longrightarrow> conforms R (onlyCommunityGuardDisabled g m)" "conforms R m \<Longrightarrow> conforms R (onlyGovernor E k m)"
  by (simp_all add: guard_modifiers conforms_require)

lemma conforms_reads:
  "conforms R (gw_view_km f k)" "conforms R gw_getGovernor" "conforms R gw_getCommunityKey" "conforms R (gw_view_flip g)"
  unfolding gw_reads by (intro conforms_intros conforms_view)+

lemma conforms_onlyGovernor: "conforms R m \<Longrightarrow> conforms R (gw_onlyGovernor E m)"
  unfolding gw_onlyGovernor_def by (intro conforms_intros conforms_reads conforms_modifiers)

lemma conforms_checkUpdate: "conforms R (gw_checkUpdateKeyManager a om)"
  unfolding gw_checkUpdateKeyManager_def by (intro conforms_intros conforms_reads conforms_view)

lemmas gateway_structure = conforms_intros conforms_view conforms_modifiers conforms_reads conforms_onlyGovernor conforms_checkUpdate

end

text \<open>\<open>gw_keeps\<close>: no redemption is touched or announced, the delay and a FLIP reference
  once set stay, and so does a suspension if \<open>b\<close>. Every action but registering and executing a redemption is \<open>gw_safe\<close>,
  by rules that follow its structure.\<close>

definition gw_keeps :: "bool \<Rightarrow> gateway \<Rightarrow> gateway \<Rightarrow> gw_event log list \<Rightarrow> bool" where
  "gw_keeps b s s' l \<longleftrightarrow> pendingRedemptions s' = pendingRedemptions s \<and>
     REDEMPTION_DELAY s' = REDEMPTION_DELAY s \<and> (FLIP s \<noteq> 0 \<longrightarrow> FLIP s' = FLIP s) \<and>
     (b \<longrightarrow> suspended (gw_guard s) \<longrightarrow> suspended (gw_guard s')) \<and>
     (\<forall>n a. Own (RedemptionExecuted n a) \<notin> set l) \<and> (\<forall>n a. Own (RedemptionExpired n a) \<notin> set l) \<and>
     (\<forall>n a r st x ex. Own (RedemptionRegistered n a r st x ex) \<notin> set l)"

definition gw_kept :: "bool \<Rightarrow> gateway \<times> 't world \<Rightarrow> gw_event log list \<Rightarrow> gateway \<times> 't world \<Rightarrow> bool" where
  "gw_kept b x l x' \<longleftrightarrow> gw_keeps b (fst x) (fst x') l"

abbreviation gw_safe :: "bool \<Rightarrow> ('t, 'a) gw_action \<Rightarrow> bool" where
  "gw_safe b \<equiv> conforms (gw_kept b)"

interpretation safe: gateway_relation "gw_kept b" for b
  by unfold_locales (auto simp: gw_kept_def gw_keeps_def)

named_theorems safe_intros "actions that leave redemptions alone"

lemmas safe_structure [safe_intros] = safe.gateway_structure

lemma gw_safe_def: "gw_safe b m \<longleftrightarrow> (\<forall>s W a s' W' l. m (s, W) = Inr (a, (s', W'), l) \<longrightarrow> gw_keeps b s s' l)"
  by (simp add: conforms_def gw_kept_def)

lemma gw_safeD: "gw_safe b m \<Longrightarrow> m (s, W) = Inr (a, (s', W'), l) \<Longrightarrow> gw_keeps b s s' l"
  unfolding gw_safe_def by blast

lemma safe_in_world [safe_intros]: "gw_safe b (in_world m)"
  by (auto simp: gw_safe_def res_simps gw_keeps_def)

lemma safe_emit [safe_intros]:
  "gw_safe b (emit (Own (Funded n a f)))" "gw_safe b (emit (Own (MinFundingChanged a c)))"
  "gw_safe b (emit (Own (GovernanceWithdrawal r a)))" "gw_safe b (emit (Own (FLIPSet r)))"
  "gw_safe b (emit (Own (FlipSupplyUpdated a c d)))" "gw_safe b (emit (Own (UpdatedKeyManager r)))"
  by (auto simp: gw_safe_def res_simps gw_keeps_def)

lemma safe_storage [safe_intros]:
  "gw_safe b (on_storage (lastSupplyUpdateBlockNum_update f))" "gw_safe b (on_storage (minFunding_update h))"
  "gw_safe b (on_storage (gw_keyManager_update k))"
  by (auto simp: gw_safe_def res_simps gw_keeps_def)

lemma safe_signed [safe_intros]: "gw_safe b m \<Longrightarrow> gw_safe b (consumesKeyNonce V this E km sd h m)"
  unfolding consumesKeyNonce_def by (intro safe_intros) simp

lemma safe_flip_calls [safe_intros]: "gw_safe b (gw_call_flip h)"
  unfolding gw_call_flip_def by (intro safe_intros)

lemma safe_guard_call: "(b \<Longrightarrow> c \<noteq> Resume) \<Longrightarrow> gw_safe b (gw_guard_call E c)"
proof -
  assume c: "b \<Longrightarrow> c \<noteq> Resume"
  have "gw_safe b (\<lambda>(s, W). rbind (guard_op E key key c (gw_guard s)) (\<lambda>(u, g, l).
      Inr (u, (s\<lparr>gw_guard := g\<rparr>, W), map Guarded l)))" for key
    using c by (auto simp: gw_safe_def res_simps gw_keeps_def dest!: guard_op_Inr split: guard_call.splits)
  then show ?thesis
    unfolding gw_guard_call_def by (intro safe_intros)
qed

lemma safe_setFlip [safe_intros]: "gw_safe b (setFlip a)"
  by (auto simp: gw_safe_def setFlip_def res_simps gw_keeps_def)

lemma safe_updateKeyManager [safe_intros]: "gw_safe b (gw_updateKeyManager V this E sd a om)"
  unfolding gw_updateKeyManager_def updateKeyManager_def by (intro safe_intros)

lemma safe_operations [safe_intros]:
  "gw_safe b (fundStateChainAccount T this E nid a)" "gw_safe b (updateFlipSupply V T this E sd n bn)"
  "gw_safe b (updateFlipIssuer V this E sd iss om)" "gw_safe b (setMinFunding E n2)"
  "gw_safe b (gw_govWithdraw T this E)" "gw_safe b (govUpdateFlipIssuer this E)"
  unfolding fundStateChainAccount_def updateFlipSupply_def updateFlipIssuer_def setMinFunding_def
    gw_govWithdraw_def govUpdateFlipIssuer_def adjustSupply_def
  by (intro safe_intros)+

lemma gw_action_safe:
  "(\<forall>sd n a r x ex. c \<noteq> GwRegister sd n a r x ex) \<Longrightarrow> (\<forall>n. c \<noteq> GwExecute n) \<Longrightarrow>
   (b \<Longrightarrow> c \<noteq> GwGuard Resume) \<Longrightarrow> gw_safe b (gw_action V T this E c)"
  by (cases c) (auto intro!: safe_intros safe_guard_call, auto simp: gw_safe_def modify_def gw_keeps_def)

lemma setFlip_Inr:
  "setFlip a (s, W) = Inr (u, (s', W'), l) \<longleftrightarrow>
     a \<noteq> 0 \<and> FLIP s = 0 \<and> s' = s\<lparr>FLIP := a\<rparr> \<and> W' = W \<and> l = [Own (FLIPSet a)]"
  by (auto simp: setFlip_def res_simps ZERO_ADDR_def)

lemma fund_Inr:
  "fundStateChainAccount T this E n a (s, W) = Inr (u, (s', W'), l) \<longleftrightarrow>
     n \<noteq> 0 \<and> FLIP s \<noteq> 0 \<and> minFunding s \<le> a \<and> s' = s \<and>
     (\<exists>F F' evs. flips W (FLIP s) = Some F \<and>
        flip_transferFrom T (call_env E this) (msg_sender E) this a F = Inr (F', evs) \<and>
        W' = W\<lparr>flips := (flips W)(FLIP s \<mapsto> F')\<rparr> \<and>
        l = map (Other \<circ> FlipLog (FLIP s)) evs @ [Own (Funded n a (msg_sender E))])"
  by (auto simp: fundStateChainAccount_def gw_reads res_simps)

text \<open>A successful signed call: the nonce was spent, the body ran in the world where the
  KeyManager has moved on.\<close>

definition nonce_spent ::
  "evm \<Rightarrow> address \<Rightarrow> env \<Rightarrow> gateway \<Rightarrow> 't world \<Rightarrow> SigData \<Rightarrow> sol_value list \<Rightarrow> 't world \<Rightarrow> gw_event log list \<Rightarrow> bool" where
  "nonce_spent V this E s W sd vs W1 l \<longleftrightarrow>
     (\<exists>k k' evs. key_managers W (gw_keyManager s) = Some k \<and>
        consumeKeyNonce V (gw_keyManager s) (call_env E this) sd (keccak256 V (abi_encode vs)) k = Inr (k', evs) \<and>
        W1 = W\<lparr>key_managers := (key_managers W)(gw_keyManager s \<mapsto> k')\<rparr> \<and>
        l = map (Other \<circ> KmLog (gw_keyManager s)) evs)"

lemma signed_Inr:
  "consumesKeyNonce V this E gw_keyManager sd (keccak256 V (abi_encode vs)) m (s, W) = Inr (x, (s', W'), l) \<longleftrightarrow>
     (\<exists>W1 l1 l2. nonce_spent V this E s W sd vs W1 l1 \<and> m (s, W1) = Inr (x, (s', W'), l2) \<and> l = l1 @ l2)"
  by (auto simp: nonce_spent_def res_simps)

lemma nonce_spent_world:
  "nonce_spent V this E s W sd vs W1 l \<Longrightarrow> flips W1 = flips W \<and> has_code W1 = has_code W \<and> (\<forall>e. Own e \<notin> set l)"
  by (auto simp: nonce_spent_def)

lemma register_Inr:
  "registerRedemption V this E sd n a r x ex (s, W) = Inr (u, (s', W'), l) \<longleftrightarrow>
     \<not> suspended (gw_guard s) \<and> n \<noteq> 0 \<and> a \<noteq> 0 \<and> r \<noteq> 0 \<and>
     ucast (expiryTime (pendingRedemptions s n)) < block_timestamp E \<and>
     (\<exists>st l1. unat st = unat (ucast (block_timestamp E) :: 48 word) + unat (REDEMPTION_DELAY s) \<and> st < x \<and>
        nonce_spent V this E s W sd (registerRedemption_values V n a r x ex) W' l1 \<and>
        s' = s\<lparr>pendingRedemptions := (pendingRedemptions s)(n :=
          \<lparr>red_amount = a, redeemAddress = r, startTime = st, expiryTime = x, executor = ex\<rparr>)\<rparr> \<and>
        l = l1 @ [Own (RedemptionRegistered n a r st x ex)])"
  unfolding registerRedemption_def onlyNotSuspended_def action_Inr signed_Inr
  by (auto simp: res_simps ZERO_ADDR_def)

lemma registerI:
  "\<not> suspended (gw_guard s) \<Longrightarrow> n \<noteq> 0 \<Longrightarrow> a \<noteq> 0 \<Longrightarrow> r \<noteq> 0 \<Longrightarrow>
   ucast (expiryTime (pendingRedemptions s n)) < block_timestamp E \<Longrightarrow>
   unat st = unat (ucast (block_timestamp E) :: 48 word) + unat (REDEMPTION_DELAY s) \<Longrightarrow> st < x \<Longrightarrow>
   nonce_spent V this E s W sd (registerRedemption_values V n a r x ex) W' l1 \<Longrightarrow>
   \<exists>s' l. registerRedemption V this E sd n a r x ex (s, W) = Inr (u, (s', W'), l)"
  unfolding register_Inr by blast

lemma execute_Inr:
  "executeRedemption T this E n (s, W) = Inr (res, (s', W'), l) \<longleftrightarrow>
     (let r = pendingRedemptions s n in
      \<not> suspended (gw_guard s) \<and> ucast (startTime r) \<le> block_timestamp E \<and> 0 < expiryTime r \<and>
      s' = s\<lparr>pendingRedemptions := (pendingRedemptions s)(n := no_redemption)\<rparr> \<and>
      (if block_timestamp E \<le> ucast (expiryTime r)
       then (executor r \<noteq> 0 \<longrightarrow> msg_sender E = executor r) \<and> res = (redeemAddress r, red_amount r) \<and>
         (\<exists>F F' evs. flips W (FLIP s) = Some F \<and>
            flip_transfer T (call_env E this) (redeemAddress r) (red_amount r) F = Inr (F', evs) \<and>
            W' = W\<lparr>flips := (flips W)(FLIP s \<mapsto> F')\<rparr> \<and>
            l = Own (RedemptionExecuted n (red_amount r)) # map (Other \<circ> FlipLog (FLIP s)) evs)
       else res = (redeemAddress r, 0) \<and> W' = W \<and> l = [Own (RedemptionExpired n (red_amount r))]))"
  by (auto simp: executeRedemption_def onlyNotSuspended_def gw_reads res_simps Let_def split: if_splits)

text \<open>The supply adjustment on FLIP, given the supply it replaces.\<close>

definition flip_adjust :: "'t erc20 \<Rightarrow> address \<Rightarrow> env \<Rightarrow> uint256 \<Rightarrow> 't flip \<Rightarrow> 't flip \<Rightarrow> flip_event list \<Rightarrow> bool" where
  "flip_adjust T this E n F F' evs \<longleftrightarrow>
     (let old = flip_totalSupply T F in
      if n < old then flip_burn T (call_env E this) this (old - n) F = Inr (F', evs)
      else if old < n then flip_mint T (call_env E this) this (n - old) F = Inr (F', evs)
      else F' = F \<and> evs = [])"

lemma adjustSupply_InrD:
  assumes "adjustSupply T this E n (flip_totalSupply T F) (s, W) = Inr (u, (s', W'), l)"
    and "flips W (FLIP s) = Some F"
  shows "s' = s \<and> (\<exists>F' evs. flip_adjust T this E n F F' evs \<and> W' = W\<lparr>flips := (flips W)(FLIP s \<mapsto> F')\<rparr> \<and>
      l = map (Other \<circ> FlipLog (FLIP s)) evs)"
proof -
  consider (burn) "n < flip_totalSupply T F" | (mint) "flip_totalSupply T F < n" | (same) "n = flip_totalSupply T F"
    by fastforce
  then show ?thesis
  proof cases
    case burn
    then show ?thesis
      using assms less_imp_le [OF burn] by (auto simp: adjustSupply_def flip_adjust_def gw_reads andthen_Inr action_Inr
          in_world_Inr call_flip_Inr checked_sub_def Let_def)
  next
    case mint
    then have "\<not> n < flip_totalSupply T F"
      by simp
    then show ?thesis
      using mint assms less_imp_le [OF mint] by (auto simp: adjustSupply_def flip_adjust_def gw_reads andthen_Inr action_Inr
          in_world_Inr call_flip_Inr checked_sub_def Let_def)
  next
    case same
    moreover have "W\<lparr>flips := (flips W)(FLIP s \<mapsto> F)\<rparr> = W"
      using assms(2) by (simp add: fun_upd_idem)
    ultimately show ?thesis
      using assms by (auto simp: adjustSupply_def flip_adjust_def action_Inr Let_def)
  qed
qed

lemma supply_InrD:
  assumes "updateFlipSupply V T this E sd n b (s, W) = Inr (u, (s', W'), l)"
  shows "\<exists>W1 l1 F F' evs. \<not> suspended (gw_guard s) \<and> n \<noteq> 0 \<and> lastSupplyUpdateBlockNum s < b \<and>
     s' = s\<lparr>lastSupplyUpdateBlockNum := b\<rparr> \<and>
     nonce_spent V this E s W sd (updateFlipSupply_values V n b) W1 l1 \<and> flips W (FLIP s) = Some F \<and>
     flip_adjust T this E n F F' evs \<and> W' = W1\<lparr>flips := (flips W1)(FLIP s \<mapsto> F')\<rparr> \<and>
     l = l1 @ map (Other \<circ> FlipLog (FLIP s)) evs @ [Own (FlipSupplyUpdated (flip_totalSupply T F) n b)]"
proof -
  obtain W1 l1 F l2 where c: "\<not> suspended (gw_guard s)" "n \<noteq> 0" "lastSupplyUpdateBlockNum s < b"
    and sp: "nonce_spent V this E s W sd (updateFlipSupply_values V n b) W1 l1" and F: "flips W1 (FLIP s) = Some F"
    and l: "l = l1 @ l2 @ [Own (FlipSupplyUpdated (flip_totalSupply T F) n b)]"
    and body: "adjustSupply T this E n (flip_totalSupply T F) (s\<lparr>lastSupplyUpdateBlockNum := b\<rparr>, W1) =
      Inr ((), (s', W'), l2)"
    using assms unfolding updateFlipSupply_def onlyNotSuspended_def action_Inr signed_Inr
    by (auto simp: gw_reads res_simps)
  obtain F' evs where a: "flip_adjust T this E n F F' evs" "W' = W1\<lparr>flips := (flips W1)(FLIP s \<mapsto> F')\<rparr>"
      "l2 = map (Other \<circ> FlipLog (FLIP s)) evs" "s' = s\<lparr>lastSupplyUpdateBlockNum := b\<rparr>"
    using adjustSupply_InrD [OF body] F by auto
  have "flips W (FLIP s) = Some F"
    using nonce_spent_world [OF sp] F by simp
  then show ?thesis
    using c sp l a by blast
qed

section \<open>Redemptions\<close>

text \<open>C19: a registration is accepted only with a spent signature over all of its parameters, while
  no unexpired redemption of the node is pending. It can be executed from \<open>REDEMPTION_DELAY\<close>
  after the block on, before its expiry, and replaces nothing but this node's entry.\<close>

theorem registerRedemption_effect:
  assumes "registerRedemption V this E sd n a r x ex (s, W) = Inr (u, (s', W'), l)"
    and "unat (block_timestamp E) < 2 ^ 48"
  shows "let p = pendingRedemptions s' n in
    red_amount p = a \<and> redeemAddress p = r \<and> executor p = ex \<and> expiryTime p = x \<and>
    unat (startTime p) = unat (block_timestamp E) + unat (REDEMPTION_DELAY s) \<and> startTime p < expiryTime p \<and>
    unat (expiryTime (pendingRedemptions s n)) < unat (block_timestamp E) \<and>
    (\<forall>m. m \<noteq> n \<longrightarrow> pendingRedemptions s' m = pendingRedemptions s m) \<and> flips W' = flips W \<and>
    (\<exists>k. key_managers W (gw_keyManager s) = Some k \<and> \<not> isNonceUsed k (nonce sd) \<and>
      verifySignature V (signed_hash V E (gw_keyManager s) this (nonce sd)
        (keccak256 V (abi_encode (registerRedemption_values V n a r x ex))))
        (sig sd) (pubKeyX (aggKey k)) (pubKeyYParity (aggKey k)) (kTimesGAddress sd) = Inr True)"
proof -
  have t: "unat (ucast (block_timestamp E) :: 48 word) = unat (block_timestamp E)"
    using assms(2) by (simp add: unsigned_ucast_eq take_bit_nat_eq_self)
  have x: "unat (ucast y :: uint256) = unat y" for y :: "48 word"
    by (simp add: unsigned_ucast_eq take_bit_nat_eq_self order_less_trans [OF unat_lt2p])
  show ?thesis
    using assms(1) t x unfolding register_Inr
    by (auto simp: Let_def word_less_nat_alt nonce_spent_def consumeKeyNonce_def consume_internal_Inr
        signed_hash_def signed_values_def call_env_def)
qed

text \<open>C18: execution pays exactly the pending amount to the registered address, and only inside the
  window, to the named executor's call if one is named; after the expiry it only clears the
  entry. Either way the entry is gone, and no other account's FLIP moves.\<close>

theorem executeRedemption_effect:
  assumes T: "erc20_spec T" and ex: "executeRedemption T this E n (s, W) = Inr (res, (s', W'), l)"
    and "p = pendingRedemptions s n"
  shows "\<not> suspended (gw_guard s) \<and> unat (startTime p) \<le> unat (block_timestamp E) \<and>
    s' = s\<lparr>pendingRedemptions := (pendingRedemptions s)(n := no_redemption)\<rparr> \<and>
    (if unat (block_timestamp E) \<le> unat (expiryTime p)
     then res = (redeemAddress p, red_amount p) \<and> (executor p = 0 \<or> msg_sender E = executor p) \<and>
       (\<exists>F F'. flips W (FLIP s) = Some F \<and> flips W' = (flips W)(FLIP s \<mapsto> F') \<and>
         flip_totalSupply T F' = flip_totalSupply T F \<and> issuer F' = issuer F \<and>
         moved (flip_balanceOf T F) this (redeemAddress p) (red_amount p) (flip_balanceOf T F'))
     else res = (redeemAddress p, 0) \<and> W' = W)"
proof -
  have x: "unat (ucast y :: uint256) = unat y" for y :: "48 word"
    by (simp add: unsigned_ucast_eq take_bit_nat_eq_self order_less_trans [OF unat_lt2p])
  have paid: "flip_totalSupply T F' = flip_totalSupply T F \<and> issuer F' = issuer F \<and>
      moved (flip_balanceOf T F) this r a (flip_balanceOf T F')"
    if "flip_transfer T (call_env E this) r a F = Inr (F', evs)" for F F' r a evs
    using that erc20_transferD [OF T]
    by (auto simp: flip_op_defs flip_totalSupply_def flip_balanceOf_fun res_simps call_env_def)
  have common: "\<not> suspended (gw_guard s)" "unat (startTime p) \<le> unat (block_timestamp E)"
    "s' = s\<lparr>pendingRedemptions := (pendingRedemptions s)(n := no_redemption)\<rparr>"
    using ex unfolding execute_Inr assms(3) Let_def by (simp_all add: word_le_nat_alt x)
  show ?thesis
  proof (cases "unat (block_timestamp E) \<le> unat (expiryTime p)")
    case True
    then have r: "res = (redeemAddress p, red_amount p)" "executor p = 0 \<or> msg_sender E = executor p"
      and "\<exists>F F' evs. flips W (FLIP s) = Some F \<and> W' = W\<lparr>flips := (flips W)(FLIP s \<mapsto> F')\<rparr> \<and>
        flip_transfer T (call_env E this) (redeemAddress p) (red_amount p) F = Inr (F', evs)"
      using ex unfolding execute_Inr assms(3) [symmetric] Let_def by (auto simp: word_le_nat_alt x)
    then obtain F F' evs where F: "flips W (FLIP s) = Some F" "W' = W\<lparr>flips := (flips W)(FLIP s \<mapsto> F')\<rparr>"
      and tr: "flip_transfer T (call_env E this) (redeemAddress p) (red_amount p) F = Inr (F', evs)"
      by blast
    have "flips W' = (flips W)(FLIP s \<mapsto> F')"
      by (simp add: F(2))
    then show ?thesis
      using True common r F(1) paid [OF tr] by auto
  next
    case False
    then show ?thesis
      using ex common unfolding execute_Inr assms(3) [symmetric] Let_def by (simp add: word_le_nat_alt x)
  qed
qed

section \<open>Supply\<close>

lemma flip_adjust_cases:
  assumes "flip_adjust T this E n F F' evs"
  shows "(\<exists>t. n < flip_totalSupply T F \<and> erc20_burn T this (flip_totalSupply T F - n) (token F) = Inr t \<and>
       F' = F\<lparr>token := t\<rparr> \<and> issuer F = this) \<or>
     (\<exists>t. flip_totalSupply T F < n \<and> erc20_mint T this (n - flip_totalSupply T F) (token F) = Inr t \<and>
       F' = F\<lparr>token := t\<rparr> \<and> issuer F = this) \<or>
     (n = flip_totalSupply T F \<and> F' = F)"
proof (cases n "flip_totalSupply T F" rule: linorder_cases)
  case less
  then have "flip_burn T (call_env E this) this (flip_totalSupply T F - n) F = Inr (F', evs)"
    using assms by (simp add: flip_adjust_def)
  then have i: "msg_sender (call_env E this) = issuer F" and "\<exists>t. erc20_burn T this (flip_totalSupply T F - n) (token F) = Inr t \<and> F' = F\<lparr>token := t\<rparr>"
    unfolding flip_burn_Inr by blast+
  then obtain t where "erc20_burn T this (flip_totalSupply T F - n) (token F) = Inr t" "F' = F\<lparr>token := t\<rparr>"
    by blast
  moreover have "issuer F = this"
    using i by (simp add: call_env_def)
  ultimately show ?thesis
    using less by (intro disjI1 exI [of _ t] conjI)
next
  case equal
  then have "F' = F"
    using assms by (simp only: flip_adjust_def Let_def less_irrefl if_False)
  with equal show ?thesis
    by (intro disjI2 conjI)
next
  case greater
  then have "\<not> n < flip_totalSupply T F"
    by (rule less_not_sym)
  with greater have "flip_mint T (call_env E this) this (n - flip_totalSupply T F) F = Inr (F', evs)"
    using assms by (simp only: flip_adjust_def Let_def if_True if_False)
  then have i: "msg_sender (call_env E this) = issuer F" and "\<exists>t. erc20_mint T this (n - flip_totalSupply T F) (token F) = Inr t \<and> F' = F\<lparr>token := t\<rparr>"
    unfolding flip_mint_Inr by blast+
  then obtain t where "erc20_mint T this (n - flip_totalSupply T F) (token F) = Inr t" "F' = F\<lparr>token := t\<rparr>"
    by blast
  moreover have "issuer F = this"
    using i by (simp add: call_env_def)
  ultimately show ?thesis
    using greater by (intro disjI2 [OF disjI1] exI [of _ t] conjI)
qed

text \<open>C16: an accepted supply update leaves FLIP with exactly the signed total supply, mints to or
  burns from the gateway's own balance alone, by exactly the difference, and moves the last
  State Chain block strictly forward, so an older signed update can never be applied after it.\<close>

theorem updateFlipSupply_exact:
  assumes T: "erc20_spec T" and up: "updateFlipSupply V T this E sd n b (s, W) = Inr (u, (s', W'), l)"
  shows "lastSupplyUpdateBlockNum s < b \<and> s' = s\<lparr>lastSupplyUpdateBlockNum := b\<rparr> \<and>
    (\<exists>F F'. flips W (FLIP s) = Some F \<and> flips W' = (flips W)(FLIP s \<mapsto> F') \<and>
       flip_totalSupply T F' = n \<and> issuer F' = issuer F \<and> (F' \<noteq> F \<longrightarrow> issuer F = this) \<and>
       int (unat (flip_balanceOf T F' this)) - int (unat (flip_balanceOf T F this)) =
         int (unat n) - int (unat (flip_totalSupply T F)) \<and>
       (\<forall>a. a \<noteq> this \<longrightarrow> flip_balanceOf T F' a = flip_balanceOf T F a))"
proof -
  obtain W1 l1 F F' evs where c: "lastSupplyUpdateBlockNum s < b" "s' = s\<lparr>lastSupplyUpdateBlockNum := b\<rparr>"
    and sp: "nonce_spent V this E s W sd (updateFlipSupply_values V n b) W1 l1" and F: "flips W (FLIP s) = Some F"
    and adj: "flip_adjust T this E n F F' evs" and W': "W' = W1\<lparr>flips := (flips W1)(FLIP s \<mapsto> F')\<rparr>"
    using supply_InrD [OF up] by blast
  let ?old = "flip_totalSupply T F"
  consider (burn) t where "n < ?old" "erc20_burn T this (?old - n) (token F) = Inr t" "F' = F\<lparr>token := t\<rparr>" "issuer F = this"
    | (mint) t where "?old < n" "erc20_mint T this (n - ?old) (token F) = Inr t" "F' = F\<lparr>token := t\<rparr>" "issuer F = this"
    | (same) "n = ?old" "F' = F"
    using flip_adjust_cases [OF adj] by blast
  then have "flip_totalSupply T F' = n \<and> issuer F' = issuer F \<and> (F' \<noteq> F \<longrightarrow> issuer F = this) \<and>
       int (unat (flip_balanceOf T F' this)) - int (unat (flip_balanceOf T F this)) = int (unat n) - int (unat ?old) \<and>
       (\<forall>a. a \<noteq> this \<longrightarrow> flip_balanceOf T F' a = flip_balanceOf T F a)"
  proof cases
    case burn
    then have "unat n < unat ?old" "unat (?old - n) = unat ?old - unat n"
      by (simp_all add: word_less_nat_alt unat_sub less_imp_le)
    then show ?thesis
      using burn erc20_burnD [OF T burn(2)] by (auto simp: flip_views word_unat_eq_iff word_le_nat_alt of_nat_diff)
  next
    case mint
    then have "unat ?old < unat n" "unat (n - ?old) = unat n - unat ?old"
      by (simp_all add: word_less_nat_alt unat_sub less_imp_le)
    then show ?thesis
      using mint erc20_mintD [OF T mint(2)] by (auto simp: flip_views word_unat_eq_iff of_nat_diff)
  qed simp
  moreover have "flips W' = (flips W)(FLIP s \<mapsto> F')"
    using nonce_spent_world [OF sp] by (simp add: W')
  ultimately show ?thesis
    using c F by blast
qed

section \<open>Emergency\<close>

definition gw_gated :: "env \<times> 't gw_call \<Rightarrow> bool" where
  "gw_gated c = (case snd c of GwRegister sd n a r x ex \<Rightarrow> True | GwExecute n \<Rightarrow> True
     | GwUpdateSupply sd n b \<Rightarrow> True | GwUpdateIssuer sd a om \<Rightarrow> True | _ \<Rightarrow> False)"

definition gw_resuming :: "env \<times> 't gw_call \<Rightarrow> bool" where
  "gw_resuming c = (case snd c of GwGuard g \<Rightarrow> g = Resume | _ \<Rightarrow> False)"

lemma gw_gated_running:
  "gw_exec V T this c sw = Inr (sw', l) \<Longrightarrow> gw_gated c \<Longrightarrow> \<not> suspended (gw_guard (fst sw))"
  by (cases c; cases "snd c")
     (auto simp: gw_exec_def gw_gated_def res_simps registerRedemption_def executeRedemption_def
       updateFlipSupply_def updateFlipIssuer_def onlyNotSuspended_def)

lemma gw_stays_suspended:
  assumes "gw_exec V T this c sw = Inr (sw', l)" and "suspended (gw_guard (fst sw))" and "\<not> gw_resuming c"
  shows "suspended (gw_guard (fst sw'))"
proof -
  obtain s W s' W' E d u where sw: "sw = (s, W)" "sw' = (s', W')" "c = (E, d)"
    and ex: "gw_action V T this E d (s, W) = Inr (u, (s', W'), l)"
    using assms(1) by (cases sw; cases sw'; cases c) (auto simp: gw_exec_def res_simps)
  have d: "(\<forall>sd m b r x e. d \<noteq> GwRegister sd m b r x e)" "(\<forall>m. d \<noteq> GwExecute m)"
    using assms(1,2) gw_gated_running [OF assms(1)] by (auto simp: gw_gated_def sw)
  have "d \<noteq> GwGuard Resume"
    using assms(3) by (auto simp: gw_resuming_def sw)
  then have "gw_keeps True s s' l"
    using gw_safeD [OF gw_action_safe ex, of True] d by simp
  then show ?thesis
    using assms(2) by (simp add: gw_keeps_def sw)
qed

text \<open>The FLIP reference, once set, never changes.\<close>

lemma gw_exec_keeps_FLIP:
  assumes "gw_exec V T this c sw = Inr (sw', l)" and "FLIP (fst sw) \<noteq> 0"
  shows "FLIP (fst sw') = FLIP (fst sw)"
proof -
  obtain s W s' W' E d u where sw: "sw = (s, W)" "sw' = (s', W')" "c = (E, d)"
    and ex: "gw_action V T this E d (s, W) = Inr (u, (s', W'), l)"
    using assms(1) by (cases sw; cases sw'; cases c) (auto simp: gw_exec_def res_simps)
  consider (reg) sd m b r x e where "d = GwRegister sd m b r x e" | (exe) m where "d = GwExecute m"
    | (other) "(\<forall>sd m b r x e. d \<noteq> GwRegister sd m b r x e) \<and> (\<forall>m. d \<noteq> GwExecute m)"
    by blast
  then show ?thesis
  proof cases
    case reg
    then show ?thesis using ex by (auto simp: sw register_Inr)
  next
    case exe
    then show ?thesis using ex by (auto simp: sw res_simps execute_Inr Let_def)
  next
    case other
    then have "gw_keeps False s s' l"
      using gw_safeD [OF gw_action_safe ex, of False] by blast
    then show ?thesis
      using assms(2) by (simp add: gw_keeps_def sw)
  qed
qed

interpretation gw_stop: emergency_stop "\<lambda>sw. suspended (gw_guard (fst sw))" "gw_exec V T this" gw_gated gw_resuming
  for V and T :: "'t erc20" and this
  by unfold_locales (auto intro: gw_gated_running gw_stays_suspended dest: gw_gated_running)

text \<open>While the gateway is suspended and the governor has not resumed it, no redemption is
  registered or executed and neither supply nor issuer of FLIP is updated, whatever is sent.\<close>

theorem suspended_gateway:
  assumes "suspended (gw_guard s)" and "\<forall>c\<in>set cs. \<not> gw_resuming c"
  shows "\<forall>c\<in>set (accepted (gw_exec V T this) cs (s, W)). \<not> gw_gated c"
  using gw_stop.stopped_accepts_no_gated [of "(s, W)" cs V T this] assms by simp

text \<open>C35: the emergency withdrawal succeeds only for the governor, with the community guard
  disabled and the gateway suspended; it moves the gateway's whole balance to the governor and
  hands over the issuance if, and only if, the gateway holds it.\<close>

theorem govWithdraw_effect:
  assumes T: "erc20_spec T" and wd: "gw_govWithdraw T this E (s, W) = Inr (u, (s', W'), l)"
  shows "s' = s \<and> communityGuardDisabled (gw_guard s) \<and> suspended (gw_guard s) \<and>
    (\<exists>gov F F'. governance_key W (gw_keyManager s) = Some gov \<and> msg_sender E = gov \<and>
      flips W (FLIP s) = Some F \<and> flips W' = (flips W)(FLIP s \<mapsto> F') \<and>
      moved (flip_balanceOf T F) this gov (flip_balanceOf T F this) (flip_balanceOf T F') \<and>
      flip_totalSupply T F' = flip_totalSupply T F \<and>
      issuer F' = (if issuer F = this then gov else issuer F))"
proof -
  obtain gov F t where km: "governance_key W (gw_keyManager s) = Some gov" "msg_sender E = gov"
    and g: "communityGuardDisabled (gw_guard s)" "suspended (gw_guard s)" "s' = s"
    and F: "flips W (FLIP s) = Some F"
    and tr: "erc20_transfer T this gov (flip_balanceOf T F this) (token F) = Inr t"
    and W': "flips W' = (flips W)(FLIP s \<mapsto> F\<lparr>token := t, issuer := if issuer F = this then gov else issuer F\<rparr>)"
    using wd
    by (auto simp: gw_govWithdraw_def guard_modifiers gw_reads res_simps flip_op_defs
        call_env_def getIssuer_def guard_defs split: if_splits)
  then show ?thesis
    using erc20_transferD [OF T tr]
    by (intro conjI exI [of _ gov] exI [of _ F] exI [of _ "F\<lparr>token := t, issuer := if issuer F = this then gov else issuer F\<rparr>"])
       (simp_all add: flip_balanceOf_fun flip_totalSupply_def)
qed

section \<open>Witnesses\<close>

text \<open>A gateway at 30 with the KeyManager at 9 and FLIP at 20, which it issues.\<close>

definition sample_gw :: gateway where
  "sample_gw = \<lparr>gw_keyManager = 9, gw_guard = initial_guard, FLIP = 20, minFunding = 10,
     pendingRedemptions = (\<lambda>_. no_redemption)(1 := \<lparr>red_amount = 40, redeemAddress = 2, startTime = 500,
       expiryTime = 2000, executor = 0\<rparr>), REDEMPTION_DELAY = 100, lastSupplyUpdateBlockNum = 3\<rparr>"

definition sample_world :: "ledger world" where
  "sample_world = \<lparr>key_managers = [9 \<mapsto> sample_km], other_km = no_answers,
     flips = [20 \<mapsto> \<lparr>token = \<lparr>ledger_total = 100, ledger_bal = (\<lambda>a. 0)(30 := 60, 2 := 40),
       ledger_allow = (\<lambda>a b. 0)\<rparr>, issuer = 30\<rparr>],
     has_code = (\<lambda>a. False), issuer_FLIP = (\<lambda>a. None)\<rparr>"

lemmas sample_gw_defs = sample_gw_def sample_world_def initial_guard_def no_redemption_def

lemma sample_spend:
  "\<exists>W1 l1. nonce_spent sample_evm 30 sample_env sample_gw sample_world (sample_sig 6) vs W1 l1"
proof -
  have "keccak256 sample_evm x = 5" for x
    by (simp add: mod_evm_def)
  then show ?thesis
    by (simp add: nonce_spent_def consumeKeyNonce_def consume_internal_Inr sample_hash sample_verifies
        sample_gw_defs sample_defs)
qed

lemma registerRedemption_effect_witness:
  "\<exists>s' W' l. registerRedemption sample_evm 30 sample_env (sample_sig 6) 4 25 2 1500 0 (sample_gw, sample_world) =
     Inr ((), (s', W'), l) \<and> red_amount (pendingRedemptions s' 4) = 25"
proof -
  obtain W1 l1 where "nonce_spent sample_evm 30 sample_env sample_gw sample_world (sample_sig 6)
      (registerRedemption_values sample_evm 4 25 2 1500 0) W1 l1"
    using sample_spend by blast
  then have "\<exists>s' l. registerRedemption sample_evm 30 sample_env (sample_sig 6) 4 25 2 1500 0 (sample_gw, sample_world) =
      Inr ((), (s', W1), l)"
    by (intro registerI [where st = 1100]) (simp_all add: sample_gw_def initial_guard_def no_redemption_def sample_env_def)
  then obtain s' l where r: "registerRedemption sample_evm 30 sample_env (sample_sig 6) 4 25 2 1500 0
      (sample_gw, sample_world) = Inr ((), (s', W1), l)"
    by blast
  from registerRedemption_effect [OF r] have "red_amount (pendingRedemptions s' 4) = 25"
    by (simp add: sample_env_def Let_def)
  with r show ?thesis by blast
qed

lemma executeRedemption_effect_witness:
  "\<exists>s' W' l. executeRedemption ledger_erc20 30 sample_env 1 (sample_gw, sample_world) = Inr ((2, 40), (s', W'), l) \<and>
     pendingRedemptions s' 1 = no_redemption"
proof -
  have "\<exists>s' W' l. executeRedemption ledger_erc20 30 sample_env 1 (sample_gw, sample_world) = Inr ((2, 40), (s', W'), l)"
    by (simp add: execute_Inr sample_gw_defs sample_env_def flip_transfer_def with_token_def ledger_erc20_def
        ledger_move_def checked_add_def call_env_def)
  then obtain s' W' l where r: "executeRedemption ledger_erc20 30 sample_env 1 (sample_gw, sample_world) = Inr ((2, 40), (s', W'), l)"
    by blast
  from executeRedemption_effect [OF ledger_erc20_spec r refl] have "pendingRedemptions s' 1 = no_redemption"
    by simp
  with r show ?thesis by blast
qed

lemma suspended_gateway_witness:
  "(sample_env, GwExecute 1) \<notin> set (accepted (gw_exec sample_evm ledger_erc20 30) [(sample_env, GwExecute 1)]
      (sample_gw\<lparr>gw_guard := \<lparr>communityGuardDisabled = False, suspended = True\<rparr>\<rparr>, sample_world))"
  using suspended_gateway [of "sample_gw\<lparr>gw_guard := \<lparr>communityGuardDisabled = False, suspended = True\<rparr>\<rparr>"
      "[(sample_env, GwExecute 1)]" sample_evm ledger_erc20 30 sample_world]
  by (auto simp: gw_resuming_def gw_gated_def)

lemma govWithdraw_effect_witness:
  "\<exists>W' l F'. gw_govWithdraw ledger_erc20 30 (sample_env\<lparr>msg_sender := 3\<rparr>)
     (sample_gw\<lparr>gw_guard := \<lparr>communityGuardDisabled = True, suspended = True\<rparr>\<rparr>, sample_world) =
     Inr ((), (sample_gw\<lparr>gw_guard := \<lparr>communityGuardDisabled = True, suspended = True\<rparr>\<rparr>, W'), l) \<and>
     flips W' 20 = Some F' \<and> issuer F' = 3"
proof -
  let ?s = "sample_gw\<lparr>gw_guard := \<lparr>communityGuardDisabled = True, suspended = True\<rparr>\<rparr>"
  have "\<exists>W' l. gw_govWithdraw ledger_erc20 30 (sample_env\<lparr>msg_sender := 3\<rparr>) (?s, sample_world) = Inr ((), (?s, W'), l)"
    by (simp add: gw_govWithdraw_def guard_modifiers gw_reads andthen_def in_world_def view_km_def call_flip_def
        view_flip_def require_def reads_def emit_def ret_def sample_gw_defs sample_defs km_getters flip_op_defs
        flip_views ledger_erc20_def ledger_move_def checked_add_def call_env_def guard_defs)
  then obtain W' l where r: "gw_govWithdraw ledger_erc20 30 (sample_env\<lparr>msg_sender := 3\<rparr>) (?s, sample_world) = Inr ((), (?s, W'), l)"
    by blast
  from govWithdraw_effect [OF ledger_erc20_spec r] have "\<exists>F'. flips W' 20 = Some F' \<and> issuer F' = 3"
    by (auto simp: sample_gw_def sample_world_def sample_km_def km_getters)
  with r show ?thesis by blast
qed

lemma updateFlipSupply_exact_witness:
  "\<exists>s' W' l F'. updateFlipSupply sample_evm ledger_erc20 30 sample_env (sample_sig 6) 90 4 (sample_gw, sample_world) =
     Inr ((), (s', W'), l) \<and> flips W' 20 = Some F' \<and> flip_totalSupply ledger_erc20 F' = 90"
proof -
  have h: "keccak256 sample_evm x = 5" for x
    by (simp add: mod_evm_def)
  have "\<exists>s' W' l. updateFlipSupply sample_evm ledger_erc20 30 sample_env (sample_sig 6) 90 4 (sample_gw, sample_world) =
      Inr ((), (s', W'), l)"
    by (simp add: updateFlipSupply_def adjustSupply_def onlyNotSuspended_def consumesKeyNonce_def gw_reads
        action_defs in_world_def on_storage_def call_km_def call_flip_def view_flip_def consumeKeyNonce_def
        consumeKeyNonce_internal_def h sample_hash sample_verifies sample_gw_defs sample_defs flip_op_defs
        flip_views ledger_erc20_def checked_sub_def call_env_def)
  then obtain s' W' l where r: "updateFlipSupply sample_evm ledger_erc20 30 sample_env (sample_sig 6) 90 4
      (sample_gw, sample_world) = Inr ((), (s', W'), l)"
    by blast
  from updateFlipSupply_exact [OF ledger_erc20_spec r]
  have "\<exists>F'. flips W' 20 = Some F' \<and> flip_totalSupply ledger_erc20 F' = 90"
    by (auto simp: sample_gw_def)
  with r show ?thesis by blast
qed

end
