(* ===== verification/Redemptions.thy ===== *)
theory Redemptions
  imports StateChainGateway
begin

text \<open>
  An abstract specification of redemptions, a partial map from nodes to the redemption that is
  open for them with four kinds of steps, and the proof that the gateway refines it: the storage of
  the gateway abstracts to such a map, and every call, by whomever, is a step of the specification
  with the label its events show. What is proved of the runs of the specification by rule induction
  then holds of the gateway.
\<close>

section \<open>The specification\<close>

record open_redemption =
  or_amount :: uint256
  or_to :: address
  or_from_time :: nat
  or_until :: nat

datatype redemption_label =
    Registers bytes32 open_redemption
  | Pays bytes32 uint256
  | Expires bytes32 uint256
  | Silent

type_synonym redemptions = "bytes32 \<Rightarrow> open_redemption option"

text \<open>One step at time \<open>t\<close>, for a contract whose delay is \<open>delay\<close>. The register step may replace
  an open redemption only after its end.\<close>

inductive redemption_step :: "nat \<Rightarrow> nat \<Rightarrow> redemption_label \<Rightarrow> redemptions \<Rightarrow> redemptions \<Rightarrow> bool"
  for delay t where
  register: "(\<And>old. P n = Some old \<Longrightarrow> or_until old < t) \<Longrightarrow> or_amount r \<noteq> 0 \<Longrightarrow> or_to r \<noteq> 0 \<Longrightarrow>
     or_from_time r = t + delay \<Longrightarrow> or_from_time r < or_until r \<Longrightarrow>
     redemption_step delay t (Registers n r) P (P(n \<mapsto> r))"
| pay: "P n = Some r \<Longrightarrow> or_from_time r \<le> t \<Longrightarrow> t \<le> or_until r \<Longrightarrow>
     redemption_step delay t (Pays n (or_amount r)) P (P(n := None))"
| expire: "P n = Some r \<Longrightarrow> or_until r < t \<Longrightarrow>
     redemption_step delay t (Expires n (or_amount r)) P (P(n := None))"
| silent: "redemption_step delay t Silent P P"

inductive_cases redemption_stepE:
  "redemption_step delay t (Registers n r) P P'"
  "redemption_step delay t (Pays n a) P P'"
  "redemption_step delay t (Expires n a) P P'"
  "redemption_step delay t Silent P P'"

text \<open>A run: its steps with their times, in order, from no open redemption.\<close>

inductive redemption_run :: "nat \<Rightarrow> (nat \<times> redemption_label) list \<Rightarrow> redemptions \<Rightarrow> bool" for delay where
  none: "redemption_run delay [] (\<lambda>_. None)"
| more: "redemption_run delay tr P \<Longrightarrow> redemption_step delay t lab P P' \<Longrightarrow> redemption_run delay (tr @ [(t, lab)]) P'"

text \<open>In every run an open redemption was registered, the delay before its window, and a payment
  pays a redemption that was registered at least the delay before and has not expired.\<close>

lemma open_was_registered:
  "redemption_run delay tr P \<Longrightarrow> P n = Some r \<Longrightarrow>
   \<exists>t0. (t0, Registers n r) \<in> set tr \<and> or_from_time r = t0 + delay"
proof (induction rule: redemption_run.induct)
  case (more tr P t lab P')
  from more.hyps(2) more.prems more.IH show ?case
    by cases (auto split: if_splits)
qed simp

lemma run_prefix: "redemption_run delay (tr @ tr') P \<Longrightarrow> \<exists>P0. redemption_run delay tr P0"
proof (induction tr' arbitrary: P rule: rev_induct)
  case (snoc x tr')
  from snoc.prems have "redemption_run delay ((tr @ tr') @ [x]) P"
    by simp
  then obtain P1 where "redemption_run delay (tr @ tr') P1"
    by (cases rule: redemption_run.cases) auto
  then show ?case
    by (rule snoc.IH)
qed auto

lemma paid_was_registered:
  assumes "redemption_run delay (tr @ [(t, Pays n a)]) P"
  shows "\<exists>t0 r. (t0, Registers n r) \<in> set tr \<and> or_amount r = a \<and> t0 + delay \<le> t \<and> t \<le> or_until r"
proof -
  obtain P0 where run: "redemption_run delay tr P0" and step: "redemption_step delay t (Pays n a) P0 P"
    using assms by (cases rule: redemption_run.cases) auto
  from step obtain r where "P0 n = Some r" "or_amount r = a" "or_from_time r \<le> t" "t \<le> or_until r"
    by (auto elim: redemption_stepE)
  then show ?thesis
    using open_was_registered [OF run] by fastforce
qed

section \<open>The gateway refines it\<close>

text \<open>The abstraction: an entry without expiry is no redemption.\<close>

definition open_redemptions :: "gateway \<Rightarrow> redemptions" where
  "open_redemptions s n = (let r = pendingRedemptions s n in
     if expiryTime r = 0 then None
     else Some \<lparr>or_amount = red_amount r, or_to = redeemAddress r,
       or_from_time = unat (startTime r), or_until = unat (expiryTime r)\<rparr>)"

fun event_label :: "gw_event log \<Rightarrow> redemption_label" where
  "event_label (Own (RedemptionRegistered n a r st x ex)) =
     Registers n \<lparr>or_amount = a, or_to = r, or_from_time = unat st, or_until = unat x\<rparr>"
| "event_label (Own (RedemptionExecuted n a)) = Pays n a"
| "event_label (Own (RedemptionExpired n a)) = Expires n a"
| "event_label _ = Silent"

definition label_of :: "gw_event log list \<Rightarrow> redemption_label" where
  "label_of l = (case filter (\<lambda>e. event_label e \<noteq> Silent) l of [] \<Rightarrow> Silent | e # es \<Rightarrow> event_label e)"

lemma open_update:
  "pendingRedemptions s' = (pendingRedemptions s)(n := r) \<Longrightarrow>
   open_redemptions s' = (open_redemptions s)(n := if expiryTime r = 0 then None
     else Some \<lparr>or_amount = red_amount r, or_to = redeemAddress r,
       or_from_time = unat (startTime r), or_until = unat (expiryTime r)\<rparr>)"
  by (rule ext) (simp add: open_redemptions_def Let_def)

lemma label_silent: "\<forall>e\<in>set l. event_label e = Silent \<Longrightarrow> label_of (l @ l') = label_of l'"
  by (simp add: label_of_def)

lemma unat_time [simp]: "unat (ucast (t :: 48 word) :: uint256) = unat t"
  by (simp add: unsigned_ucast_eq take_bit_nat_eq_self order_less_trans [OF unat_lt2p])

lemma unat_block_time: "unat t < 2 ^ 48 \<Longrightarrow> unat (ucast (t :: uint256) :: 48 word) = unat t"
  by (simp add: unsigned_ucast_eq take_bit_nat_eq_self)

lemma register_step:
  assumes "registerRedemption V this E sd n a r x ex (s, W) = Inr (u, (s', W'), l)"
    and t: "unat (block_timestamp E) < 2 ^ 48"
  shows "redemption_step (unat (REDEMPTION_DELAY s)) (unat (block_timestamp E)) (label_of l)
    (open_redemptions s) (open_redemptions s')"
proof -
  let ?t = "unat (block_timestamp E)"
  obtain st l1 where old: "ucast (expiryTime (pendingRedemptions s n)) < block_timestamp E"
    and nz: "a \<noteq> 0" "r \<noteq> 0" and st: "unat st = ?t + unat (REDEMPTION_DELAY s)" "st < x"
    and l: "l = l1 @ [Own (RedemptionRegistered n a r st x ex)]" and l1: "\<forall>e\<in>set l1. event_label e = Silent"
    and s': "pendingRedemptions s' = (pendingRedemptions s)(n := \<lparr>red_amount = a, redeemAddress = r,
        startTime = st, expiryTime = x, executor = ex\<rparr>)"
    using assms(1) unat_block_time [OF t] by (auto simp: register_Inr nonce_spent_def)
  let ?r = "\<lparr>or_amount = a, or_to = r, or_from_time = unat st, or_until = unat x\<rparr>"
  have "x \<noteq> 0"
    using st(2) by auto
  then have "open_redemptions s' = (open_redemptions s)(n \<mapsto> ?r)"
    using open_update [OF s'] by simp
  moreover have "label_of l = Registers n ?r"
    unfolding l label_silent [OF l1] by (simp add: label_of_def)
  moreover have "redemption_step (unat (REDEMPTION_DELAY s)) ?t (Registers n ?r) (open_redemptions s)
      ((open_redemptions s)(n \<mapsto> ?r))"
  proof (rule redemption_step.register)
    fix q assume "open_redemptions s n = Some q"
    then show "or_until q < ?t"
      using old by (auto simp: open_redemptions_def Let_def word_less_nat_alt split: if_splits)
  qed (use nz st in \<open>simp_all add: word_less_nat_alt\<close>)
  ultimately show ?thesis by simp
qed

lemma execute_step:
  assumes "executeRedemption T this E n (s, W) = Inr (u, (s', W'), l)"
  shows "redemption_step delay (unat (block_timestamp E)) (label_of l) (open_redemptions s) (open_redemptions s')"
proof -
  let ?p = "pendingRedemptions s n" and ?t = "unat (block_timestamp E)"
  let ?r = "\<lparr>or_amount = red_amount ?p, or_to = redeemAddress ?p, or_from_time = unat (startTime ?p), or_until = unat (expiryTime ?p)\<rparr>"
  have p: "unat (startTime ?p) \<le> ?t" "expiryTime ?p \<noteq> 0"
    and s': "pendingRedemptions s' = (pendingRedemptions s)(n := no_redemption)"
    using assms by (auto simp: execute_Inr Let_def word_le_nat_alt)
  have o1: "open_redemptions s n = Some ?r"
    using p by (simp add: open_redemptions_def Let_def)
  have o2: "open_redemptions s' = (open_redemptions s)(n := None)"
    using open_update [OF s'] by (simp add: no_redemption_def)
  show ?thesis
  proof (cases "?t \<le> unat (expiryTime ?p)")
    case True
    then have "label_of l = Pays n (red_amount ?p)"
      using assms by (auto simp: execute_Inr Let_def word_le_nat_alt label_of_def)
    then show ?thesis
      using o1 redemption_step.pay [where P = "open_redemptions s" and n = n and r = ?r and t = ?t and delay = delay] p True o2 by simp
  next
    case False
    then have "label_of l = Expires n (red_amount ?p)"
      using assms by (auto simp: execute_Inr Let_def word_le_nat_alt label_of_def)
    then show ?thesis
      using o1 redemption_step.expire [where P = "open_redemptions s" and n = n and r = ?r and t = ?t and delay = delay] False o2 by simp
  qed
qed

lemma keeps_step:
  assumes "gw_keeps b s s' l"
  shows "redemption_step delay t (label_of l) (open_redemptions s) (open_redemptions s')"
proof -
  have "event_label e = Silent" if "e \<in> set l" for e
    using assms that by (cases e rule: event_label.cases) (auto simp: gw_keeps_def)
  then have "label_of l = Silent"
    using label_silent [of l "[]"] by (simp add: label_of_def)
  moreover have "open_redemptions s' = open_redemptions s"
    using assms by (intro ext) (simp add: gw_keeps_def open_redemptions_def)
  ultimately show ?thesis
    using redemption_step.silent by simp
qed

text \<open>The simulation: a call of the gateway, at a time that fits into 48 bits, is a step of the
  specification between the abstractions of its states, with the label its events show.\<close>

lemma gateway_call_step:
  assumes "gw_exec V T this c sw = Inr (sw', l)" and "unat (block_timestamp (fst c)) < 2 ^ 48"
  shows "redemption_step (unat (REDEMPTION_DELAY (fst sw))) (unat (block_timestamp (fst c))) (label_of l)
    (open_redemptions (fst sw)) (open_redemptions (fst sw')) \<and> REDEMPTION_DELAY (fst sw') = REDEMPTION_DELAY (fst sw)"
proof -
  obtain s W s' W' E d u where sw: "sw = (s, W)" "sw' = (s', W')" "c = (E, d)"
    and ex: "gw_action V T this E d (s, W) = Inr (u, (s', W'), l)"
    using assms(1) by (cases sw; cases sw'; cases c) (auto simp: gw_exec_def res_simps)
  consider (reg) sd m b r x e where "d = GwRegister sd m b r x e" | (exe) m where "d = GwExecute m"
    | (other) "(\<forall>sd m b r x e. d \<noteq> GwRegister sd m b r x e) \<and> (\<forall>m. d \<noteq> GwExecute m)"
    by blast
  then show ?thesis
  proof cases
    case reg
    with ex have r: "registerRedemption V this E sd m b r x e (s, W) = Inr (u, (s', W'), l)"
      by simp
    then have "REDEMPTION_DELAY s' = REDEMPTION_DELAY s"
      by (auto simp: register_Inr)
    then show ?thesis
      using register_step [OF r] assms(2) by (simp add: sw)
  next
    case exe
    with ex obtain res where r: "executeRedemption T this E m (s, W) = Inr (res, (s', W'), l)"
      by (auto simp: res_simps)
    then have "REDEMPTION_DELAY s' = REDEMPTION_DELAY s"
      by (auto simp: execute_Inr Let_def)
    then show ?thesis
      using execute_step [OF r] by (simp add: sw)
  next
    case other
    then have k: "gw_keeps False s s' l"
      using gw_safeD [OF gw_action_safe ex, of False] by blast
    then show ?thesis
      using keeps_step [OF k] by (simp add: sw gw_keeps_def)
  qed
qed

section \<open>Runs\<close>

text \<open>What a sequence of calls shows: the labels of the accepted ones with their times.\<close>

fun gw_trace ::
  "evm \<Rightarrow> 't erc20 \<Rightarrow> address \<Rightarrow> (env \<times> 't gw_call) list \<Rightarrow> gateway \<times> 't world \<Rightarrow> (nat \<times> redemption_label) list" where
  "gw_trace V T this [] sw = []"
| "gw_trace V T this (c # cs) sw = (case gw_exec V T this c sw of
     Inl err \<Rightarrow> gw_trace V T this cs sw
   | Inr (sw', l) \<Rightarrow> (unat (block_timestamp (fst c)), label_of l) # gw_trace V T this cs sw')"

lemma gateway_run:
  assumes "\<forall>c\<in>set cs. unat (block_timestamp (fst c)) < 2 ^ 48"
    and "redemption_run (unat (REDEMPTION_DELAY (fst sw))) tr (open_redemptions (fst sw))"
  shows "redemption_run (unat (REDEMPTION_DELAY (fst sw))) (tr @ gw_trace V T this cs sw)
    (open_redemptions (fst (run_calls (gw_exec V T this) cs sw)))"
  using assms
proof (induction cs arbitrary: sw tr)
  case (Cons c cs)
  show ?case
  proof (cases "gw_exec V T this c sw")
    case (Inr r)
    then obtain sw' l where r: "gw_exec V T this c sw = Inr (sw', l)"
      by (cases r) auto
    have st: "redemption_step (unat (REDEMPTION_DELAY (fst sw))) (unat (block_timestamp (fst c))) (label_of l)
        (open_redemptions (fst sw)) (open_redemptions (fst sw'))"
      and d: "REDEMPTION_DELAY (fst sw') = REDEMPTION_DELAY (fst sw)"
      using gateway_call_step [OF r] Cons.prems(1) by simp_all
    have "redemption_run (unat (REDEMPTION_DELAY (fst sw'))) (tr @ [(unat (block_timestamp (fst c)), label_of l)])
        (open_redemptions (fst sw'))"
      unfolding d using redemption_run.more [OF Cons.prems(2) st] .
    then show ?thesis
      using Cons.IH [of sw' "tr @ [(unat (block_timestamp (fst c)), label_of l)]"] Cons.prems(1) r d by simp
  qed (use Cons in simp)
qed simp

text \<open>C8: the refinement: from a gateway without redemptions, every sequence of calls with block times
  below \<open>2 ^ 48\<close> shows a run of the specification, ending in the abstraction of its state.\<close>

theorem gateway_refines_redemptions:
  assumes "open_redemptions s = (\<lambda>_. None)" and "\<forall>c\<in>set cs. unat (block_timestamp (fst c)) < 2 ^ 48"
  shows "redemption_run (unat (REDEMPTION_DELAY s)) (gw_trace V T this cs (s, W))
    (open_redemptions (fst (run_calls (gw_exec V T this) cs (s, W))))"
  using gateway_run [OF assms(2), of "(s, W)" "[]" V T this] redemption_run.none [of "unat (REDEMPTION_DELAY s)"] assms(1)
  by simp

text \<open>C13: what the delay is for: whatever calls were made before, a payment is preceded by the
  registration of that node and amount at least the redemption delay earlier, and comes no later
  than the expiry registered with it.\<close>

theorem payment_after_delay:
  assumes "open_redemptions s = (\<lambda>_. None)" and "\<forall>c\<in>set cs. unat (block_timestamp (fst c)) < 2 ^ 48"
    and "gw_trace V T this cs (s, W) = tr @ (t, Pays n a) # rest"
  shows "\<exists>t0 r. (t0, Registers n r) \<in> set tr \<and> or_amount r = a \<and> t0 + unat (REDEMPTION_DELAY s) \<le> t \<and> t \<le> or_until r"
proof -
  have "\<exists>P. redemption_run (unat (REDEMPTION_DELAY s)) ((tr @ [(t, Pays n a)]) @ rest) P"
    using gateway_run [OF assms(2), of "(s, W)" "[]" V T this] redemption_run.none [of "unat (REDEMPTION_DELAY s)"] assms(1,3)
    by auto
  then show ?thesis
    using run_prefix paid_was_registered by blast
qed

section \<open>Witnesses\<close>

definition fresh_gw :: gateway where
  "fresh_gw = sample_gw\<lparr>pendingRedemptions := (\<lambda>_. no_redemption)\<rparr>"

lemma fresh_gw_open: "open_redemptions fresh_gw = (\<lambda>_. None)"
  by (rule ext) (simp add: fresh_gw_def open_redemptions_def no_redemption_def)

abbreviation sample_redemption_calls :: "(env \<times> ledger gw_call) list" where
  "sample_redemption_calls \<equiv> [(sample_env, GwRegister (sample_sig 6) 1 40 2 1500 0),
     (sample_env\<lparr>block_timestamp := 1200\<rparr>, GwExecute 1)]"

lemma sample_trace:
  "gw_trace sample_evm ledger_erc20 30 sample_redemption_calls (fresh_gw, sample_world) =
     [(1000, Registers 1 \<lparr>or_amount = 40, or_to = 2, or_from_time = 1100, or_until = 1500\<rparr>), (1200, Pays 1 40)]"
proof -
  have h: "keccak256 sample_evm x = 5" for x
    by (simp add: mod_evm_def)
  show ?thesis
    by (simp add: gw_exec_def registerRedemption_def executeRedemption_def onlyNotSuspended_def consumesKeyNonce_def gw_reads
        action_defs in_world_def on_storage_def call_km_def call_flip_def consumeKeyNonce_def ZERO_ADDR_def
        consumeKeyNonce_internal_def h sample_hash sample_verifies sample_gw_defs sample_defs flip_op_defs fresh_gw_def
        ledger_erc20_def ledger_move_def checked_add_def call_env_def label_of_def)
qed

lemma sample_times: "\<forall>c\<in>set sample_redemption_calls. unat (block_timestamp (fst c)) < 2 ^ 48"
  by (simp add: sample_env_def)

lemma sample_delay: "unat (REDEMPTION_DELAY fresh_gw) = 100"
  by (simp add: fresh_gw_def sample_gw_def)

abbreviation sample_registered :: open_redemption where
  "sample_registered \<equiv> \<lparr>or_amount = 40, or_to = 2, or_from_time = 1100, or_until = 1500\<rparr>"

lemma gateway_refines_redemptions_witness:
  "\<exists>P. redemption_run 100 [(1000, Registers 1 sample_registered), (1200, Pays 1 40)] P"
  using gateway_refines_redemptions [OF fresh_gw_open sample_times, of sample_evm ledger_erc20 30 sample_world,
      unfolded sample_trace sample_delay]
  by blast

lemma payment_after_delay_witness:
  "\<exists>t0 r. (t0, Registers 1 r) \<in> set [(1000 :: nat, Registers 1 sample_registered)] \<and> or_amount r = 40 \<and> t0 + 100 \<le> 1200"
proof -
  have "gw_trace sample_evm ledger_erc20 30 sample_redemption_calls (fresh_gw, sample_world) =
      [(1000, Registers 1 sample_registered)] @ (1200, Pays 1 40) # []"
    unfolding sample_trace by simp
  from payment_after_delay [OF fresh_gw_open sample_times this] show ?thesis
    unfolding sample_delay by blast
qed

end
