(* ===== verification/ExternalCalls.thy ===== *)
theory ExternalCalls
  imports SolAction SolAbi
begin

text \<open>
  Calls that leave the contracts of the repository: the code at their target is a parameter, the
  record \<open>chain\<close>, so a call may return any data and leave any state behind. Around it what
  Solidity generates: the calldata with its selector, the code check and the passed-on failure of a
  call through an interface, and \<open>abi.decode\<close> of the answers and messages the
  contracts decode, with its round trip over \<open>abi.encode\<close>.
\<close>

section \<open>The chain\<close>

text \<open>\<open>low_call from to value gas data\<close> is \<open>to.call{value, gas}(data)\<close>; \<open>safe_transfer\<close> and
  \<open>safe_transferFrom\<close> are SafeERC20's, with the calling contract first after the token.
  \<open>'s\<close> is everything a call may read and change, \<open>'e\<close> the events.\<close>

record ('s, 'e) chain =
  low_call :: "address \<Rightarrow> address \<Rightarrow> uint256 \<Rightarrow> uint256 option \<Rightarrow> bytes \<Rightarrow> 's \<Rightarrow>
    (bool \<times> bytes) \<times> 's \<times> 'e list"
  safe_transfer :: "address \<Rightarrow> address \<Rightarrow> address \<Rightarrow> uint256 \<Rightarrow> ('s, 'e, unit) action"
  safe_transferFrom :: "address \<Rightarrow> address \<Rightarrow> address \<Rightarrow> address \<Rightarrow> uint256 \<Rightarrow> ('s, 'e, unit) action"
  token_balance :: "address \<Rightarrow> address \<Rightarrow> ('s, 'e, uint256) action"
  native_balance :: "address \<Rightarrow> 's \<Rightarrow> uint256"
  code_size :: "address \<Rightarrow> 's \<Rightarrow> nat"
  gas_left :: "'s \<Rightarrow> uint256"

section \<open>Calls\<close>

definition call :: "('s, 'e, 'z) chain_scheme \<Rightarrow> address \<Rightarrow> address \<Rightarrow> uint256 \<Rightarrow> uint256 option \<Rightarrow> bytes \<Rightarrow>
    ('s, 'e, bool \<times> bytes) action" where
  "call X from to val gas data s = Inr (low_call X from to val gas data s)"

text \<open>A call through an interface: it needs code at the target and passes a failure on.\<close>

definition high_call :: "('s, 'e, 'z) chain_scheme \<Rightarrow> address \<Rightarrow> address \<Rightarrow> uint256 \<Rightarrow> bytes \<Rightarrow> ('s, 'e, bytes) action" where
  "high_call X from to val data =
     require (\<lambda>s. code_size X to s > 0) RevertEmpty
    (andthen (call X from to val None data) (\<lambda>(success, ret_data).
     require (\<lambda>_. success) CallReverted (ret ret_data)))"

definition encodeWithSelector :: "evm \<Rightarrow> string \<Rightarrow> sol_value list \<Rightarrow> bytes" where
  "encodeWithSelector V sg vs = word_bytes 4 (selector V sg) @ abi_encode vs"

lemma encodeWithSelector_nonempty [simp]: "encodeWithSelector V sg vs \<noteq> []"
proof -
  have "length (encodeWithSelector V sg vs) \<noteq> 0"
    by (simp add: encodeWithSelector_def)
  then show ?thesis
    by auto
qed

text \<open>\<open>abi.decode(returndata, (bool))\<close>: nothing when the data is no encoded boolean.\<close>

definition decode_bool :: "bytes \<Rightarrow> bool option" where
  "decode_bool d = (if length d < 32 then None
     else if be_value (take 32 d) = 0 then Some False
     else if be_value (take 32 d) = 1 then Some True else None)"

definition decoded :: "'a option \<Rightarrow> ('s, 'e, 'a) action" where
  "decoded r = (case r of None \<Rightarrow> revert RevertEmpty | Some b \<Rightarrow> ret b)"

text \<open>\<open>IERC20(tok).approve(spender, amount)\<close> with its answer, and as a statement.\<close>

definition approve_call ::
  "evm \<Rightarrow> ('s, 'e, 'z) chain_scheme \<Rightarrow> address \<Rightarrow> address \<Rightarrow> address \<Rightarrow> uint256 \<Rightarrow> ('s, 'e, bool) action" where
  "approve_call V X this tok spender amount =
     andthen (high_call X this tok 0 (encodeWithSelector V ''approve(address,uint256)'' [SAddress spender, SUint amount])) (\<lambda>d.
     decoded (decode_bool d))"

definition approve ::
  "evm \<Rightarrow> ('s, 'e, 'z) chain_scheme \<Rightarrow> address \<Rightarrow> address \<Rightarrow> address \<Rightarrow> uint256 \<Rightarrow> ('s, 'e, unit) action" where
  "approve V X this tok spender amount = andthen (approve_call V X this tok spender amount) (\<lambda>_. ret ())"

section \<open>Decoding\<close>

text \<open>\<open>abi.decode\<close> of the shapes the contracts decode, a static head and, for \<open>bytes\<close>, an
  offset into the data. It reverts (\<open>None\<close>) on data that is too short, an address with bits above
  160, or offsets and lengths from \<open>2 ^ 64\<close> on.\<close>

definition data_word :: "bytes \<Rightarrow> nat \<Rightarrow> uint256 option" where
  "data_word d i = (if i + 32 \<le> length d then Some (word_of_nat (be_value (take 32 (drop i d)))) else None)"

definition decode_address_at :: "bytes \<Rightarrow> nat \<Rightarrow> address option" where
  "decode_address_at d i = (case data_word d i of None \<Rightarrow> None
     | Some w \<Rightarrow> if w < 2 ^ 160 then Some (ucast w) else None)"

definition decode_bytes_at :: "bytes \<Rightarrow> nat \<Rightarrow> bytes option" where
  "decode_bytes_at d i = (case data_word d i of None \<Rightarrow> None
     | Some off \<Rightarrow> if unat off \<ge> 2 ^ 64 then None else
       (case data_word d (unat off) of None \<Rightarrow> None
        | Some n \<Rightarrow> if unat n \<ge> 2 ^ 64 \<or> unat off + 32 + unat n > length d then None
                  else Some (take (unat n) (drop (unat off + 32) d))))"

definition decode_address :: "bytes \<Rightarrow> address option" where
  "decode_address d = decode_address_at d 0"

definition decode_address_uint :: "bytes \<Rightarrow> (address \<times> uint256) option" where
  "decode_address_uint d = (case (decode_address_at d 0, data_word d 32) of
     (Some a, Some n) \<Rightarrow> Some (a, n) | _ \<Rightarrow> None)"

definition decode_address_bytes :: "bytes \<Rightarrow> (address \<times> bytes) option" where
  "decode_address_bytes d = (case (decode_address_at d 0, decode_bytes_at d 32) of
     (Some a, Some b) \<Rightarrow> Some (a, b) | _ \<Rightarrow> None)"

lemma be_value_word_bytes [simp]: "be_value (word_bytes 32 (w :: uint256)) = unat w"
  using unat_lt2p [of w] by (simp add: word_bytes_def be_value_be_fixed)

lemma data_word_encoded:
  "i = length xs \<Longrightarrow> data_word (xs @ word_bytes 32 w @ ys) i = Some w"
  by (simp add: data_word_def)

lemma unat_ucast_address [simp]: "unat (ucast (a :: address) :: uint256) = unat a"
proof -
  have "unat a < 2 ^ 256"
    using unat_lt2p [of a] by simp
  then show ?thesis
    by (simp add: unsigned_ucast_eq take_bit_nat_eq_self)
qed

lemma ucast_ucast_address [simp]: "(ucast (ucast (a :: address) :: uint256) :: address) = a"
  using unat_lt2p [of a]
  by (simp add: word_unat_eq_iff unsigned_ucast_eq [of "ucast a :: uint256"] take_bit_nat_eq_self)

lemma decode_address_encoded:
  assumes "i = length xs"
  shows "decode_address_at (xs @ word_bytes 32 (ucast a :: uint256) @ ys) i = Some a"
proof -
  have "(ucast a :: uint256) < 2 ^ 160"
    using unat_lt2p [of a] by (simp add: word_less_nat_alt)
  then show ?thesis
    using assms by (simp add: decode_address_at_def data_word_encoded)
qed

lemma decode_bytes_encoded:
  assumes "length b < 2 ^ 64" and "length xs < 2 ^ 64 - 32" and "i = length xs"
    and "ys = word_bytes 32 (word_of_nat (length b) :: uint256) @ b @ zs"
  shows "decode_bytes_at (xs @ word_bytes 32 (word_of_nat (length xs + 32) :: uint256) @ ys) i = Some b"
proof -
  let ?d = "xs @ word_bytes 32 (word_of_nat (length xs + 32) :: uint256) @ ys"
  have n: "unat (word_of_nat (length b) :: uint256) = length b"
    by (rule unat_word_of_nat_less) (use assms(1) in simp)
  have off: "unat (word_of_nat (length xs + 32) :: uint256) = length xs + 32"
    by (rule unat_word_of_nat_less) (use assms(2) in simp)
  have "data_word ?d (length xs) = Some (word_of_nat (length xs + 32))"
    by (rule data_word_encoded) simp
  moreover have "data_word ((xs @ word_bytes 32 (word_of_nat (length xs + 32) :: uint256)) @
      word_bytes 32 (word_of_nat (length b) :: uint256) @ b @ zs) (length xs + 32) = Some (word_of_nat (length b))"
    by (rule data_word_encoded) simp
  ultimately show ?thesis
    using assms n off by (simp add: decode_bytes_at_def)
qed

lemma abi_encode_two_words: "abi_encode [SWord v, SWord w] = word_bytes 32 v @ word_bytes 32 w"
  by (simp add: abi_encode_def seq_encode_def)

lemma abi_encode_word: "abi_encode [SWord w] = word_bytes 32 w"
  by (simp add: abi_encode_def seq_encode_def)

lemma abi_encode_word_bytes:
  "abi_encode [SWord w, SBytes b] = word_bytes 32 w @ word_bytes 32 (word_of_nat 64 :: uint256) @
     word_bytes 32 (word_of_nat (length b) :: uint256) @ b @ padding (length b)"
  by (simp add: abi_encode_def seq_encode_def head_size_def)

lemma decode_bool_encoded: "decode_bool (abi_encode [SBool c]) = Some c"
  by (simp add: decode_bool_def SBool_def abi_encode_word)

lemma decode_address_bytes_encoded:
  assumes "length b < 2 ^ 64"
  shows "decode_address_bytes (abi_encode [SAddress a, SBytes b]) = Some (a, b)"
proof -
  have e: "abi_encode [SAddress a, SBytes b] = word_bytes 32 (ucast a :: uint256) @
      word_bytes 32 (word_of_nat (length (word_bytes 32 (ucast a :: uint256)) + 32) :: uint256) @
      word_bytes 32 (word_of_nat (length b) :: uint256) @ b @ padding (length b)"
    by (simp add: SAddress_def abi_encode_word_bytes)
  have "decode_bytes_at (abi_encode [SAddress a, SBytes b]) 32 = Some b"
    unfolding e by (rule decode_bytes_encoded) (use assms in simp_all)
  moreover have "decode_address_at (abi_encode [SAddress a, SBytes b]) 0 = Some a"
    unfolding e using decode_address_encoded [of 0 "[]"] by simp
  ultimately show ?thesis
    by (simp add: decode_address_bytes_def)
qed

lemma decode_address_uint_encoded: "decode_address_uint (abi_encode [SAddress a, SWord n]) = Some (a, n)"
  using decode_address_encoded [of 0 "[]" a "word_bytes 32 n"]
    data_word_encoded [of 32 "word_bytes 32 (ucast a :: uint256)" n "[]"]
  by (simp add: SAddress_def abi_encode_two_words decode_address_uint_def)

lemma decode_address_word_encoded: "decode_address (abi_encode [SAddress a]) = Some a"
  using decode_address_encoded [of 0 "[]" a "[]"] by (simp add: SAddress_def abi_encode_word decode_address_def)

section \<open>Loops over arrays\<close>

text \<open>The loops over arrays: \<open>each f\<close> runs \<open>f\<close> on every element, in order.\<close>

primrec each :: "('x \<Rightarrow> ('s, 'e, unit) action) \<Rightarrow> 'x list \<Rightarrow> ('s, 'e, unit) action" where
  "each f [] = ret ()"
| "each f (x # xs) = andthen (f x) (\<lambda>_. each f xs)"

lemma each_append: "each f (xs @ ys) s = andthen (each f xs) (\<lambda>_. each f ys) s"
proof (induction xs arbitrary: s)
  case Nil
  then show ?case
    by (cases "each f ys s") (auto simp: andthen_def ret_def)
next
  case (Cons x xs)
  show ?case
  proof (cases "f x s")
    case (Inr r)
    then obtain u s1 l1 where r: "f x s = Inr (u, s1, l1)"
      by (cases r) auto
    show ?thesis
      using Cons [of s1] by (cases "each f xs s1"; cases "each f (xs @ ys) s1")
        (auto simp: andthen_def r rbind_def split: sum.splits)
  qed (simp add: andthen_def)
qed

lemma each_total:
  assumes "\<And>x s. x \<in> set xs \<Longrightarrow> \<exists>s' l. f x s = Inr ((), s', l)"
  shows "\<exists>s' l. each f xs s = Inr ((), s', l)"
  using assms
proof (induction xs arbitrary: s)
  case (Cons x xs)
  obtain s1 l1 where x: "f x s = Inr ((), s1, l1)"
    using Cons.prems [of x s] by auto
  moreover obtain s2 l2 where "each f xs s1 = Inr ((), s2, l2)"
    using Cons.IH [of s1] Cons.prems by auto
  ultimately show ?case
    by (simp add: andthen_eval)
qed (simp add: ret_def)

section \<open>External calls that conform to a relation\<close>

text \<open>What is assumed of code behind external calls: whatever it does conforms to a relation. Then so
  does what the contracts build from such calls.\<close>

definition chain_conforms :: "('s \<Rightarrow> 'e list \<Rightarrow> 's \<Rightarrow> bool) \<Rightarrow> ('s, 'e, 'z) chain_scheme \<Rightarrow> bool" where
  "chain_conforms R X \<longleftrightarrow> (\<forall>f t n g d. conforms R (call X f t n g d)) \<and>
     (\<forall>t f r n. conforms R (safe_transfer X t f r n)) \<and> (\<forall>t p f r n. conforms R (safe_transferFrom X t p f r n)) \<and>
     (\<forall>t a. conforms R (token_balance X t a))"

lemma conforms_prod: "(\<And>a b. conforms R (f a b)) \<Longrightarrow> conforms R (case p of (a, b) \<Rightarrow> f a b)"
  by (cases p) simp

lemma conforms_state_if: "conforms R m \<Longrightarrow> conforms R k \<Longrightarrow> conforms R (\<lambda>s. if P s then m s else k s)"
  unfolding conforms_def by metis

context action_relation begin

lemma conforms_decoded: "conforms R (decoded r)"
  by (cases r) (simp_all add: decoded_def conforms_still)

lemma conforms_each: "(\<And>x. conforms R (f x)) \<Longrightarrow> conforms R (each f xs)"
  by (induction xs) (auto intro: conforms_still conforms_andthen)

lemma conforms_chain:
  assumes "chain_conforms R X"
  shows "conforms R (call X f t n g d)" "conforms R (safe_transfer X tok f r n)" "conforms R (safe_transferFrom X tok p f r n)"
    "conforms R (token_balance X tok a)"
  using assms by (simp_all add: chain_conforms_def)

lemma conforms_high_call: "chain_conforms R X \<Longrightarrow> conforms R (high_call X f t n d)"
  unfolding high_call_def by (intro conforms_intros conforms_prod conforms_chain)

lemma conforms_approve:
  assumes "chain_conforms R X"
  shows "conforms R (approve_call V X this tok sp n)" "conforms R (approve V X this tok sp n)"
  unfolding approve_def approve_call_def
  by (intro conforms_intros conforms_high_call conforms_decoded assms)+

lemmas external_intros = conforms_intros conforms_prod [where R = R] conforms_state_if [where R = R] conforms_decoded conforms_each
  conforms_chain conforms_high_call conforms_approve

end

section \<open>A chain for concrete runs\<close>

text \<open>Calls succeed, return \<open>d\<close> and change nothing.\<close>

definition quiet_chain :: "bytes \<Rightarrow> ('s, 'e) chain" where
  "quiet_chain d = \<lparr>
     low_call = (\<lambda>from to val gas data s. ((True, d), s, [])),
     safe_transfer = (\<lambda>t f r n. ret ()), safe_transferFrom = (\<lambda>t sp f r n. ret ()),
     token_balance = (\<lambda>t a. ret 50), native_balance = (\<lambda>a s. 60), code_size = (\<lambda>a s. 1),
     gas_left = (\<lambda>s. 1000000)\<rparr>"

end
