(* ===== verification/Owned.thy ===== *)
theory Owned
  imports SolAction NonceKeeper
begin

text \<open>
  The interface of a contract whose administered storage one account controls: a call that changes
  it comes from the account that the storage names at that moment. Whatever sequence of calls
  arrives, that part of the storage then stays as it is until that account acts.
  \<open>AddressHolder\<close> and \<open>CFReceiver\<close> interpret it.
\<close>

locale owned =
  fixes part :: "'s \<Rightarrow> 'p"
    and owner :: "'p \<Rightarrow> address"
    and exec :: "env \<times> 'c \<Rightarrow> 's \<Rightarrow> ('s \<times> 'e) sol"
  assumes owner_changes: "exec (E, c) s = Inr (s', evs) \<Longrightarrow> part s' \<noteq> part s \<Longrightarrow> msg_sender E = owner (part s)"
begin

lemma unchanged_step:
  assumes "exec d s = Inr (s', evs)" and "msg_sender (fst d) \<noteq> owner (part s)"
  shows "part s' = part s"
proof -
  obtain E c where "d = (E, c)"
    by (cases d)
  then show ?thesis
    using assms owner_changes [of E c s s' evs] by auto
qed

lemma unchanged_without_owner:
  assumes "\<forall>d \<in> set cs. msg_sender (fst d) \<noteq> owner (part s)"
  shows "part (run_calls exec cs s) = part s"
  using assms
proof (induction cs arbitrary: s)
  case (Cons d cs)
  show ?case
  proof (cases "exec d s")
    case (Inr r)
    then obtain s' evs where r: "exec d s = Inr (s', evs)"
      by (cases r) auto
    then have "part s' = part s"
      using unchanged_step Cons.prems by simp
    then show ?thesis
      using Cons.IH [of s'] Cons.prems r by simp
  qed (use Cons in simp)
qed simp

lemma owner_acted:
  assumes "part (run_calls exec cs s) \<noteq> part s"
  shows "\<exists>d \<in> set cs. msg_sender (fst d) = owner (part s)"
  using assms unchanged_without_owner by blast

end

end
