(* ===== verification/AddressHolder.thy ===== *)
theory AddressHolder
  imports Owned
begin

text \<open>
  \<open>utils/AddressHolder.sol\<close>: the registry of the gateway and staking addresses that the
  vesting contracts look up. Its governor alone changes it; the gateway and the governor are never
  zero, the staking addresses may be.
\<close>

section \<open>The contract\<close>

record address_holder =
  ah_governor :: address
  ah_stateChainGateway :: address
  ah_stFLIP :: address
  ah_stMinter :: address
  ah_stBurner :: address

datatype ah_event =
    StateChainGatewayUpdated address address
  | StakingAddressesUpdated address address address address address address
  | GovernorTransferred address address

type_synonym ah_action = "(address_holder, ah_event, unit) action"

definition ah_constructor :: "address \<Rightarrow> address \<Rightarrow> address \<Rightarrow> address \<Rightarrow> address \<Rightarrow> address_holder sol" where
  "ah_constructor gov scg minter burner st =
     nzAddr gov (nzAddr scg
       (Inr \<lparr>ah_governor = gov, ah_stateChainGateway = scg, ah_stFLIP = st, ah_stMinter = minter, ah_stBurner = burner\<rparr>))"

definition ah_onlyGovernor :: "env \<Rightarrow> (address_holder, ah_event, 'a) action \<Rightarrow> (address_holder, ah_event, 'a) action" where
  "ah_onlyGovernor E = require (\<lambda>h. msg_sender E = ah_governor h) (Revert ''AddrHolder: not the governor'')"

definition updateStateChainGateway :: "env \<Rightarrow> address \<Rightarrow> ah_action" where
  "updateStateChainGateway E scg =
     ah_onlyGovernor E
    (require (\<lambda>_. scg \<noteq> ZERO_ADDR) (Revert ''Shared: address input is empty'')
    (andthen (reads ah_stateChainGateway) (\<lambda>old.
     andthen (emit (StateChainGatewayUpdated old scg)) (\<lambda>_.
     modify (ah_stateChainGateway_update (\<lambda>_. scg))))))"

definition updateStakingAddresses :: "env \<Rightarrow> address \<Rightarrow> address \<Rightarrow> address \<Rightarrow> ah_action" where
  "updateStakingAddresses E minter burner st =
     ah_onlyGovernor E
    (andthen (reads id) (\<lambda>h.
     andthen (emit (StakingAddressesUpdated (ah_stMinter h) (ah_stBurner h) (ah_stFLIP h) minter burner st)) (\<lambda>_.
     modify (\<lambda>h. h\<lparr>ah_stMinter := minter, ah_stBurner := burner, ah_stFLIP := st\<rparr>))))"

definition transferGovernor :: "env \<Rightarrow> address \<Rightarrow> ah_action" where
  "transferGovernor E gov =
     ah_onlyGovernor E
    (require (\<lambda>_. gov \<noteq> ZERO_ADDR) (Revert ''Shared: address input is empty'')
    (andthen (reads ah_governor) (\<lambda>old.
     andthen (modify (ah_governor_update (\<lambda>_. gov))) (\<lambda>_.
     emit (GovernorTransferred old gov)))))"

definition getStateChainGateway :: "address_holder \<Rightarrow> address" where
  "getStateChainGateway h = ah_stateChainGateway h"

definition getStakingAddress :: "address_holder \<Rightarrow> address" where
  "getStakingAddress h = ah_stMinter h"

definition getUnstakingAddresses :: "address_holder \<Rightarrow> address \<times> address" where
  "getUnstakingAddresses h = (ah_stBurner h, ah_stFLIP h)"

definition getStFlip :: "address_holder \<Rightarrow> address" where
  "getStFlip h = ah_stFLIP h"

definition getGovernor :: "address_holder \<Rightarrow> address" where
  "getGovernor h = ah_governor h"

datatype ah_call =
    AhUpdateGateway address
  | AhUpdateStaking address address address
  | AhTransferGovernor address

fun ah_action :: "env \<Rightarrow> ah_call \<Rightarrow> ah_action" where
  "ah_action E (AhUpdateGateway a) = updateStateChainGateway E a"
| "ah_action E (AhUpdateStaking m b s) = updateStakingAddresses E m b s"
| "ah_action E (AhTransferGovernor a) = transferGovernor E a"

definition ah_exec :: "env \<times> ah_call \<Rightarrow> address_holder \<Rightarrow> (address_holder \<times> ah_event list) sol" where
  "ah_exec c = transaction (ah_action (fst c) (snd c))"

lemmas ah_defs = updateStateChainGateway_def updateStakingAddresses_def transferGovernor_def ah_onlyGovernor_def

lemma ah_action_Inr:
  "ah_action E c h = Inr (u, h', l) \<Longrightarrow> msg_sender E = ah_governor h \<and>
     (case c of
        AhUpdateGateway a \<Rightarrow> a \<noteq> 0 \<and> h' = h\<lparr>ah_stateChainGateway := a\<rparr>
      | AhUpdateStaking m b s \<Rightarrow> h' = h\<lparr>ah_stMinter := m, ah_stBurner := b, ah_stFLIP := s\<rparr>
      | AhTransferGovernor a \<Rightarrow> a \<noteq> 0 \<and> h' = h\<lparr>ah_governor := a\<rparr>)"
  by (cases c) (auto simp: ah_defs res_simps ZERO_ADDR_def)

interpretation ah: owned id ah_governor ah_exec
proof unfold_locales
  fix E c s s' evs
  assume "ah_exec (E, c) s = Inr (s', evs)" and "id s' \<noteq> id s"
  then show "msg_sender E = ah_governor (id s)"
    by (auto simp: ah_exec_def res_simps dest: ah_action_Inr)
qed

section \<open>Properties\<close>

text \<open>The registry changes only after a call of the governor it had, over every sequence of calls
  from any accounts.\<close>

theorem holder_changes_need_governor:
  assumes "run_calls ah_exec cs h \<noteq> h"
  shows "\<exists>c \<in> set cs. msg_sender (fst c) = ah_governor h"
  using ah.owner_acted [of cs h] assms by simp

text \<open>A deployed registry always names a governor and a gateway: neither is ever the zero address,
  whatever calls follow.\<close>

theorem holder_addresses_nonzero:
  assumes "ah_constructor gov scg minter burner st = Inr h"
  shows "getGovernor (run_calls ah_exec cs h) \<noteq> 0 \<and> getStateChainGateway (run_calls ah_exec cs h) \<noteq> 0"
proof -
  let ?I = "\<lambda>h. ah_governor h \<noteq> 0 \<and> ah_stateChainGateway h \<noteq> 0"
  have "?I (run_calls ah_exec cs h)"
  proof (rule run_calls_invariant [where I = ?I])
    fix c s s' evs
    assume I: "?I s" and "ah_exec c s = Inr (s', evs)"
    then obtain u where "ah_action (fst c) (snd c) s = Inr (u, s', evs)"
      by (auto simp: ah_exec_def res_simps)
    from ah_action_Inr [OF this] I show "?I s'"
      by (cases "snd c") simp_all
  next
    show "?I h"
      using assms by (auto simp: ah_constructor_def guard_defs res_simps)
  qed
  then show ?thesis
    by (simp add: getGovernor_def getStateChainGateway_def)
qed

section \<open>Witnesses\<close>

definition sample_holder :: address_holder where
  "sample_holder = \<lparr>ah_governor = 3, ah_stateChainGateway = 10, ah_stFLIP = 13, ah_stMinter = 11, ah_stBurner = 12\<rparr>"

lemma holder_changes_need_governor_witness:
  "run_calls ah_exec [((sender_env 3), AhTransferGovernor 5)] sample_holder = sample_holder\<lparr>ah_governor := 5\<rparr> \<and>
   msg_sender (sender_env 3) = ah_governor sample_holder"
proof -
  have r: "run_calls ah_exec [((sender_env 3), AhTransferGovernor 5)] sample_holder = sample_holder\<lparr>ah_governor := 5\<rparr>"
    by (simp add: ah_exec_def ah_defs action_defs sender_env_def sample_holder_def ZERO_ADDR_def)
  then have "run_calls ah_exec [((sender_env 3), AhTransferGovernor 5)] sample_holder \<noteq> sample_holder"
    by (simp add: sample_holder_def)
  from holder_changes_need_governor [OF this] r show ?thesis by simp
qed

lemma holder_addresses_nonzero_witness:
  "getGovernor (run_calls ah_exec [((sender_env 3), AhTransferGovernor 0)] sample_holder) \<noteq> 0"
proof -
  have "ah_constructor 3 10 11 12 13 = Inr sample_holder"
    by (simp add: ah_constructor_def guard_defs sample_holder_def)
  from holder_addresses_nonzero [OF this] show ?thesis by blast
qed

end
