(* ===== verification/System.thy ===== *)
theory System
  imports StateChainGateway ExternalCalls AddressHolder
begin

text \<open>
  The contracts of the protocol by address, for the contracts that use them: the world of
  \<open>NonceConsumer\<close> with KeyManagers and FLIP, the deployed gateways and address holders, and the
  rest of the chain (\<open>'w\<close>). A call to a gateway or to FLIP runs the model of that contract, a
  call to any other address goes through the parameter \<open>chain\<close>.
\<close>

section \<open>State and calls\<close>

record ('t, 'w) system =
  sys_world :: "'t world"
  sys_gateways :: "address \<Rightarrow> gateway option"
  sys_holders :: "address \<Rightarrow> address_holder option"
  sys_rest :: 'w

datatype 'e sys_log = Self 'e | OfGateway address "gw_event log" | OfWorld protocol_log

text \<open>A contract with storage \<open>'c\<close> in the system.\<close>

type_synonym ('c, 't, 'w, 'e, 'a) sys_action = "('c \<times> ('t, 'w) system, 'e sys_log, 'a) action"

type_synonym ('c, 't, 'w, 'e) sys_chain = "('c \<times> ('t, 'w) system, 'e sys_log) chain"

definition with_world :: "('t world, protocol_log, 'a) action \<Rightarrow> ('c, 't, 'w, 'e, 'a) sys_action" where
  "with_world m = (\<lambda>(c, S). rbind (m (sys_world S)) (\<lambda>(a, W, l).
     Inr (a, (c, S\<lparr>sys_world := W\<rparr>), map OfWorld l)))"

definition call_gateway :: "address \<Rightarrow> ('t, 'a) gw_action \<Rightarrow> ('c, 't, 'w, 'e, 'a) sys_action" where
  "call_gateway a m = (\<lambda>(c, S). case sys_gateways S a of
     None \<Rightarrow> Inl CallReverted
   | Some g \<Rightarrow> rbind (m (g, sys_world S)) (\<lambda>(x, (g', W), l).
       Inr (x, (c, S\<lparr>sys_gateways := (sys_gateways S)(a \<mapsto> g'), sys_world := W\<rparr>), map (OfGateway a) l)))"

definition view_gateway :: "address \<Rightarrow> (gateway \<Rightarrow> 'a) \<Rightarrow> ('c, 't, 'w, 'e, 'a) sys_action" where
  "view_gateway a f = (\<lambda>(c, S). case sys_gateways S a of
     None \<Rightarrow> Inl CallReverted | Some g \<Rightarrow> Inr (f g, (c, S), []))"

definition view_holder :: "address \<Rightarrow> (address_holder \<Rightarrow> 'a) \<Rightarrow> ('c, 't, 'w, 'e, 'a) sys_action" where
  "view_holder a f = (\<lambda>(c, S). case sys_holders S a of
     None \<Rightarrow> Inl CallReverted | Some h \<Rightarrow> Inr (f h, (c, S), []))"

definition storage :: "('c \<Rightarrow> 'a) \<Rightarrow> ('c, 't, 'w, 'e, 'a) sys_action" where
  "storage f = reads (\<lambda>(c, S). f c)"

definition store :: "('c \<Rightarrow> 'c) \<Rightarrow> ('c, 't, 'w, 'e, unit) sys_action" where
  "store f = modify (\<lambda>(c, S). (f c, S))"

section \<open>Tokens\<close>

text \<open>SafeERC20 and ERC20 calls of the contract \<open>this\<close> on a token: FLIP's own functions when the
  token is FLIP.\<close>

definition is_flip :: "address \<Rightarrow> 'c \<times> ('t, 'w) system \<Rightarrow> bool" where
  "is_flip tok s \<longleftrightarrow> flips (sys_world (snd s)) tok \<noteq> None"

definition on_token ::
  "address \<Rightarrow> ('t flip \<Rightarrow> 't flip_result) \<Rightarrow> ('c, 't, 'w, 'e, unit) sys_action \<Rightarrow> ('c, 't, 'w, 'e, unit) sys_action" where
  "on_token tok f other = (\<lambda>s. if is_flip tok s then with_world (call_flip tok f) s else other s)"

definition token_safeTransferFrom ::
  "'t erc20 \<Rightarrow> ('c, 't, 'w, 'e) sys_chain \<Rightarrow> env \<Rightarrow> address \<Rightarrow> address \<Rightarrow> address \<Rightarrow> address \<Rightarrow> uint256 \<Rightarrow>
   ('c, 't, 'w, 'e, unit) sys_action" where
  "token_safeTransferFrom T X E this tok from to amount =
     on_token tok (flip_transferFrom T (call_env E this) from to amount) (safe_transferFrom X tok this from to amount)"

definition token_safeTransfer ::
  "'t erc20 \<Rightarrow> ('c, 't, 'w, 'e) sys_chain \<Rightarrow> env \<Rightarrow> address \<Rightarrow> address \<Rightarrow> address \<Rightarrow> uint256 \<Rightarrow>
   ('c, 't, 'w, 'e, unit) sys_action" where
  "token_safeTransfer T X E this tok to amount =
     on_token tok (flip_transfer T (call_env E this) to amount) (safe_transfer X tok this to amount)"

text \<open>\<open>IERC20(tok).transfer(to, amount)\<close> as a statement: the answer must be a boolean.\<close>

definition token_transfer ::
  "evm \<Rightarrow> 't erc20 \<Rightarrow> ('c, 't, 'w, 'e) sys_chain \<Rightarrow> env \<Rightarrow> address \<Rightarrow> address \<Rightarrow> address \<Rightarrow> uint256 \<Rightarrow>
   ('c, 't, 'w, 'e, unit) sys_action" where
  "token_transfer V T X E this tok to amount =
     on_token tok (flip_transfer T (call_env E this) to amount)
      (andthen (high_call X this tok 0 (encodeWithSelector V ''transfer(address,uint256)'' [SAddress to, SUint amount])) (\<lambda>d.
       andthen (decoded (decode_bool d)) (\<lambda>_. ret ())))"

definition token_approve ::
  "evm \<Rightarrow> 't erc20 \<Rightarrow> ('c, 't, 'w, 'e) sys_chain \<Rightarrow> env \<Rightarrow> address \<Rightarrow> address \<Rightarrow> address \<Rightarrow> uint256 \<Rightarrow>
   ('c, 't, 'w, 'e, bool) sys_action" where
  "token_approve V T X E this tok spender amount = (\<lambda>s.
     if is_flip tok s
     then andthen (with_world (call_flip tok (flip_approve T (call_env E this) spender amount))) (\<lambda>_. ret True) s
     else approve_call V X this tok spender amount s)"

definition token_balance_of ::
  "'t erc20 \<Rightarrow> ('c, 't, 'w, 'e) sys_chain \<Rightarrow> address \<Rightarrow> address \<Rightarrow> ('c, 't, 'w, 'e, uint256) sys_action" where
  "token_balance_of T X tok a = (\<lambda>s.
     if is_flip tok s then with_world (view_flip tok (\<lambda>F. flip_balanceOf T F a)) s
     else token_balance X tok a s)"

section \<open>Evaluation\<close>

lemma with_world_Inr [res_simps]:
  "with_world m (c, S) = Inr (a, s', l) \<longleftrightarrow>
     (\<exists>W l'. m (sys_world S) = Inr (a, W, l') \<and> s' = (c, S\<lparr>sys_world := W\<rparr>) \<and> l = map OfWorld l')"
  by (auto simp: with_world_def rbind_eq_Inr)

lemma call_gateway_Inr [res_simps]:
  "call_gateway a m (c, S) = Inr (x, s', l) \<longleftrightarrow>
     (\<exists>g g' W l'. sys_gateways S a = Some g \<and> m (g, sys_world S) = Inr (x, (g', W), l') \<and>
        s' = (c, S\<lparr>sys_gateways := (sys_gateways S)(a \<mapsto> g'), sys_world := W\<rparr>) \<and> l = map (OfGateway a) l')"
  by (auto simp: call_gateway_def rbind_eq_Inr split: option.splits)

lemma view_gateway_Inr [res_simps]:
  "view_gateway a f (c, S) = Inr (x, s', l) \<longleftrightarrow>
     (\<exists>g. sys_gateways S a = Some g \<and> x = f g \<and> s' = (c, S) \<and> l = [])"
  by (auto simp: view_gateway_def split: option.splits)

lemma view_holder_Inr [res_simps]:
  "view_holder a f (c, S) = Inr (x, s', l) \<longleftrightarrow>
     (\<exists>h. sys_holders S a = Some h \<and> x = f h \<and> s' = (c, S) \<and> l = [])"
  by (auto simp: view_holder_def split: option.splits)

lemma storage_Inr [res_simps]:
  "storage f (c, S) = Inr (x, s', l) \<longleftrightarrow> x = f c \<and> s' = (c, S) \<and> l = []"
  "store g (c, S) = Inr (u, s', l) \<longleftrightarrow> s' = (g c, S) \<and> l = []"
  by (auto simp: storage_def store_def reads_def modify_def)

lemmas system_eval = with_world_def call_gateway_def view_gateway_def view_holder_def storage_def store_def
  on_token_def is_flip_def token_safeTransferFrom_def token_safeTransfer_def token_transfer_def token_approve_def token_balance_of_def

text \<open>What a successful FLIP operation of the protocol does to the balances.\<close>

definition flip_moved :: "'t erc20 \<Rightarrow> address \<Rightarrow> address \<Rightarrow> address \<Rightarrow> uint256 \<Rightarrow> 't world \<Rightarrow> 't world \<Rightarrow> bool" where
  "flip_moved T tok from to n W W' \<longleftrightarrow> (\<exists>F F'. flips W tok = Some F \<and> flips W' tok = Some F' \<and>
     flip_totalSupply T F' = flip_totalSupply T F \<and> issuer F' = issuer F \<and>
     moved (flip_balanceOf T F) from to n (flip_balanceOf T F') \<and> key_managers W' = key_managers W)"

lemma call_flip_transferFrom_moves:
  assumes "erc20_spec T" and "call_flip tok (flip_transferFrom T E from to n) W = Inr (u, W', l)"
  shows "flip_moved T tok from to n W W' \<and> l = []"
proof -
  obtain F t where F: "flips W tok = Some F" and t: "erc20_transferFrom T (msg_sender E) from to n (token F) = Inr t"
    and W': "W' = W\<lparr>flips := (flips W)(tok \<mapsto> F\<lparr>token := t\<rparr>)\<rparr>" "l = []"
    using assms(2) by (auto simp: call_flip_Inr flip_transferFrom_def with_token_def rbind_eq_Inr)
  then show ?thesis
    using erc20_transferFromD [OF assms(1) t]
    by (simp add: flip_moved_def flip_balanceOf_fun flip_totalSupply_def)
qed

lemma call_flip_transfer_moves:
  assumes "erc20_spec T" and "call_flip tok (flip_transfer T E to n) W = Inr (u, W', l)"
  shows "flip_moved T tok (msg_sender E) to n W W' \<and> l = []"
proof -
  obtain F t where F: "flips W tok = Some F" and t: "erc20_transfer T (msg_sender E) to n (token F) = Inr t"
    and W': "W' = W\<lparr>flips := (flips W)(tok \<mapsto> F\<lparr>token := t\<rparr>)\<rparr>" "l = []"
    using assms(2) by (auto simp: call_flip_Inr flip_transfer_def with_token_def rbind_eq_Inr)
  then show ?thesis
    using erc20_transferD [OF assms(1) t]
    by (simp add: flip_moved_def flip_balanceOf_fun flip_totalSupply_def)
qed

lemma on_flip: "flips (sys_world S) tok = Some F \<Longrightarrow> on_token tok f other (c, S) = with_world (call_flip tok f) (c, S)"
  by (simp add: on_token_def is_flip_def)

lemma token_approve_flip:
  assumes "erc20_spec T" and "flips (sys_world S) tok = Some F"
    and "token_approve V T X E this tok spender amount (c, S) = Inr (ok, s', l)"
  shows "ok \<and> l = [] \<and> (\<exists>t. s' = (c, S\<lparr>sys_world := (sys_world S)\<lparr>flips := (flips (sys_world S))(tok \<mapsto> F\<lparr>token := t\<rparr>)\<rparr>\<rparr>) \<and>
    erc20_totalSupply T t = erc20_totalSupply T (token F) \<and> erc20_balanceOf T t = erc20_balanceOf T (token F))"
proof -
  obtain t where "erc20_approve T (msg_sender (call_env E this)) spender amount (token F) = Inr t" "ok" "l = []"
      "s' = (c, S\<lparr>sys_world := (sys_world S)\<lparr>flips := (flips (sys_world S))(tok \<mapsto> F\<lparr>token := t\<rparr>)\<rparr>\<rparr>)"
    using assms(2,3)
    by (auto simp: token_approve_def is_flip_def andthen_Inr action_Inr with_world_Inr call_flip_Inr flip_approve_def
        with_token_def rbind_eq_Inr)
  then show ?thesis
    using erc20_approveD [OF assms(1)] by blast
qed

text \<open>The two calls by which a contract funds a State Chain account from its own FLIP.\<close>

lemma approved_funding:
  assumes "erc20_spec T" and "sys_gateways S G = Some g" and "flips (sys_world S) (FLIP g) = Some F"
    and ap: "token_approve V T X E this (FLIP g) G amount (c, S) = Inr (ok, s1, l1)"
    and gw: "call_gateway G (fundStateChainAccount T G (call_env E this) n amount) s1 = Inr (x, s', l2)"
  shows "ok \<and> l1 = [] \<and> n \<noteq> 0 \<and> minFunding g \<le> amount \<and> OfGateway G (Own (Funded n amount this)) \<in> set l2 \<and>
    flip_moved T (FLIP g) this G amount (sys_world S) (sys_world (snd s')) \<and>
    sys_gateways (snd s') = sys_gateways S \<and> sys_holders (snd s') = sys_holders S \<and> fst s' = c"
proof -
  let ?W = "sys_world S"
  obtain t where ok: "ok" "l1 = []"
    and s1: "s1 = (c, S\<lparr>sys_world := ?W\<lparr>flips := (flips ?W)(FLIP g \<mapsto> F\<lparr>token := t\<rparr>)\<rparr>\<rparr>)"
    and t: "erc20_totalSupply T t = erc20_totalSupply T (token F)" "erc20_balanceOf T t = erc20_balanceOf T (token F)"
    using token_approve_flip [OF assms(1,3) ap] by blast
  let ?S1 = "S\<lparr>sys_world := ?W\<lparr>flips := (flips ?W)(FLIP g \<mapsto> F\<lparr>token := t\<rparr>)\<rparr>\<rparr>"
  have gw1: "call_gateway G (fundStateChainAccount T G (call_env E this) n amount) (c, ?S1) = Inr (x, s', l2)"
    using gw s1 by simp
  obtain g' W' l' where fund: "fundStateChainAccount T G (call_env E this) n amount
        (g, ?W\<lparr>flips := (flips ?W)(FLIP g \<mapsto> F\<lparr>token := t\<rparr>)\<rparr>) = Inr (x, (g', W'), l')"
    and s': "s' = (c, ?S1\<lparr>sys_gateways := (sys_gateways S)(G \<mapsto> g'), sys_world := W'\<rparr>)" "l2 = map (OfGateway G) l'"
    using gw1 [unfolded call_gateway_Inr] assms(2) by auto
  have env: "msg_sender (call_env E this) = this"
    by (simp add: call_env_def)
  obtain F' evs where f: "n \<noteq> 0" "minFunding g \<le> amount" "g' = g"
    and tr: "flip_transferFrom T (call_env (call_env E this) G) this G amount (F\<lparr>token := t\<rparr>) = Inr (F', evs)"
    and W': "flips W' = (flips ?W)(FLIP g \<mapsto> F')" "key_managers W' = key_managers ?W"
    and ev: "Own (Funded n amount this) \<in> set l'"
    using fund [unfolded fund_Inr env] by auto
  obtain t' where t': "erc20_transferFrom T (msg_sender (call_env (call_env E this) G)) this G amount t = Inr t'"
    and F': "F' = F\<lparr>token := t'\<rparr>"
    using tr by (auto simp: flip_transferFrom_def with_token_def rbind_eq_Inr)
  have "flip_moved T (FLIP g) this G amount ?W W'"
    using erc20_transferFromD [OF assms(1) t'] t assms(3) W'
    by (simp add: flip_moved_def F' flip_balanceOf_fun flip_totalSupply_def)
  moreover have "(sys_gateways S)(G \<mapsto> g') = sys_gateways S"
    using assms(2) f(3) by auto
  ultimately show ?thesis
    using ok f s' ev by simp
qed

end
