(* ===== verification/Vault.thy ===== *)
theory Vault
  imports NonceConsumer ExternalCalls
begin

text \<open>
  \<open>Vault.sol\<close> and \<open>Deposit.sol\<close>: signed transfers, fetches and calls, the swaps users
  start, and the emergency withdrawal. Everything a call may reach is the record \<open>chain\<close>: a
  low-level call returns success and data and may change any state, the Vault's own storage and
  the KeyManager included, so re-entrance is not ruled out.
\<close>

section \<open>State, events and the chain\<close>

record vault =
  v_keyManager :: address
  v_guard :: guard

datatype vault_event =
    FetchedNative address uint256
  | TransferNativeFailed address uint256
  | TransferTokenFailed address uint256 address bytes
  | SwapNative "32 word" bytes "32 word" uint256 address bytes
  | SwapToken "32 word" bytes "32 word" address uint256 address bytes
  | XCallNative "32 word" bytes "32 word" uint256 address bytes uint256 bytes
  | XCallToken "32 word" bytes "32 word" address uint256 address bytes uint256 bytes
  | AddGasNative bytes32 uint256
  | AddGasToken bytes32 uint256 address
  | ExecuteActionsFailed address uint256 address bytes
  | VaultUpdatedKeyManager address

type_synonym ('t, 'w) v_state = "(vault \<times> 'w) \<times> 't world"

type_synonym ('t, 'w, 'a) v_action = "(('t, 'w) v_state, vault_event log, 'a) action"

text \<open>The Vault's view of the chain: besides the calls, \<open>create2\<close> gives the address of a new
  contract for a salt and a constructor argument, or none if it is taken, and
  \<open>deposit_vault\<close> the Vault that a deployed Deposit contract serves.\<close>

record ('t, 'w) v_chain = "(('t, 'w) v_state, vault_event log) chain" +
  create2 :: "address \<Rightarrow> bytes32 \<Rightarrow> address \<Rightarrow> ('t, 'w) v_state \<Rightarrow> (address \<times> ('t, 'w) v_state) option"
  deposit_vault :: "address \<Rightarrow> ('t, 'w) v_state \<Rightarrow> address option"

definition AGG_KEY_EMERGENCY_TIMEOUT :: uint256 where
  "AGG_KEY_EMERGENCY_TIMEOUT = 3 * 24 * 60 * 60"

definition GAS_TO_FORWARD :: uint256 where
  "GAS_TO_FORWARD = 8000"

definition FINALIZE_GAS_BUFFER :: uint256 where
  "FINALIZE_GAS_BUFFER = 30000"

definition vault_constructor :: "address \<Rightarrow> vault sol" where
  "vault_constructor keyManager = nzAddr keyManager (Inr \<lparr>v_keyManager = keyManager, v_guard = initial_guard\<rparr>)"

abbreviation vault_of :: "('t, 'w) v_state \<Rightarrow> vault" where
  "vault_of s \<equiv> fst (fst s)"

abbreviation v_guard_of :: "('t, 'w) v_state \<Rightarrow> guard" where
  "v_guard_of s \<equiv> v_guard (vault_of s)"

section \<open>Deposit contracts\<close>

text \<open>\<open>IERC20Lite(token).transfer(vault, IERC20Lite(token).balanceOf(self))\<close>\<close>

definition deposit_sweep :: "evm \<Rightarrow> ('t, 'w) v_chain \<Rightarrow> address \<Rightarrow> address \<Rightarrow> address \<Rightarrow> ('t, 'w, unit) v_action" where
  "deposit_sweep V X self to tok =
     andthen (token_balance X tok self) (\<lambda>bal.
     andthen (high_call X self tok 0 (encodeWithSelector V ''transfer(address,uint256)'' [SAddress to, SUint bal])) (\<lambda>_.
     ret ()))"

definition deposit_constructor :: "evm \<Rightarrow> ('t, 'w) v_chain \<Rightarrow> address \<Rightarrow> address \<Rightarrow> address \<Rightarrow> ('t, 'w, unit) v_action" where
  "deposit_constructor V X self sender tok =
     (if tok = NATIVE_ADDR then
        andthen (reads (native_balance X self)) (\<lambda>bal.
        andthen (call X self sender bal None []) (\<lambda>(success, _).
        require (\<lambda>_. success) RevertEmpty (ret ())))
      else deposit_sweep V X self sender tok)"

definition deposit_fetch :: "evm \<Rightarrow> ('t, 'w) v_chain \<Rightarrow> address \<Rightarrow> address \<Rightarrow> address \<Rightarrow> address \<Rightarrow> ('t, 'w, unit) v_action" where
  "deposit_fetch V X self vaultAddr sender tok =
     require (\<lambda>_. sender = vaultAddr) RevertEmpty (deposit_sweep V X self sender tok)"

definition deposit_receive :: "('t, 'w) v_chain \<Rightarrow> address \<Rightarrow> address \<Rightarrow> ('t, 'w, unit) v_action" where
  "deposit_receive X self vaultAddr =
     andthen (reads (native_balance X self)) (\<lambda>bal.
     andthen (call X self vaultAddr bal None []) (\<lambda>(success, _).
     require (\<lambda>_. success) RevertEmpty (ret ())))"

section \<open>Transfers and fetches\<close>

definition transfer_one :: "evm \<Rightarrow> ('t, 'w) v_chain \<Rightarrow> address \<Rightarrow> TransferParams \<Rightarrow> ('t, 'w, unit) v_action" where
  "transfer_one V X this p =
     (if tp_token p = NATIVE_ADDR then
        andthen (call X this (tp_recipient p) (tp_amount p) (Some GAS_TO_FORWARD) []) (\<lambda>(success, _).
        if \<not> success then emit (Own (TransferNativeFailed (tp_recipient p) (tp_amount p))) else ret ())
      else
        andthen (call X this (tp_token p) 0 None
          (encodeWithSelector V ''transfer(address,uint256)'' [SAddress (tp_recipient p), SUint (tp_amount p)])) (\<lambda>(success, returndata).
        andthen (if success then (if returndata = [] then ret True else decoded (decode_bool returndata))
                 else ret False) (\<lambda>transferred.
        if \<not> transferred
        then emit (Own (TransferTokenFailed (tp_recipient p) (tp_amount p) (tp_token p) returndata))
        else ret ())))"

definition transferBatch_internal :: "evm \<Rightarrow> ('t, 'w) v_chain \<Rightarrow> address \<Rightarrow> TransferParams list \<Rightarrow> ('t, 'w, unit) v_action" where
  "transferBatch_internal V X this ps = each (transfer_one V X this) ps"

definition deploy_fetch :: "evm \<Rightarrow> ('t, 'w) v_chain \<Rightarrow> address \<Rightarrow> DeployFetchParams \<Rightarrow> ('t, 'w, unit) v_action" where
  "deploy_fetch V X this p = (\<lambda>s. case create2 X this (df_swapID p) (df_token p) s of
     None \<Rightarrow> Inl RevertEmpty
   | Some (self, s') \<Rightarrow> deposit_constructor V X self this (df_token p) s')"

definition deployAndFetchBatch_internal ::
  "evm \<Rightarrow> ('t, 'w) v_chain \<Rightarrow> address \<Rightarrow> DeployFetchParams list \<Rightarrow> ('t, 'w, unit) v_action" where
  "deployAndFetchBatch_internal V X this ps = each (deploy_fetch V X this) ps"

text \<open>\<open>Deposit(a).fetch(token)\<close>: the Deposit's code if one is deployed there, else a call of
  whatever is.\<close>

definition fetch_one :: "evm \<Rightarrow> ('t, 'w) v_chain \<Rightarrow> address \<Rightarrow> FetchParams \<Rightarrow> ('t, 'w, unit) v_action" where
  "fetch_one V X this p = (\<lambda>s. case deposit_vault X (fp_fetchContract p) s of
     Some v \<Rightarrow> deposit_fetch V X (fp_fetchContract p) v this (fp_token p) s
   | None \<Rightarrow> andthen (high_call X this (fp_fetchContract p) 0
       (encodeWithSelector V ''fetch(address)'' [SAddress (fp_token p)])) (\<lambda>_. ret ()) s)"

definition fetchBatch_internal :: "evm \<Rightarrow> ('t, 'w) v_chain \<Rightarrow> address \<Rightarrow> FetchParams list \<Rightarrow> ('t, 'w, unit) v_action" where
  "fetchBatch_internal V X this ps = each (fetch_one V X this) ps"

section \<open>Signed calls\<close>

datatype CallType = Default | FullTokenBalance | FullNativeBalance | CollectTokenBalance

record Call =
  callType :: CallType
  call_target :: address
  call_value :: uint256
  call_callData :: bytes
  call_payload :: bytes

text \<open>The signed functions with their parameters besides \<open>sigData\<close>: those of
  \<open>Vault.sol\<close> and \<open>updateKeyManager\<close>, inherited from \<open>AggKeyNonceConsumer\<close>.\<close>

datatype signed_call =
    AllBatch "DeployFetchParams list" "FetchParams list" "TransferParams list"
  | AllBatchV2 "FetchParams list" "TransferParams list"
  | Transfer TransferParams
  | TransferFallback TransferParams
  | TransferBatch "TransferParams list"
  | DeployAndFetchBatch "DeployFetchParams list"
  | FetchBatch "FetchParams list"
  | ExecutexSwapAndCall TransferParams "32 word" bytes bytes
  | ExecutexCall address "32 word" bytes bytes
  | ExecuteActions TransferParams "Call list" uint256
  | UpdateKeyManager address bool

definition STransfer :: "TransferParams \<Rightarrow> sol_value" where
  "STransfer p = STuple [SAddress (tp_token p), SAddress (tp_recipient p), SUint (tp_amount p)]"

definition SDeployFetch :: "DeployFetchParams \<Rightarrow> sol_value" where
  "SDeployFetch p = STuple [SUint (df_swapID p), SAddress (df_token p)]"

definition SFetch :: "FetchParams \<Rightarrow> sol_value" where
  "SFetch p = STuple [SAddress (fp_fetchContract p), SAddress (fp_token p)]"

fun call_type_number :: "CallType \<Rightarrow> uint256" where
  "call_type_number Default = 0"
| "call_type_number FullTokenBalance = 1"
| "call_type_number FullNativeBalance = 2"
| "call_type_number CollectTokenBalance = 3"

definition SCall :: "Call \<Rightarrow> sol_value" where
  "SCall c = STuple [SUint (call_type_number (callType c)), SAddress (call_target c), SUint (call_value c),
     SBytes (call_callData c), SBytes (call_payload c)]"

fun signature :: "signed_call \<Rightarrow> string" where
  "signature (AllBatch ds fs ts) = ''allBatch((uint256,uint256,address),(bytes32,address)[],(address,address)[],(address,address,uint256)[])''"
| "signature (AllBatchV2 fs ts) = ''allBatchV2((uint256,uint256,address),(address,address)[],(address,address,uint256)[])''"
| "signature (Transfer p) = ''transfer((uint256,uint256,address),(address,address,uint256))''"
| "signature (TransferFallback p) = ''transferFallback((uint256,uint256,address),(address,address,uint256))''"
| "signature (TransferBatch ts) = ''transferBatch((uint256,uint256,address),(address,address,uint256)[])''"
| "signature (DeployAndFetchBatch ds) = ''deployAndFetchBatch((uint256,uint256,address),(bytes32,address)[])''"
| "signature (FetchBatch fs) = ''fetchBatch((uint256,uint256,address),(address,address)[])''"
| "signature (ExecutexSwapAndCall p c a m) = ''executexSwapAndCall((uint256,uint256,address),(address,address,uint256),uint32,bytes,bytes)''"
| "signature (ExecutexCall r c a m) = ''executexCall((uint256,uint256,address),address,uint32,bytes,bytes)''"
| "signature (ExecuteActions p cs g) = ''executeActions((uint256,uint256,address),(address,address,uint256),(uint8,address,uint256,bytes,bytes)[],uint256)''"
| "signature (UpdateKeyManager a om) = ''updateKeyManager((uint256,uint256,address),address,bool)''"

text \<open>The parameters as \<open>abi.encode\<close> receives them after the selector.\<close>

fun parameters :: "signed_call \<Rightarrow> sol_value list" where
  "parameters (AllBatch ds fs ts) = [SArray (map SDeployFetch ds), SArray (map SFetch fs), SArray (map STransfer ts)]"
| "parameters (AllBatchV2 fs ts) = [SArray (map SFetch fs), SArray (map STransfer ts)]"
| "parameters (Transfer p) = [STransfer p]"
| "parameters (TransferFallback p) = [STransfer p]"
| "parameters (TransferBatch ts) = [SArray (map STransfer ts)]"
| "parameters (DeployAndFetchBatch ds) = [SArray (map SDeployFetch ds)]"
| "parameters (FetchBatch fs) = [SArray (map SFetch fs)]"
| "parameters (ExecutexSwapAndCall p c a m) = [STransfer p, SUint c, SBytes a, SBytes m]"
| "parameters (ExecutexCall r c a m) = [SAddress r, SUint c, SBytes a, SBytes m]"
| "parameters (ExecuteActions p cs g) = [STransfer p, SArray (map SCall cs), SUint g]"
| "parameters (UpdateKeyManager a om) = [SAddress a, SBool om]"

definition call_values :: "evm \<Rightarrow> signed_call \<Rightarrow> sol_value list" where
  "call_values V c = SSelector (selector V (signature c)) # parameters c"

definition contractMsgHash :: "evm \<Rightarrow> signed_call \<Rightarrow> bytes32" where
  "contractMsgHash V c = keccak256 V (abi_encode (call_values V c))"

text \<open>The modifier \<open>consumesKeyNonce(sigData, keccak256(abi.encode(...)))\<close> of a signed function.\<close>

definition consumes ::
  "evm \<Rightarrow> address \<Rightarrow> env \<Rightarrow> SigData \<Rightarrow> signed_call \<Rightarrow> ('t, 'w, 'a) v_action \<Rightarrow> ('t, 'w, 'a) v_action" where
  "consumes V this E sigData c = consumesKeyNonce V this E (\<lambda>vw. v_keyManager (fst vw)) sigData (contractMsgHash V c)"

definition nz_address :: "address \<Rightarrow> ('s, 'e, 'a) action \<Rightarrow> ('s, 'e, 'a) action" where
  "nz_address a = require (\<lambda>_. a \<noteq> ZERO_ADDR) (Revert ''Shared: address input is empty'')"

definition nz_uint :: "uint256 \<Rightarrow> ('s, 'e, 'a) action \<Rightarrow> ('s, 'e, 'a) action" where
  "nz_uint u = require (\<lambda>_. u \<noteq> 0) (Revert ''Shared: uint input is empty'')"

definition allBatch ::
  "evm \<Rightarrow> ('t, 'w) v_chain \<Rightarrow> address \<Rightarrow> env \<Rightarrow> SigData \<Rightarrow> DeployFetchParams list \<Rightarrow> FetchParams list \<Rightarrow>
   TransferParams list \<Rightarrow> ('t, 'w, unit) v_action" where
  "allBatch V X this E sigData ds fs ts =
     onlyNotSuspended v_guard_of (consumes V this E sigData (AllBatch ds fs ts)
    (andthen (deployAndFetchBatch_internal V X this ds) (\<lambda>_.
     andthen (fetchBatch_internal V X this fs) (\<lambda>_.
     transferBatch_internal V X this ts))))"

definition allBatchV2 ::
  "evm \<Rightarrow> ('t, 'w) v_chain \<Rightarrow> address \<Rightarrow> env \<Rightarrow> SigData \<Rightarrow> FetchParams list \<Rightarrow> TransferParams list \<Rightarrow>
   ('t, 'w, unit) v_action" where
  "allBatchV2 V X this E sigData fs ts =
     onlyNotSuspended v_guard_of (consumes V this E sigData (AllBatchV2 fs ts)
    (andthen (fetchBatch_internal V X this fs) (\<lambda>_.
     transferBatch_internal V X this ts)))"

definition transfer ::
  "evm \<Rightarrow> ('t, 'w) v_chain \<Rightarrow> address \<Rightarrow> env \<Rightarrow> SigData \<Rightarrow> TransferParams \<Rightarrow> ('t, 'w, unit) v_action" where
  "transfer V X this E sigData p =
     onlyNotSuspended v_guard_of (nz_address (tp_token p) (nz_address (tp_recipient p) (nz_uint (tp_amount p)
    (consumes V this E sigData (Transfer p) (transfer_one V X this p)))))"

definition transferFallback ::
  "evm \<Rightarrow> ('t, 'w) v_chain \<Rightarrow> address \<Rightarrow> env \<Rightarrow> SigData \<Rightarrow> TransferParams \<Rightarrow> ('t, 'w, unit) v_action" where
  "transferFallback V X this E sigData p =
     onlyNotSuspended v_guard_of (nz_address (tp_token p) (nz_address (tp_recipient p) (nz_uint (tp_amount p)
    (consumes V this E sigData (TransferFallback p)
    (if tp_token p = NATIVE_ADDR then
       andthen (call X this (tp_recipient p) (tp_amount p) None []) (\<lambda>(success, _).
       require (\<lambda>_. success) (Revert ''Vault: transfer fallback failed'') (ret ()))
     else safe_transfer X (tp_token p) this (tp_recipient p) (tp_amount p))))))"

definition transferBatch ::
  "evm \<Rightarrow> ('t, 'w) v_chain \<Rightarrow> address \<Rightarrow> env \<Rightarrow> SigData \<Rightarrow> TransferParams list \<Rightarrow> ('t, 'w, unit) v_action" where
  "transferBatch V X this E sigData ts =
     onlyNotSuspended v_guard_of (consumes V this E sigData (TransferBatch ts) (transferBatch_internal V X this ts))"

definition deployAndFetchBatch ::
  "evm \<Rightarrow> ('t, 'w) v_chain \<Rightarrow> address \<Rightarrow> env \<Rightarrow> SigData \<Rightarrow> DeployFetchParams list \<Rightarrow> ('t, 'w, unit) v_action" where
  "deployAndFetchBatch V X this E sigData ds =
     onlyNotSuspended v_guard_of (consumes V this E sigData (DeployAndFetchBatch ds) (deployAndFetchBatch_internal V X this ds))"

definition fetchBatch ::
  "evm \<Rightarrow> ('t, 'w) v_chain \<Rightarrow> address \<Rightarrow> env \<Rightarrow> SigData \<Rightarrow> FetchParams list \<Rightarrow> ('t, 'w, unit) v_action" where
  "fetchBatch V X this E sigData fs =
     onlyNotSuspended v_guard_of (consumes V this E sigData (FetchBatch fs) (fetchBatch_internal V X this fs))"

definition executexSwapAndCall_internal ::
  "evm \<Rightarrow> ('t, 'w) v_chain \<Rightarrow> address \<Rightarrow> TransferParams \<Rightarrow> 32 word \<Rightarrow> bytes \<Rightarrow> bytes \<Rightarrow> ('t, 'w, unit) v_action" where
  "executexSwapAndCall_internal V X this p srcChain srcAddress message =
     andthen (if tp_amount p > 0 then
                if tp_token p = NATIVE_ADDR then ret (tp_amount p)
                else andthen (safe_transfer X (tp_token p) this (tp_recipient p) (tp_amount p)) (\<lambda>_. ret 0)
              else ret 0) (\<lambda>nativeAmount.
     andthen (high_call X this (tp_recipient p) nativeAmount
       (encodeWithSelector V ''cfReceive(uint32,bytes,bytes,address,uint256)''
          [SUint srcChain, SBytes srcAddress, SBytes message, SAddress (tp_token p), SUint (tp_amount p)])) (\<lambda>_.
     ret ()))"

definition executexSwapAndCall ::
  "evm \<Rightarrow> ('t, 'w) v_chain \<Rightarrow> address \<Rightarrow> env \<Rightarrow> SigData \<Rightarrow> TransferParams \<Rightarrow> 32 word \<Rightarrow> bytes \<Rightarrow> bytes \<Rightarrow>
   ('t, 'w, unit) v_action" where
  "executexSwapAndCall V X this E sigData p srcChain srcAddress message =
     onlyNotSuspended v_guard_of (nz_address (tp_token p) (nz_address (tp_recipient p)
    (consumes V this E sigData (ExecutexSwapAndCall p srcChain srcAddress message)
    (executexSwapAndCall_internal V X this p srcChain srcAddress message))))"

definition executexCall ::
  "evm \<Rightarrow> ('t, 'w) v_chain \<Rightarrow> address \<Rightarrow> env \<Rightarrow> SigData \<Rightarrow> address \<Rightarrow> 32 word \<Rightarrow> bytes \<Rightarrow> bytes \<Rightarrow>
   ('t, 'w, unit) v_action" where
  "executexCall V X this E sigData recipient srcChain srcAddress message =
     onlyNotSuspended v_guard_of (nz_address recipient
    (consumes V this E sigData (ExecutexCall recipient srcChain srcAddress message)
    (andthen (high_call X this recipient 0
       (encodeWithSelector V ''cfReceivexCall(uint32,bytes,bytes)''
          [SUint srcChain, SBytes srcAddress, SBytes message])) (\<lambda>_. ret ()))))"

text \<open>The gas guard: \<open>((gasMulticall + _FINALIZE_GAS_BUFFER) * 64) / 63\<close>.\<close>

definition required_gas :: "uint256 \<Rightarrow> uint256 sol" where
  "required_gas gasMulticall =
     rbind (checked_add gasMulticall FINALIZE_GAS_BUFFER) (\<lambda>g. rbind (checked_mul g 64) (\<lambda>g. checked_div g 63))"

definition executeActions_internal ::
  "evm \<Rightarrow> ('t, 'w) v_chain \<Rightarrow> address \<Rightarrow> TransferParams \<Rightarrow> Call list \<Rightarrow> uint256 \<Rightarrow> ('t, 'w, unit) v_action" where
  "executeActions_internal V X this p calls gasMulticall =
     andthen (if tp_amount p > 0 then
                if tp_token p = NATIVE_ADDR then ret (tp_amount p)
                else andthen (approve V X this (tp_token p) (tp_recipient p) (tp_amount p)) (\<lambda>_. ret 0)
              else ret 0) (\<lambda>valueToSend.
     andthen (checked (required_gas gasMulticall)) (\<lambda>needed.
     require (\<lambda>s. gas_left X s \<ge> needed) (Revert ''Vault: insufficient gas'')
    (andthen (reads (gas_left X)) (\<lambda>gas.
     andthen (checked (checked_sub gas FINALIZE_GAS_BUFFER)) (\<lambda>forwarded.
     andthen (call X this (tp_recipient p) valueToSend (Some forwarded)
       (encodeWithSelector V ''run((uint8,address,uint256,bytes,bytes)[],address,uint256)''
          [SArray (map SCall calls), SAddress (tp_token p), SUint (tp_amount p)])) (\<lambda>(success, reason).
     if \<not> success then
       andthen (if tp_amount p > 0 \<and> tp_token p \<noteq> NATIVE_ADDR
                then approve V X this (tp_token p) (tp_recipient p) 0 else ret ()) (\<lambda>_.
       emit (Own (ExecuteActionsFailed (tp_recipient p) (tp_amount p) (tp_token p) reason)))
     else require (\<lambda>s. code_size X (tp_recipient p) s > 0) RevertEmpty (ret ())))))))"

definition executeActions ::
  "evm \<Rightarrow> ('t, 'w) v_chain \<Rightarrow> address \<Rightarrow> env \<Rightarrow> SigData \<Rightarrow> TransferParams \<Rightarrow> Call list \<Rightarrow> uint256 \<Rightarrow>
   ('t, 'w, unit) v_action" where
  "executeActions V X this E sigData p calls gasMulticall =
     onlyNotSuspended v_guard_of (consumes V this E sigData (ExecuteActions p calls gasMulticall)
    (executeActions_internal V X this p calls gasMulticall))"

section \<open>Calls of users\<close>

definition xSwapNative :: "env \<Rightarrow> 32 word \<Rightarrow> bytes \<Rightarrow> 32 word \<Rightarrow> bytes \<Rightarrow> ('t, 'w, unit) v_action" where
  "xSwapNative E dstChain dstAddress dstToken cfParameters =
     onlyNotSuspended v_guard_of (nz_uint (msg_value E)
    (emit (Own (SwapNative dstChain dstAddress dstToken (msg_value E) (msg_sender E) cfParameters))))"

definition xSwapToken ::
  "('t, 'w) v_chain \<Rightarrow> address \<Rightarrow> env \<Rightarrow> 32 word \<Rightarrow> bytes \<Rightarrow> 32 word \<Rightarrow> address \<Rightarrow> uint256 \<Rightarrow> bytes \<Rightarrow>
   ('t, 'w, unit) v_action" where
  "xSwapToken X this E dstChain dstAddress dstToken srcToken amount cfParameters =
     onlyNotSuspended v_guard_of (nz_uint amount
    (andthen (safe_transferFrom X srcToken this (msg_sender E) this amount) (\<lambda>_.
     emit (Own (SwapToken dstChain dstAddress dstToken srcToken amount (msg_sender E) cfParameters)))))"

definition xCallNative ::
  "env \<Rightarrow> 32 word \<Rightarrow> bytes \<Rightarrow> 32 word \<Rightarrow> bytes \<Rightarrow> uint256 \<Rightarrow> bytes \<Rightarrow> ('t, 'w, unit) v_action" where
  "xCallNative E dstChain dstAddress dstToken message gasAmount cfParameters =
     onlyNotSuspended v_guard_of (nz_uint (msg_value E)
    (emit (Own (XCallNative dstChain dstAddress dstToken (msg_value E) (msg_sender E) message gasAmount cfParameters))))"

definition xCallToken ::
  "('t, 'w) v_chain \<Rightarrow> address \<Rightarrow> env \<Rightarrow> 32 word \<Rightarrow> bytes \<Rightarrow> 32 word \<Rightarrow> bytes \<Rightarrow> uint256 \<Rightarrow> address \<Rightarrow> uint256 \<Rightarrow> bytes \<Rightarrow>
   ('t, 'w, unit) v_action" where
  "xCallToken X this E dstChain dstAddress dstToken message gasAmount srcToken amount cfParameters =
     onlyNotSuspended v_guard_of (nz_uint amount
    (andthen (safe_transferFrom X srcToken this (msg_sender E) this amount) (\<lambda>_.
     emit (Own (XCallToken dstChain dstAddress dstToken srcToken amount (msg_sender E) message gasAmount cfParameters)))))"

definition addGasNative :: "env \<Rightarrow> bytes32 \<Rightarrow> ('t, 'w, unit) v_action" where
  "addGasNative E swapID = onlyNotSuspended v_guard_of (nz_uint (msg_value E)
     (emit (Own (AddGasNative swapID (msg_value E)))))"

definition addGasToken :: "('t, 'w) v_chain \<Rightarrow> address \<Rightarrow> env \<Rightarrow> bytes32 \<Rightarrow> uint256 \<Rightarrow> address \<Rightarrow> ('t, 'w, unit) v_action" where
  "addGasToken X this E swapID amount tok = onlyNotSuspended v_guard_of (nz_uint amount
    (andthen (safe_transferFrom X tok this (msg_sender E) this amount) (\<lambda>_.
     emit (Own (AddGasToken swapID amount tok)))))"

definition receive :: "env \<Rightarrow> ('t, 'w, unit) v_action" where
  "receive E = emit (Own (FetchedNative (msg_sender E) (msg_value E)))"

section \<open>Governance\<close>

definition v_view_km :: "(key_manager \<Rightarrow> 'a) \<Rightarrow> (km_answers \<Rightarrow> 'a option) \<Rightarrow> ('t, 'w, 'a) v_action" where
  "v_view_km f g = andthen (reads (\<lambda>s. v_keyManager (vault_of s))) (\<lambda>a. in_world (view_km a f g))"

definition v_getGovernor :: "('t, 'w, address) v_action" where
  "v_getGovernor = v_view_km getGovernanceKey ans_governanceKey"

definition v_getCommunityKey :: "('t, 'w, address) v_action" where
  "v_getCommunityKey = v_view_km getCommunityKey ans_communityKey"

definition v_checkUpdateKeyManager :: "env \<Rightarrow> address \<Rightarrow> bool \<Rightarrow> ('t, 'w, unit) v_action" where
  "v_checkUpdateKeyManager E keyManager omitChecks =
     andthen (in_world (view_km keyManager getGovernanceKey ans_governanceKey)) (\<lambda>newGovKey.
     andthen (in_world (view_km keyManager getCommunityKey ans_communityKey)) (\<lambda>newCommKey.
     andthen (in_world (view_km keyManager getLastValidateTime ans_lastValidateTime)) (\<lambda>lastValidate.
     if \<not> omitChecks then
       andthen v_getGovernor (\<lambda>governor.
       andthen v_getCommunityKey (\<lambda>commKey.
       require (\<lambda>_. newGovKey = governor \<and> newCommKey = commKey) RevertEmpty
      (andthen (in_world (view_km keyManager getAggregateKey ans_aggregateKey)) (\<lambda>newAggKey.
       andthen (v_view_km getAggregateKey ans_aggregateKey) (\<lambda>currentAggKey.
       require (\<lambda>_. pubKeyX newAggKey = pubKeyX currentAggKey \<and>
                    pubKeyYParity newAggKey = pubKeyYParity currentAggKey) RevertEmpty
      (require (\<lambda>_. lastValidate \<le> block_timestamp E) RevertEmpty (ret ())))))))
     else require (\<lambda>_. newGovKey \<noteq> 0) RevertEmpty (ret ()))))"

definition v_updateKeyManager ::
  "evm \<Rightarrow> address \<Rightarrow> env \<Rightarrow> SigData \<Rightarrow> address \<Rightarrow> bool \<Rightarrow> ('t, 'w, unit) v_action" where
  "v_updateKeyManager V this E =
     updateKeyManager V this E (\<lambda>vw. v_keyManager (fst vw)) (\<lambda>a vw. ((fst vw)\<lparr>v_keyManager := a\<rparr>, snd vw))
       VaultUpdatedKeyManager (v_checkUpdateKeyManager E)"

definition v_guard_call :: "env \<Rightarrow> guard_call \<Rightarrow> ('t, 'w, unit) v_action" where
  "v_guard_call E c =
     andthen (if c \<in> {EnableCommunityGuard, DisableCommunityGuard} then v_getCommunityKey else v_getGovernor) (\<lambda>key.
     (\<lambda>((v, w), W). rbind (guard_op E key key c (v_guard v)) (\<lambda>(u, g, l).
        Inr (u, ((v\<lparr>v_guard := g\<rparr>, w), W), map Guarded l))))"

definition v_timeoutEmergency :: "env \<Rightarrow> ('t, 'w, 'a) v_action \<Rightarrow> ('t, 'w, 'a) v_action" where
  "v_timeoutEmergency E m =
     andthen (v_view_km getLastValidateTime ans_lastValidateTime) (\<lambda>lastValidate.
     andthen (checked (checked_sub (block_timestamp E) lastValidate)) (\<lambda>elapsed.
     require (\<lambda>_. elapsed \<ge> AGG_KEY_EMERGENCY_TIMEOUT) (Revert ''Vault: not enough time'') m))"

definition withdraw_one :: "evm \<Rightarrow> ('t, 'w) v_chain \<Rightarrow> address \<Rightarrow> address \<Rightarrow> address \<Rightarrow> ('t, 'w, unit) v_action" where
  "withdraw_one V X this recipient tok =
     andthen (if tok = NATIVE_ADDR then reads (native_balance X this) else token_balance X tok this) (\<lambda>amount.
     transfer_one V X this \<lparr>tp_token = tok, tp_recipient = recipient, tp_amount = amount\<rparr>)"

definition v_govWithdraw :: "evm \<Rightarrow> ('t, 'w) v_chain \<Rightarrow> address \<Rightarrow> env \<Rightarrow> address list \<Rightarrow> ('t, 'w, unit) v_action" where
  "v_govWithdraw V X this E toks =
     andthen v_getGovernor (\<lambda>governor. onlyGovernor E governor
    (onlyCommunityGuardDisabled v_guard_of (onlySuspended v_guard_of (v_timeoutEmergency E
    (andthen v_getGovernor (\<lambda>recipient. each (withdraw_one V X this recipient) toks))))))"

fun signed_action ::
  "evm \<Rightarrow> ('t, 'w) v_chain \<Rightarrow> address \<Rightarrow> env \<Rightarrow> SigData \<Rightarrow> signed_call \<Rightarrow> ('t, 'w, unit) v_action" where
  "signed_action V X this E sd (AllBatch ds fs ts) = allBatch V X this E sd ds fs ts"
| "signed_action V X this E sd (AllBatchV2 fs ts) = allBatchV2 V X this E sd fs ts"
| "signed_action V X this E sd (Transfer p) = transfer V X this E sd p"
| "signed_action V X this E sd (TransferFallback p) = transferFallback V X this E sd p"
| "signed_action V X this E sd (TransferBatch ts) = transferBatch V X this E sd ts"
| "signed_action V X this E sd (DeployAndFetchBatch ds) = deployAndFetchBatch V X this E sd ds"
| "signed_action V X this E sd (FetchBatch fs) = fetchBatch V X this E sd fs"
| "signed_action V X this E sd (ExecutexSwapAndCall p c a m) = executexSwapAndCall V X this E sd p c a m"
| "signed_action V X this E sd (ExecutexCall r c a m) = executexCall V X this E sd r c a m"
| "signed_action V X this E sd (ExecuteActions p cs g) = executeActions V X this E sd p cs g"
| "signed_action V X this E sd (UpdateKeyManager a om) = v_updateKeyManager V this E sd a om"

section \<open>What a signature covers\<close>

text \<open>The sizes a transaction can carry.\<close>

fun sizes_ok :: "signed_call \<Rightarrow> bool" where
  "sizes_ok (AllBatch ds fs ts) = (length ds < 2 ^ 256 \<and> length fs < 2 ^ 256 \<and> length ts < 2 ^ 256)"
| "sizes_ok (AllBatchV2 fs ts) = (length fs < 2 ^ 256 \<and> length ts < 2 ^ 256)"
| "sizes_ok (TransferBatch ts) = (length ts < 2 ^ 256)"
| "sizes_ok (DeployAndFetchBatch ds) = (length ds < 2 ^ 256)"
| "sizes_ok (FetchBatch fs) = (length fs < 2 ^ 256)"
| "sizes_ok (ExecutexSwapAndCall p c a m) = (length a < 2 ^ 256 \<and> length m < 2 ^ 256)"
| "sizes_ok (ExecutexCall r c a m) = (length a < 2 ^ 256 \<and> length m < 2 ^ 256)"
| "sizes_ok (ExecuteActions p cs g) = (length cs < 2 ^ 256 \<and>
     (\<forall>c\<in>set cs. length (call_callData c) < 2 ^ 256 \<and> length (call_payload c) < 2 ^ 256))"
| "sizes_ok c = True"

definition T_transfer :: sol_type where
  "T_transfer = TTuple [TWord, TWord, TWord]"

definition T_pair :: sol_type where
  "T_pair = TTuple [TWord, TWord]"

definition T_call :: sol_type where
  "T_call = TTuple [TWord, TWord, TWord, TBytes, TBytes]"

fun parameter_types :: "signed_call \<Rightarrow> sol_type list" where
  "parameter_types (AllBatch ds fs ts) = [TArray T_pair, TArray T_pair, TArray T_transfer]"
| "parameter_types (AllBatchV2 fs ts) = [TArray T_pair, TArray T_transfer]"
| "parameter_types (Transfer p) = [T_transfer]"
| "parameter_types (TransferFallback p) = [T_transfer]"
| "parameter_types (TransferBatch ts) = [TArray T_transfer]"
| "parameter_types (DeployAndFetchBatch ds) = [TArray T_pair]"
| "parameter_types (FetchBatch fs) = [TArray T_pair]"
| "parameter_types (ExecutexSwapAndCall p c a m) = [T_transfer, TWord, TBytes, TBytes]"
| "parameter_types (ExecutexCall r c a m) = [TWord, TWord, TBytes, TBytes]"
| "parameter_types (ExecuteActions p cs g) = [T_transfer, TArray T_call, TWord]"
| "parameter_types (UpdateKeyManager a om) = [TWord, TWord]"

lemma struct_types [simp]:
  "has_type (STransfer p) T_transfer" "has_type (SDeployFetch d) T_pair" "has_type (SFetch f) T_pair"
  "has_type (SCall c) T_call \<longleftrightarrow> length (call_callData c) < 2 ^ 256 \<and> length (call_payload c) < 2 ^ 256"
  by (simp_all add: STransfer_def SDeployFetch_def SFetch_def SCall_def T_transfer_def T_pair_def T_call_def)

lemma parameters_typed: "sizes_ok c \<Longrightarrow> list_all2 has_type (parameters c) (parameter_types c)"
  by (cases c) (auto simp: list_all_iff)

lemma call_type_inject: "call_type_number a = call_type_number b \<longleftrightarrow> a = b"
  by (cases a; cases b) simp_all

lemma STransfer_inject: "STransfer p = STransfer q \<longleftrightarrow> p = q"
  by (cases p; cases q) (simp add: STransfer_def)

lemma SDeployFetch_inject: "SDeployFetch d = SDeployFetch e \<longleftrightarrow> d = e"
  by (cases d; cases e) (simp add: SDeployFetch_def)

lemma SFetch_inject: "SFetch f = SFetch g \<longleftrightarrow> f = g"
  by (cases f; cases g) (simp add: SFetch_def)

lemma SCall_inject: "SCall x = SCall y \<longleftrightarrow> x = y"
  by (cases x; cases y) (simp add: SCall_def call_type_inject)

lemmas struct_inject = STransfer_inject SDeployFetch_inject SFetch_inject SCall_inject

lemma map_inject: "(\<And>x y. f x = f y \<longleftrightarrow> x = y) \<Longrightarrow> map f xs = map f ys \<longleftrightarrow> xs = ys"
  by (simp add: inj_map_eq_map inj_on_def)

lemmas structs_inject = struct_inject map_inject [of STransfer, OF struct_inject(1)]
  map_inject [of SDeployFetch, OF struct_inject(2)] map_inject [of SFetch, OF struct_inject(3)]
  map_inject [of SCall, OF struct_inject(4)]

text \<open>The signed functions by number: two calls of one function have the same signature and
  parameter types.\<close>

fun function_number :: "signed_call \<Rightarrow> nat" where
  "function_number (AllBatch ds fs ts) = 0"
| "function_number (AllBatchV2 fs ts) = 1"
| "function_number (Transfer p) = 2"
| "function_number (TransferFallback p) = 3"
| "function_number (TransferBatch ts) = 4"
| "function_number (DeployAndFetchBatch ds) = 5"
| "function_number (FetchBatch fs) = 6"
| "function_number (ExecutexSwapAndCall p c a m) = 7"
| "function_number (ExecutexCall r c a m) = 8"
| "function_number (ExecuteActions p cs g) = 9"
| "function_number (UpdateKeyManager a om) = 10"

lemma same_function:
  assumes "function_number c = function_number d"
  shows "signature c = signature d \<and> parameter_types c = parameter_types d \<and>
    (parameters c = parameters d \<longleftrightarrow> c = d)"
  using assms by (cases c; cases d) (simp_all add: structs_inject)

text \<open>The hash that is signed for a call of the Vault commits to every parameter of it: two
  calls of one function, arrays of structs and byte strings included, share it only when they are
  the same call, or their encodings are a collision of \<open>keccak256\<close>.\<close>

theorem contractMsgHash_binds:
  assumes "function_number c = function_number d" and "sizes_ok c" and "sizes_ok d"
    and "contractMsgHash V c = contractMsgHash V d"
  shows "c = d \<or> collision V (abi_encode (call_values V c)) (abi_encode (call_values V d))"
proof -
  have "list_all2 has_type (call_values V c) (TWord # parameter_types c)"
    "list_all2 has_type (call_values V d) (TWord # parameter_types c)"
    using parameters_typed [OF assms(2)] parameters_typed [OF assms(3)] same_function [OF assms(1)]
    by (simp_all add: call_values_def)
  then have "call_values V c = call_values V d \<or> collision V (abi_encode (call_values V c)) (abi_encode (call_values V d))"
    using assms(4) unfolding contractMsgHash_def by (rule digest_binds)
  then show ?thesis
    using same_function [OF assms(1)] by (auto simp: call_values_def)
qed

text \<open>C22: a signature for a call of the Vault is good for nothing else: what is signed for two calls of
  one function agrees only when the calls, all parameters included, the nonces, the Vaults, the
  chains and the KeyManagers agree, or one of the two pairs of encodings is a collision of
  \<open>keccak256\<close>.\<close>

theorem vault_signature_binds:
  assumes "function_number c = function_number d" and "sizes_ok c" and "sizes_ok d"
    and "signed_hash V E km this n (contractMsgHash V c) = signed_hash V E' km' this' n' (contractMsgHash V d)"
  shows "(c = d \<and> n = n' \<and> this = this' \<and> block_chainid E = block_chainid E' \<and> km = km') \<or>
    collision V (abi_encode (call_values V c)) (abi_encode (call_values V d)) \<or>
    collision V (abi_encode (signed_values E km this n (contractMsgHash V c)))
      (abi_encode (signed_values E' km' this' n' (contractMsgHash V d)))"
  using signed_hash_binds [OF assms(4)] contractMsgHash_binds [OF assms(1-3), of V] by blast

section \<open>Authorisation and suspension\<close>

lemma consumes_InrD:
  assumes "consumes V this E sd c m ((v, w), W) = Inr (u, s', l)"
  shows "\<exists>km. key_managers W (v_keyManager v) = Some km \<and> \<not> isNonceUsed km (nonce sd) \<and>
    verifySignature V (signed_hash V E (v_keyManager v) this (nonce sd) (contractMsgHash V c))
      (sig sd) (pubKeyX (aggKey km)) (pubKeyYParity (aggKey km)) (kTimesGAddress sd) = Inr True"
proof -
  obtain vw' W' where s': "s' = (vw', W')"
    by (cases s')
  show ?thesis
    using assms unfolding consumes_def s' consumesKeyNonce_Inr consumeKeyNonce_def consume_internal_Inr
    by (auto simp: call_env_def signed_hash_def signed_values_def)
qed

lemmas signed_defs = allBatch_def allBatchV2_def transfer_def transferFallback_def transferBatch_def
  deployAndFetchBatch_def fetchBatch_def executexSwapAndCall_def executexCall_def executeActions_def

lemma v_updateKeyManager_consumes:
  assumes "v_updateKeyManager V this E sd a om s = Inr (u, s', l)"
  shows "\<exists>m. consumes V this E sd (UpdateKeyManager a om) m s = Inr (u, s', l)"
proof -
  have "keccak256 V (abi_encode (updateKeyManager_values V a om)) = contractMsgHash V (UpdateKeyManager a om)"
    by (simp add: contractMsgHash_def call_values_def updateKeyManager_values_def)
  then show ?thesis
    using assms by (auto simp: v_updateKeyManager_def updateKeyManager_def consumes_def require_def split: if_splits)
qed

lemma signed_action_consumes:
  assumes "signed_action V X this E sd c s = Inr (u, s', l)"
  shows "\<exists>m. consumes V this E sd c m s = Inr (u, s', l)"
  using assms by (cases c) (auto simp: signed_defs onlyNotSuspended_def nz_address_def nz_uint_def require_def
      intro: v_updateKeyManager_consumes split: if_splits)

definition updates_reference :: "signed_call \<Rightarrow> bool" where
  "updates_reference c \<longleftrightarrow> (\<exists>a om. c = UpdateKeyManager a om)"

lemma suspended_signed_call:
  assumes "suspended (v_guard_of s)" and "\<not> updates_reference c"
  shows "signed_action V X this E sd c s = Inl (Revert ''Governance: suspended'')"
  using assms by (cases c) (simp_all add: signed_defs onlyNotSuspended_def require_def updates_reference_def)

text \<open>C10: every signed function of the Vault, the inherited \<open>updateKeyManager\<close> included, succeeds
  only with an unused nonce and a signature of the current aggregate key over this function with
  exactly these parameters, for this Vault on this chain; and every one but
  \<open>updateKeyManager\<close> only while the Vault is not suspended.\<close>

theorem signed_call_authorised:
  assumes "signed_action V X this E sd c ((v, w), W) = Inr (u, s', l)"
  shows "(\<not> suspended (v_guard v) \<or> (\<exists>a om. c = UpdateKeyManager a om)) \<and>
    (\<exists>km. key_managers W (v_keyManager v) = Some km \<and> \<not> isNonceUsed km (nonce sd) \<and>
      verifySignature V (signed_hash V E (v_keyManager v) this (nonce sd) (contractMsgHash V c))
        (sig sd) (pubKeyX (aggKey km)) (pubKeyYParity (aggKey km)) (kTimesGAddress sd) = Inr True)"
proof -
  obtain m where "consumes V this E sd c m ((v, w), W) = Inr (u, s', l)"
    using signed_action_consumes [OF assms] by blast
  moreover have "\<not> suspended (v_guard v) \<or> updates_reference c"
    using assms suspended_signed_call [of "((v, w), W)" c V X this E sd] by fastforce
  ultimately show ?thesis
    using consumes_InrD [of V this E sd c m v w W u s' l] by (simp add: updates_reference_def)
qed

text \<open>A suspended Vault accepts no signed call but \<open>updateKeyManager\<close> and no swap, cross-chain
  call or gas topup of a user; all of them revert with the reason of the suspension.\<close>

theorem suspended_vault:
  assumes "suspended (v_guard_of s)"
  shows "(updates_reference c \<or> signed_action V X this E sd c s = Inl (Revert ''Governance: suspended'')) \<and>
    xSwapNative E dc da dt cf s = Inl (Revert ''Governance: suspended'') \<and>
    xSwapToken X this E dc da dt st a cf s = Inl (Revert ''Governance: suspended'') \<and>
    xCallNative E dc da dt msg g cf s = Inl (Revert ''Governance: suspended'') \<and>
    xCallToken X this E dc da dt msg g st a cf s = Inl (Revert ''Governance: suspended'') \<and>
    addGasNative E swap s = Inl (Revert ''Governance: suspended'') \<and>
    addGasToken X this E swap a st s = Inl (Revert ''Governance: suspended'')"
  using assms suspended_signed_call [OF assms, of c V X this E sd]
  by (auto simp: onlyNotSuspended_def require_def xSwapNative_def xSwapToken_def
      xCallNative_def xCallToken_def addGasNative_def addGasToken_def)

section \<open>Batches\<close>

text \<open>The tokens of the batch answer a transfer with nothing or with an encoded boolean, if they
  do not revert. Nothing is said of any other call, payments of native tokens included.\<close>

definition boolean_answers :: "evm \<Rightarrow> ('t, 'w) v_chain \<Rightarrow> address \<Rightarrow> TransferParams list \<Rightarrow> bool" where
  "boolean_answers V X this ps \<longleftrightarrow> (\<forall>p\<in>set ps. tp_token p \<noteq> NATIVE_ADDR \<longrightarrow> (\<forall>s d s' l.
     low_call X this (tp_token p) 0 None
       (encodeWithSelector V ''transfer(address,uint256)'' [SAddress (tp_recipient p), SUint (tp_amount p)]) s =
       ((True, d), s', l) \<longrightarrow> d = [] \<or> decode_bool d \<noteq> None))"

lemma transfer_one_total:
  assumes "boolean_answers V X this ps" and "p \<in> set ps"
  shows "\<exists>s' l. transfer_one V X this p s = Inr ((), s', l)"
proof (cases "tp_token p = NATIVE_ADDR")
  case True
  then show ?thesis
    by (cases "low_call X this (tp_recipient p) (tp_amount p) (Some GAS_TO_FORWARD) [] s")
       (auto simp: transfer_one_def call_def andthen_def emit_def ret_def)
next
  case False
  let ?data = "encodeWithSelector V ''transfer(address,uint256)'' [SAddress (tp_recipient p), SUint (tp_amount p)]"
  obtain ok d s1 l1 where c: "low_call X this (tp_token p) 0 None ?data s = ((ok, d), s1, l1)"
    by (cases "low_call X this (tp_token p) 0 None ?data s") auto
  have "d = [] \<or> decode_bool d \<noteq> None" if ok
  proof -
    have "low_call X this (tp_token p) 0 None ?data s = ((True, d), s1, l1)"
      using c that by simp
    then show ?thesis
      using assms False unfolding boolean_answers_def by blast
  qed
  moreover obtain a b e where "s1 = ((a, b), e)"
    by (metis surj_pair)
  ultimately show ?thesis
    using False c by (auto simp: transfer_one_def call_def andthen_def emit_def ret_def decoded_def split: if_splits)
qed


text \<open>The exception: a token call that succeeds with an answer that is neither empty nor an
  encoded boolean reverts the whole batch, transfers before and after it included.\<close>

theorem malformed_answer_reverts_batch:
  assumes "transferBatch_internal V X this ts s = Inr ((), s1, l1)" and "tp_token p \<noteq> NATIVE_ADDR"
    and "low_call X this (tp_token p) 0 None
      (encodeWithSelector V ''transfer(address,uint256)'' [SAddress (tp_recipient p), SUint (tp_amount p)]) s1 =
      ((True, d), s2, l2)"
    and "d \<noteq> []" and "decode_bool d = None"
  shows "transferBatch_internal V X this (ts @ p # us) s = Inl RevertEmpty"
proof -
  have "transfer_one V X this p s1 = Inl RevertEmpty"
    using assms(2-5) by (simp add: transfer_one_def call_def andthen_def decoded_def revert_def)
  then show ?thesis
    using assms(1) by (simp add: transferBatch_internal_def each_append andthen_def)
qed

section \<open>Actions and withdrawal\<close>

lemma required_gas_covers_buffer:
  assumes "required_gas g = Inr needed"
  shows "FINALIZE_GAS_BUFFER \<le> needed"
proof -
  have "unat needed = (unat g + 30000) * 64 div 63"
    using assms by (auto simp: required_gas_def FINALIZE_GAS_BUFFER_def res_simps)
  then have "30000 \<le> unat needed"
    by simp
  then show ?thesis
    by (simp add: word_le_nat_alt FINALIZE_GAS_BUFFER_def)
qed

text \<open>A Multicall that fails does not revert the signed call, so its nonce stays spent: with
  enough gas left the failure is announced with its reason, and the allowance given to the
  Multicall is taken back first.\<close>

theorem executeActions_contains_failure:
  assumes "tp_amount p > 0" and "tp_token p \<noteq> NATIVE_ADDR"
    and "approve V X this (tp_token p) (tp_recipient p) (tp_amount p) s = Inr ((), s1, l1)"
    and "required_gas g = Inr needed" and "needed \<le> gas_left X s1"
    and "low_call X this (tp_recipient p) 0 (Some (gas_left X s1 - FINALIZE_GAS_BUFFER))
      (encodeWithSelector V ''run((uint8,address,uint256,bytes,bytes)[],address,uint256)''
        [SArray (map SCall cs), SAddress (tp_token p), SUint (tp_amount p)]) s1 = ((False, reason), s2, l2)"
    and "approve V X this (tp_token p) (tp_recipient p) 0 s2 = Inr ((), s3, l3)"
  shows "executeActions_internal V X this p cs g s =
    Inr ((), s3, l1 @ l2 @ l3 @ [Own (ExecuteActionsFailed (tp_recipient p) (tp_amount p) (tp_token p) reason)])"
  using assms order_trans [OF required_gas_covers_buffer [OF assms(4)] assms(5)]
  by (simp add: executeActions_internal_def andthen_def call_def checked_def checked_sub_def require_def reads_def
      ret_def emit_def)

text \<open>What is assumed of an asset, with its balances \<open>bal\<close>, for what the withdrawal does to it:
  its balance is what a query answers, and a payment of \<open>this\<close> to \<open>gov\<close> moves what
  it names when it succeeds and nothing when it fails; no query and no call of anyone else moves it.\<close>

definition pay ::
  "evm \<Rightarrow> ('t, 'w) v_chain \<Rightarrow> address \<Rightarrow> address \<Rightarrow> address \<Rightarrow> uint256 \<Rightarrow> ('t, 'w) v_state \<Rightarrow>
   (bool \<times> bytes) \<times> ('t, 'w) v_state \<times> vault_event log list" where
  "pay V X this tok gov n s =
     (if tok = NATIVE_ADDR then low_call X this gov n (Some 8000) [] s
      else low_call X this tok 0 None (encodeWithSelector V ''transfer(address,uint256)'' [SAddress gov, SUint n]) s)"

definition pay_succeeds :: "address \<Rightarrow> bool \<Rightarrow> bytes \<Rightarrow> bool" where
  "pay_succeeds tok ok d \<longleftrightarrow> ok \<and> (tok = NATIVE_ADDR \<or> d = [] \<or> decode_bool d = Some True)"

definition honest_asset ::
  "evm \<Rightarrow> ('t, 'w) v_chain \<Rightarrow> address \<Rightarrow> address \<Rightarrow> (('t, 'w) v_state \<Rightarrow> address \<Rightarrow> uint256) \<Rightarrow> address \<Rightarrow> bool" where
  "honest_asset V X this gov bal tok \<longleftrightarrow>
     (\<forall>s. if tok = NATIVE_ADDR then native_balance X this s = bal s this
          else \<forall>b s' l. token_balance X tok this s = Inr (b, s', l) \<longrightarrow> b = bal s this) \<and>
     (\<forall>n s ok d s' l. pay V X this tok gov n s = ((ok, d), s', l) \<longrightarrow>
        (if pay_succeeds tok ok d then moved (bal s) this gov n (bal s') else bal s' = bal s)) \<and>
     (\<forall>t s b s' l. token_balance X t this s = Inr (b, s', l) \<longrightarrow> bal s' = bal s) \<and>
     (\<forall>t n s r s' l. t \<noteq> tok \<longrightarrow> pay V X this t gov n s = (r, s', l) \<longrightarrow> bal s' = bal s)"

text \<open>The whole balance has moved to the governor, or nothing of it has and an event says so.\<close>

definition swept ::
  "address \<Rightarrow> address \<Rightarrow> address \<Rightarrow> (('t, 'w) v_state \<Rightarrow> address \<Rightarrow> uint256) \<Rightarrow> ('t, 'w) v_state \<Rightarrow>
   vault_event log list \<Rightarrow> ('t, 'w) v_state \<Rightarrow> bool" where
  "swept this gov tok bal s l s' \<longleftrightarrow> moved (bal s) this gov (bal s this) (bal s') \<or>
     bal s' = bal s \<and> (if tok = NATIVE_ADDR then Own (TransferNativeFailed gov (bal s this)) \<in> set l
       else \<exists>d. Own (TransferTokenFailed gov (bal s this) tok d) \<in> set l)"

lemma moved_rest: "moved f a b (f a) g \<Longrightarrow> moved g a b (g a) h \<Longrightarrow> moved f a b (f a) h"
  by (auto simp: moved_def split: if_splits)

lemma withdraw_one_InrD:
  assumes "withdraw_one V X this gov t s = Inr (u, s', l)"
  shows "\<exists>b s1 l1 ok d l2. (if t = NATIVE_ADDR then b = native_balance X this s \<and> s1 = s
      else token_balance X t this s = Inr (b, s1, l1)) \<and> pay V X this t gov b s1 = ((ok, d), s', l2) \<and>
    (pay_succeeds t ok d \<or> (if t = NATIVE_ADDR then Own (TransferNativeFailed gov b) else Own (TransferTokenFailed gov b t d)) \<in> set l)"
proof (cases "t = NATIVE_ADDR")
  case True
  then show ?thesis
    using assms by (cases "low_call X this gov (native_balance X this s) (Some GAS_TO_FORWARD) [] s")
      (auto simp: withdraw_one_def transfer_one_def andthen_def reads_def call_def emit_def ret_def pay_def
        pay_succeeds_def GAS_TO_FORWARD_def split: if_splits)
next
  case False
  then obtain b s1 l1 where b: "token_balance X t this s = Inr (b, s1, l1)"
    using assms by (cases "token_balance X t this s") (auto simp: withdraw_one_def andthen_def)
  then show ?thesis
    using assms False by (cases "pay V X this t gov b s1")
      (auto simp: withdraw_one_def transfer_one_def andthen_def call_def emit_def ret_def pay_def decoded_def revert_def
        pay_succeeds_def split: if_splits option.splits)
qed

lemma honest_assetD:
  assumes "honest_asset V X this gov bal tok"
  shows "tok = NATIVE_ADDR \<Longrightarrow> native_balance X this s = bal s this"
    and "tok \<noteq> NATIVE_ADDR \<Longrightarrow> token_balance X tok this s = Inr (b, s', l) \<Longrightarrow> b = bal s this"
    and "pay V X this tok gov n s = ((ok, d), s', l) \<Longrightarrow>
      (if pay_succeeds tok ok d then moved (bal s) this gov n (bal s') else bal s' = bal s)"
    and "token_balance X t this s = Inr (b, s', l) \<Longrightarrow> bal s' = bal s"
    and "t \<noteq> tok \<Longrightarrow> pay V X this t gov n s = (r, s', l) \<Longrightarrow> bal s' = bal s"
  using assms unfolding honest_asset_def by metis+

lemma withdraw_one_other:
  assumes "honest_asset V X this gov bal tok" and "t \<noteq> tok" and "withdraw_one V X this gov t s = Inr (u, s', l)"
  shows "bal s' = bal s"
proof -
  obtain b s1 l1 r l2 where q: "if t = NATIVE_ADDR then b = native_balance X this s \<and> s1 = s
      else token_balance X t this s = Inr (b, s1, l1)"
    and p: "pay V X this t gov b s1 = (r, s', l2)"
    using withdraw_one_InrD [OF assms(3)] by blast
  have "bal s1 = bal s"
    using q honest_assetD(4) [OF assms(1)] by (cases "t = NATIVE_ADDR") simp_all
  moreover have "bal s' = bal s1"
    using p honest_assetD(5) [OF assms(1,2)] by blast
  ultimately show ?thesis
    by simp
qed

lemma withdraw_one_swept:
  assumes "honest_asset V X this gov bal tok" and "withdraw_one V X this gov tok s = Inr (u, s', l)"
  shows "swept this gov tok bal s l s'"
proof -
  obtain b s1 l1 ok d l2 where q: "if tok = NATIVE_ADDR then b = native_balance X this s \<and> s1 = s
      else token_balance X tok this s = Inr (b, s1, l1)"
    and p: "pay V X this tok gov b s1 = ((ok, d), s', l2)"
    and e: "pay_succeeds tok ok d \<or> (if tok = NATIVE_ADDR then Own (TransferNativeFailed gov b) else Own (TransferTokenFailed gov b tok d)) \<in> set l"
    using withdraw_one_InrD [OF assms(2)] by blast
  have b: "b = bal s this" "bal s1 = bal s"
    using q honest_assetD(1,2,4) [OF assms(1)] by (cases "tok = NATIVE_ADDR"; simp)+
  have "if pay_succeeds tok ok d then moved (bal s) this gov (bal s this) (bal s') else bal s' = bal s"
    using honest_assetD(3) [OF assms(1) p] unfolding b .
  then show ?thesis
    using e unfolding swept_def b by (cases "pay_succeeds tok ok d"; cases "tok = NATIVE_ADDR") auto
qed

lemma withdraw_all_swept:
  assumes "honest_asset V X this gov bal tok" and "each (withdraw_one V X this gov) toks s = Inr (u, s', l)"
  shows "if tok \<in> set toks then swept this gov tok bal s l s' else bal s' = bal s"
  using assms(2)
proof (induction toks arbitrary: s l)
  case (Cons t toks)
  obtain s1 l1 l2 where h: "withdraw_one V X this gov t s = Inr ((), s1, l1)"
      and r: "each (withdraw_one V X this gov) toks s1 = Inr (u, s', l2)" and l: "l = l1 @ l2"
    using Cons.prems by (auto simp: andthen_Inr)
  show ?case
  proof (cases "t = tok")
    case True
    have "swept this gov tok bal s l1 s1"
      using withdraw_one_swept [OF assms(1)] h True by blast
    then show ?thesis
      using Cons.IH [OF r] True l moved_rest [of "bal s" this gov "bal s1" "bal s'"]
      by (auto simp: swept_def split: if_splits)
  next
    case False
    then show ?thesis
      using withdraw_one_other [OF assms(1) _ h] Cons.IH [OF r] l by (auto simp: swept_def split: if_splits)
  qed
qed (simp add: action_Inr)


section \<open>Witnesses\<close>

text \<open>A chain where calls that carry data answer with \<open>d\<close> and the others with nothing; all
  succeed but those for which \<open>fails\<close> holds.\<close>

definition sample_chain :: "bytes \<Rightarrow> (address \<Rightarrow> bool) \<Rightarrow> (ledger, unit) v_chain" where
  "sample_chain d fails = \<lparr>
     low_call = (\<lambda>from to val gas data s. ((\<not> fails to, if data = [] then [] else d), s, [])),
     safe_transfer = (\<lambda>t f r n. ret ()), safe_transferFrom = (\<lambda>t sp f r n. ret ()),
     token_balance = (\<lambda>t a. ret 50), native_balance = (\<lambda>a s. 60), code_size = (\<lambda>a s. 1),
     gas_left = (\<lambda>s. 1000000), create2 = (\<lambda>a b t s. None), deposit_vault = (\<lambda>a s. None)\<rparr>"

definition true_data :: bytes where
  "true_data = word_bytes 32 (1 :: uint256)"

lemma decode_true: "decode_bool true_data = Some True"
proof -
  have "be_value true_data = 1"
    by (simp add: true_data_def word_bytes_def be_value_be_fixed)
  then show ?thesis
    by (simp add: decode_bool_def true_data_def)
qed

text \<open>A chain where the token at 5 answers true, the one at 8 reverts with a reason, and everyone
  else, the recipients of native tokens among them, answers with seven bytes that are no boolean.\<close>

definition mixed_chain :: "(ledger, unit) v_chain" where
  "mixed_chain = (sample_chain [] (\<lambda>a. False))\<lparr>low_call :=
     (\<lambda>from to val gas data s. ((to \<noteq> 8, if to = 5 then true_data else replicate 7 9), s, []))\<rparr>"

abbreviation mixed_batch :: "TransferParams list" where
  "mixed_batch \<equiv> [\<lparr>tp_token = NATIVE_ADDR, tp_recipient = 2, tp_amount = 3\<rparr>,
     \<lparr>tp_token = 8, tp_recipient = 2, tp_amount = 3\<rparr>, \<lparr>tp_token = 5, tp_recipient = 2, tp_amount = 3\<rparr>]"

lemma mixed_boolean_answers: "boolean_answers V mixed_chain this mixed_batch"
  by (auto simp: boolean_answers_def mixed_chain_def sample_chain_def decode_true NATIVE_ADDR_def)

definition sample_vault :: vault where
  "sample_vault = \<lparr>v_keyManager = 9, v_guard = initial_guard\<rparr>"

definition km_world :: "ledger world" where
  "km_world = \<lparr>key_managers = [9 \<mapsto> sample_km], other_km = no_answers, flips = (\<lambda>_. None), has_code = (\<lambda>a. False), issuer_FLIP = (\<lambda>a. None)\<rparr>"

lemma contractMsgHash_binds_witness:
  "collision sample_evm (abi_encode (call_values sample_evm (FetchBatch []))) (abi_encode (call_values sample_evm
     (FetchBatch [\<lparr>fp_fetchContract = 1, fp_token = 2\<rparr>])))"
  using contractMsgHash_binds [of "FetchBatch []" "FetchBatch [\<lparr>fp_fetchContract = 1, fp_token = 2\<rparr>]" sample_evm]
  by (simp add: contractMsgHash_def mod_evm_def)

lemma vault_signature_binds_witness:
  "collision sample_evm (abi_encode (signed_values sample_env 9 30 6 (contractMsgHash sample_evm (FetchBatch []))))
     (abi_encode (signed_values sample_env 9 30 7 (contractMsgHash sample_evm (FetchBatch []))))"
  using vault_signature_binds [of "FetchBatch []" "FetchBatch []" sample_evm sample_env 9 30 6 sample_env 9 30 7]
  by (simp add: sample_hash) (simp add: collision_def)


lemma signed_call_authorised_witness:
  "\<exists>s' l. signed_action sample_evm (sample_chain [] (\<lambda>a. False)) 30 sample_env (sample_sig 6)
     (FetchBatch []) ((sample_vault, ()), km_world) = Inr ((), s', l) \<and> \<not> suspended (v_guard sample_vault)"
proof -
  have h: "keccak256 sample_evm x = 5" for x
    by (simp add: mod_evm_def)
  have "\<exists>s' l. signed_action sample_evm (sample_chain [] (\<lambda>a. False)) 30 sample_env (sample_sig 6)
     (FetchBatch []) ((sample_vault, ()), km_world) = Inr ((), s', l)"
    by (simp add: fetchBatch_def fetchBatch_internal_def onlyNotSuspended_def consumes_def consumesKeyNonce_def
        action_defs in_world_def call_km_def consumeKeyNonce_def consumeKeyNonce_internal_def sample_hash h
        sample_verifies sample_defs sample_vault_def km_world_def initial_guard_def call_env_def)
  then obtain s' l where r: "signed_action sample_evm (sample_chain [] (\<lambda>a. False)) 30 sample_env (sample_sig 6)
     (FetchBatch []) ((sample_vault, ()), km_world) = Inr ((), s', l)"
    by blast
  from signed_call_authorised [OF r] r show ?thesis by blast
qed

lemma suspended_vault_witness:
  "xSwapNative sample_env 1 [] 2 [] ((sample_vault\<lparr>v_guard := \<lparr>communityGuardDisabled = False, suspended = True\<rparr>\<rparr>, ()), km_world) =
    Inl (Revert ''Governance: suspended'')"
  using suspended_vault [of "((sample_vault\<lparr>v_guard := \<lparr>communityGuardDisabled = False, suspended = True\<rparr>\<rparr>, ()), km_world)"]
  by simp

lemma malformed_answer_reverts_batch_witness:
  "transferBatch_internal sample_evm (sample_chain [1] (\<lambda>a. False)) 30
     ([\<lparr>tp_token = NATIVE_ADDR, tp_recipient = 2, tp_amount = 3\<rparr>] @ \<lparr>tp_token = 5, tp_recipient = 2, tp_amount = 3\<rparr> # [])
     ((sample_vault, ()), km_world) = Inl RevertEmpty"
  by (rule malformed_answer_reverts_batch [where d = "[1]"])
     (simp_all add: transferBatch_internal_def transfer_one_def call_def sample_chain_def andthen_def ret_def
       NATIVE_ADDR_def decode_bool_def)

lemma executeActions_contains_failure_witness:
  "executeActions_internal sample_evm (sample_chain true_data (\<lambda>a. a = 40)) 30
     \<lparr>tp_token = 5, tp_recipient = 40, tp_amount = 3\<rparr> [] 1000 ((sample_vault, ()), km_world) =
   Inr ((), ((sample_vault, ()), km_world), [Own (ExecuteActionsFailed 40 3 5 true_data)])"
proof -
  let ?X = "sample_chain true_data (\<lambda>a. a = 40)" and ?s = "((sample_vault, ()), km_world)"
  have "approve sample_evm ?X 30 5 40 n ?s = Inr ((), ?s, [])" for n
    by (simp add: approve_def approve_call_def high_call_def call_def action_defs sample_chain_def decoded_def decode_true)
  then show ?thesis
    using executeActions_contains_failure [of "\<lparr>tp_token = 5, tp_recipient = 40, tp_amount = 3\<rparr>" sample_evm ?X 30
        ?s ?s "[]" 1000 31492 "[]" true_data ?s "[]" ?s "[]"]
    by (simp add: sample_chain_def NATIVE_ADDR_def required_gas_def checked_add_def checked_mul_def checked_div_def
        FINALIZE_GAS_BUFFER_def)
qed

text \<open>A chain whose state is a ledger of balances by asset and holder: a payment, native or by
  \<open>transfer\<close>, moves what it names if the payer has it, and fails otherwise.\<close>

type_synonym balances = "address \<Rightarrow> address \<Rightarrow> uint256"

definition move_balance :: "(address \<Rightarrow> uint256) \<Rightarrow> address \<Rightarrow> address \<Rightarrow> uint256 \<Rightarrow> (address \<Rightarrow> uint256) option" where
  "move_balance f a b n = (if n \<le> f a \<and> unat (f b) + unat n < 2 ^ 256
     then Some (if a = b then f else f(a := f a - n, b := f b + n)) else None)"

lemma move_balance_moved: "move_balance f a b n = Some g \<Longrightarrow> moved f a b n g"
  by (auto simp: move_balance_def moved_def unat_sub unat_word_ariths split: if_splits)

definition ledger_call :: "address \<Rightarrow> address \<Rightarrow> address \<Rightarrow> uint256 \<Rightarrow> bytes \<Rightarrow> (ledger, balances) v_state \<Rightarrow>
    (bool \<times> bytes) \<times> (ledger, balances) v_state \<times> vault_event log list" where
  "ledger_call tok from to n answer = (\<lambda>((v, L), W). case move_balance (L tok) from to n of
     None \<Rightarrow> ((False, []), ((v, L), W), [])
   | Some f \<Rightarrow> ((True, answer), ((v, L(tok := f)), W), []))"

definition ledger_chain :: "(ledger, balances) v_chain" where
  "ledger_chain = \<lparr>
     low_call = (\<lambda>from to val gas data. if data = [] then ledger_call NATIVE_ADDR from to val []
       else ledger_call to from (word_of_nat (be_value (take 32 (drop 4 data)))) (word_of_nat (be_value (drop 36 data))) true_data),
     safe_transfer = (\<lambda>t f r n. ret ()), safe_transferFrom = (\<lambda>t sp f r n. ret ()),
     token_balance = (\<lambda>t a s. Inr (snd (fst s) t a, s, [])), native_balance = (\<lambda>a s. snd (fst s) NATIVE_ADDR a),
     code_size = (\<lambda>a s. 1), gas_left = (\<lambda>s. 1000000), create2 = (\<lambda>a b t s. None), deposit_vault = (\<lambda>a s. None)\<rparr>"

lemma ledger_transfer:
  "low_call ledger_chain this tok 0 None (encodeWithSelector V ''transfer(address,uint256)'' [SAddress gov, SUint n]) =
   ledger_call tok this gov n true_data"
  by (simp add: ledger_chain_def) (simp add: encodeWithSelector_def SAddress_def SUint_def abi_encode_two_words)

lemma ledger_native: "low_call ledger_chain this gov n g [] = ledger_call NATIVE_ADDR this gov n []"
  by (simp add: ledger_chain_def)

lemma ledger_pay:
  "pay V ledger_chain this tok gov n = ledger_call tok this gov n (if tok = NATIVE_ADDR then [] else true_data)"
  by (rule ext) (simp add: pay_def ledger_transfer ledger_native)

lemma ledger_honest: "honest_asset V ledger_chain this gov (\<lambda>s. snd (fst s) tok) tok"
  unfolding honest_asset_def ledger_pay
  by (auto simp: ledger_chain_def ledger_call_def pay_succeeds_def decode_true split: option.splits if_splits
      dest: move_balance_moved)

definition stocked_vault :: "(ledger, balances) v_state" where
  "stocked_vault = ((sample_vault\<lparr>v_guard := \<lparr>communityGuardDisabled = True, suspended = True\<rparr>\<rparr>,
     (\<lambda>t. (\<lambda>_. 0)(30 := if t = NATIVE_ADDR then 60 else 50))), km_world)"


end
