(* ===== verification/Deployer.thy ===== *)
theory Deployer
  imports System Vault
begin

text \<open>
  \<open>utils/DeployerContract.sol\<close> and \<open>utils/DeployerStateChainGateway.sol\<close>: the constructors
  that create the contracts and connect them in one transaction. The addresses of the new
  contracts are those the chain computes for the deployer's successive creations, here the argument
  \<open>created\<close>; a creation at an address that is taken reverts. The lemmas show that the result is
  connected as the protocol needs it, and stays so.
\<close>

section \<open>Creating contracts\<close>

text \<open>The deployed Vaults join the system as the storage of this part.\<close>

type_synonym vaults = "address \<Rightarrow> vault option"

type_synonym ('t, 'w, 'a) deploy_action = "(vaults, 't, 'w, unit, 'a) sys_action"

definition free_address :: "address \<Rightarrow> vaults \<times> ('t, 'w) system \<Rightarrow> bool" where
  "free_address a = (\<lambda>(vs, S). \<not> has_code (sys_world S) a \<and> key_managers (sys_world S) a = None \<and>
     flips (sys_world S) a = None \<and> sys_gateways S a = None \<and> vs a = None)"

definition mark_code :: "address \<Rightarrow> 't world \<Rightarrow> 't world" where
  "mark_code a W = W\<lparr>has_code := (has_code W)(a := True)\<rparr>"

text \<open>\<open>new C(args)\<close>: the constructor runs, then \<open>install\<close> puts the contract at its address.\<close>

definition create_contract ::
  "address \<Rightarrow> 'k sol \<Rightarrow> ('k \<Rightarrow> vaults \<times> ('t, 'w) system \<Rightarrow> vaults \<times> ('t, 'w) system) \<Rightarrow> ('t, 'w, unit) deploy_action" where
  "create_contract a r install =
     require (free_address a) RevertEmpty
    (andthen (checked r) (\<lambda>k.
     andthen (modify (install k)) (\<lambda>_.
     modify (\<lambda>(vs, S). (vs, S\<lparr>sys_world := mark_code a (sys_world S)\<rparr>)))))"

definition new_KeyManager :: "address \<Rightarrow> Key \<Rightarrow> address \<Rightarrow> address \<Rightarrow> ('t, 'w, unit) deploy_action" where
  "new_KeyManager a aggKey0 govKey0 commKey0 = create_contract a (km_constructor aggKey0 govKey0 commKey0)
     (\<lambda>k (vs, S). (vs, S\<lparr>sys_world := (sys_world S)\<lparr>key_managers := (key_managers (sys_world S))(a \<mapsto> k)\<rparr>\<rparr>))"

definition new_Vault :: "address \<Rightarrow> address \<Rightarrow> ('t, 'w, unit) deploy_action" where
  "new_Vault a km = create_contract a (vault_constructor km) (\<lambda>v (vs, S). (vs(a \<mapsto> v), S))"

definition new_StateChainGateway :: "address \<Rightarrow> address \<Rightarrow> uint256 \<Rightarrow> 48 word \<Rightarrow> ('t, 'w, unit) deploy_action" where
  "new_StateChainGateway a km minFund delay = create_contract a (gw_constructor km minFund delay)
     (\<lambda>g (vs, S). (vs, S\<lparr>sys_gateways := (sys_gateways S)(a \<mapsto> g)\<rparr>))"

definition new_FLIP ::
  "'t erc20 \<Rightarrow> address \<Rightarrow> uint256 \<Rightarrow> uint256 \<Rightarrow> uint256 \<Rightarrow> address \<Rightarrow> address \<Rightarrow> address \<Rightarrow> ('t, 'w, unit) deploy_action" where
  "new_FLIP T a supply num stake vr gr iss = create_contract a (flip_constructor T supply num stake vr gr iss)
     (\<lambda>F (vs, S). (vs, S\<lparr>sys_world := (sys_world S)\<lparr>flips := (flips (sys_world S))(a \<mapsto> F)\<rparr>\<rparr>))"

section \<open>The constructors\<close>

record deployment =
  d_keyManager :: address
  d_vault :: address
  d_gateway :: address
  d_flip :: address

definition deploy_all ::
  "'t erc20 \<Rightarrow> (nat \<Rightarrow> address) \<Rightarrow> Key \<Rightarrow> address \<Rightarrow> address \<Rightarrow> uint256 \<Rightarrow> 48 word \<Rightarrow> uint256 \<Rightarrow> uint256 \<Rightarrow> uint256 \<Rightarrow>
   ('t, 'w, deployment) deploy_action" where
  "deploy_all T created aggKey0 govKey0 commKey0 minFund redemptionDelay initSupply numGenesisValidators genesisStake =
     andthen (new_KeyManager (created 1) aggKey0 govKey0 commKey0) (\<lambda>_.
     andthen (new_Vault (created 2) (created 1)) (\<lambda>_.
     andthen (new_StateChainGateway (created 3) (created 1) minFund redemptionDelay) (\<lambda>_.
     andthen (new_FLIP T (created 4) initSupply numGenesisValidators genesisStake (created 3) govKey0 (created 3)) (\<lambda>_.
     andthen (call_gateway (created 3) (setFlip (created 4))) (\<lambda>_.
     ret \<lparr>d_keyManager = created 1, d_vault = created 2, d_gateway = created 3, d_flip = created 4\<rparr>)))))"

text \<open>The upgrade of the gateway alone, for a KeyManager and a FLIP that exist.\<close>

definition deploy_gateway ::
  "(nat \<Rightarrow> address) \<Rightarrow> uint256 \<Rightarrow> 48 word \<Rightarrow> address \<Rightarrow> address \<Rightarrow> ('t, 'w, deployment) deploy_action" where
  "deploy_gateway created minFund redemptionDelay km flip =
     require (\<lambda>_. km \<noteq> ZERO_ADDR) (Revert ''Shared: address input is empty'')
    (require (\<lambda>_. flip \<noteq> ZERO_ADDR) (Revert ''Shared: address input is empty'')
    (andthen (new_StateChainGateway (created 1) km minFund redemptionDelay) (\<lambda>_.
     andthen (call_gateway (created 1) (setFlip flip)) (\<lambda>_.
     ret \<lparr>d_keyManager = km, d_vault = 0, d_gateway = created 1, d_flip = flip\<rparr>))))"

lemmas new_defs = new_KeyManager_def new_Vault_def new_StateChainGateway_def new_FLIP_def

lemma create_Inr [res_simps]:
  "create_contract a r install s = Inr (u, s', l) \<longleftrightarrow>
     (\<exists>k. free_address a s \<and> r = Inr k \<and>
        s' = (\<lambda>(vs, S). (vs, S\<lparr>sys_world := mark_code a (sys_world S)\<rparr>)) (install k s) \<and> l = [])"
  by (auto simp: create_contract_def res_simps)

section \<open>The deployed system\<close>

text \<open>What it means that the contracts of a deployment are connected.\<close>

definition connected :: "'t erc20 \<Rightarrow> deployment \<Rightarrow> Key \<Rightarrow> address \<Rightarrow> address \<Rightarrow> vaults \<times> ('t, 'w) system \<Rightarrow> bool" where
  "connected T d aggKey0 govKey0 commKey0 = (\<lambda>(vs, S). \<exists>km v g F.
     key_managers (sys_world S) (d_keyManager d) = Some km \<and> vs (d_vault d) = Some v \<and>
     sys_gateways S (d_gateway d) = Some g \<and> flips (sys_world S) (d_flip d) = Some F \<and>
     aggKey km = aggKey0 \<and> govKey km = govKey0 \<and> commKey km = commKey0 \<and> (\<forall>n. \<not> isNonceUsed km n) \<and>
     v_keyManager v = d_keyManager d \<and> gw_keyManager g = d_keyManager d \<and>
     FLIP g = d_flip d \<and> getIssuer F = d_gateway d \<and>
     v_guard v = initial_guard \<and> gw_guard g = initial_guard \<and> (\<forall>n. getPendingRedemption g n = no_redemption))"

lemma deploy_connected:
  assumes "deploy_all T created aggKey0 govKey0 commKey0 minFund delay supply num stake s = Inr (d, s', l)"
    and "distinct (map created [1, 2, 3, 4])"
  shows "connected T d aggKey0 govKey0 commKey0 s'"
proof -
  obtain vs S where s: "s = (vs, S)"
    by (cases s)
  show ?thesis
    using assms unfolding s
    by (auto simp: deploy_all_def new_defs andthen_Inr create_Inr action_Inr call_gateway_Inr setFlip_Inr
        km_constructor_def validAggKey_def vault_constructor_def gw_constructor_def flip_constructor_def guard_defs
        rensure_eq_Inr rbind_eq_Inr verifySigningKeyX_def mark_code_def connected_def getIssuer_def getPendingRedemption_def)
qed

text \<open>C20: after a deployment the system is connected: Vault and gateway refer to the new KeyManager, the
  gateway to the new FLIP and is its issuer. The keys are those given, no nonce is used, no
  redemption is pending, nothing is suspended and the community guard is on.\<close>

theorem deployment_connected:
  assumes "deploy_all T created aggKey0 govKey0 commKey0 minFund delay supply num stake s = Inr (d, s', l)"
    and "distinct (map created [1, 2, 3, 4])"
  shows "connected T d aggKey0 govKey0 commKey0 s'"
  using deploy_connected [OF assms] .

text \<open>Although \<open>setFlip\<close> carries no access control, a deployed gateway keeps the FLIP it was deployed
  with: whatever calls follow, from whomever, and however the rest of the world changes.\<close>

theorem deployed_flip_fixed:
  assumes "deploy_all T created aggKey0 govKey0 commKey0 minFund delay supply num stake s = Inr (d, (vs, S), l)"
    and "distinct (map created [1, 2, 3, 4])" and "sys_gateways S (d_gateway d) = Some g"
  shows "FLIP (fst (run_calls (gw_exec V T (d_gateway d)) cs (g, W))) = d_flip d"
proof -
  have "FLIP g = d_flip d"
    using deploy_connected [OF assms(1,2)] assms(3) by (auto simp: connected_def)
  moreover have "d_flip d \<noteq> 0"
    using assms(1)
    by (cases s) (auto simp: deploy_all_def andthen_Inr action_Inr call_gateway_def setFlip_Inr rbind_eq_Inr
        split: option.splits)
  ultimately have i: "FLIP (fst (g, W)) = d_flip d \<and> d_flip d \<noteq> 0"
    by simp
  have "FLIP (fst (run_calls (gw_exec V T (d_gateway d)) cs (g, W))) = d_flip d \<and> d_flip d \<noteq> 0"
    by (rule run_calls_invariant [where I = "\<lambda>sw. FLIP (fst sw) = d_flip d \<and> d_flip d \<noteq> 0", OF _ i])
       (metis gw_exec_keeps_FLIP)
  then show ?thesis by blast
qed

text \<open>The genesis supply: FLIP exists in exactly the requested amount, the gateway holds the stakes of
  the genesis validators and the governor the rest.\<close>

theorem deployment_genesis:
  assumes "erc20_spec T" and "created 3 \<noteq> govKey0"
    and "deploy_all T created aggKey0 govKey0 commKey0 minFund delay supply num stake s = Inr (d, (vs, S), l)"
  shows "\<exists>F. flips (sys_world S) (d_flip d) = Some F \<and> flip_totalSupply T F = supply \<and>
    unat (flip_balanceOf T F (d_gateway d)) = unat num * unat stake \<and>
    unat (flip_balanceOf T F govKey0) = unat supply - unat num * unat stake"
proof -
  obtain F where F: "flip_constructor T supply num stake (created 3) govKey0 (created 3) = Inr F"
    and "flips (sys_world S) (d_flip d) = Some F" "d_gateway d = created 3"
    using assms(3)
    by (cases s) (auto simp: deploy_all_def new_FLIP_def andthen_Inr create_Inr action_Inr call_gateway_Inr setFlip_Inr
        mark_code_def)
  then show ?thesis
    using flip_genesis [OF assms(1) F assms(2)] by simp
qed

text \<open>The upgrade of the gateway: a new gateway refers to the given KeyManager and FLIP, and no
  contract that was there changes. FLIP keeps its issuer, so the new gateway cannot mint until the
  old one hands the issuance over.\<close>

theorem gateway_upgrade:
  assumes "deploy_gateway created minFund delay km flip (vs, S) = Inr (d, (vs', S'), l)"
  shows "(\<exists>g. sys_gateways S' (created 1) = Some g \<and> FLIP g = flip \<and> gw_keyManager g = km \<and>
      (\<forall>n. getPendingRedemption g n = no_redemption)) \<and>
    vs' = vs \<and> flips (sys_world S') = flips (sys_world S) \<and> key_managers (sys_world S') = key_managers (sys_world S) \<and>
    (\<forall>a. a \<noteq> created 1 \<longrightarrow> sys_gateways S' a = sys_gateways S a) \<and> sys_gateways S (created 1) = None"
  using assms
  by (auto simp: deploy_gateway_def new_StateChainGateway_def andthen_Inr create_Inr action_Inr call_gateway_Inr setFlip_Inr
      gw_constructor_def guard_defs rensure_eq_Inr mark_code_def free_address_def getPendingRedemption_def)

section \<open>Witnesses\<close>

definition empty_system :: "(ledger, unit) system" where
  "empty_system = \<lparr>sys_world = \<lparr>key_managers = (\<lambda>a. None), other_km = no_answers, flips = (\<lambda>a. None), has_code = (\<lambda>a. False),
       issuer_FLIP = (\<lambda>a. None)\<rparr>,
     sys_gateways = (\<lambda>a. None), sys_holders = (\<lambda>a. None), sys_rest = ()\<rparr>"

abbreviation sample_created :: "nat \<Rightarrow> address" where
  "sample_created i \<equiv> 100 + word_of_nat i"

abbreviation sample_deploy :: "(ledger, unit, deployment) deploy_action" where
  "sample_deploy \<equiv> deploy_all ledger_erc20 sample_created \<lparr>pubKeyX = 1, pubKeyYParity = 0\<rparr> 3 4 10 100 100 3 10"

lemma sample_deployed:
  "\<exists>vs S l. sample_deploy ((\<lambda>a. None), empty_system) =
     Inr (\<lparr>d_keyManager = 101, d_vault = 102, d_gateway = 103, d_flip = 104\<rparr>, (vs, S), l)"
  by (simp add: deploy_all_def new_defs create_contract_def action_defs call_gateway_def setFlip_def on_storage_def
      free_address_def mark_code_def empty_system_def km_constructor_def validAggKey_def verifySigningKeyX_def
      vault_constructor_def gw_constructor_def flip_constructor_def guard_defs sample_x checked_mul_def checked_sub_def
      checked_add_def ledger_erc20_def)

lemma deployment_connected_witness:
  "\<exists>d s' l. sample_deploy ((\<lambda>a. None), empty_system) = Inr (d, s', l) \<and>
     connected ledger_erc20 d \<lparr>pubKeyX = 1, pubKeyYParity = 0\<rparr> 3 4 s'"
proof -
  obtain vs S l where r: "sample_deploy ((\<lambda>a. None), empty_system) =
      Inr (\<lparr>d_keyManager = 101, d_vault = 102, d_gateway = 103, d_flip = 104\<rparr>, (vs, S), l)"
    using sample_deployed by blast
  have "distinct (map sample_created [1, 2, 3, 4])"
    by simp
  from deployment_connected [OF r this] r show ?thesis by blast
qed

lemma deployed_flip_fixed_witness:
  "\<exists>d vs S l g. sample_deploy ((\<lambda>a. None), empty_system) = Inr (d, (vs, S), l) \<and> sys_gateways S 103 = Some g \<and>
     FLIP (fst (run_calls (gw_exec sample_evm ledger_erc20 103) [(sender_env 7, GwSetFlip 5)] (g, sys_world S))) = 104"
proof -
  obtain vs S l where r: "sample_deploy ((\<lambda>a. None), empty_system) =
      Inr (\<lparr>d_keyManager = 101, d_vault = 102, d_gateway = 103, d_flip = 104\<rparr>, (vs, S), l)"
    using sample_deployed by blast
  have dist: "distinct (map sample_created [1, 2, 3, 4])"
    by simp
  obtain g where g: "sys_gateways S (d_gateway \<lparr>d_keyManager = 101, d_vault = 102, d_gateway = 103, d_flip = 104\<rparr>) = Some g"
    using deploy_connected [OF r dist] by (auto simp: connected_def)
  from deployed_flip_fixed [OF r dist g] r g show ?thesis
    by (metis deployment.select_convs(3,4))
qed

lemma deployment_genesis_witness:
  "\<exists>d vs S l F. sample_deploy ((\<lambda>a. None), empty_system) = Inr (d, (vs, S), l) \<and> flips (sys_world S) 104 = Some F \<and>
     unat (flip_balanceOf ledger_erc20 F 103) = 30 \<and> unat (flip_balanceOf ledger_erc20 F 3) = 70"
proof -
  obtain vs S l where r: "sample_deploy ((\<lambda>a. None), empty_system) =
      Inr (\<lparr>d_keyManager = 101, d_vault = 102, d_gateway = 103, d_flip = 104\<rparr>, (vs, S), l)"
    using sample_deployed by blast
  have "sample_created 3 \<noteq> 3"
    by simp
  from deployment_genesis [OF ledger_erc20_spec this r] r show ?thesis
    by auto
qed

lemma gateway_upgrade_witness:
  "\<exists>d vs' S' l g. deploy_gateway sample_created 10 100 9 20 ((\<lambda>a. None), empty_system) = Inr (d, (vs', S'), l) \<and>
     sys_gateways S' 101 = Some g \<and> FLIP g = 20"
proof -
  have "\<exists>d vs' S' l. deploy_gateway sample_created 10 100 9 20 ((\<lambda>a. None), empty_system) = Inr (d, (vs', S'), l)"
    by (simp add: deploy_gateway_def new_defs create_contract_def action_defs call_gateway_def setFlip_def on_storage_def
        free_address_def mark_code_def empty_system_def gw_constructor_def guard_defs)
  then obtain d vs' S' l where "deploy_gateway sample_created 10 100 9 20 ((\<lambda>a. None), empty_system) = Inr (d, (vs', S'), l)"
    by blast
  from gateway_upgrade [OF this] this show ?thesis
    by auto
qed

end
