(* ===== verification/Protocol.thy ===== *)
theory Protocol
  imports Deployer
begin

text \<open>
  The running protocol: any sequence of transactions to the KeyManagers, to FLIP and to the deployed
  gateways of a system, in any order and from any account. What a transaction does to the
  KeyManagers and to FLIP is a trace of calls of those contracts, so an invariant of single calls
  carries over to all transactions by rule induction. The lemmas show that a signature is accepted
  once, whichever contract passes it on, and that the supply of FLIP is always the last one signed.
\<close>

section \<open>Transactions\<close>

text \<open>The Vault and ScUtils reach the KeyManager and FLIP like any account: their calls are
  \<open>ToKeyManager\<close> and \<open>ToFlip\<close> from their address. A gateway sends nothing but the
  calls of its code, and \<open>GwOutside\<close> is no transaction.\<close>

datatype 't tx =
    ToKeyManager address km_call
  | ToFlip address flip_call
  | ToGateway address "'t gw_call"

fun is_transaction :: "'t gw_call \<Rightarrow> bool" where
  "is_transaction (GwOutside W) = False"
| "is_transaction c = True"

fun tx_action :: "evm \<Rightarrow> 't erc20 \<Rightarrow> env \<Rightarrow> 't tx \<Rightarrow> ('c, 't, 'w, 'e, unit) sys_action" where
  "tx_action V T E (ToKeyManager a c) = with_world (call_km a (km_exec V a (E, c)))"
| "tx_action V T E (ToFlip a c) =
     require (\<lambda>(c, S). sys_gateways S (msg_sender E) = None) CallReverted
       (with_world (call_flip a (flip_exec T (E, c))))"
| "tx_action V T E (ToGateway a c) =
     (if is_transaction c then call_gateway a (gw_action V T a E c) else revert CallReverted)"

definition tx_exec ::
  "evm \<Rightarrow> 't erc20 \<Rightarrow> env \<times> 't tx \<Rightarrow> 'c \<times> ('t, 'w) system \<Rightarrow> (('c \<times> ('t, 'w) system) \<times> unit sys_log list) sol" where
  "tx_exec V T x = transaction (tx_action V T (fst x) (snd x))"

section \<open>Traces of calls\<close>

datatype world_call = WKeyManager address env km_call | WFlip address env flip_call

fun world_exec :: "evm \<Rightarrow> 't erc20 \<Rightarrow> world_call \<Rightarrow> ('t world, protocol_log, unit) action" where
  "world_exec V T (WKeyManager a E c) = call_km a (km_exec V a (E, c))"
| "world_exec V T (WFlip a E c) = call_flip a (flip_exec T (E, c))"

text \<open>A trace of calls that all satisfy \<open>P\<close>, with the events they leave.\<close>

inductive world_trace ::
  "evm \<Rightarrow> 't erc20 \<Rightarrow> (world_call \<Rightarrow> bool) \<Rightarrow> 't world \<Rightarrow> protocol_log list \<Rightarrow> 't world \<Rightarrow> bool" for V T P where
  none: "world_trace V T P W [] W"
| call: "P c \<Longrightarrow> world_exec V T c W = Inr (u, W1, l) \<Longrightarrow> world_trace V T P W1 l' W' \<Longrightarrow>
    world_trace V T P W (l @ l') W'"

lemma trace_trans: "world_trace V T P W l W1 \<Longrightarrow> world_trace V T P W1 l' W2 \<Longrightarrow> world_trace V T P W (l @ l') W2"
  by (induction rule: world_trace.induct) (auto intro: world_trace.call)

lemma trace_one: "P c \<Longrightarrow> world_exec V T c W = Inr (u, W', l) \<Longrightarrow> world_trace V T P W l W'"
  using world_trace.call [of P c V T W u W' l "[]" W'] world_trace.none by fastforce

text \<open>The events of KeyManagers and FLIP among those of a gateway and of the system.\<close>

definition contract_log :: "'e log list \<Rightarrow> protocol_log list" where
  "contract_log l = concat (map (\<lambda>e. case e of Other q \<Rightarrow> [q] | _ \<Rightarrow> []) l)"

definition world_log :: "'e sys_log list \<Rightarrow> protocol_log list" where
  "world_log l = concat (map (\<lambda>e. case e of OfWorld q \<Rightarrow> [q] | OfGateway a (Other q) \<Rightarrow> [q] | _ \<Rightarrow> []) l)"

lemma world_log_simps [simp]:
  "contract_log [] = []" "contract_log (l @ l') = contract_log l @ contract_log l'"
  "contract_log (Other q # l) = q # contract_log l" "contract_log (Own e # l) = contract_log l"
  "contract_log (map Other ql) = ql" "contract_log (map Guarded gl) = []"
  "world_log ([] :: 'e sys_log list) = []" "world_log (k @ k') = world_log k @ world_log k'"
  "world_log (map OfWorld ql) = ql" "world_log (map (OfGateway a) gwl) = contract_log gwl"
  by (simp_all add: contract_log_def world_log_def o_def)

subsection \<open>Every call of a gateway is a trace\<close>

text \<open>The calls the gateway at \<open>this\<close> makes itself; \<open>b\<close>: minting and burning included.\<close>

fun sent_by :: "address \<Rightarrow> bool \<Rightarrow> world_call \<Rightarrow> bool" where
  "sent_by this b (WKeyManager a E c) \<longleftrightarrow> msg_sender E = this"
| "sent_by this b (WFlip a E (FlipMint x n)) \<longleftrightarrow> msg_sender E = this \<and> b"
| "sent_by this b (WFlip a E (FlipBurn x n)) \<longleftrightarrow> msg_sender E = this \<and> b"
| "sent_by this b (WFlip a E c) \<longleftrightarrow> msg_sender E = this"

definition world_traced :: "evm \<Rightarrow> 't erc20 \<Rightarrow> (world_call \<Rightarrow> bool) \<Rightarrow> gateway \<times> 't world \<Rightarrow> gw_event log list \<Rightarrow> gateway \<times> 't world \<Rightarrow> bool" where
  "world_traced V T P x l x' \<longleftrightarrow> world_trace V T P (snd x) (contract_log l) (snd x')"

abbreviation traced :: "evm \<Rightarrow> 't erc20 \<Rightarrow> (world_call \<Rightarrow> bool) \<Rightarrow> ('t, 'a) gw_action \<Rightarrow> bool" where
  "traced V T P \<equiv> conforms (world_traced V T P)"

interpretation trace: gateway_relation "world_traced V T P" for V and T :: "'t erc20" and P
  by unfold_locales (auto simp: world_traced_def intro: world_trace.none trace_trans)

named_theorems traced_intros "actions whose effect on the world is a trace of calls"

lemmas traced_structure [traced_intros] = trace.gateway_structure

lemma tracedD: "traced V T P m \<Longrightarrow> m (s, W) = Inr (a, (s', W'), l) \<Longrightarrow> world_trace V T P W (contract_log l) W'"
  by (drule (1) conformsD) (simp add: world_traced_def)

lemma traced_still [traced_intros]: "traced V T P (emit (Own e))" "traced V T P (on_storage h)"
  by (auto simp: conforms_def world_traced_def action_Inr on_storage_Inr intro: world_trace.none)

lemma traced_signed [traced_intros]:
  assumes "\<And>a sd h. P (WKeyManager a (call_env E this) (ConsumeKeyNonce sd h))" and "traced V T P m"
  shows "traced V T P (consumesKeyNonce V this E km sd h m)"
proof -
  have "traced V T P (in_world (call_km a (consumeKeyNonce V a (call_env E this) sd h)))" for a
    using trace_one [where P = P and c = "WKeyManager a (call_env E this) (ConsumeKeyNonce sd h)" for sd h,
        OF assms(1), unfolded world_exec.simps km_exec.simps]
    by (auto simp: conforms_def world_traced_def in_world_Inr)
  then show ?thesis
    unfolding consumesKeyNonce_def by (intro traced_intros assms(2))
qed

lemma traced_flip:
  assumes "P (WFlip a (call_env E this) c)"
  shows "traced V T P (in_world (call_flip a (flip_exec T (call_env E this, c))))"
  using trace_one [where P = P and c = "WFlip a (call_env E this) c", OF assms]
  by (auto simp: conforms_def world_traced_def in_world_Inr)

lemma traced_call_flip:
  assumes "\<And>a. P (WFlip a (call_env E this) c)"
  shows "traced V T P (gw_call_flip (flip_exec T (call_env E this, c)))"
  unfolding gw_call_flip_def by (intro traced_intros traced_flip assms)

lemma traced_flip_calls [traced_intros]:
  "(\<And>a. P (WFlip a (call_env E this) (FlipTransfer r n))) \<Longrightarrow> traced V T P (gw_call_flip (flip_transfer T (call_env E this) r n))"
  "(\<And>a. P (WFlip a (call_env E this) (FlipTransferFrom f r n))) \<Longrightarrow>
     traced V T P (gw_call_flip (flip_transferFrom T (call_env E this) f r n))"
  "(\<And>a. P (WFlip a (call_env E this) (FlipMint r n))) \<Longrightarrow> traced V T P (gw_call_flip (flip_mint T (call_env E this) r n))"
  "(\<And>a. P (WFlip a (call_env E this) (FlipBurn r n))) \<Longrightarrow> traced V T P (gw_call_flip (flip_burn T (call_env E this) r n))"
  "(\<And>a. P (WFlip a (call_env E this) (FlipUpdateIssuer r))) \<Longrightarrow> traced V T P (gw_call_flip (updateIssuer (call_env E this) r))"
  by (rule traced_call_flip [where c = "FlipTransfer r n", unfolded flip_exec.simps]
        traced_call_flip [where c = "FlipTransferFrom f r n", unfolded flip_exec.simps]
        traced_call_flip [where c = "FlipMint r n", unfolded flip_exec.simps]
        traced_call_flip [where c = "FlipBurn r n", unfolded flip_exec.simps]
        traced_call_flip [where c = "FlipUpdateIssuer r", unfolded flip_exec.simps]; assumption)+

lemma traced_guard_call [traced_intros]: "traced V T P (gw_guard_call E c)"
proof -
  have "traced V T P (\<lambda>(s, W). rbind (guard_op E key key c (gw_guard s)) (\<lambda>(u, g, l).
      Inr (u, (s\<lparr>gw_guard := g\<rparr>, W), map Guarded l)))" for key
    by (auto simp: conforms_def world_traced_def rbind_eq_Inr intro: world_trace.none)
  then show ?thesis
    unfolding gw_guard_call_def by (intro traced_intros)
qed

text \<open>Only a supply update mints or burns.\<close>

definition updates_supply :: "'t gw_call \<Rightarrow> bool" where
  "updates_supply c = (case c of GwUpdateSupply sd n b \<Rightarrow> True | _ \<Rightarrow> False)"

lemma updates_supplyE:
  assumes "updates_supply c"
  obtains sd n b where "c = GwUpdateSupply sd n b"
  using assms by (cases c) (auto simp: updates_supply_def)

lemmas traced_ops = setFlip_def fundStateChainAccount_def registerRedemption_def executeRedemption_def
  updateFlipSupply_def updateFlipIssuer_def setMinFunding_def gw_govWithdraw_def govUpdateFlipIssuer_def
  gw_updateKeyManager_def updateKeyManager_def adjustSupply_def

lemma gw_action_traced:
  assumes "is_transaction c"
  shows "traced V T (sent_by this (updates_supply c)) (gw_action V T this E c)"
  using assms
  by (cases c; simp only: gw_action.simps traced_ops; (intro traced_intros)?)
     (auto simp: updates_supply_def call_env_def)

text \<open>The events and calls of a transaction: those of an account itself, or of a gateway.\<close>

fun tx_calls :: "env \<Rightarrow> 't tx \<Rightarrow> world_call \<Rightarrow> bool" where
  "tx_calls E (ToKeyManager a c) w \<longleftrightarrow> w = WKeyManager a E c"
| "tx_calls E (ToFlip a c) w \<longleftrightarrow> w = WFlip a E c"
| "tx_calls E (ToGateway g c) w \<longleftrightarrow> sent_by g (updates_supply c) w"

lemma tx_traced:
  assumes "tx_exec V T (E, x) (c, S) = Inr ((c', S'), l)"
  shows "world_trace V T (tx_calls E x) (sys_world S) (world_log l) (sys_world S')"
proof (cases x)
  case (ToKeyManager a k)
  then show ?thesis
    using assms trace_one [of "tx_calls E x" "WKeyManager a E k" V T]
    by (auto simp: tx_exec_def transaction_Inr with_world_Inr simp del: map_map)
next
  case (ToFlip a k)
  then show ?thesis
    using assms trace_one [of "tx_calls E x" "WFlip a E k" V T]
    by (auto simp: tx_exec_def transaction_Inr action_Inr with_world_Inr simp del: map_map)
next
  case (ToGateway a k)
  then obtain g g' l' W' where k: "is_transaction k" "gw_action V T a E k (g, sys_world S) = Inr ((), (g', W'), l')"
      "sys_world S' = W'" "l = map (OfGateway a) l'"
    using assms by (auto simp: tx_exec_def transaction_Inr call_gateway_Inr action_Inr split: if_splits)
  have "tx_calls E x = sent_by a (updates_supply k)"
    by (rule ext) (simp add: ToGateway)
  then show ?thesis
    using tracedD [OF gw_action_traced [OF k(1)] k(2)] by (simp add: k)
qed

section \<open>Every signature once\<close>

definition spent_nonces :: "address \<Rightarrow> protocol_log list \<Rightarrow> uint256 list" where
  "spent_nonces a l = concat (map (\<lambda>q. case q of
     KmLog b (SignatureAccepted sd who) \<Rightarrow> if b = a then [nonce sd] else [] | _ \<Rightarrow> []) l)"

text \<open>Between two worlds: the KeyManager at \<open>a\<close> has marked exactly the nonces that the events
  announce, each unused before and announced once.\<close>

definition nonces_spent :: "address \<Rightarrow> 't world \<Rightarrow> protocol_log list \<Rightarrow> 't world \<Rightarrow> bool" where
  "nonces_spent a W l W' \<longleftrightarrow> (case key_managers W a of
     None \<Rightarrow> key_managers W' a = None \<and> spent_nonces a l = []
   | Some k \<Rightarrow> \<exists>k'. key_managers W' a = Some k' \<and> distinct (spent_nonces a l) \<and>
       (\<forall>n\<in>set (spent_nonces a l). \<not> isNonceUsed k n) \<and>
       (\<forall>n. isNonceUsed k' n \<longleftrightarrow> isNonceUsed k n \<or> n \<in> set (spent_nonces a l)))"

lemma spent_nonces_simps [simp]:
  "spent_nonces a [] = []" "spent_nonces a (l @ l') = spent_nonces a l @ spent_nonces a l'"
  "spent_nonces a (map (FlipLog b) fl) = []" "b \<noteq> a \<Longrightarrow> spent_nonces a (map (KmLog b) kl) = []"
  by (simp_all add: spent_nonces_def o_def split: km_event.splits)

lemma nonces_spent_refl: "nonces_spent a W [] W"
  by (simp add: nonces_spent_def split: option.splits)

lemma nonces_spent_trans: "nonces_spent a W l W1 \<Longrightarrow> nonces_spent a W1 l' W2 \<Longrightarrow> nonces_spent a W (l @ l') W2"
  by (auto simp: nonces_spent_def split: option.splits)

lemma nonces_spent_distinct: "nonces_spent a W l W' \<Longrightarrow> distinct (spent_nonces a l)"
  by (auto simp: nonces_spent_def split: option.splits)

lemma km_exec_spent:
  "km_exec V b (E, c) k = Inr (k', evs) \<Longrightarrow>
   spent_nonces a (map (KmLog a) evs) = (case km_spends (E, c) of None \<Rightarrow> [] | Some n \<Rightarrow> [n])"
  by (cases c) (auto simp: km_success spent_nonces_def)

lemma world_call_nonces:
  assumes "world_exec V T c W = Inr (u, W', l)"
  shows "nonces_spent a W l W'"
proof (cases c)
  case (WKeyManager b E d)
  then obtain k k' evs where k: "key_managers W b = Some k" "km_exec V b (E, d) k = Inr (k', evs)"
      "W' = W\<lparr>key_managers := (key_managers W)(b \<mapsto> k')\<rparr>" "l = map (KmLog b) evs"
    using assms by (auto simp: call_km_Inr)
  show ?thesis
  proof (cases "b = a")
    case True
    then show ?thesis
      using k km_exec_nonces [OF k(2)] km_exec_spent [OF k(2), of a]
      by (auto simp: nonces_spent_def split: option.splits)
  next
    case False
    then show ?thesis
      using k by (simp add: nonces_spent_def split: option.splits)
  qed
next
  case (WFlip b E d)
  then show ?thesis
    using assms by (auto simp: call_flip_Inr nonces_spent_def split: option.splits)
qed

lemma world_trace_nonces: "world_trace V T P W l W' \<Longrightarrow> nonces_spent a W l W'"
proof (induction rule: world_trace.induct)
  case (call c W u W1 l l' W')
  then show ?case
    using nonces_spent_trans world_call_nonces by blast
qed (rule nonces_spent_refl)

definition system_nonces :: "address \<Rightarrow> 'c \<times> ('t, 'w) system \<Rightarrow> unit sys_log list \<Rightarrow> 'c \<times> ('t, 'w) system \<Rightarrow> bool" where
  "system_nonces a x l x' \<longleftrightarrow> nonces_spent a (sys_world (snd x)) (world_log l) (sys_world (snd x'))"

interpretation nonces: action_relation "system_nonces a" for a
  by unfold_locales (auto simp: system_nonces_def intro: nonces_spent_refl nonces_spent_trans)

lemma tx_nonces: "conforms (system_nonces a) (tx_action V T E x)"
  unfolding conforms_def
proof (intro allI impI)
  fix s u s' and l :: "unit sys_log list"
  assume "tx_action V T E x s = Inr (u, s', l)"
  then have "tx_exec V T (E, x) (fst s, snd s) = Inr ((fst s', snd s'), l)"
    by (simp add: tx_exec_def transaction_Inr)
  then show "system_nonces a s l s'"
    unfolding system_nonces_def by (intro world_trace_nonces [OF tx_traced])
qed

lemma run_nonces: "system_nonces a s (run_log (tx_exec V T) xs s) (run_calls (tx_exec V T) xs s)"
  unfolding tx_exec_def [abs_def] by (intro nonces.conforms_run tx_nonces)

text \<open>C1: whatever transactions reach the contracts of the system, in any order and through whichever of them a signature is passed on, a KeyManager accepts every nonce at most once.\<close>

theorem signature_accepted_once:
  "distinct (spent_nonces a (world_log (run_log (tx_exec V T) xs (c, S))))"
  using run_nonces by (rule nonces_spent_distinct [OF iffD1 [OF system_nonces_def]])

section \<open>The supply of FLIP\<close>

text \<open>Between two worlds FLIP at \<open>tok\<close> keeps its supply, and its issuer unless an event says
  otherwise.\<close>

definition issuer_event :: "address \<Rightarrow> protocol_log list \<Rightarrow> bool" where
  "issuer_event tok l \<longleftrightarrow> list_ex (\<lambda>q. case q of FlipLog b (IssuerUpdated x y) \<Rightarrow> b = tok | _ \<Rightarrow> False) l"

definition supply_kept :: "'t erc20 \<Rightarrow> address \<Rightarrow> 't world \<Rightarrow> protocol_log list \<Rightarrow> 't world \<Rightarrow> bool" where
  "supply_kept T tok W l W' \<longleftrightarrow> (\<forall>F. flips W tok = Some F \<longrightarrow> (\<exists>F'. flips W' tok = Some F' \<and>
     flip_totalSupply T F' = flip_totalSupply T F \<and> (\<not> issuer_event tok l \<longrightarrow> issuer F' = issuer F)))"

lemma issuer_event_simps [simp]:
  "\<not> issuer_event tok []" "issuer_event tok (l @ l') \<longleftrightarrow> issuer_event tok l \<or> issuer_event tok l'"
  by (auto simp: issuer_event_def)

lemma supply_kept_refl: "supply_kept T tok W [] W"
  by (simp add: supply_kept_def)

lemma supply_kept_trans: "supply_kept T tok W l W1 \<Longrightarrow> supply_kept T tok W1 l' W2 \<Longrightarrow> supply_kept T tok W (l @ l') W2"
  unfolding supply_kept_def issuer_event_simps by metis

text \<open>A single call of FLIP keeps the supply unless the issuer itself mints or burns.\<close>

definition mints :: "flip_call \<Rightarrow> bool" where
  "mints c = (case c of FlipMint x n \<Rightarrow> True | FlipBurn x n \<Rightarrow> True | _ \<Rightarrow> False)"

lemma flip_exec_kept:
  assumes T: "erc20_spec T" and ex: "flip_exec T (E, c) F = Inr (F', evs)" and "mints c \<Longrightarrow> msg_sender E \<noteq> issuer F"
  shows "flip_totalSupply T F' = flip_totalSupply T F \<and> (issuer F' = issuer F \<or> evs = [IssuerUpdated (issuer F) (issuer F')])"
proof (cases c)
  case (FlipTransferFrom f r n)
  then show ?thesis
    using ex by (auto simp: flip_op_defs flip_views res_simps dest: erc20_transferFromD [OF T])
next
  case (FlipTransfer r n)
  then show ?thesis
    using ex by (auto simp: flip_op_defs flip_views res_simps dest: erc20_transferD [OF T])
next
  case (FlipApprove r n)
  then show ?thesis
    using ex by (auto simp: flip_op_defs flip_views res_simps dest: erc20_approveD [OF T])
qed (use assms in \<open>auto simp: mints_def flip_op_defs flip_views res_simps guard_defs\<close>)

lemma world_call_supply:
  assumes T: "erc20_spec T" and ex: "world_exec V T c W = Inr (u, W', l)"
    and no: "\<And>E d F. c = WFlip tok E d \<Longrightarrow> mints d \<Longrightarrow> flips W tok = Some F \<Longrightarrow> msg_sender E \<noteq> issuer F"
  shows "supply_kept T tok W l W'"
proof (cases c)
  case (WFlip b E d)
  then obtain F F' evs where f: "flips W b = Some F" "flip_exec T (E, d) F = Inr (F', evs)"
      "W' = W\<lparr>flips := (flips W)(b \<mapsto> F')\<rparr>" "l = map (FlipLog b) evs"
    using ex by (auto simp: call_flip_Inr)
  show ?thesis
  proof (cases "b = tok")
    case True
    have "flip_totalSupply T F' = flip_totalSupply T F \<and> (issuer F' = issuer F \<or> evs = [IssuerUpdated (issuer F) (issuer F')])"
      using flip_exec_kept [OF T f(2)] no [of E d F] WFlip True f(1) by blast
    then show ?thesis
      using True f by (auto simp: supply_kept_def issuer_event_def)
  qed (simp add: supply_kept_def f)
qed (use ex in \<open>auto simp: call_km_Inr supply_kept_def\<close>)

lemma world_trace_supply:
  assumes T: "erc20_spec T"
  shows "world_trace V T (sent_by this False) W l W' \<Longrightarrow> supply_kept T tok W l W'"
proof (induction rule: world_trace.induct)
  case (call c W u W1 l l' W')
  have "supply_kept T tok W l W1"
  proof (rule world_call_supply [OF T call.hyps(2)])
    fix E d F assume "c = WFlip tok E d" "mints d"
    then show "msg_sender E \<noteq> issuer F"
      using call.hyps(1) by (cases d) (simp_all add: mints_def)
  qed
  then show ?case
    using supply_kept_trans call.IH by blast
qed (rule supply_kept_refl)

text \<open>A supply update sets the supply when the gateway is the issuer; another gateway's update
  changes nothing.\<close>

lemma adjust_supply:
  assumes T: "erc20_spec T" and "flip_adjust T this E n F F' evs"
  shows "issuer F' = issuer F \<and> (issuer F = this \<longrightarrow> flip_totalSupply T F' = n) \<and> (issuer F \<noteq> this \<longrightarrow> F' = F)"
proof -
  let ?old = "flip_totalSupply T F"
  consider (burn) t where "n < ?old" "erc20_burn T this (?old - n) (token F) = Inr t" "F' = F\<lparr>token := t\<rparr>" "issuer F = this"
    | (mint) t where "?old < n" "erc20_mint T this (n - ?old) (token F) = Inr t" "F' = F\<lparr>token := t\<rparr>" "issuer F = this"
    | (same) "n = ?old" "F' = F"
    using flip_adjust_cases [OF assms(2)] by blast
  then show ?thesis
  proof cases
    case burn
    then have "unat (?old - n) = unat ?old - unat n" "unat n < unat ?old"
      by (simp_all add: word_less_nat_alt unat_sub less_imp_le)
    then have "unat (flip_totalSupply T F') = unat n"
      using burn erc20_burnD(2) [OF T burn(2)] by (simp add: flip_views)
    then show ?thesis
      using burn by (simp add: word_unat_eq_iff)
  next
    case mint
    then have "unat (n - ?old) = unat n - unat ?old" "unat ?old < unat n"
      by (simp_all add: word_less_nat_alt unat_sub less_imp_le)
    then have "unat (flip_totalSupply T F') = unat n"
      using mint erc20_mintD(2) [OF T mint(2)] by (simp add: flip_views)
    then show ?thesis
      using mint by (simp add: word_unat_eq_iff)
  qed simp
qed

lemma supply_update_flips:
  assumes T: "erc20_spec T" and up: "updateFlipSupply V T this E sd n b (s, W) = Inr (u, (s', W'), l)"
    and F: "flips W tok = Some F"
  shows "\<exists>F'. flips W' tok = Some F' \<and> issuer F' = issuer F \<and> (FLIP s = tok \<and> issuer F = this \<longrightarrow> flip_totalSupply T F' = n) \<and>
    (issuer F \<noteq> this \<longrightarrow> F' = F)"
proof -
  obtain W1 l1 F0 F' evs where sp: "nonce_spent V this E s W sd (updateFlipSupply_values V n b) W1 l1"
    and F0: "flips W (FLIP s) = Some F0" and adj: "flip_adjust T this E n F0 F' evs"
    and W': "W' = W1\<lparr>flips := (flips W1)(FLIP s \<mapsto> F')\<rparr>"
    using supply_InrD [OF up] by blast
  have W1: "flips W1 = flips W"
    using nonce_spent_world [OF sp] by blast
  show ?thesis
  proof (cases "FLIP s = tok")
    case True
    then show ?thesis
      using adjust_supply [OF T adj] F F0 W' W1 by auto
  qed (simp add: W' W1 F)
qed

text \<open>The supply updates a gateway announces: the new supply and its State Chain block.\<close>

definition supply_updates :: "address \<Rightarrow> 'e sys_log list \<Rightarrow> (uint256 \<times> uint256) list" where
  "supply_updates g l = concat (map (\<lambda>e. case e of
     OfGateway h (Own (FlipSupplyUpdated old n b)) \<Rightarrow> if h = g then [(n, b)] else [] | _ \<Rightarrow> []) l)"

lemma supply_updates_simps [simp]:
  "supply_updates g [] = []" "supply_updates g (l @ l') = supply_updates g l @ supply_updates g l'"
  "supply_updates g (map OfWorld ql) = []" "h \<noteq> g \<Longrightarrow> supply_updates g (map (OfGateway h) k) = []"
  "supply_updates g (map (OfGateway g \<circ> Other \<circ> f) fl) = []"
  by (simp_all add: supply_updates_def o_def concat_eq_Nil_conv split: log.splits gw_event.splits)

text \<open>The other calls of a gateway neither announce an update nor move its block.\<close>

definition record_kept :: "address \<Rightarrow> gateway \<times> 't world \<Rightarrow> gw_event log list \<Rightarrow> gateway \<times> 't world \<Rightarrow> bool" where
  "record_kept this x l x' \<longleftrightarrow> lastSupplyUpdateBlockNum (fst x') = lastSupplyUpdateBlockNum (fst x) \<and>
     supply_updates this (map (OfGateway this) l :: unit sys_log list) = []"

interpretation kept: gateway_relation "record_kept this" for this
  by unfold_locales (auto simp: record_kept_def)

named_theorems record_intros "actions that do not update the supply"

lemmas record_structure [record_intros] = kept.gateway_structure

lemma record_parts [record_intros]:
  "conforms (record_kept this) (in_world m)"
  "conforms (record_kept this) (emit (Own (Funded n a f)))" "conforms (record_kept this) (emit (Own (MinFundingChanged a c)))"
  "conforms (record_kept this) (emit (Own (GovernanceWithdrawal r a)))" "conforms (record_kept this) (emit (Own (FLIPSet r)))"
  "conforms (record_kept this) (emit (Own (UpdatedKeyManager r)))" "conforms (record_kept this) (emit (Own (RedemptionExecuted n a)))"
  "conforms (record_kept this) (emit (Own (RedemptionExpired n a)))"
  "conforms (record_kept this) (emit (Own (RedemptionRegistered n a r st x ex)))"
  "conforms (record_kept this) (on_storage (FLIP_update h1))" "conforms (record_kept this) (on_storage (minFunding_update h2))"
  "conforms (record_kept this) (on_storage (gw_keyManager_update h3))"
  "conforms (record_kept this) (on_storage (\<lambda>s. s\<lparr>pendingRedemptions := h4 s\<rparr>))"
  by (auto simp: conforms_def record_kept_def action_Inr on_storage_Inr in_world_Inr supply_updates_def)

lemma record_guard_call: "conforms (record_kept this) (gw_guard_call E c)"
proof -
  have "conforms (record_kept this) (\<lambda>(s, W). rbind (guard_op E key key c (gw_guard s)) (\<lambda>(u, g, l).
      Inr (u, (s\<lparr>gw_guard := g\<rparr>, W), map Guarded l)))" for key
    by (auto simp: conforms_def record_kept_def rbind_eq_Inr supply_updates_def)
  then show ?thesis
    unfolding gw_guard_call_def by (intro record_intros)
qed

lemma no_supply_update:
  assumes "\<not> updates_supply c" and "is_transaction c"
  shows "conforms (record_kept this) (gw_action V T this E c)"
  using assms
  by (cases c; simp only: gw_action.simps traced_ops gw_call_flip_def consumesKeyNonce_def; (intro record_intros record_guard_call)?)
     (simp_all add: updates_supply_def)

text \<open>FLIP at \<open>tok\<close> is issued by the gateway at \<open>g\<close>, with supply \<open>n\<close> and last update of block \<open>b\<close>.\<close>

definition issued :: "'t erc20 \<Rightarrow> address \<Rightarrow> address \<Rightarrow> uint256 \<Rightarrow> uint256 \<Rightarrow> ('t, 'w) system \<Rightarrow> bool" where
  "issued T g tok n b S \<longleftrightarrow> (\<exists>G F. sys_gateways S g = Some G \<and> FLIP G = tok \<and> tok \<noteq> 0 \<and>
     lastSupplyUpdateBlockNum G = b \<and> flips (sys_world S) tok = Some F \<and> issuer F = g \<and> flip_totalSupply T F = n)"

lemma gateway_tx:
  assumes "tx_exec V T (E, ToGateway a k) (c, S) = Inr ((c', S'), l)"
  obtains G G' W' l' where "is_transaction k" "sys_gateways S a = Some G"
    "gw_action V T a E k (G, sys_world S) = Inr ((), (G', W'), l')"
    "S' = S\<lparr>sys_gateways := (sys_gateways S)(a \<mapsto> G'), sys_world := W'\<rparr>" "l = map (OfGateway a) l'"
  using assms by (auto simp: tx_exec_def transaction_Inr call_gateway_Inr action_Inr split: if_splits)

lemma account_tx:
  assumes "tx_exec V T (E, x) (c, S) = Inr ((c', S'), l)" and "\<forall>a k. x \<noteq> ToGateway a k"
  shows "sys_gateways S' = sys_gateways S \<and> supply_updates g l = []"
  using assms by (cases x) (auto simp: tx_exec_def transaction_Inr with_world_Inr action_Inr simp del: map_map)

text \<open>Whatever is sent, the world side of one transaction while \<open>g\<close> issues FLIP.\<close>

lemma tx_supply:
  assumes T: "erc20_spec T" and ex: "tx_exec V T (E, x) (c, S) = Inr ((c', S'), l)"
    and F: "flips (sys_world S) tok = Some F" "issuer F = g" "sys_gateways S g \<noteq> None"
    and x: "\<And>k. x = ToGateway g k \<Longrightarrow> \<not> updates_supply k"
  shows "supply_kept T tok (sys_world S) (world_log l) (sys_world S')"
proof (cases x)
  case (ToGateway a k)
  obtain G G' W' l' where gw: "is_transaction k" "gw_action V T a E k (G, sys_world S) = Inr ((), (G', W'), l')"
      "sys_world S' = W'" "l = map (OfGateway a) l'"
    using gateway_tx [OF ex [unfolded ToGateway]] by (metis (no_types, lifting) system.select_convs(1) system.surjective system.update_convs(1,2))
  show ?thesis
  proof (cases "updates_supply k")
    case True
    then obtain sd n b where k: "k = GwUpdateSupply sd n b"
      by (rule updates_supplyE)
    have "a \<noteq> g"
      using x ToGateway True by blast
    then have "flips W' tok = Some F"
      using supply_update_flips [OF T gw(2) [unfolded k gw_action.simps] F(1)] F(2) by auto
    then show ?thesis
      using F(1) by (auto simp: supply_kept_def gw)
  next
    case False
    then show ?thesis
      using world_trace_supply [OF T] tracedD [OF gw_action_traced [OF gw(1)] gw(2)] by (simp add: gw)
  qed
next
  case (ToFlip a d)
  then obtain W' l' where w: "world_exec V T (WFlip a E d) (sys_world S) = Inr ((), W', l')" "sys_gateways S (msg_sender E) = None"
      "sys_world S' = W'" "l = map OfWorld l'"
    using ex by (auto simp: tx_exec_def transaction_Inr with_world_Inr action_Inr simp del: map_map)
  have "msg_sender E \<noteq> issuer F"
    using w(2) F(2,3) by auto
  then have "supply_kept T tok (sys_world S) l' W'"
    by (intro world_call_supply [OF T w(1)]) (use F(1) in auto)
  then show ?thesis
    by (simp add: w)
next
  case (ToKeyManager a d)
  then obtain W' l' where w: "world_exec V T (WKeyManager a E d) (sys_world S) = Inr ((), W', l')"
      "sys_world S' = W'" "l = map OfWorld l'"
    using ex by (auto simp: tx_exec_def transaction_Inr with_world_Inr simp del: map_map)
  have "supply_kept T tok (sys_world S) l' W'"
    by (rule world_call_supply [OF T w(1)]) simp
  then show ?thesis
    by (simp add: w)
qed

lemma supply_update_record:
  assumes "updateFlipSupply V T this E sd n b (s, W) = Inr (u, (s', W'), l)"
  shows "lastSupplyUpdateBlockNum s < b \<and> lastSupplyUpdateBlockNum s' = b \<and> FLIP s' = FLIP s \<and>
    supply_updates this (map (OfGateway this) l) = [(n, b)]"
proof -
  obtain W1 l1 F F' evs where sp: "nonce_spent V this E s W sd (updateFlipSupply_values V n b) W1 l1"
    and c: "lastSupplyUpdateBlockNum s < b" "s' = s\<lparr>lastSupplyUpdateBlockNum := b\<rparr>"
    and l: "l = l1 @ map (Other \<circ> FlipLog (FLIP s)) evs @ [Own (FlipSupplyUpdated (flip_totalSupply T F) n b)]"
    using supply_InrD [OF assms] by blast
  have "supply_updates this (map (OfGateway this) l1) = []"
    using sp by (auto simp: nonce_spent_def supply_updates_def o_def)
  then show ?thesis
    using c by (simp add: l supply_updates_def o_def)
qed

text \<open>One transaction: the supply stays, or it becomes that of a newer signed update.\<close>

lemma issued_step:
  assumes T: "erc20_spec T" and I: "issued T g tok n b S" and ex: "tx_exec V T (E, x) (c, S) = Inr ((c', S'), l)"
    and no: "\<not> issuer_event tok (world_log l)"
  shows "(supply_updates g l = [] \<and> issued T g tok n b S') \<or>
    (\<exists>n' b'. supply_updates g l = [(n', b')] \<and> b < b' \<and> issued T g tok n' b' S')"
proof -
  obtain G F where I1: "sys_gateways S g = Some G" "FLIP G = tok" "tok \<noteq> 0" "lastSupplyUpdateBlockNum G = b"
      "flips (sys_world S) tok = Some F" "issuer F = g" "flip_totalSupply T F = n"
    using I by (auto simp: issued_def)
  have world: "\<exists>F'. flips (sys_world S') tok = Some F' \<and> issuer F' = g \<and> flip_totalSupply T F' = n"
    if "\<And>k. x = ToGateway g k \<Longrightarrow> \<not> updates_supply k"
    using tx_supply [OF T ex I1(5,6) _ that] no I1 by (auto simp: supply_kept_def)
  consider (own) k where "x = ToGateway g k" | (other) a k where "x = ToGateway a k" "a \<noteq> g"
    | (account) "\<forall>a k. x \<noteq> ToGateway a k"
    by blast
  then show ?thesis
  proof cases
    case account
    then have "sys_gateways S' = sys_gateways S \<and> supply_updates g l = []"
      using account_tx [OF ex] by simp
    then show ?thesis
      using world account I1 by (auto simp: issued_def)
  next
    case other
    then obtain G' where "sys_gateways S' = (sys_gateways S)(a \<mapsto> G')" "supply_updates g l = []"
      using gateway_tx [OF ex [unfolded other(1)]] by (metis supply_updates_simps(4) system.select_convs(2) system.surjective system.update_convs(1,2))
    then show ?thesis
      using world other I1 by (auto simp: issued_def)
  next
    case own
    obtain G' W' l' where gw: "is_transaction k" "gw_action V T g E k (G, sys_world S) = Inr ((), (G', W'), l')"
        "S' = S\<lparr>sys_gateways := (sys_gateways S)(g \<mapsto> G'), sys_world := W'\<rparr>" "l = map (OfGateway g) l'"
      using gateway_tx [OF ex [unfolded own]] I1(1) by (metis option.inject)
    have G': "FLIP G' = tok"
      using gw_exec_keeps_FLIP [of V T g "(E, k)" "(G, sys_world S)" "(G', W')" l'] gw(2) I1(2,3)
      by (auto simp: gw_exec_def transaction_Inr)
    show ?thesis
    proof (cases "updates_supply k")
      case True
      then obtain sd n' b' where k: "k = GwUpdateSupply sd n' b'"
        by (rule updates_supplyE)
      note up = gw(2) [unfolded k gw_action.simps]
      obtain F' where "flips W' tok = Some F'" "issuer F' = g" "flip_totalSupply T F' = n'"
        using supply_update_flips [OF T up I1(5)] I1(2,6) by blast
      then have "issued T g tok n' b' S'"
        using supply_update_record [OF up] G' I1(3) gw(3) by (auto simp: issued_def)
      moreover have "supply_updates g l = [(n', b')]" "b < b'"
        using supply_update_record [OF up] gw(4) I1(4) by auto
      ultimately show ?thesis by blast
    next
      case False
      have r: "record_kept g (G, sys_world S) l' (G', W')"
        using conformsD [OF no_supply_update [OF False gw(1)] gw(2)] .
      have "flips W' tok = flips (sys_world S') tok"
        by (simp add: gw(3))
      then have "issued T g tok n b S'"
        using r world own False I1 G' gw(3) by (auto simp: issued_def record_kept_def)
      moreover have "supply_updates g l = []"
        using r by (simp add: record_kept_def gw(4))
      ultimately show ?thesis by blast
    qed
  qed
qed

lemma issued_run:
  assumes T: "erc20_spec T"
  shows "issued T g tok n b S \<Longrightarrow> \<not> issuer_event tok (world_log (run_log (tx_exec V T) xs (c, S))) \<Longrightarrow>
    let us = supply_updates g (run_log (tx_exec V T) xs (c, S)) in
      issued T g tok (last (n # map fst us)) (last (b # map snd us)) (snd (run_calls (tx_exec V T) xs (c, S))) \<and>
      sorted_wrt (<) (b # map snd us)"
proof (induction xs arbitrary: c S n b)
  case (Cons x xs)
  show ?case
  proof (cases "tx_exec V T x (c, S)")
    case (Inr r)
    then obtain c' S' l where r: "tx_exec V T x (c, S) = Inr ((c', S'), l)"
      by (cases r) auto
    obtain E t where x: "x = (E, t)"
      by (cases x)
    have no: "\<not> issuer_event tok (world_log l)" "\<not> issuer_event tok (world_log (run_log (tx_exec V T) xs (c', S')))"
      using Cons.prems(2) by (simp_all add: r)
    from issued_step [OF T Cons.prems(1) r [unfolded x] no(1)] show ?thesis
    proof (elim disjE exE conjE)
      assume "supply_updates g l = []" "issued T g tok n b S'"
      then show ?thesis
        using Cons.IH [OF _ no(2), of n b] by (simp add: r)
    next
      fix n' b' assume u: "supply_updates g l = [(n', b')]" "b < b'" "issued T g tok n' b' S'"
      then show ?thesis
        using Cons.IH [OF u(3) no(2)] by (auto simp: r Let_def)
    qed
  qed (use Cons in simp)
qed simp

section \<open>What holds of the running system\<close>

lemma deploy_issued:
  assumes T: "erc20_spec T" and "created 3 \<noteq> govKey0" and "distinct (map created [1, 2, 3, 4])"
    and ex: "deploy_all T created aggKey0 govKey0 commKey0 minFund delay supply num stake s = Inr (d, (vs, S), l)"
  shows "issued T (d_gateway d) (d_flip d) supply 0 S"
proof -
  obtain F G where F: "flip_constructor T supply num stake (created 3) govKey0 (created 3) = Inr F"
    and d: "flips (sys_world S) (d_flip d) = Some F" "d_gateway d = created 3" "d_flip d \<noteq> 0"
      "sys_gateways S (created 3) = Some G" "FLIP G = d_flip d" "lastSupplyUpdateBlockNum G = 0"
    using ex assms(3)
    by (cases s) (auto simp: deploy_all_def new_defs andthen_Inr create_Inr action_Inr call_gateway_Inr setFlip_Inr
        gw_constructor_def guard_defs rensure_eq_Inr mark_code_def)
  then show ?thesis
    using flip_genesis [OF T F assms(2)] by (simp add: issued_def getIssuer_def)
qed

text \<open>C3: after a deployment, whatever transactions follow from any account in any order, the
  total supply of FLIP is that of the last supply update the gateway has accepted, or the initial
  supply before the first, and these updates are of strictly increasing State Chain blocks: no old
  update is ever applied after a newer one. This holds until the gateway hands the issuance over.\<close>

theorem deployed_supply_follows_updates:
  assumes "erc20_spec T" and "created 3 \<noteq> govKey0" and "distinct (map created [1, 2, 3, 4])"
    and "deploy_all T created aggKey0 govKey0 commKey0 minFund delay supply num stake s = Inr (d, (vs, S), l)"
    and "\<not> issuer_event (d_flip d) (world_log (run_log (tx_exec V T) xs (vs, S)))"
  shows "let us = supply_updates (d_gateway d) (run_log (tx_exec V T) xs (vs, S)) in
    (\<exists>F. flips (sys_world (snd (run_calls (tx_exec V T) xs (vs, S)))) (d_flip d) = Some F \<and>
       issuer F = d_gateway d \<and> flip_totalSupply T F = last (supply # map fst us)) \<and>
    sorted_wrt (<) (map snd us)"
  using issued_run [OF assms(1) deploy_issued [OF assms(1-4)] assms(5)] by (auto simp: Let_def issued_def)

text \<open>C4: no transaction to any contract of the system changes the supply of FLIP while a gateway
  issues it, except a supply update sent to that gateway, over exactly the new supply and a newer
  block and with an unused nonce, signed by the aggregate key of the gateway's KeyManager.\<close>

theorem supply_change_signed:
  assumes T: "erc20_spec T" and ex: "tx_exec V T (E, x) (c, S) = Inr ((c', S'), l)"
    and F: "flips (sys_world S) tok = Some F" and g: "sys_gateways S (issuer F) = Some G"
    and F': "flips (sys_world S') tok = Some F'" and ch: "flip_totalSupply T F' \<noteq> flip_totalSupply T F"
  shows "\<exists>sd b k. x = ToGateway (issuer F) (GwUpdateSupply sd (flip_totalSupply T F') b) \<and> FLIP G = tok \<and>
    lastSupplyUpdateBlockNum G < b \<and> key_managers (sys_world S) (gw_keyManager G) = Some k \<and> \<not> isNonceUsed k (nonce sd) \<and>
    verifySignature V (signed_hash V E (gw_keyManager G) (issuer F) (nonce sd)
        (keccak256 V (abi_encode (updateFlipSupply_values V (flip_totalSupply T F') b))))
      (sig sd) (pubKeyX (aggKey k)) (pubKeyYParity (aggKey k)) (kTimesGAddress sd) = Inr True"
proof -
  have "\<exists>k. x = ToGateway (issuer F) k \<and> updates_supply k"
    using tx_supply [OF T ex F refl] g F F' ch by (force simp: supply_kept_def)
  then obtain sd n b where x: "x = ToGateway (issuer F) (GwUpdateSupply sd n b)"
    by (blast elim: updates_supplyE)
  obtain G' W' l' where up: "updateFlipSupply V T (issuer F) E sd n b (G, sys_world S) = Inr ((), (G', W'), l')"
    and S': "sys_world S' = W'"
    using ex g by (auto simp: x tx_exec_def transaction_Inr call_gateway_Inr)
  obtain F2 where F2: "flips W' tok = Some F2" "FLIP G = tok \<longrightarrow> flip_totalSupply T F2 = n"
    using supply_update_flips [OF T up F] by auto
  obtain W1 l1 F1 F3 evs where sp: "lastSupplyUpdateBlockNum G < b"
      "nonce_spent V (issuer F) E G (sys_world S) sd (updateFlipSupply_values V n b) W1 l1"
      "W' = W1\<lparr>flips := (flips W1)(FLIP G \<mapsto> F3)\<rparr>"
    using supply_InrD [OF up] by blast
  have tok: "FLIP G = tok"
    using nonce_spent_world [OF sp(2)] sp(3) S' F F' ch by (auto split: if_splits)
  moreover have "flip_totalSupply T F' = n"
    using F2 F' S' tok by simp
  ultimately show ?thesis
    using x sp(1,2) by (auto simp: nonce_spent_def consumeKeyNonce_def consume_internal_Inr signed_hash_def signed_values_def call_env_def)
qed

section \<open>Witnesses\<close>

definition sample_system :: "(ledger, unit) system" where
  "sample_system = \<lparr>sys_world = sample_world, sys_gateways = [30 \<mapsto> sample_gw], sys_holders = (\<lambda>a. None), sys_rest = ()\<rparr>"

lemma supply_change_signed_witness:
  "\<exists>S' l. tx_exec sample_evm ledger_erc20 (sample_env, ToGateway 30 (GwUpdateSupply (sample_sig 6) 90 4)) ((), sample_system) =
     Inr (((), S'), l) \<and> lastSupplyUpdateBlockNum sample_gw < 4 \<and> \<not> isNonceUsed sample_km (nonce (sample_sig 6))"
proof -
  let ?F = "\<lparr>token = \<lparr>ledger_total = 100, ledger_bal = (\<lambda>a. 0)(30 := 60, 2 := 40), ledger_allow = (\<lambda>a b. 0)\<rparr>, issuer = 30\<rparr>"
  have h: "keccak256 sample_evm x = 5" for x
    by (simp add: mod_evm_def)
  have "\<exists>S' l F'. tx_exec sample_evm ledger_erc20 (sample_env, ToGateway 30 (GwUpdateSupply (sample_sig 6) 90 4)) ((), sample_system) =
      Inr (((), S'), l) \<and> flips (sys_world S') 20 = Some F' \<and> flip_totalSupply ledger_erc20 F' = 90"
    by (simp add: tx_exec_def call_gateway_def sample_system_def updateFlipSupply_def adjustSupply_def onlyNotSuspended_def consumesKeyNonce_def gw_reads
        action_defs in_world_def on_storage_def call_km_def call_flip_def view_flip_def consumeKeyNonce_def
        consumeKeyNonce_internal_def h sample_hash sample_verifies sample_gw_defs sample_defs flip_op_defs
        flip_views ledger_erc20_def checked_sub_def call_env_def)
  then obtain S' l F' where r: "tx_exec sample_evm ledger_erc20 (sample_env, ToGateway 30 (GwUpdateSupply (sample_sig 6) 90 4)) ((), sample_system) =
      Inr (((), S'), l)" and F': "flips (sys_world S') 20 = Some F'" "flip_totalSupply ledger_erc20 F' = 90"
    by blast
  have F: "flips (sys_world sample_system) 20 = Some ?F" and g: "sys_gateways sample_system (issuer ?F) = Some sample_gw"
    by (simp_all add: sample_system_def sample_world_def)
  have "flip_totalSupply ledger_erc20 F' \<noteq> flip_totalSupply ledger_erc20 ?F"
    using F'(2) by (simp add: flip_views ledger_erc20_def)
  from supply_change_signed [OF ledger_erc20_spec r F g F'(1) this] r show ?thesis
    by (auto simp: sample_system_def sample_world_def sample_gw_def)
qed

lemma deployed_supply_follows_updates_witness:
  "\<exists>d vs S l F. sample_deploy ((\<lambda>a. None), empty_system) = Inr (d, (vs, S), l) \<and>
     flips (sys_world (snd (run_calls (tx_exec sample_evm ledger_erc20) [(sender_env 3, ToFlip 104 (FlipTransfer 5 10))] (vs, S)))) 104 = Some F \<and>
     issuer F = 103 \<and> flip_totalSupply ledger_erc20 F = 100"
proof -
  let ?xs = "[(sender_env 3, ToFlip 104 (FlipTransfer 5 10))] :: (env \<times> ledger tx) list"
  obtain vs S l where r: "sample_deploy ((\<lambda>a. None), empty_system) =
      Inr (\<lparr>d_keyManager = 101, d_vault = 102, d_gateway = 103, d_flip = 104\<rparr>, (vs, S), l)"
    using sample_deployed by blast
  have d: "distinct (map sample_created [1, 2, 3, 4])" and n: "sample_created 3 \<noteq> 3"
    by simp_all
  have log: "run_log (tx_exec sample_evm ledger_erc20) ?xs (vs, S) = []"
    by (auto simp: tx_exec_def transaction_Inr action_Inr with_world_Inr call_flip_Inr flip_op_defs rbind_eq_Inr split: sum.splits)
  then have "\<not> issuer_event (d_flip \<lparr>d_keyManager = 101, d_vault = 102, d_gateway = 103, d_flip = 104\<rparr>)
      (world_log (run_log (tx_exec sample_evm ledger_erc20) ?xs (vs, S)))"
    by simp
  from deployed_supply_follows_updates [OF ledger_erc20_spec n d r this] r show ?thesis
    unfolding log by (auto simp: Let_def)
qed

end
