(* ===== verification/Authority.thy ===== *)
theory Authority
  imports Protocol
begin

text \<open>
  Who can change the two references the protocol hangs on while it runs: the issuer that FLIP
  obeys, and the KeyManager that the gateway obeys. Every change is a call of that gateway that
  the aggregate key has signed, or for the issuer one of the governor in an emergency.
\<close>

section \<open>Signed calls of a gateway\<close>

definition signed_by_aggKey ::
  "evm \<Rightarrow> address \<Rightarrow> env \<Rightarrow> gateway \<Rightarrow> 't world \<Rightarrow> SigData \<Rightarrow> sol_value list \<Rightarrow> bool" where
  "signed_by_aggKey V this E s W sd vs \<longleftrightarrow> (\<exists>k. key_managers W (gw_keyManager s) = Some k \<and> \<not> isNonceUsed k (nonce sd) \<and>
     verifySignature V (signed_hash V E (gw_keyManager s) this (nonce sd) (keccak256 V (abi_encode vs)))
       (sig sd) (pubKeyX (aggKey k)) (pubKeyYParity (aggKey k)) (kTimesGAddress sd) = Inr True)"

lemma nonce_spent_iff: "(\<exists>W1 l. nonce_spent V this E s W sd vs W1 l) \<longleftrightarrow> signed_by_aggKey V this E s W sd vs"
  by (auto simp: nonce_spent_def signed_by_aggKey_def consumeKeyNonce_def consume_internal_Inr signed_hash_def
      signed_values_def call_env_def)

lemma nonce_spent_signed: "nonce_spent V this E s W sd vs W1 l \<Longrightarrow> signed_by_aggKey V this E s W sd vs"
  using nonce_spent_iff by blast

text \<open>Spending a nonce leaves the keys alone, and so what any address answers for them.\<close>

lemma nonce_spent_answers:
  assumes "nonce_spent V this E s W sd vs W1 l"
  shows "aggregate_key W1 a = aggregate_key W a" "governance_key W1 a = governance_key W a"
    "community_key W1 a = community_key W a"
  using assms by (cases "key_managers W a"; auto simp: nonce_spent_def consumeKeyNonce_def consume_internal_Inr
    key_answer_def km_getters)+

section \<open>The issuer\<close>

lemma flip_exec_issuer:
  "flip_exec T (E, c) F = Inr (F', evs) \<Longrightarrow>
   issuer F' = issuer F \<or> (msg_sender E = issuer F \<and> c = FlipUpdateIssuer (issuer F'))"
  by (cases c) (auto simp: flip_op_defs res_simps guard_defs)

definition issuer_kept :: "address \<Rightarrow> 't world \<Rightarrow> 't world \<Rightarrow> bool" where
  "issuer_kept tok W W' \<longleftrightarrow> (\<forall>F. flips W tok = Some F \<longrightarrow> (\<exists>F'. flips W' tok = Some F' \<and> issuer F' = issuer F))"

fun names_issuer :: "address \<Rightarrow> world_call \<Rightarrow> bool" where
  "names_issuer i (WFlip a E (FlipUpdateIssuer b)) \<longleftrightarrow> msg_sender E = i"
| "names_issuer i w \<longleftrightarrow> False"

lemma world_call_issuer:
  assumes "world_exec V T w W = Inr (u, W', l)" and "flips W tok = Some F" and "\<not> names_issuer (issuer F) w"
  shows "\<exists>F'. flips W' tok = Some F' \<and> issuer F' = issuer F"
proof (cases w)
  case (WKeyManager a E c)
  then show ?thesis
    using assms by (auto simp: call_km_Inr)
next
  case (WFlip a E c)
  then obtain F1 F1' evs where f: "flips W a = Some F1" "flip_exec T (E, c) F1 = Inr (F1', evs)"
      "W' = W\<lparr>flips := (flips W)(a \<mapsto> F1')\<rparr>"
    using assms(1) by (auto simp: call_flip_Inr)
  show ?thesis
    using flip_exec_issuer [OF f(2)] f assms(2,3) WFlip by (cases "a = tok") auto
qed

lemma world_trace_issuer:
  assumes "world_trace V T P W l W'" and "\<And>w. P w \<Longrightarrow> \<not> names_issuer i w"
  shows "flips W tok = Some F \<Longrightarrow> issuer F = i \<Longrightarrow> \<exists>F'. flips W' tok = Some F' \<and> issuer F' = i"
  using assms(1)
proof (induction arbitrary: F rule: world_trace.induct)
  case (call c W u W1 l l' W')
  obtain F1 where "flips W1 tok = Some F1" "issuer F1 = i"
    using world_call_issuer [OF call.hyps(2) call.prems(1)] assms(2) [OF call.hyps(1)] call.prems(2) by auto
  then show ?case
    by (rule call.IH)
qed auto

text \<open>The calls of a gateway that cannot name a new issuer.\<close>

definition updates_issuer :: "'t gw_call \<Rightarrow> bool" where
  "updates_issuer c = (case c of GwUpdateIssuer sd a om \<Rightarrow> True | GwGovWithdraw \<Rightarrow> True | GwGovUpdateIssuer \<Rightarrow> True | _ \<Rightarrow> False)"

lemma gw_action_names_no_issuer:
  assumes "is_transaction c" and "\<not> updates_issuer c"
  shows "traced V T (\<lambda>w. \<not> names_issuer i w) (gw_action V T this E c)"
  using assms
  by (cases c; simp only: gw_action.simps traced_ops; (intro traced_intros)?) (simp_all add: updates_issuer_def)

lemma sent_by_other: "sent_by this b w \<Longrightarrow> this \<noteq> i \<Longrightarrow> \<not> names_issuer i w"
  by (cases "(i, w)" rule: names_issuer.cases) auto

text \<open>A successful call of \<open>updateIssuer\<close> by the contract \<open>this\<close>.\<close>

lemma updateIssuer_Inr:
  "updateIssuer E a F = Inr (F', evs) \<longleftrightarrow> issuer F \<noteq> 0 \<and> msg_sender E = issuer F \<and> F' = F\<lparr>issuer := a\<rparr> \<and> evs = [IssuerUpdated (issuer F) a]"
  by (auto simp: updateIssuer_def onlyIssuer_def guard_defs res_simps)

lemma updateFlipIssuer_InrD:
  assumes "updateFlipIssuer V this E sd a om (s, W) = Inr (u, (s', W'), l)"
  shows "\<exists>W1 l1 F. \<not> suspended (gw_guard s) \<and> a \<noteq> 0 \<and> nonce_spent V this E s W sd (updateFlipIssuer_values V a om) W1 l1 \<and>
    flips W1 (FLIP s) = Some F \<and> flips W' = (flips W)(FLIP s \<mapsto> F\<lparr>issuer := a\<rparr>)"
proof -
  obtain W1 l1 l2 where c: "\<not> suspended (gw_guard s)" "a \<noteq> 0" "nonce_spent V this E s W sd (updateFlipIssuer_values V a om) W1 l1"
    and body: "andthen (if \<not> om then andthen (in_world (view_issuer_FLIP a)) (\<lambda>f.
        require (\<lambda>(s, W). f = FLIP s) (Revert ''Gateway: wrong FLIP ref'') (ret ()))
      else require (\<lambda>(s, W). has_code W a) RevertEmpty (ret ())) (\<lambda>_.
        gw_call_flip (updateIssuer (call_env E this) a)) (s, W1) = Inr (u, (s', W'), l2)"
    using assms unfolding updateFlipIssuer_def onlyNotSuspended_def action_Inr signed_Inr by (auto simp: ZERO_ADDR_def)
  obtain F where "flips W1 (FLIP s) = Some F" "W' = W1\<lparr>flips := (flips W1)(FLIP s \<mapsto> F\<lparr>issuer := a\<rparr>)\<rparr>"
    using body by (auto simp: andthen_Inr action_Inr in_world_Inr view_Inr gw_call_flip_def call_flip_Inr updateIssuer_Inr split: if_splits)
  then show ?thesis
    using c nonce_spent_world [OF c(3)] by auto
qed

lemma gov_issuer_InrD:
  assumes "c = GwGovWithdraw \<or> c = GwGovUpdateIssuer" and "gw_action V T this E c (s, W) = Inr (u, (s', W'), l)"
  shows "suspended (gw_guard s) \<and> communityGuardDisabled (gw_guard s) \<and>
    governance_key W (gw_keyManager s) = Some (msg_sender E) \<and>
    (\<exists>F F'. flips W (FLIP s) = Some F \<and> flips W' (FLIP s) = Some F' \<and>
      (\<forall>a. a \<noteq> FLIP s \<longrightarrow> flips W' a = flips W a) \<and> (issuer F' = issuer F \<or> issuer F' = msg_sender E))"
  using assms
  by (auto simp: gw_govWithdraw_def govUpdateFlipIssuer_def guard_modifiers gw_reads res_simps flip_op_defs
      call_env_def getIssuer_def guard_defs split: if_splits)

text \<open>C5: no transaction to any contract of the system changes the issuer of FLIP while a
  gateway is the issuer, except a call of that gateway: with a signature of the aggregate key over exactly the new
  issuer, while it is not suspended; or by the governor its KeyManager names, who becomes the issuer, once the gateway
  is suspended and the community guard disabled.\<close>

theorem issuer_change_authorised:
  assumes ex: "tx_exec V T (E, x) (c, S) = Inr ((c', S'), l)"
    and F: "flips (sys_world S) tok = Some F" and g: "sys_gateways S (issuer F) = Some G"
    and F': "flips (sys_world S') tok = Some F'" and ch: "issuer F' \<noteq> issuer F"
  shows "FLIP G = tok \<and>
    ((\<exists>sd om. x = ToGateway (issuer F) (GwUpdateIssuer sd (issuer F') om) \<and> issuer F' \<noteq> 0 \<and> \<not> suspended (gw_guard G) \<and>
        signed_by_aggKey V (issuer F) E G (sys_world S) sd (updateFlipIssuer_values V (issuer F') om)) \<or>
     (x = ToGateway (issuer F) GwGovWithdraw \<or> x = ToGateway (issuer F) GwGovUpdateIssuer) \<and>
       suspended (gw_guard G) \<and> communityGuardDisabled (gw_guard G) \<and>
       governance_key (sys_world S) (gw_keyManager G) = Some (msg_sender E) \<and> issuer F' = msg_sender E)"
proof -
  let ?i = "issuer F"
  have kept: False if "world_trace V T P (sys_world S) pl (sys_world S')" and "\<And>w. P w \<Longrightarrow> \<not> names_issuer ?i w" for P pl
    using world_trace_issuer [OF that F refl] F' ch by simp
  consider (own) k where "x = ToGateway ?i k" | (other) a k where "x = ToGateway a k" "a \<noteq> ?i"
    | (flip) a d where "x = ToFlip a d" | (km) a d where "x = ToKeyManager a d"
    by (cases x) auto
  then show ?thesis
  proof cases
    case other
    then show ?thesis
      using kept [OF tx_traced [OF ex]] sent_by_other by auto
  next
    case km
    then show ?thesis
      using kept [OF tx_traced [OF ex]] by auto
  next
    case flip
    then have "msg_sender E \<noteq> ?i"
      using ex g by (auto simp: tx_exec_def transaction_Inr action_Inr)
    then have "tx_calls E x w \<Longrightarrow> \<not> names_issuer ?i w" for w
      using flip by (cases d) auto
    then show ?thesis
      using kept [OF tx_traced [OF ex]] by blast
  next
    case own
    obtain G' W' l' where gw: "is_transaction k" "gw_action V T ?i E k (G, sys_world S) = Inr ((), (G', W'), l')"
        "S' = S\<lparr>sys_gateways := (sys_gateways S)(?i \<mapsto> G'), sys_world := W'\<rparr>"
      using gateway_tx [OF ex [unfolded own]] g by (metis option.inject)
    have W': "flips W' tok = Some F'"
      using F' gw(3) by simp
    have up: "updates_issuer k"
    proof (rule ccontr)
      assume "\<not> updates_issuer k"
      from tracedD [OF gw_action_names_no_issuer [OF gw(1) this] gw(2)] have
        "world_trace V T (\<lambda>w. \<not> names_issuer ?i w) (sys_world S) (contract_log l') (sys_world S')"
        by (simp add: gw(3))
      then show False
        by (rule kept)
    qed
    show ?thesis
    proof (cases "\<exists>sd a om. k = GwUpdateIssuer sd a om")
      case True
      then obtain sd a om where k: "k = GwUpdateIssuer sd a om"
        by blast
      obtain W1 l1 F1 where u: "\<not> suspended (gw_guard G)" "a \<noteq> 0"
          "nonce_spent V ?i E G (sys_world S) sd (updateFlipIssuer_values V a om) W1 l1"
          "flips W' = (flips (sys_world S))(FLIP G \<mapsto> F1\<lparr>issuer := a\<rparr>)"
        using updateFlipIssuer_InrD [OF gw(2) [unfolded k gw_action.simps]] by blast
      have "FLIP G = tok" "issuer F' = a"
        using u(4) W' F ch by (auto split: if_splits)
      then show ?thesis
        using own k u(1,2) nonce_spent_signed [OF u(3)] by blast
    next
      case False
      then have k: "k = GwGovWithdraw \<or> k = GwGovUpdateIssuer"
        using up by (auto simp: updates_issuer_def split: gw_call.splits)
      show ?thesis
        using gov_issuer_InrD [OF k gw(2)] k own W' F ch by (cases "FLIP G = tok") auto
    qed
  qed
qed

section \<open>The KeyManager of a gateway\<close>

definition km_kept :: "gateway \<times> 't world \<Rightarrow> gw_event log list \<Rightarrow> gateway \<times> 't world \<Rightarrow> bool" where
  "km_kept x l x' \<longleftrightarrow> gw_keyManager (fst x') = gw_keyManager (fst x)"

interpretation km_ref: gateway_relation km_kept
  by unfold_locales (auto simp: km_kept_def)

named_theorems km_intros "actions that keep the reference to the KeyManager"

lemmas km_structure [km_intros] = km_ref.gateway_structure

lemma km_parts [km_intros]:
  "conforms km_kept (in_world m)" "conforms km_kept (emit e)"
  "conforms km_kept (on_storage (FLIP_update h1))" "conforms km_kept (on_storage (minFunding_update h2))"
  "conforms km_kept (on_storage (lastSupplyUpdateBlockNum_update h3))"
  "conforms km_kept (on_storage (\<lambda>s. s\<lparr>pendingRedemptions := h4 s\<rparr>))"
  by (auto simp: conforms_def km_kept_def action_Inr on_storage_Inr in_world_Inr)

lemma km_guard_call: "conforms km_kept (gw_guard_call E c)"
proof -
  have "conforms km_kept (\<lambda>(s, W). rbind (guard_op E key key c (gw_guard s)) (\<lambda>(u, g, l).
      Inr (u, (s\<lparr>gw_guard := g\<rparr>, W), map Guarded l)))" for key
    by (auto simp: conforms_def km_kept_def rbind_eq_Inr)
  then show ?thesis
    unfolding gw_guard_call_def by (intro km_intros)
qed

definition updates_km :: "'t gw_call \<Rightarrow> bool" where
  "updates_km c = (case c of GwUpdateKeyManager sd a om \<Rightarrow> True | _ \<Rightarrow> False)"

lemma gw_action_keeps_km:
  assumes "is_transaction c" and "\<not> updates_km c"
  shows "conforms km_kept (gw_action V T this E c)"
  using assms
  by (cases c; simp only: gw_action.simps traced_ops gw_call_flip_def consumesKeyNonce_def; (intro km_intros km_guard_call)?)
     (simp_all add: updates_km_def)

text \<open>What a new KeyManager must answer: the keys of the current one, so that control stays where it
  is, or, with the checks omitted, a governor and a community key that are not zero. It need not be
  a KeyManager otherwise.\<close>

definition keeps_control :: "bool \<Rightarrow> 't world \<Rightarrow> address \<Rightarrow> address \<Rightarrow> bool" where
  "keeps_control omitChecks W old new \<longleftrightarrow>
     (\<exists>gov comm. governance_key W new = Some gov \<and> community_key W new = Some comm \<and>
       (if omitChecks then gov \<noteq> 0 \<and> comm \<noteq> 0
        else governance_key W old = Some gov \<and> community_key W old = Some comm \<and>
          (\<exists>k. aggregate_key W new = Some k \<and> aggregate_key W old = Some k)))"

lemma keeps_control_spent:
  assumes "nonce_spent V this E s W sd vs W1 l" and "keeps_control om W1 old new"
  shows "keeps_control om W old new"
  using assms(2) unfolding keeps_control_def nonce_spent_answers [OF assms(1)] .

lemma checkUpdate_Inr:
  assumes "gw_checkUpdateKeyManager a om (s, W) = Inr (u, (s', W'), l)"
  shows "s' = s \<and> W' = W \<and> keeps_control om W (gw_keyManager s) a"
  using assms unfolding keeps_control_def
  by (cases om) (auto simp: gw_checkUpdateKeyManager_def gw_reads action_Inr andthen_Inr in_world_Inr view_Inr Key.equality)

lemma updateKeyManager_InrD:
  assumes "gw_updateKeyManager V this E sd a om (s, W) = Inr (u, (s', W'), l)"
  shows "signed_by_aggKey V this E s W sd (updateKeyManager_values V a om) \<and> a \<noteq> 0 \<and> has_code W a \<and>
    gw_keyManager s' = a \<and> keeps_control om W (gw_keyManager s) a"
proof -
  obtain W1 l1 l2 where c: "a \<noteq> 0" "nonce_spent V this E s W sd (updateKeyManager_values V a om) W1 l1"
    and body: "require (\<lambda>(s, W). has_code W a) RevertEmpty
      (andthen (gw_checkUpdateKeyManager a om) (\<lambda>_. andthen (on_storage (gw_keyManager_update (\<lambda>_. a))) (\<lambda>_.
        emit (Own (UpdatedKeyManager a))))) (s, W1) = Inr (u, (s', W'), l2)"
    using assms unfolding gw_updateKeyManager_def updateKeyManager_def action_Inr signed_Inr by auto
  obtain s1 W2 l3 where chk: "has_code W1 a" "gw_checkUpdateKeyManager a om (s, W1) = Inr ((), (s1, W2), l3)"
      "gw_keyManager s' = a"
    using body by (auto simp: andthen_Inr action_Inr on_storage_Inr)
  have "keeps_control om W (gw_keyManager s) a"
    using checkUpdate_Inr [OF chk(2)] keeps_control_spent [OF c(2)] by blast
  then show ?thesis
    using c(1) chk nonce_spent_world [OF c(2)] nonce_spent_signed [OF c(2)] by simp
qed

text \<open>C6: no transaction changes the KeyManager that a gateway obeys, except a call of that
  gateway with a signature of the aggregate key it had, over exactly the new address. What is there
  is code that answers as a KeyManager does: with the aggregate, governance and community key of
  the current one, so that control does not move, or, if the checks are omitted in what was signed,
  with a governor and a community key. More is not checked, so with the checks omitted the new
  address need not be a KeyManager at all.\<close>

theorem keyManager_change_authorised:
  assumes ex: "tx_exec V T (E, x) (c, S) = Inr ((c', S'), l)"
    and g: "sys_gateways S g = Some G" "sys_gateways S' g = Some G'" and ch: "gw_keyManager G' \<noteq> gw_keyManager G"
  shows "\<exists>sd om. x = ToGateway g (GwUpdateKeyManager sd (gw_keyManager G') om) \<and>
    signed_by_aggKey V g E G (sys_world S) sd (updateKeyManager_values V (gw_keyManager G') om) \<and>
    has_code (sys_world S) (gw_keyManager G') \<and>
    keeps_control om (sys_world S) (gw_keyManager G) (gw_keyManager G')"
proof -
  consider (own) k where "x = ToGateway g k" | (other) a k where "x = ToGateway a k" "a \<noteq> g"
    | (account) "\<forall>a k. x \<noteq> ToGateway a k"
    by blast
  then show ?thesis
  proof cases
    case account
    then show ?thesis
      using account_tx [OF ex] g ch by simp
  next
    case other
    then show ?thesis
      using ex g ch by (auto simp: tx_exec_def transaction_Inr call_gateway_Inr action_Inr split: if_splits)
  next
    case own
    obtain G1 W' l' where gw: "is_transaction k" "gw_action V T g E k (G, sys_world S) = Inr ((), (G1, W'), l')"
        "S' = S\<lparr>sys_gateways := (sys_gateways S)(g \<mapsto> G1), sys_world := W'\<rparr>"
      using gateway_tx [OF ex [unfolded own]] g(1) by (metis option.inject)
    have G1: "G1 = G'"
      using gw(3) g(2) by simp
    have "updates_km k"
      using conformsD [OF gw_action_keeps_km gw(2)] gw(1) ch by (auto simp: km_kept_def G1)
    then obtain sd a om where k: "k = GwUpdateKeyManager sd a om"
      by (auto simp: updates_km_def split: gw_call.splits)
    show ?thesis
      using updateKeyManager_InrD [OF gw(2) [unfolded k gw_action.simps]] own k by (auto simp: G1)
  qed
qed

section \<open>Witnesses\<close>

text \<open>The sample system with a contract at 8 that has two of the getters and nothing else, as
  \<open>KeyManagerMock4\<close> does.\<close>

definition mock_system :: "(ledger, unit) system" where
  "mock_system = sample_system\<lparr>sys_world := sample_world\<lparr>has_code := (\<lambda>a. a = 8),
     other_km := no_answers(8 := \<lparr>ans_aggregateKey = None, ans_governanceKey = Some 71, ans_communityKey = Some 72,
       ans_lastValidateTime = None\<rparr>)\<rparr>\<rparr>"

lemma mock_update:
  "\<exists>S' l G'. tx_exec sample_evm ledger_erc20 (sample_env, ToGateway 30 (GwUpdateKeyManager (sample_sig 6) 8 True)) ((), mock_system) =
     Inr (((), S'), l) \<and> sys_gateways S' 30 = Some G' \<and> gw_keyManager G' = 8"
  "\<exists>e. tx_exec sample_evm ledger_erc20 (sample_env, ToGateway 30 (GwUpdateKeyManager (sample_sig 6) 8 False)) ((), mock_system) = Inl e"
proof -
  have h: "keccak256 sample_evm x = 5" for x
    by (simp add: mod_evm_def)
  show "\<exists>S' l G'. tx_exec sample_evm ledger_erc20 (sample_env, ToGateway 30 (GwUpdateKeyManager (sample_sig 6) 8 True)) ((), mock_system) =
     Inr (((), S'), l) \<and> sys_gateways S' 30 = Some G' \<and> gw_keyManager G' = 8"
    "\<exists>e. tx_exec sample_evm ledger_erc20 (sample_env, ToGateway 30 (GwUpdateKeyManager (sample_sig 6) 8 False)) ((), mock_system) = Inl e"
    by (simp_all add: tx_exec_def call_gateway_def mock_system_def sample_system_def gw_updateKeyManager_def updateKeyManager_def
        gw_checkUpdateKeyManager_def consumesKeyNonce_def gw_reads km_getters action_defs in_world_def on_storage_def call_km_def view_km_def
        key_answer_def consumeKeyNonce_def consumeKeyNonce_internal_def h sample_hash sample_verifies sample_gw_defs sample_defs call_env_def)
qed

lemma keyManager_change_authorised_witness:
  "\<exists>S' l. tx_exec sample_evm ledger_erc20 (sample_env, ToGateway 30 (GwUpdateKeyManager (sample_sig 6) 8 True)) ((), mock_system) =
     Inr (((), S'), l) \<and> keeps_control True (sys_world mock_system) 9 8 \<and> key_managers (sys_world mock_system) 8 = None"
proof -
  obtain S' l G' where r: "tx_exec sample_evm ledger_erc20 (sample_env, ToGateway 30 (GwUpdateKeyManager (sample_sig 6) 8 True)) ((), mock_system) =
      Inr (((), S'), l)" and G': "sys_gateways S' 30 = Some G'" "gw_keyManager G' = 8"
    using mock_update(1) by blast
  have g: "sys_gateways mock_system 30 = Some sample_gw"
    by (simp add: mock_system_def sample_system_def)
  have "gw_keyManager G' \<noteq> gw_keyManager sample_gw"
    using G'(2) by (simp add: sample_gw_def)
  from keyManager_change_authorised [OF r g G'(1) this] r G'(2) show ?thesis
    by (auto simp: sample_gw_def mock_system_def sample_system_def sample_world_def)
qed

definition emergency_system :: "(ledger, unit) system" where
  "emergency_system = sample_system\<lparr>sys_gateways :=
     [30 \<mapsto> sample_gw\<lparr>gw_guard := \<lparr>communityGuardDisabled = True, suspended = True\<rparr>\<rparr>]\<rparr>"

lemma issuer_change_authorised_witness:
  "\<exists>S' l F'. tx_exec sample_evm ledger_erc20 (sample_env\<lparr>msg_sender := 3\<rparr>, ToGateway 30 GwGovUpdateIssuer) ((), emergency_system) =
     Inr (((), S'), l) \<and> flips (sys_world S') 20 = Some F' \<and> issuer F' = 3 \<and> governance_key (sys_world emergency_system) 9 = Some 3"
proof -
  let ?E = "sample_env\<lparr>msg_sender := 3\<rparr>"
  let ?F = "\<lparr>token = \<lparr>ledger_total = 100, ledger_bal = (\<lambda>a. 0)(30 := 60, 2 := 40), ledger_allow = (\<lambda>a b. 0)\<rparr>, issuer = 30\<rparr>"
  have "\<exists>S' l F'. tx_exec sample_evm ledger_erc20 (?E, ToGateway 30 GwGovUpdateIssuer) ((), emergency_system) =
      Inr (((), S'), l) \<and> flips (sys_world S') 20 = Some F' \<and> issuer F' = 3"
    by (simp add: tx_exec_def call_gateway_def emergency_system_def sample_system_def govUpdateFlipIssuer_def guard_modifiers gw_reads
        action_defs in_world_def call_flip_def view_km_def km_getters sample_gw_defs sample_defs flip_op_defs guard_defs call_env_def)
  then obtain S' l F' where r: "tx_exec sample_evm ledger_erc20 (?E, ToGateway 30 GwGovUpdateIssuer) ((), emergency_system) =
      Inr (((), S'), l)" and F': "flips (sys_world S') 20 = Some F'" "issuer F' = 3"
    by blast
  have F: "flips (sys_world emergency_system) 20 = Some ?F"
    and g: "sys_gateways emergency_system (issuer ?F) = Some (sample_gw\<lparr>gw_guard := \<lparr>communityGuardDisabled = True, suspended = True\<rparr>\<rparr>)"
    by (simp_all add: emergency_system_def sample_system_def sample_world_def)
  have "issuer F' \<noteq> issuer ?F"
    using F'(2) by simp
  from issuer_change_authorised [OF r F g F'(1) this] r F' show ?thesis
    by (auto simp: emergency_system_def sample_system_def sample_world_def sample_gw_def)
qed

end
