(* ===== verification/Progress.thy ===== *)
theory Progress
  imports Redemptions Authority
begin

text \<open>
  What the gateway does not refuse: exactly when it accepts a supply update, and that a registered
  redemption is not lost, since whatever calls come before its expiry, it was paid or can be.
\<close>

section \<open>Supply updates\<close>

text \<open>FLIP can be adjusted to a supply: it is the present one, or the gateway issues FLIP and
  holds what has to be burnt.\<close>

definition adjustable :: "'t erc20 \<Rightarrow> address \<Rightarrow> uint256 \<Rightarrow> 't flip \<Rightarrow> bool" where
  "adjustable T this n F \<longleftrightarrow> n = flip_totalSupply T F \<or> issuer F = this \<and>
     unat (flip_totalSupply T F) \<le> unat n + unat (flip_balanceOf T F this)"

lemma erc20_mint_ok:
  "erc20_spec T \<Longrightarrow> a \<noteq> 0 \<Longrightarrow> unat (erc20_totalSupply T t) + unat n < 2 ^ 256 \<Longrightarrow>
   unat (erc20_balanceOf T t a) + unat n < 2 ^ 256 \<Longrightarrow> \<exists>t'. erc20_mint T a n t = Inr t'"
  unfolding erc20_spec_def erc20_mint_spec_def by blast

lemma erc20_burn_ok:
  "erc20_spec T \<Longrightarrow> a \<noteq> 0 \<Longrightarrow> n \<le> erc20_balanceOf T t a \<Longrightarrow> n \<le> erc20_totalSupply T t \<Longrightarrow>
   \<exists>t'. erc20_burn T a n t = Inr t'"
  unfolding erc20_spec_def erc20_burn_spec_def by blast

lemma adjustable_possible:
  assumes T: "erc20_spec T" "this \<noteq> 0" and whole: "flip_balanceOf T F this \<le> flip_totalSupply T F"
    and ok: "adjustable T this n F"
  shows "\<exists>F' evs. flip_adjust T this E n F F' evs"
proof (cases n "flip_totalSupply T F" rule: linorder_cases)
  case less
  let ?d = "flip_totalSupply T F - n"
  have "unat ?d = unat (flip_totalSupply T F) - unat n"
    using less by (simp add: unat_sub less_imp_le)
  then have "?d \<le> erc20_balanceOf T (token F) this" "?d \<le> erc20_totalSupply T (token F)"
    using ok less by (auto simp: adjustable_def flip_views word_le_nat_alt)
  then show ?thesis
    using erc20_burn_ok [OF T] ok less by (auto simp: flip_adjust_def flip_burn_Inr adjustable_def call_env_def)
next
  case equal
  then show ?thesis by (simp add: flip_adjust_def)
next
  case greater
  let ?d = "n - flip_totalSupply T F"
  have "unat ?d = unat n - unat (flip_totalSupply T F)" "unat (flip_totalSupply T F) \<le> unat n"
    using greater by (simp_all add: unat_sub less_imp_le word_less_nat_alt)
  then have "unat (erc20_totalSupply T (token F)) + unat ?d < 2 ^ 256" "unat (erc20_balanceOf T (token F) this) + unat ?d < 2 ^ 256"
    using whole unat_lt2p [of n] by (auto simp: flip_views word_le_nat_alt)
  then have "\<exists>t. erc20_mint T this ?d (token F) = Inr t"
    using erc20_mint_ok [OF T] by blast
  then show ?thesis
    using ok greater less_not_sym [OF greater] by (auto simp: flip_adjust_def flip_mint_Inr adjustable_def call_env_def Let_def)
qed

lemma adjusted_was_adjustable:
  assumes T: "erc20_spec T" and "flip_adjust T this E n F F' evs"
  shows "adjustable T this n F"
  using flip_adjust_cases [OF assms(2)]
proof (elim disjE exE conjE)
  fix t assume l: "n < flip_totalSupply T F" and b: "erc20_burn T this (flip_totalSupply T F - n) (token F) = Inr t"
    and i: "issuer F = this"
  have "unat (flip_totalSupply T F - n) = unat (flip_totalSupply T F) - unat n"
    using l by (simp add: unat_sub less_imp_le)
  then have "unat (flip_totalSupply T F) - unat n \<le> unat (flip_balanceOf T F this)"
    using erc20_burnD(1) [OF T b] by (simp add: flip_views word_le_nat_alt)
  then show ?thesis
    using i unfolding adjustable_def by linarith
qed (auto simp: adjustable_def word_less_nat_alt)

lemma adjustSupply_InrI:
  assumes "flip_adjust T this E n F F' evs" and "flips W (FLIP s) = Some F"
  shows "\<exists>r. adjustSupply T this E n (flip_totalSupply T F) (s, W) = Inr r"
  using assms
  by (auto simp: adjustSupply_def flip_adjust_def Let_def gw_reads action_defs in_world_def call_flip_def
      checked_sub_def split: if_splits)

text \<open>C17: a supply update is accepted exactly when the gateway is not suspended, the new supply is
  not zero, the State Chain block is newer than the last one, the aggregate key signed exactly this
  update with an unused nonce, and FLIP can be adjusted: the supply is already the new one, or the
  gateway issues FLIP and holds itself what is to be burnt. Otherwise it reverts; in particular a
  signed decrease by more than the gateway holds does.\<close>

theorem updateFlipSupply_accepted_iff:
  assumes "erc20_spec T" and "this \<noteq> 0" and F: "flips W (FLIP s) = Some F"
    and "flip_balanceOf T F this \<le> flip_totalSupply T F"
  shows "(\<exists>r. updateFlipSupply V T this E sd n b (s, W) = Inr r) \<longleftrightarrow>
    \<not> suspended (gw_guard s) \<and> n \<noteq> 0 \<and> lastSupplyUpdateBlockNum s < b \<and>
    signed_by_aggKey V this E s W sd (updateFlipSupply_values V n b) \<and> adjustable T this n F"
    (is "?accepted \<longleftrightarrow> ?ok")
proof
  assume ?accepted
  then obtain u s' W' l where "updateFlipSupply V T this E sd n b (s, W) = Inr (u, (s', W'), l)"
    by auto
  from supply_InrD [OF this] show ?ok
    using F adjusted_was_adjustable [OF assms(1)] nonce_spent_signed by fastforce
next
  assume ok: ?ok
  then obtain W1 l1 where sp: "nonce_spent V this E s W sd (updateFlipSupply_values V n b) W1 l1"
    using nonce_spent_iff by blast
  let ?s = "s\<lparr>lastSupplyUpdateBlockNum := b\<rparr>"
  have F1: "flips W1 (FLIP s) = Some F"
    using nonce_spent_world [OF sp] F by simp
  obtain F' evs where "flip_adjust T this E n F F' evs"
    using adjustable_possible [OF assms(1,2,4)] ok by blast
  then obtain u s' W' l2 where "adjustSupply T this E n (flip_totalSupply T F) (?s, W1) = Inr (u, (s', W'), l2)"
    using adjustSupply_InrI [of T this E n F F' evs W1 ?s] F1 by auto
  then have "\<exists>l. updateFlipSupply V T this E sd n b (s, W) = Inr ((), (s', W'), l)"
    unfolding updateFlipSupply_def onlyNotSuspended_def action_Inr signed_Inr
    using ok sp F1 by (auto simp: gw_reads res_simps) blast
  then show ?accepted by blast
qed

section \<open>Redemptions\<close>

lemma entry_kept_or_paid:
  assumes ex: "gw_exec V T this c sw = Inr (sw', l)"
    and t: "unat (block_timestamp (fst c)) \<le> unat (expiryTime p)"
    and p: "pendingRedemptions (fst sw) n = p"
  shows "pendingRedemptions (fst sw') n = p \<or> Own (RedemptionExecuted n (red_amount p)) \<in> set l"
proof -
  obtain s W s' W' E d u where sw: "sw = (s, W)" "sw' = (s', W')" "c = (E, d)"
    and ac: "gw_action V T this E d (s, W) = Inr (u, (s', W'), l)"
    using ex by (cases sw; cases sw'; cases c) (auto simp: gw_exec_def res_simps)
  consider (reg) sd m b r x e where "d = GwRegister sd m b r x e" | (exe) m where "d = GwExecute m"
    | (other) "(\<forall>sd m b r x e. d \<noteq> GwRegister sd m b r x e) \<and> (\<forall>m. d \<noteq> GwExecute m)"
    by blast
  then show ?thesis
  proof cases
    case reg
    with ac have r: "registerRedemption V this E sd m b r x e (s, W) = Inr (u, (s', W'), l)"
      by simp
    then have "unat (expiryTime (pendingRedemptions s m)) < unat (block_timestamp E)"
      by (auto simp: register_Inr word_less_nat_alt)
    then have "m \<noteq> n"
      using t p by (auto simp: sw)
    then show ?thesis
      using r p by (auto simp: register_Inr sw)
  next
    case exe
    with ac obtain res where r: "executeRedemption T this E m (s, W) = Inr (res, (s', W'), l)"
      by (auto simp: res_simps)
    show ?thesis
    proof (cases "m = n")
      case True
      then have "block_timestamp E \<le> ucast (expiryTime p)"
        using t by (simp add: sw word_le_nat_alt)
      then show ?thesis
        using r True p by (auto simp: execute_Inr Let_def sw)
    next
      case False
      then show ?thesis
        using r p by (auto simp: execute_Inr Let_def sw)
    qed
  next
    case other
    then have "gw_keeps False s s' l"
      using gw_safeD [OF gw_action_safe ac, of False] by blast
    then show ?thesis
      using p by (simp add: sw gw_keeps_def)
  qed
qed

lemma execute_possible:
  assumes T: "erc20_spec T" and p: "pendingRedemptions s n = p" "0 < expiryTime p"
    and window: "unat (startTime p) \<le> unat (block_timestamp E)" "unat (block_timestamp E) \<le> unat (expiryTime p)"
    and who: "executor p = 0 \<or> msg_sender E = executor p" and up: "\<not> suspended (gw_guard s)"
    and F: "flips W (FLIP s) = Some F" "this \<noteq> 0" "redeemAddress p \<noteq> 0"
      "red_amount p \<le> flip_balanceOf T F this" "unat (flip_balanceOf T F (redeemAddress p)) + unat (red_amount p) < 2 ^ 256"
  shows "\<exists>s' W' l F'. executeRedemption T this E n (s, W) = Inr ((redeemAddress p, red_amount p), (s', W'), l) \<and>
    flips W' (FLIP s) = Some F' \<and> moved (flip_balanceOf T F) this (redeemAddress p) (red_amount p) (flip_balanceOf T F')"
proof -
  obtain t where t: "erc20_transfer T this (redeemAddress p) (red_amount p) (token F) = Inr t"
    using erc20_transfer_ok [OF T F(2,3)] F(4,5) by (auto simp: flip_views)
  let ?F = "F\<lparr>token := t\<rparr>"
  have tr: "flip_transfer T (call_env E this) (redeemAddress p) (red_amount p) F = Inr (?F, [])"
    using t by (simp add: flip_transfer_def with_token_def call_env_def)
  have "executeRedemption T this E n (s, W) = Inr ((redeemAddress p, red_amount p),
      (s\<lparr>pendingRedemptions := (pendingRedemptions s)(n := no_redemption)\<rparr>, W\<lparr>flips := (flips W)(FLIP s \<mapsto> ?F)\<rparr>),
      [Own (RedemptionExecuted n (red_amount p))])"
    using p window who up F(1) tr by (auto simp: execute_Inr Let_def word_le_nat_alt)
  moreover have "moved (flip_balanceOf T F) this (redeemAddress p) (red_amount p) (flip_balanceOf T ?F)"
    using erc20_transferD(2) [OF T t] by (simp add: flip_balanceOf_fun)
  ultimately show ?thesis by auto
qed

text \<open>C14: a registered redemption is not lost: after any sequence of calls made before it expires,
  from whomever, either it was paid, or its executor (anybody, if none was named) can execute it
  from the end of the delay until the expiry, and the registered amount goes to the registered
  address, provided the gateway is not suspended then and holds the amount.\<close>

theorem redemption_paid_or_payable:
  assumes T: "erc20_spec T" and reg: "registerRedemption V this E sd n a r x ex (s, W) = Inr (u, sw1, l)"
    and before: "\<forall>c\<in>set cs. unat (block_timestamp (fst c)) \<le> unat x"
    and run: "run_calls (gw_exec V T this) cs sw1 = (s2, W2)"
    and t: "unat (block_timestamp E) < 2 ^ 48" "unat (block_timestamp E) + unat (REDEMPTION_DELAY s) \<le> unat (block_timestamp E2)"
      "unat (block_timestamp E2) \<le> unat x"
    and who: "ex = 0 \<or> msg_sender E2 = ex" and up: "\<not> suspended (gw_guard s2)"
    and F: "flips W2 (FLIP s2) = Some F" "this \<noteq> 0" "a \<le> flip_balanceOf T F this"
      "unat (flip_balanceOf T F r) + unat a < 2 ^ 256"
  shows "Own (RedemptionExecuted n a) \<in> set (run_log (gw_exec V T this) cs sw1) \<or>
    (\<exists>s3 W3 l3 F'. executeRedemption T this E2 n (s2, W2) = Inr ((r, a), (s3, W3), l3) \<and>
       flips W3 (FLIP s2) = Some F' \<and> moved (flip_balanceOf T F) this r a (flip_balanceOf T F'))"
proof -
  obtain s1 W1 where sw1: "sw1 = (s1, W1)"
    by (cases sw1)
  obtain st where r: "r \<noteq> 0" and st: "unat st = unat (block_timestamp E) + unat (REDEMPTION_DELAY s)" "st < x"
    and p: "pendingRedemptions s1 n = \<lparr>red_amount = a, redeemAddress = r, startTime = st, expiryTime = x, executor = ex\<rparr>"
    using reg unat_block_time [OF t(1)] unfolding sw1 by (auto simp: register_Inr)
  let ?p = "pendingRedemptions s1 n"
  have "pendingRedemptions (fst (run_calls (gw_exec V T this) cs sw1)) n = ?p \<or>
      Own (RedemptionExecuted n (red_amount ?p)) \<in> set (run_log (gw_exec V T this) cs sw1)"
  proof (rule run_calls_until [where P = "\<lambda>sw. pendingRedemptions (fst sw) n = ?p"])
    fix c sw sw' evs
    assume c: "c \<in> set cs" and ex: "gw_exec V T this c sw = Inr (sw', evs)"
      and q: "pendingRedemptions (fst sw) n = ?p"
    have "unat (block_timestamp (fst c)) \<le> unat (expiryTime ?p)"
      using before c p by simp
    then show "pendingRedemptions (fst sw') n = ?p \<or> Own (RedemptionExecuted n (red_amount ?p)) \<in> set evs"
      by (rule entry_kept_or_paid [OF ex _ q])
  qed (simp add: sw1)
  then show ?thesis
  proof
    assume "pendingRedemptions (fst (run_calls (gw_exec V T this) cs sw1)) n = ?p"
    then have q: "pendingRedemptions s2 n = ?p"
      by (simp add: run)
    have "0 < expiryTime ?p"
      using st(2) p by (simp add: word_less_nat_alt)
    then show ?thesis
      using execute_possible [OF T q, of E2 W2 F this] p r st t who up F by simp
  qed (simp add: p)
qed

section \<open>Witnesses\<close>

lemma updateFlipSupply_accepted_iff_witness:
  "(\<exists>r. updateFlipSupply sample_evm ledger_erc20 30 sample_env (sample_sig 6) 90 4 (sample_gw, sample_world) = Inr r) \<and>
   (\<nexists>r. updateFlipSupply sample_evm ledger_erc20 30 sample_env (sample_sig 6) 30 4 (sample_gw, sample_world) = Inr r)"
proof -
  let ?F = "\<lparr>token = \<lparr>ledger_total = 100, ledger_bal = (\<lambda>a. 0)(30 := 60, 2 := 40), ledger_allow = (\<lambda>a b. 0)\<rparr>, issuer = 30\<rparr>"
  have F: "flips sample_world (FLIP sample_gw) = Some ?F" "flip_balanceOf ledger_erc20 ?F 30 \<le> flip_totalSupply ledger_erc20 ?F"
    by (simp_all add: sample_gw_defs flip_views ledger_erc20_def)
  have sd: "signed_by_aggKey sample_evm 30 sample_env sample_gw sample_world (sample_sig 6) vs" for vs
    using sample_spend nonce_spent_iff by blast
  have "adjustable ledger_erc20 30 90 ?F" "\<not> adjustable ledger_erc20 30 30 ?F"
    by (simp_all add: adjustable_def flip_views ledger_erc20_def)
  then show ?thesis
    using updateFlipSupply_accepted_iff [OF ledger_erc20_spec _ F, where V = sample_evm and E = sample_env and sd = "sample_sig 6" and b = 4]
    by (simp add: sd) (simp add: sample_gw_def initial_guard_def)
qed

text \<open>An attempt before the delay has passed reverts; after it the redemption is paid.\<close>

lemma redemption_paid_or_payable_witness:
  "\<exists>s1 W1 l s3 W3 l3. registerRedemption sample_evm 30 sample_env (sample_sig 6) 4 25 2 1500 0 (sample_gw, sample_world) =
       Inr ((), (s1, W1), l) \<and>
     gw_exec sample_evm ledger_erc20 30 (sample_env\<lparr>block_timestamp := 1050\<rparr>, GwExecute 4) (s1, W1) =
       Inl (Revert ''Gateway: early or already execd'') \<and>
     executeRedemption ledger_erc20 30 (sample_env\<lparr>block_timestamp := 1200\<rparr>) 4 (s1, W1) = Inr ((2, 25), (s3, W3), l3)"
proof -
  let ?early = "(sample_env\<lparr>block_timestamp := 1050\<rparr>, GwExecute 4) :: env \<times> ledger gw_call"
  let ?F = "\<lparr>token = \<lparr>ledger_total = 100, ledger_bal = (\<lambda>a. 0)(30 := 60, 2 := 40), ledger_allow = (\<lambda>a b. 0)\<rparr>, issuer = 30\<rparr>"
  obtain W1 l1 where sp: "nonce_spent sample_evm 30 sample_env sample_gw sample_world (sample_sig 6)
      (registerRedemption_values sample_evm 4 25 2 1500 0) W1 l1"
    using sample_spend by blast
  then have "\<exists>s1 l. registerRedemption sample_evm 30 sample_env (sample_sig 6) 4 25 2 1500 0 (sample_gw, sample_world) =
      Inr ((), (s1, W1), l)"
    by (intro registerI [where st = 1100]) (simp_all add: sample_gw_def initial_guard_def no_redemption_def sample_env_def)
  then obtain s1 l where reg: "registerRedemption sample_evm 30 sample_env (sample_sig 6) 4 25 2 1500 0 (sample_gw, sample_world) =
      Inr ((), (s1, W1), l)"
    by blast
  then obtain st where st: "unat st = 1100" and s1: "s1 = sample_gw\<lparr>pendingRedemptions := (pendingRedemptions sample_gw)(4 :=
      \<lparr>red_amount = 25, redeemAddress = 2, startTime = st, expiryTime = 1500, executor = 0\<rparr>)\<rparr>"
    by (auto simp: register_Inr sample_env_def sample_gw_def)
  have early: "gw_exec sample_evm ledger_erc20 30 ?early (s1, W1) = Inl (Revert ''Gateway: early or already execd'')"
    by (simp add: gw_exec_def executeRedemption_def onlyNotSuspended_def action_defs s1 sample_gw_def initial_guard_def
        st word_le_nat_alt)
  have F: "flips W1 (FLIP s1) = Some ?F"
    using nonce_spent_world [OF sp] by (simp add: s1 sample_gw_def sample_world_def)
  have "Own (RedemptionExecuted 4 25) \<in> set (run_log (gw_exec sample_evm ledger_erc20 30) [?early] (s1, W1)) \<or>
    (\<exists>s3 W3 l3 F'. executeRedemption ledger_erc20 30 (sample_env\<lparr>block_timestamp := 1200\<rparr>) 4 (s1, W1) = Inr ((2, 25), (s3, W3), l3) \<and>
       flips W3 (FLIP s1) = Some F' \<and> moved (flip_balanceOf ledger_erc20 ?F) 30 2 25 (flip_balanceOf ledger_erc20 F'))"
  proof (rule redemption_paid_or_payable [OF ledger_erc20_spec reg])
    show "run_calls (gw_exec sample_evm ledger_erc20 30) [?early] (s1, W1) = (s1, W1)"
      using early by simp
  qed (use F in \<open>simp_all add: s1 sample_gw_def initial_guard_def sample_env_def flip_views ledger_erc20_def\<close>)
  then obtain s3 W3 l3 where "executeRedemption ledger_erc20 30 (sample_env\<lparr>block_timestamp := 1200\<rparr>) 4 (s1, W1) =
      Inr ((2, 25), (s3, W3), l3)"
    using early by auto
  with reg early show ?thesis by blast
qed

end
