(* ===== verification/ScUtils.thy ===== *)
theory ScUtils
  imports System
begin

text \<open>
  \<open>ScUtils.sol\<close>: deposits into the gateway, the Vault or any address together with a call for
  the State Chain, which is an event; made by users directly or by a message that the Vault
  delivers. The calls to the gateway and to FLIP run the models of those contracts.
\<close>

section \<open>The contract\<close>

record sc_utils =
  SC_GATEWAY :: address
  CF_VAULT :: address

datatype su_event =
    DepositToScGatewayAndScCall address address uint256 bytes
  | DepositToVaultAndScCall address address uint256 address bytes
  | DepositAndScCall address address uint256 address address bytes
  | CallSc address address bytes

type_synonym ('t, 'w, 'a) su_action = "(sc_utils, 't, 'w, su_event, 'a) sys_action"

type_synonym ('t, 'w) su_chain = "(sc_utils, 't, 'w, su_event) sys_chain"

definition su_constructor :: "address \<Rightarrow> address \<Rightarrow> sc_utils" where
  "su_constructor scGateway cfVaultAddr = \<lparr>SC_GATEWAY = scGateway, CF_VAULT = cfVaultAddr\<rparr>"

definition getFlip :: "('t, 'w, address) su_action" where
  "getFlip =
     andthen (storage SC_GATEWAY) (\<lambda>g.
     andthen (view_gateway g getFLIP) (\<lambda>flip.
     require (\<lambda>_. flip \<noteq> 0) (Revert ''ScUtils: FLIP not set'') (ret flip)))"

text \<open>The native branch that \<open>_depositFrom\<close> and \<open>_deposit\<close> share: all of the value goes on.\<close>

definition forward_value :: "('t, 'w) su_chain \<Rightarrow> address \<Rightarrow> env \<Rightarrow> uint256 \<Rightarrow> address \<Rightarrow> ('t, 'w, unit) su_action" where
  "forward_value X this E amount to =
     require (\<lambda>_. amount = msg_value E) (Revert ''ScUtils: value missmatch'')
    (andthen (call X this to (msg_value E) None []) (\<lambda>(success, _).
     require (\<lambda>_. success) RevertEmpty (ret ())))"

definition depositFrom ::
  "'t erc20 \<Rightarrow> ('t, 'w) su_chain \<Rightarrow> address \<Rightarrow> env \<Rightarrow> uint256 \<Rightarrow> address \<Rightarrow> address \<Rightarrow> ('t, 'w, unit) su_action" where
  "depositFrom T X this E amount tok to =
     (if tok \<noteq> NATIVE_ADDR then
        require (\<lambda>_. msg_value E = 0) (Revert ''ScUtils: value not zero'')
       (token_safeTransferFrom T X E this tok (msg_sender E) to amount)
      else forward_value X this E amount to)"

definition deposit ::
  "'t erc20 \<Rightarrow> ('t, 'w) su_chain \<Rightarrow> address \<Rightarrow> env \<Rightarrow> uint256 \<Rightarrow> address \<Rightarrow> address \<Rightarrow> ('t, 'w, unit) su_action" where
  "deposit T X this E amount tok to =
     (if tok \<noteq> NATIVE_ADDR then
        require (\<lambda>_. msg_value E = 0) (Revert ''ScUtils: value not zero'')
       (token_safeTransfer T X E this tok to amount)
      else forward_value X this E amount to)"

text \<open>\<open>depositToScGateway\<close> and \<open>callSc\<close> are not payable.\<close>

definition depositToScGateway ::
  "'t erc20 \<Rightarrow> ('t, 'w) su_chain \<Rightarrow> address \<Rightarrow> env \<Rightarrow> uint256 \<Rightarrow> bytes \<Rightarrow> ('t, 'w, unit) su_action" where
  "depositToScGateway T X this E amount scCall =
     require (\<lambda>_. msg_value E = 0) RevertEmpty
    (andthen getFlip (\<lambda>flip.
     andthen (storage SC_GATEWAY) (\<lambda>g.
     andthen (depositFrom T X this E amount flip g) (\<lambda>_.
     emit (Self (DepositToScGatewayAndScCall (msg_sender E) (tx_origin E) amount scCall))))))"

definition depositToVault ::
  "'t erc20 \<Rightarrow> ('t, 'w) su_chain \<Rightarrow> address \<Rightarrow> env \<Rightarrow> uint256 \<Rightarrow> address \<Rightarrow> bytes \<Rightarrow> ('t, 'w, unit) su_action" where
  "depositToVault T X this E amount tok scCall =
     andthen (storage CF_VAULT) (\<lambda>v.
     andthen (depositFrom T X this E amount tok v) (\<lambda>_.
     emit (Self (DepositToVaultAndScCall (msg_sender E) (tx_origin E) amount tok scCall))))"

definition depositTo ::
  "'t erc20 \<Rightarrow> ('t, 'w) su_chain \<Rightarrow> address \<Rightarrow> env \<Rightarrow> uint256 \<Rightarrow> address \<Rightarrow> address \<Rightarrow> bytes \<Rightarrow> ('t, 'w, unit) su_action" where
  "depositTo T X this E amount tok to scCall =
     andthen (depositFrom T X this E amount tok to) (\<lambda>_.
     emit (Self (DepositAndScCall (msg_sender E) (tx_origin E) amount tok to scCall)))"

definition callSc :: "env \<Rightarrow> bytes \<Rightarrow> ('t, 'w, unit) su_action" where
  "callSc E scCall = require (\<lambda>_. msg_value E = 0) RevertEmpty
     (emit (Self (CallSc (msg_sender E) (tx_origin E) scCall)))"

text \<open>\<open>bytes32(data)\<close>: the first 32 bytes, shorter data padded on the right.\<close>

definition bytes32_of :: "bytes \<Rightarrow> bytes32" where
  "bytes32_of d = word_of_nat (be_value (take 32 (d @ replicate 32 0)))"

definition su_onlyCfVault :: "env \<Rightarrow> ('t, 'w, 'a) su_action \<Rightarrow> ('t, 'w, 'a) su_action" where
  "su_onlyCfVault E = require (\<lambda>(u, S). msg_sender E = CF_VAULT u) (Revert ''ScUtils: caller not Cf Vault'')"

definition fund_account ::
  "evm \<Rightarrow> 't erc20 \<Rightarrow> ('t, 'w) su_chain \<Rightarrow> address \<Rightarrow> env \<Rightarrow> address \<Rightarrow> uint256 \<Rightarrow> bytes \<Rightarrow> ('t, 'w, unit) su_action" where
  "fund_account V T X this E tok amount data =
     andthen getFlip (\<lambda>flip.
     require (\<lambda>_. tok = flip) (Revert ''ScUtils: token not FLIP'')
    (andthen (storage SC_GATEWAY) (\<lambda>g.
     andthen (token_approve V T X E this flip g amount) (\<lambda>approved.
     require (\<lambda>_. approved) RevertEmpty
    (call_gateway g (fundStateChainAccount T g (call_env E this) (bytes32_of data) amount))))))"

definition su_cfReceive ::
  "evm \<Rightarrow> 't erc20 \<Rightarrow> ('t, 'w) su_chain \<Rightarrow> address \<Rightarrow> env \<Rightarrow> bytes \<Rightarrow> address \<Rightarrow> uint256 \<Rightarrow> ('t, 'w, unit) su_action" where
  "su_cfReceive V T X this E message tok amount =
     su_onlyCfVault E
    (andthen (decoded (decode_address_bytes message)) (\<lambda>(to, data).
     andthen (storage SC_GATEWAY) (\<lambda>g.
     andthen (storage CF_VAULT) (\<lambda>v.
     if to = this then fund_account V T X this E tok amount data
     else if to = g then
       andthen getFlip (\<lambda>flip.
       require (\<lambda>_. tok = flip) (Revert ''ScUtils: token not FLIP'')
      (andthen (deposit T X this E amount flip g) (\<lambda>_.
       emit (Self (DepositToScGatewayAndScCall (msg_sender E) 0 amount data)))))
     else if to = v then
       andthen (deposit T X this E amount tok v) (\<lambda>_.
       emit (Self (DepositToVaultAndScCall (msg_sender E) 0 amount tok data)))
     else
       andthen (deposit T X this E amount tok to) (\<lambda>_.
       emit (Self (DepositAndScCall (msg_sender E) 0 amount tok to data)))))))"

lemmas su_defs = getFlip_def depositFrom_def deposit_def depositToScGateway_def depositToVault_def depositTo_def
  callSc_def su_onlyCfVault_def fund_account_def su_cfReceive_def

section \<open>Deposits\<close>

lemma getFlip_Inr [res_simps]:
  "getFlip (u, S) = Inr (f, s', l) \<longleftrightarrow>
     (\<exists>g. sys_gateways S (SC_GATEWAY u) = Some g \<and> f = FLIP g \<and> f \<noteq> 0 \<and> s' = (u, S) \<and> l = [])"
  by (auto simp: getFlip_def res_simps getFLIP_def)

lemma depositFrom_flip:
  assumes "erc20_spec T" and "flips (sys_world S) tok = Some F" and "tok \<noteq> NATIVE_ADDR"
    and "depositFrom T X this E amount tok to (u, S) = Inr (x, s', l)"
  shows "msg_value E = 0 \<and> l = [] \<and> (\<exists>W'. s' = (u, S\<lparr>sys_world := W'\<rparr>) \<and>
    flip_moved T tok (msg_sender E) to amount (sys_world S) W')"
proof -
  obtain W' l' where "msg_value E = 0" and s': "s' = (u, S\<lparr>sys_world := W'\<rparr>)" "l = map OfWorld l'"
    and c: "call_flip tok (flip_transferFrom T (call_env E this) (msg_sender E) to amount) (sys_world S) = Inr (x, W', l')"
    using assms(2,3,4) by (auto simp: depositFrom_def token_safeTransferFrom_def on_flip action_Inr with_world_Inr)
  then show ?thesis
    using call_flip_transferFrom_moves [OF assms(1) c] by blast
qed

text \<open>A deposit for the gateway moves exactly the amount of FLIP, from the caller to the gateway, with
  FLIP as the gateway knows it, and announces the caller, the signer of the transaction and the
  State Chain call unchanged; nothing else changes.\<close>

theorem depositToScGateway_effect:
  assumes "erc20_spec T" and "sys_gateways S (SC_GATEWAY u) = Some g" and "flips (sys_world S) (FLIP g) = Some F"
    and "FLIP g \<noteq> NATIVE_ADDR"
    and "depositToScGateway T X this E amount scCall (u, S) = Inr (x, s', l)"
  shows "\<exists>W'. s' = (u, S\<lparr>sys_world := W'\<rparr>) \<and>
    flip_moved T (FLIP g) (msg_sender E) (SC_GATEWAY u) amount (sys_world S) W' \<and>
    l = [Self (DepositToScGatewayAndScCall (msg_sender E) (tx_origin E) amount scCall)]"
proof -
  obtain s1 l1 where d: "depositFrom T X this E amount (FLIP g) (SC_GATEWAY u) (u, S) = Inr ((), s1, l1)"
    and r: "s' = s1" "l = l1 @ [Self (DepositToScGatewayAndScCall (msg_sender E) (tx_origin E) amount scCall)]"
    using assms(2,5) by (auto simp: depositToScGateway_def res_simps)
  show ?thesis
    using depositFrom_flip [OF assms(1,3,4) d] r by auto
qed

section \<open>Messages of the Vault\<close>

text \<open>C26: a message that encodes this contract's address and an account id funds that State Chain account:
  only the Vault can deliver it, the token must be FLIP, exactly the amount goes from this contract
  to the gateway, which announces the funding of the account named in the message.\<close>

theorem su_cfReceive_funds_account:
  assumes "erc20_spec T" and "sys_gateways S (SC_GATEWAY u) = Some g" and "flips (sys_world S) (FLIP g) = Some F"
    and "length data < 2 ^ 64"
    and "su_cfReceive V T X this E (abi_encode [SAddress this, SBytes data]) tok amount (u, S) = Inr (x, s', l)"
  shows "msg_sender E = CF_VAULT u \<and> tok = FLIP g \<and> minFunding g \<le> amount \<and> bytes32_of data \<noteq> 0 \<and>
    OfGateway (SC_GATEWAY u) (Own (Funded (bytes32_of data) amount this)) \<in> set l \<and>
    flip_moved T (FLIP g) this (SC_GATEWAY u) amount (sys_world S) (sys_world (snd s')) \<and>
    sys_gateways (snd s') = sys_gateways S"
proof -
  obtain ok s1 l1 l2 where sender: "msg_sender E = CF_VAULT u" "tok = FLIP g"
    and ap: "token_approve V T X E this (FLIP g) (SC_GATEWAY u) amount (u, S) = Inr (ok, s1, l1)"
    and gw: "call_gateway (SC_GATEWAY u) (fundStateChainAccount T (SC_GATEWAY u) (call_env E this) (bytes32_of data) amount) s1 =
      Inr (x, s', l2)"
    and l: "l = l1 @ l2"
    using assms(2,4,5)
    by (auto simp: su_cfReceive_def su_onlyCfVault_def decoded_def decode_address_bytes_encoded fund_account_def
        andthen_Inr action_Inr storage_Inr getFlip_Inr)
  then show ?thesis
    using approved_funding [OF assms(1-3) ap gw] by simp
qed

section \<open>What the State Chain sees\<close>

datatype su_call =
    SuDepositToScGateway uint256 bytes
  | SuDepositToVault uint256 address bytes
  | SuDepositTo uint256 address address bytes
  | SuCallSc bytes
  | SuCfReceive bytes address uint256

fun su_action ::
  "evm \<Rightarrow> 't erc20 \<Rightarrow> ('t, 'w) su_chain \<Rightarrow> address \<Rightarrow> env \<Rightarrow> su_call \<Rightarrow> ('t, 'w, unit) su_action" where
  "su_action V T X this E (SuDepositToScGateway n d) = depositToScGateway T X this E n d"
| "su_action V T X this E (SuDepositToVault n t d) = depositToVault T X this E n t d"
| "su_action V T X this E (SuDepositTo n t a d) = depositTo T X this E n t a d"
| "su_action V T X this E (SuCallSc d) = callSc E d"
| "su_action V T X this E (SuCfReceive m t n) = su_cfReceive V T X this E m t n"

text \<open>The event that a call must leave for the State Chain: callers and signers as they are, and no
  signer for a message of the Vault; a message that funds an account leaves the gateway's event
  instead.\<close>

fun announcement :: "address \<Rightarrow> sc_utils \<Rightarrow> env \<Rightarrow> su_call \<Rightarrow> su_event option" where
  "announcement this u E (SuDepositToScGateway n d) = Some (DepositToScGatewayAndScCall (msg_sender E) (tx_origin E) n d)"
| "announcement this u E (SuDepositToVault n t d) = Some (DepositToVaultAndScCall (msg_sender E) (tx_origin E) n t d)"
| "announcement this u E (SuDepositTo n t a d) = Some (DepositAndScCall (msg_sender E) (tx_origin E) n t a d)"
| "announcement this u E (SuCallSc d) = Some (CallSc (msg_sender E) (tx_origin E) d)"
| "announcement this u E (SuCfReceive m t n) = (case decode_address_bytes m of
      None \<Rightarrow> None
    | Some (a, d) \<Rightarrow> if a = this then None
        else if a = SC_GATEWAY u then Some (DepositToScGatewayAndScCall (msg_sender E) 0 n d)
        else if a = CF_VAULT u then Some (DepositToVaultAndScCall (msg_sender E) 0 n t d)
        else Some (DepositAndScCall (msg_sender E) 0 n t a d))"

text \<open>Every accepted call ends with exactly the event it must leave, whatever the tokens and
  recipients it calls do before; the signerless form comes only from the Vault, and a message that
  is no encoding of an address and bytes, or not from the Vault, is never accepted.\<close>

theorem sc_calls_announced:
  assumes "su_action V T X this E c (u, S) = Inr (x, s', l)"
  shows "(\<forall>ev. announcement this u E c = Some ev \<longrightarrow> (\<exists>l'. l = l' @ [Self ev])) \<and>
    (\<forall>m t n. c = SuCfReceive m t n \<longrightarrow> msg_sender E = CF_VAULT u \<and> decode_address_bytes m \<noteq> None)"
proof (cases c)
  case (SuCfReceive m t n)
  show ?thesis
  proof (cases "decode_address_bytes m")
    case None
    then show ?thesis
      using assms SuCfReceive
      by (simp add: su_cfReceive_def su_onlyCfVault_def decoded_def require_def andthen_def revert_def split: if_splits)
  next
    case (Some r)
    then obtain a d where m: "decode_address_bytes m = Some (a, d)"
      by (cases r) auto
    show ?thesis
      using assms m
      by (auto simp: SuCfReceive su_cfReceive_def su_onlyCfVault_def decoded_def andthen_Inr action_Inr storage_Inr
          split: if_splits)
  qed
qed (use assms in \<open>auto simp: depositToScGateway_def depositToVault_def depositTo_def callSc_def andthen_Inr action_Inr storage_Inr\<close>)

section \<open>Witnesses\<close>

definition sample_su :: sc_utils where
  "sample_su = \<lparr>SC_GATEWAY = 30, CF_VAULT = 40\<rparr>"

definition sample_ledger :: ledger where
  "sample_ledger = \<lparr>ledger_total = 100, ledger_bal = (\<lambda>a. 0)(50 := 60, 2 := 40),
     ledger_allow = (\<lambda>a b. 0)(2 := (\<lambda>b. 0)(50 := 40))\<rparr>"

definition sample_system :: "(ledger, unit) system" where
  "sample_system = \<lparr>sys_world = sample_world\<lparr>flips := [20 \<mapsto> \<lparr>token = sample_ledger, issuer = 30\<rparr>]\<rparr>,
     sys_gateways = [30 \<mapsto> sample_gw], sys_holders = (\<lambda>a. None), sys_rest = ()\<rparr>"

lemmas su_eval = su_defs action_defs system_eval call_flip_def flip_op_defs fundStateChainAccount_def gw_reads
  in_world_def getFLIP_def decoded_def ledger_erc20_def ledger_move_def checked_add_def call_env_def sender_env_def
  sample_su_def sample_ledger_def sample_system_def sample_gw_defs

lemma depositToScGateway_effect_witness:
  "\<exists>s' l W'. depositToScGateway ledger_erc20 (quiet_chain []) 50 (sender_env 2) 25 [9] (sample_su, sample_system) = Inr ((), s', l) \<and>
     flip_moved ledger_erc20 20 2 30 25 (sys_world sample_system) W' \<and>
     l = [Self (DepositToScGatewayAndScCall 2 2 25 [9])]"
proof -
  have "\<exists>s' l. depositToScGateway ledger_erc20 (quiet_chain []) 50 (sender_env 2) 25 [9] (sample_su, sample_system) = Inr ((), s', l)"
    by (simp add: su_eval NATIVE_ADDR_def)
  then obtain s' l where r: "depositToScGateway ledger_erc20 (quiet_chain []) 50 (sender_env 2) 25 [9] (sample_su, sample_system) = Inr ((), s', l)"
    by blast
  have "sys_gateways sample_system (SC_GATEWAY sample_su) = Some sample_gw" "FLIP sample_gw = 20" "FLIP sample_gw \<noteq> NATIVE_ADDR"
      "flips (sys_world sample_system) (FLIP sample_gw) = Some \<lparr>token = sample_ledger, issuer = 30\<rparr>"
    by (simp_all add: sample_system_def sample_su_def sample_gw_def NATIVE_ADDR_def)
  from depositToScGateway_effect [OF ledger_erc20_spec this(1) this(4,3) r] r this(2) show ?thesis
    by (auto simp: sender_env_def sample_su_def)
qed

lemma bytes32_of_word: "bytes32_of (word_bytes 32 (w :: bytes32)) = w"
  by (simp add: bytes32_of_def)

lemma su_cfReceive_funds_account_witness:
  "\<exists>s' l. su_cfReceive sample_evm ledger_erc20 (quiet_chain []) 50 (sender_env 40)
      (abi_encode [SAddress 50, SBytes (word_bytes 32 (7 :: bytes32))]) 20 25 (sample_su, sample_system) = Inr ((), s', l) \<and>
     flip_moved ledger_erc20 20 50 30 25 (sys_world sample_system) (sys_world (snd s')) \<and>
     OfGateway 30 (Own (Funded 7 25 50)) \<in> set l"
proof -
  let ?m = "abi_encode [SAddress 50, SBytes (word_bytes 32 (7 :: bytes32))]"
  have "decode_address_bytes ?m = Some (50, word_bytes 32 (7 :: bytes32))"
    by (rule decode_address_bytes_encoded) simp
  then have "\<exists>s' l. su_cfReceive sample_evm ledger_erc20 (quiet_chain []) 50 (sender_env 40) ?m 20 25
      (sample_su, sample_system) = Inr ((), s', l)"
    by (simp add: su_eval bytes32_of_word)
  then obtain s' l where r: "su_cfReceive sample_evm ledger_erc20 (quiet_chain []) 50 (sender_env 40) ?m 20 25
      (sample_su, sample_system) = Inr ((), s', l)"
    by blast
  have g: "sys_gateways sample_system (SC_GATEWAY sample_su) = Some sample_gw"
      "flips (sys_world sample_system) (FLIP sample_gw) = Some \<lparr>token = sample_ledger, issuer = 30\<rparr>"
    by (simp_all add: sample_system_def sample_su_def sample_gw_def)
  have "length (word_bytes 32 (7 :: bytes32)) < 2 ^ 64"
    by simp
  from su_cfReceive_funds_account [OF ledger_erc20_spec g this r] r show ?thesis
    by (auto simp: bytes32_of_word sample_su_def sample_gw_def)
qed

lemma sc_calls_announced_witness:
  "\<exists>s' l. su_action sample_evm ledger_erc20 (quiet_chain []) 50 (sender_env 2) (SuDepositTo 0 NATIVE_ADDR 6 [9])
      (sample_su, sample_system) = Inr ((), s', l @ [Self (DepositAndScCall 2 2 0 NATIVE_ADDR 6 [9])])"
proof -
  have "\<exists>s' l. su_action sample_evm ledger_erc20 (quiet_chain []) 50 (sender_env 2) (SuDepositTo 0 NATIVE_ADDR 6 [9])
      (sample_su, sample_system) = Inr ((), s', l)"
    by (simp add: su_eval forward_value_def call_def quiet_chain_def)
  then obtain s' l where r: "su_action sample_evm ledger_erc20 (quiet_chain []) 50 (sender_env 2) (SuDepositTo 0 NATIVE_ADDR 6 [9])
      (sample_su, sample_system) = Inr ((), s', l)"
    by blast
  from sc_calls_announced [OF r] r show ?thesis
    by (auto simp: sender_env_def)
qed

end
