(* ===== verification/TokenVesting.thy ===== *)
theory TokenVesting
  imports SolAction Flip
begin

text \<open>
  \<open>utils/TokenVestingNoStaking.sol\<close>: a fifth of each token's funds vests at the cliff, the
  rest linearly until the end; the revoker may take back what has not vested. The tokens are
  contracts outside the repository: \<open>tokens\<close> holds their \<open>balanceOf\<close> and SafeERC20's
  \<open>safeTransfer\<close> on a world \<open>'w\<close>, and \<open>tokens_spec\<close> what a transfer does.
\<close>

section \<open>Tokens\<close>

record 'w tokens =
  tok_balanceOf :: "address \<Rightarrow> address \<Rightarrow> 'w \<Rightarrow> uint256"
  tok_safeTransfer :: "address \<Rightarrow> address \<Rightarrow> address \<Rightarrow> uint256 \<Rightarrow> 'w \<Rightarrow> 'w sol"

text \<open>\<open>tok_safeTransfer t from to n\<close>: a transfer of \<open>n\<close> of token \<open>t\<close> that does not revert
  moves \<open>n\<close> between the two balances and changes no other.\<close>

definition tokens_spec :: "'w tokens \<Rightarrow> bool" where
  "tokens_spec X \<longleftrightarrow> (\<forall>t from to n w w'. tok_safeTransfer X t from to n w = Inr w' \<longrightarrow>
     moved (\<lambda>a. tok_balanceOf X t a w) from to n (\<lambda>a. tok_balanceOf X t a w') \<and>
     (\<forall>u a. u \<noteq> t \<longrightarrow> tok_balanceOf X u a w' = tok_balanceOf X u a w))"

section \<open>The contract\<close>

record vesting =
  beneficiary :: address
  transferableBeneficiary :: bool
  revoker :: address
  cliff :: uint256
  vest_end :: uint256
  released :: "address \<Rightarrow> uint256"
  revoked :: bool

datatype vesting_event =
    TokensReleased address uint256
  | TokenVestingRevoked address uint256
  | BeneficiaryTransferred address address
  | RevokerTransferred address address

type_synonym ('w, 'a) vest_action = "(vesting \<times> 'w, vesting_event, 'a) action"

definition CLIFF_DENOMINATOR :: uint256 where
  "CLIFF_DENOMINATOR = 5"

definition vesting_constructor :: "env \<Rightarrow> address \<Rightarrow> address \<Rightarrow> uint256 \<Rightarrow> uint256 \<Rightarrow> bool \<Rightarrow> vesting sol" where
  "vesting_constructor E newBeneficiary newRevoker cliff0 end0 transferable =
     nzAddr newBeneficiary
    (rensure (cliff0 \<le> end0) (Revert ''Vesting: cliff_ after end_'')
    (rensure (block_timestamp E < cliff0) (Revert ''Vesting: cliff before current time'')
    (Inr \<lparr>beneficiary = newBeneficiary, transferableBeneficiary = transferable, revoker = newRevoker,
          cliff = cliff0, vest_end = end0, released = (\<lambda>_. 0), revoked = False\<rparr>)))"

definition onlyBeneficiary :: "env \<Rightarrow> ('w, 'a) vest_action \<Rightarrow> ('w, 'a) vest_action" where
  "onlyBeneficiary E = require (\<lambda>(v, w). msg_sender E = beneficiary v) (Revert ''Vesting: not the beneficiary'')"

definition onlyRevoker :: "env \<Rightarrow> ('w, 'a) vest_action \<Rightarrow> ('w, 'a) vest_action" where
  "onlyRevoker E = require (\<lambda>(v, w). msg_sender E = revoker v) (Revert ''Vesting: not the revoker'')"

text \<open>\<open>_vestedAmount\<close>, given the contract's balance of the token.\<close>

definition vestedAmount :: "env \<Rightarrow> vesting \<Rightarrow> address \<Rightarrow> uint256 \<Rightarrow> uint256 sol" where
  "vestedAmount E v tok currentBalance =
     (if block_timestamp E < cliff v then Inr 0
      else rbind (checked_add currentBalance (released v tok)) (\<lambda>totalBalance.
        if block_timestamp E \<ge> vest_end v \<or> revoked v then Inr totalBalance
        else rbind (checked_div totalBalance CLIFF_DENOMINATOR) (\<lambda>cliffAmount.
             rbind (checked_sub totalBalance cliffAmount) (\<lambda>rest.
             rbind (checked_sub (block_timestamp E) (cliff v)) (\<lambda>elapsed.
             rbind (checked_mul rest elapsed) (\<lambda>scaled.
             rbind (checked_sub (vest_end v) (cliff v)) (\<lambda>duration.
             rbind (checked_div scaled duration) (\<lambda>linear.
             checked_add cliffAmount linear))))))))"

definition releasableAmount :: "env \<Rightarrow> vesting \<Rightarrow> address \<Rightarrow> uint256 \<Rightarrow> uint256 sol" where
  "releasableAmount E v tok currentBalance =
     rbind (vestedAmount E v tok currentBalance) (\<lambda>vested. checked_sub vested (released v tok))"

definition vest_balance :: "'w tokens \<Rightarrow> address \<Rightarrow> address \<Rightarrow> ('w, uint256) vest_action" where
  "vest_balance X this tok = reads (\<lambda>(v, w). tok_balanceOf X tok this w)"

definition vest_transfer :: "'w tokens \<Rightarrow> address \<Rightarrow> address \<Rightarrow> address \<Rightarrow> uint256 \<Rightarrow> ('w, unit) vest_action" where
  "vest_transfer X this tok to n = (\<lambda>(v, w). rbind (tok_safeTransfer X tok this to n w) (\<lambda>w'. Inr ((), (v, w'), [])))"

definition vest_store :: "(vesting \<Rightarrow> vesting) \<Rightarrow> ('w, unit) vest_action" where
  "vest_store f = modify (\<lambda>(v, w). (f v, w))"

definition vest_read :: "(vesting \<Rightarrow> 'a) \<Rightarrow> ('w, 'a) vest_action" where
  "vest_read f = reads (\<lambda>(v, w). f v)"

definition release :: "'w tokens \<Rightarrow> address \<Rightarrow> env \<Rightarrow> address \<Rightarrow> ('w, unit) vest_action" where
  "release X this E tok =
     onlyBeneficiary E
    (andthen (vest_balance X this tok) (\<lambda>bal.
     andthen (vest_read id) (\<lambda>v.
     andthen (checked (releasableAmount E v tok bal)) (\<lambda>unreleased.
     require (\<lambda>_. unreleased > 0) (Revert ''Vesting: no tokens are due'')
    (andthen (checked (checked_add (released v tok) unreleased)) (\<lambda>rel.
     andthen (vest_store (\<lambda>v. v\<lparr>released := (released v)(tok := rel)\<rparr>)) (\<lambda>_.
     andthen (emit (TokensReleased tok unreleased)) (\<lambda>_.
     andthen (vest_read beneficiary) (\<lambda>b.
     vest_transfer X this tok b unreleased)))))))))"

definition revoke :: "'w tokens \<Rightarrow> address \<Rightarrow> env \<Rightarrow> address \<Rightarrow> ('w, unit) vest_action" where
  "revoke X this E tok =
     onlyRevoker E
    (require (\<lambda>(v, w). \<not> revoked v) (Revert ''Vesting: token revoked'')
    (require (\<lambda>(v, w). block_timestamp E \<le> vest_end v) (Revert ''Vesting: vesting expired'')
    (andthen (vest_balance X this tok) (\<lambda>balance.
     andthen (vest_read id) (\<lambda>v.
     andthen (checked (releasableAmount E v tok balance)) (\<lambda>unreleased.
     andthen (checked (checked_sub balance unreleased)) (\<lambda>refund.
     andthen (vest_store (revoked_update (\<lambda>_. True))) (\<lambda>_.
     andthen (vest_read revoker) (\<lambda>r.
     andthen (vest_transfer X this tok r refund) (\<lambda>_.
     emit (TokenVestingRevoked tok refund)))))))))))"

definition transferBeneficiary :: "env \<Rightarrow> address \<Rightarrow> ('w, unit) vest_action" where
  "transferBeneficiary E newBeneficiary =
     onlyBeneficiary E
    (require (\<lambda>_. newBeneficiary \<noteq> 0) (Revert ''Shared: address input is empty'')
    (require (\<lambda>(v, w). transferableBeneficiary v) (Revert ''Vesting: beneficiary not transferrable'')
    (andthen (vest_read beneficiary) (\<lambda>b.
     andthen (emit (BeneficiaryTransferred b newBeneficiary)) (\<lambda>_.
     vest_store (beneficiary_update (\<lambda>_. newBeneficiary)))))))"

definition transferRevoker :: "env \<Rightarrow> address \<Rightarrow> ('w, unit) vest_action" where
  "transferRevoker E newRevoker =
     onlyRevoker E
    (require (\<lambda>_. newRevoker \<noteq> 0) (Revert ''Shared: address input is empty'')
    (andthen (vest_read revoker) (\<lambda>r.
     andthen (emit (RevokerTransferred r newRevoker)) (\<lambda>_.
     vest_store (revoker_update (\<lambda>_. newRevoker))))))"

definition getBeneficiary :: "vesting \<Rightarrow> address" where
  "getBeneficiary v = beneficiary v"

definition getRevoker :: "vesting \<Rightarrow> address" where
  "getRevoker v = revoker v"

section \<open>The schedule\<close>

text \<open>The amount vested of a total at a time, in natural numbers.\<close>

definition schedule :: "nat \<Rightarrow> nat \<Rightarrow> nat \<Rightarrow> nat \<Rightarrow> nat" where
  "schedule c e total_funds t =
     (if t < c then 0 else if e \<le> t then total_funds
      else total_funds div 5 + (total_funds - total_funds div 5) * (t - c) div (e - c))"

lemma schedule_le: "schedule c e f t \<le> f"
proof (cases "t < c \<or> e \<le> t")
  case False
  then have "(f - f div 5) * (t - c) div (e - c) \<le> (f - f div 5) * (e - c) div (e - c)"
    by (intro div_le_mono mult_le_mono2 diff_le_mono) simp
  then have "(f - f div 5) * (t - c) div (e - c) \<le> f - f div 5"
    using False by simp
  moreover have "f div 5 \<le> f"
    by simp
  ultimately have "f div 5 + (f - f div 5) * (t - c) div (e - c) \<le> f"
    by linarith
  then show ?thesis
    using False by (simp add: schedule_def)
qed (auto simp: schedule_def)

lemma schedule_mono:
  assumes "t \<le> t'"
  shows "schedule c e f t \<le> schedule c e f t'"
proof (cases "t < c \<or> e \<le> t'")
  case True
  then show ?thesis
    using schedule_le [of c e f t] assms by (auto simp: schedule_def)
next
  case False
  then have "(f - f div 5) * (t - c) div (e - c) \<le> (f - f div 5) * (t' - c) div (e - c)"
    using assms by (intro div_le_mono mult_le_mono2) simp
  then show ?thesis
    using False assms by (simp add: schedule_def)
qed

lemma vestedAmount_Inr:
  assumes "vestedAmount E v tok bal = Inr a"
  shows "unat a = (if unat (block_timestamp E) < unat (cliff v) then 0
    else if revoked v then unat bal + unat (released v tok)
    else schedule (unat (cliff v)) (unat (vest_end v)) (unat bal + unat (released v tok)) (unat (block_timestamp E)))"
  using assms
  by (auto simp: vestedAmount_def schedule_def CLIFF_DENOMINATOR_def res_simps word_less_nat_alt
      word_le_nat_alt split: if_splits)

text \<open>C32: of unchanged funds the vested amount never exceeds the funds and never decreases with
  time: nothing before the cliff, at least a fifth from it on, everything at the end.\<close>

theorem vested_monotone:
  assumes "vestedAmount E v tok bal = Inr a" and "vestedAmount E' v tok bal = Inr a'"
    and "block_timestamp E \<le> block_timestamp E'"
  shows "unat a \<le> unat a' \<and> unat a' \<le> unat bal + unat (released v tok) \<and>
    (block_timestamp E < cliff v \<longrightarrow> a = 0) \<and>
    (cliff v \<le> block_timestamp E \<longrightarrow> (unat bal + unat (released v tok)) div 5 \<le> unat a) \<and>
    (cliff v \<le> block_timestamp E \<longrightarrow> vest_end v \<le> block_timestamp E \<longrightarrow> unat a = unat bal + unat (released v tok))"
proof -
  let ?f = "unat bal + unat (released v tok)" and ?c = "unat (cliff v)" and ?e = "unat (vest_end v)"
  have "schedule ?c ?e ?f (unat (block_timestamp E)) \<le> schedule ?c ?e ?f (unat (block_timestamp E'))"
    using assms(3) by (intro schedule_mono) (simp add: word_le_nat_alt)
  moreover have "schedule ?c ?e ?f t \<le> ?f" for t
    by (rule schedule_le)
  moreover have "?f div 5 \<le> schedule ?c ?e ?f t" if "?c \<le> t" for t
    using that by (simp add: schedule_def)
  moreover have "schedule ?c ?e ?f t = ?f" if "?c \<le> t" "?e \<le> t" for t
    using that by (simp add: schedule_def)
  ultimately show ?thesis
    using vestedAmount_Inr [OF assms(1)] vestedAmount_Inr [OF assms(2)] assms(3)
    by (auto simp: word_le_nat_alt word_less_nat_alt word_unat_eq_iff)
qed

section \<open>Release and revocation\<close>

lemma release_InrD:
  assumes "release X this E tok (v, w) = Inr (u, (v', w'), l)"
  shows "\<exists>vested n. msg_sender E = beneficiary v \<and> vestedAmount E v tok (tok_balanceOf X tok this w) = Inr vested \<and>
    released v tok < vested \<and> unat n = unat vested - unat (released v tok) \<and>
    v' = v\<lparr>released := (released v)(tok := vested)\<rparr> \<and> l = [TokensReleased tok n] \<and>
    tok_safeTransfer X tok this (beneficiary v) n w = Inr w'"
proof -
  obtain n r where c: "msg_sender E = beneficiary v" "releasableAmount E v tok (tok_balanceOf X tok this w) = Inr n"
      "0 < n" "unat r = unat (released v tok) + unat n" "v' = v\<lparr>released := (released v)(tok := r)\<rparr>"
      "l = [TokensReleased tok n]" "tok_safeTransfer X tok this (beneficiary v) n w = Inr w'"
    using assms by (auto simp: release_def onlyBeneficiary_def vest_balance_def vest_read_def vest_store_def
        vest_transfer_def res_simps)
  obtain vested where v: "vestedAmount E v tok (tok_balanceOf X tok this w) = Inr vested"
      "released v tok \<le> vested" "unat n = unat vested - unat (released v tok)"
    using c(2) by (auto simp: releasableAmount_def res_simps)
  have "r = vested"
    using c(4) v by (simp add: word_unat_eq_iff word_le_nat_alt)
  moreover have "released v tok < vested"
    using c(3) v by (simp add: word_less_nat_alt word_le_nat_alt)
  ultimately show ?thesis
    using c v by auto
qed

text \<open>C31: a release pays the beneficiary, who must call it, exactly what has vested and was not paid
  before. Without a revocation the amount paid out in total is afterwards the scheduled part of all
  funds the contract ever held of this token; after a revocation, of whichever token, it is all of
  them, so nothing of this token is left, but still not before the cliff.\<close>

theorem release_pays_schedule:
  assumes "tokens_spec X" and "release X this E tok (v, w) = Inr (u, (v', w'), l)"
  shows "msg_sender E = beneficiary v \<and> cliff v \<le> block_timestamp E \<and>
    (let funds = unat (tok_balanceOf X tok this w) + unat (released v tok) in
       unat (released v' tok) =
         (if revoked v then funds
          else schedule (unat (cliff v)) (unat (vest_end v)) funds (unat (block_timestamp E)))) \<and>
    (\<exists>n. unat n = unat (released v' tok) - unat (released v tok) \<and> 0 < n \<and>
      moved (\<lambda>a. tok_balanceOf X tok a w) this (beneficiary v) n (\<lambda>a. tok_balanceOf X tok a w')) \<and>
    (\<forall>t. t \<noteq> tok \<longrightarrow> released v' t = released v t \<and> tok_balanceOf X t this w' = tok_balanceOf X t this w)"
proof -
  obtain vested n where r: "msg_sender E = beneficiary v" "vestedAmount E v tok (tok_balanceOf X tok this w) = Inr vested"
    "released v tok < vested" "unat n = unat vested - unat (released v tok)"
    "v' = v\<lparr>released := (released v)(tok := vested)\<rparr>" "tok_safeTransfer X tok this (beneficiary v) n w = Inr w'"
    using release_InrD [OF assms(2)] by blast
  have "0 < n"
    using r(3,4) by (simp add: word_less_nat_alt)
  moreover have "moved (\<lambda>a. tok_balanceOf X tok a w) this (beneficiary v) n (\<lambda>a. tok_balanceOf X tok a w') \<and>
      (\<forall>t. t \<noteq> tok \<longrightarrow> tok_balanceOf X t this w' = tok_balanceOf X t this w)"
    using assms(1) r(6) unfolding tokens_spec_def by blast
  moreover have "cliff v \<le> block_timestamp E"
    using vestedAmount_Inr [OF r(2)] r(3)
    by (cases "unat (block_timestamp E) < unat (cliff v)") (simp_all add: word_less_nat_alt word_le_nat_alt)
  moreover have "let funds = unat (tok_balanceOf X tok this w) + unat (released v tok) in
      unat vested = (if revoked v then funds
        else schedule (unat (cliff v)) (unat (vest_end v)) funds (unat (block_timestamp E)))"
    using vestedAmount_Inr [OF r(2)] calculation(3) by (simp add: word_le_nat_alt)
  ultimately show ?thesis
    using r by auto
qed

lemma revoke_InrD:
  assumes "revoke X this E tok (v, w) = Inr (u, (v', w'), l)"
  shows "\<exists>vested n. msg_sender E = revoker v \<and> \<not> revoked v \<and> block_timestamp E \<le> vest_end v \<and>
    vestedAmount E v tok (tok_balanceOf X tok this w) = Inr vested \<and> released v tok \<le> vested \<and>
    unat vested - unat (released v tok) \<le> unat (tok_balanceOf X tok this w) \<and>
    unat n = unat (tok_balanceOf X tok this w) - (unat vested - unat (released v tok)) \<and>
    v' = v\<lparr>revoked := True\<rparr> \<and> l = [TokenVestingRevoked tok n] \<and>
    tok_safeTransfer X tok this (revoker v) n w = Inr w'"
  using assms by (auto simp: revoke_def onlyRevoker_def vest_balance_def vest_read_def vest_store_def
      vest_transfer_def releasableAmount_def res_simps word_le_nat_alt) 

text \<open>A revocation keeps for the beneficiary exactly what had vested: whatever the contract
  holds of the token afterwards is vested and unpaid at that moment, and at any later time from
  the cliff on the vested amount is still that of the revocation.\<close>

theorem revoke_keeps_vested:
  assumes "tokens_spec X" and "revoke X this E tok (v, w) = Inr (u, (v', w'), l)" and "revoker v \<noteq> this"
    and "vestedAmount E v tok (tok_balanceOf X tok this w) = Inr a"
    and "cliff v \<le> block_timestamp E'" and "vestedAmount E' v' tok (tok_balanceOf X tok this w') = Inr a'"
  shows "unat (tok_balanceOf X tok this w') = unat a - unat (released v tok) \<and> a' = a"
proof -
  obtain n where r: "released v tok \<le> a" "unat a - unat (released v tok) \<le> unat (tok_balanceOf X tok this w)"
    "unat n = unat (tok_balanceOf X tok this w) - (unat a - unat (released v tok))"
    "v' = v\<lparr>revoked := True\<rparr>" "tok_safeTransfer X tok this (revoker v) n w = Inr w'"
    using revoke_InrD [OF assms(2)] assms(4) by auto
  have "moved (\<lambda>a. tok_balanceOf X tok a w) this (revoker v) n (\<lambda>a. tok_balanceOf X tok a w')"
    using assms(1) r(5) unfolding tokens_spec_def by blast
  then have b: "unat (tok_balanceOf X tok this w') = unat a - unat (released v tok)"
    using assms(3) r by (simp add: moved_def)
  then have "unat a' = unat a"
    using vestedAmount_Inr [OF assms(6)] assms(5) r by (simp add: word_le_nat_alt)
  then show ?thesis
    using b by (simp add: word_unat_eq_iff)
qed

text \<open>The flag \<open>revoked\<close> is one for all tokens: once any token has been revoked, no
  token can be revoked any more, and from the cliff on every token counts as fully vested,
  however far away the end is.\<close>

theorem revoke_vests_other_tokens:
  assumes "revoke X this E tok (v, w) = Inr (u, (v', w'), l)"
    and "cliff v \<le> block_timestamp E'"
    and "unat (tok_balanceOf X other this w2) + unat (released v other) < 2 ^ 256"
  shows "vestedAmount E' v' other (tok_balanceOf X other this w2) =
      Inr (tok_balanceOf X other this w2 + released v other) \<and>
    (\<exists>e. revoke X this E' other (v', w2) = Inl e)"
proof -
  have v': "v' = v\<lparr>revoked := True\<rparr>"
    using revoke_InrD [OF assms(1)] by blast
  have "revoke X this E' other (v', w2) \<noteq> Inr r" for r
    using revoke_InrD [of X this E' other v' w2] by (cases r) (auto simp: v')
  then have "\<exists>e. revoke X this E' other (v', w2) = Inl e"
    by (cases "revoke X this E' other (v', w2)") auto
  then show ?thesis
    using assms(2,3) by (simp add: vestedAmount_def v' checked_add_def not_less [symmetric])
qed

section \<open>Witnesses\<close>

text \<open>Tokens that are ledgers, by address.\<close>

definition ledger_tokens :: "(address \<Rightarrow> ledger) tokens" where
  "ledger_tokens = \<lparr>tok_balanceOf = (\<lambda>t a w. ledger_bal (w t) a),
     tok_safeTransfer = (\<lambda>t from to n w. rbind (ledger_move from to n (w t)) (\<lambda>b. Inr (w(t := b))))\<rparr>"

lemma ledger_tokens_spec: "tokens_spec ledger_tokens"
  unfolding tokens_spec_def by (auto simp: ledger_tokens_def res_simps dest!: ledger_move_spec)

definition sample_vesting :: vesting where
  "sample_vesting = \<lparr>beneficiary = 7, transferableBeneficiary = False, revoker = 8, cliff = 900,
     vest_end = 1700, released = (\<lambda>_. 0), revoked = False\<rparr>"

definition sample_tokens :: "address \<Rightarrow> ledger" where
  "sample_tokens = (\<lambda>t. \<lparr>ledger_total = 100, ledger_bal = (\<lambda>a. 0)(30 := 100), ledger_allow = (\<lambda>a b. 0)\<rparr>)"

lemmas vest_eval = release_def revoke_def onlyBeneficiary_def onlyRevoker_def vest_balance_def vest_read_def
  vest_store_def vest_transfer_def action_defs releasableAmount_def vestedAmount_def CLIFF_DENOMINATOR_def
  checked_add_def checked_sub_def checked_mul_def checked_div_def ledger_tokens_def ledger_move_def
  sample_vesting_def sample_tokens_def sender_env_def

lemma sample_vested:
  "vestedAmount (sender_env 7) sample_vesting 5 100 = Inr 30"
  "vestedAmount ((sender_env 7)\<lparr>block_timestamp := 1300\<rparr>) sample_vesting 5 100 = Inr 60"
  by (simp_all add: vest_eval)

lemma vested_monotone_witness: "unat (30 :: uint256) \<le> unat (60 :: uint256)"
  using vested_monotone [OF sample_vested] by (simp add: sender_env_def)

lemma sample_release: "\<exists>v' w' l. release ledger_tokens 30 (sender_env 7) 5 (sample_vesting, sample_tokens) = Inr ((), (v', w'), l)"
  by (simp add: vest_eval)

lemma sample_revoke: "\<exists>v' w' l. revoke ledger_tokens 30 (sender_env 8) 5 (sample_vesting, sample_tokens) = Inr ((), (v', w'), l)"
  by (simp add: vest_eval)

lemma sample_release_revoked:
  "\<exists>v' w' l. release ledger_tokens 30 (sender_env 7) 6 (sample_vesting\<lparr>revoked := True\<rparr>, sample_tokens) = Inr ((), (v', w'), l)"
  by (simp add: vest_eval)

lemma release_pays_schedule_witness:
  "(\<exists>v' w' l. release ledger_tokens 30 (sender_env 7) 5 (sample_vesting, sample_tokens) = Inr ((), (v', w'), l) \<and>
     unat (released v' 5) = 30) \<and>
   (\<exists>v' w' l. release ledger_tokens 30 (sender_env 7) 6 (sample_vesting\<lparr>revoked := True\<rparr>, sample_tokens) = Inr ((), (v', w'), l) \<and>
     unat (released v' 6) = 100)"
proof -
  obtain v' w' l where r: "release ledger_tokens 30 (sender_env 7) 5 (sample_vesting, sample_tokens) = Inr ((), (v', w'), l)"
    using sample_release by blast
  from release_pays_schedule [OF ledger_tokens_spec r] have "unat (released v' 5) = 30"
    by (simp add: sample_vesting_def sample_tokens_def ledger_tokens_def sender_env_def schedule_def)
  moreover obtain v2 w2 l2 where q: "release ledger_tokens 30 (sender_env 7) 6 (sample_vesting\<lparr>revoked := True\<rparr>, sample_tokens) = Inr ((), (v2, w2), l2)"
    using sample_release_revoked by blast
  from release_pays_schedule [OF ledger_tokens_spec q] have "unat (released v2 6) = 100"
    by (simp add: sample_vesting_def sample_tokens_def ledger_tokens_def Let_def)
  ultimately show ?thesis
    using r q by blast
qed

lemma revoke_keeps_vested_witness:
  "\<exists>v' w' l. revoke ledger_tokens 30 (sender_env 8) 5 (sample_vesting, sample_tokens) = Inr ((), (v', w'), l) \<and>
     unat (tok_balanceOf ledger_tokens 5 30 w') = 30"
proof -
  obtain v' w' l where r: "revoke ledger_tokens 30 (sender_env 8) 5 (sample_vesting, sample_tokens) = Inr ((), (v', w'), l)"
    using sample_revoke by blast
  have a: "vestedAmount (sender_env 8) sample_vesting 5 (tok_balanceOf ledger_tokens 5 30 sample_tokens) = Inr 30"
    by (simp add: vest_eval)
  have "\<exists>a'. vestedAmount (sender_env 8) v' 5 (tok_balanceOf ledger_tokens 5 30 w') = Inr a'"
    using r by (auto simp: vest_eval)
  then obtain a' where a': "vestedAmount (sender_env 8) v' 5 (tok_balanceOf ledger_tokens 5 30 w') = Inr a'"
    by blast
  from revoke_keeps_vested [OF ledger_tokens_spec r _ a _ a']
  have "unat (tok_balanceOf ledger_tokens 5 30 w') = 30"
    by (simp add: sample_vesting_def sender_env_def)
  with r show ?thesis by blast
qed

lemma revoke_vests_other_tokens_witness:
  "\<exists>v' w' l. revoke ledger_tokens 30 (sender_env 8) 5 (sample_vesting, sample_tokens) = Inr ((), (v', w'), l) \<and>
     vestedAmount (sender_env 7) v' 6 100 = Inr 100"
proof -
  obtain v' w' l where r: "revoke ledger_tokens 30 (sender_env 8) 5 (sample_vesting, sample_tokens) = Inr ((), (v', w'), l)"
    using sample_revoke by blast
  from revoke_vests_other_tokens [OF r, of "sender_env 7" 6 sample_tokens]
  have "vestedAmount (sender_env 7) v' 6 100 = Inr 100"
    by (simp add: sample_vesting_def sender_env_def sample_tokens_def ledger_tokens_def)
  with r show ?thesis by blast
qed

end
