(* ===== verification/TokenStaking.thy ===== *)
theory TokenStaking
  imports System
begin

text \<open>
  \<open>utils/TokenVestingStaking.sol\<close>: all tokens unlock at the end, but from the start on the
  beneficiary may stake FLIP, with a State Chain account through the gateway or with a staking
  provider, whose addresses the \<open>AddressHolder\<close> names. The gateway, the address holder and FLIP
  are the models of those contracts; the staking provider (only a mock of it is in the
  repository) and other tokens are calls of the parameter \<open>chain\<close>.
\<close>

section \<open>The contract\<close>

record staking =
  sk_beneficiary :: address
  sk_transferable :: bool
  sk_revoker :: address
  sk_start :: uint256
  sk_end :: uint256
  sk_FLIP :: address
  sk_addressHolder :: address
  sk_revoked :: bool
  stTokenStaked :: uint256
  stTokenUnstaked :: uint256

datatype sk_event =
    SkTokensReleased address uint256
  | SkVestingRevoked address uint256
  | SkBeneficiaryTransferred address address
  | SkRevokerTransferred address address

type_synonym ('t, 'w, 'a) sk_action = "(staking, 't, 'w, sk_event, 'a) sys_action"

type_synonym ('t, 'w) sk_chain = "(staking, 't, 'w, sk_event) sys_chain"

definition sk_constructor ::
  "env \<Rightarrow> address \<Rightarrow> address \<Rightarrow> uint256 \<Rightarrow> uint256 \<Rightarrow> bool \<Rightarrow> address \<Rightarrow> address \<Rightarrow> staking sol" where
  "sk_constructor E benef revk start0 end0 transferable holder flip0 =
     nzAddr benef (nzAddr holder (nzAddr flip0
    (rensure (start0 \<le> end0) (Revert ''Vesting: start_ after end_'')
    (rensure (block_timestamp E < start0) (Revert ''Vesting: start before current time'')
    (Inr \<lparr>sk_beneficiary = benef, sk_transferable = transferable, sk_revoker = revk, sk_start = start0,
          sk_end = end0, sk_FLIP = flip0, sk_addressHolder = holder, sk_revoked = False,
          stTokenStaked = 0, stTokenUnstaked = 0\<rparr>)))))"

text \<open>Modifiers.\<close>

definition sk_onlyBeneficiary :: "env \<Rightarrow> ('t, 'w, 'a) sk_action \<Rightarrow> ('t, 'w, 'a) sk_action" where
  "sk_onlyBeneficiary E = require (\<lambda>(v, S). msg_sender E = sk_beneficiary v) (Revert ''Vesting: not the beneficiary'')"

definition sk_onlyRevoker :: "env \<Rightarrow> ('t, 'w, 'a) sk_action \<Rightarrow> ('t, 'w, 'a) sk_action" where
  "sk_onlyRevoker E = require (\<lambda>(v, S). msg_sender E = sk_revoker v) (Revert ''Vesting: not the revoker'')"

definition notRevoked :: "('t, 'w, 'a) sk_action \<Rightarrow> ('t, 'w, 'a) sk_action" where
  "notRevoked = require (\<lambda>(v, S). \<not> sk_revoked v) (Revert ''Vesting: token revoked'')"

definition afterStart :: "env \<Rightarrow> ('t, 'w, 'a) sk_action \<Rightarrow> ('t, 'w, 'a) sk_action" where
  "afterStart E = require (\<lambda>(v, S). block_timestamp E \<ge> sk_start v) (Revert ''Vesting: not started'')"

definition sk_fundStateChainAccount ::
  "evm \<Rightarrow> 't erc20 \<Rightarrow> ('t, 'w) sk_chain \<Rightarrow> address \<Rightarrow> env \<Rightarrow> bytes32 \<Rightarrow> uint256 \<Rightarrow> ('t, 'w, unit) sk_action" where
  "sk_fundStateChainAccount V T X this E nodeID amount =
     sk_onlyBeneficiary E (notRevoked (afterStart E
    (andthen (storage sk_addressHolder) (\<lambda>h.
     andthen (view_holder h getStateChainGateway) (\<lambda>g.
     andthen (storage sk_FLIP) (\<lambda>flip.
     andthen (token_approve V T X E this flip g amount) (\<lambda>_.
     call_gateway g (fundStateChainAccount T g (call_env E this) nodeID amount))))))))"

text \<open>\<open>IMinter(stMinter).mint(address(this), amount)\<close> and \<open>IBurner(stBurner).burn(...)\<close>.\<close>

definition provider_mint ::
  "evm \<Rightarrow> ('t, 'w) sk_chain \<Rightarrow> address \<Rightarrow> address \<Rightarrow> uint256 \<Rightarrow> ('t, 'w, bool) sk_action" where
  "provider_mint V X this minter amount =
     andthen (high_call X this minter 0 (encodeWithSelector V ''mint(address,uint256)'' [SAddress this, SUint amount])) (\<lambda>d.
     decoded (decode_bool d))"

definition provider_burn ::
  "evm \<Rightarrow> ('t, 'w) sk_chain \<Rightarrow> address \<Rightarrow> address \<Rightarrow> uint256 \<Rightarrow> ('t, 'w, uint256) sk_action" where
  "provider_burn V X this burner amount =
     andthen (high_call X this burner 0 (encodeWithSelector V ''burn(address,uint256)'' [SAddress this, SUint amount])) (\<lambda>d.
     decoded (data_word d 0))"

definition stakeToStProvider ::
  "evm \<Rightarrow> 't erc20 \<Rightarrow> ('t, 'w) sk_chain \<Rightarrow> address \<Rightarrow> env \<Rightarrow> uint256 \<Rightarrow> ('t, 'w, unit) sk_action" where
  "stakeToStProvider V T X this E amount =
     sk_onlyBeneficiary E (notRevoked (afterStart E
    (andthen (storage sk_addressHolder) (\<lambda>h.
     andthen (view_holder h getStakingAddress) (\<lambda>minter.
     andthen (storage sk_FLIP) (\<lambda>flip.
     andthen (token_approve V T X E this flip minter amount) (\<lambda>_.
     andthen (storage stTokenStaked) (\<lambda>staked.
     andthen (checked (checked_add staked amount)) (\<lambda>staked'.
     andthen (store (stTokenStaked_update (\<lambda>_. staked'))) (\<lambda>_.
     andthen (provider_mint V X this minter amount) (\<lambda>minted.
     require (\<lambda>_. minted) RevertEmpty (ret ()))))))))))))"

definition unstakeFromStProvider ::
  "evm \<Rightarrow> 't erc20 \<Rightarrow> ('t, 'w) sk_chain \<Rightarrow> address \<Rightarrow> env \<Rightarrow> uint256 \<Rightarrow> ('t, 'w, uint256) sk_action" where
  "unstakeFromStProvider V T X this E amount =
     sk_onlyBeneficiary E (notRevoked
    (andthen (storage sk_addressHolder) (\<lambda>h.
     andthen (view_holder h getUnstakingAddresses) (\<lambda>(burner, stFlip).
     andthen (token_approve V T X E this stFlip burner amount) (\<lambda>_.
     andthen (storage stTokenUnstaked) (\<lambda>unstaked.
     andthen (checked (checked_add unstaked amount)) (\<lambda>unstaked'.
     andthen (store (stTokenUnstaked_update (\<lambda>_. unstaked'))) (\<lambda>_.
     provider_burn V X this burner amount))))))))"

definition claimStProviderRewards ::
  "evm \<Rightarrow> 't erc20 \<Rightarrow> ('t, 'w) sk_chain \<Rightarrow> address \<Rightarrow> env \<Rightarrow> uint256 \<Rightarrow> ('t, 'w, unit) sk_action" where
  "claimStProviderRewards V T X this E amount0 =
     sk_onlyBeneficiary E (notRevoked
    (andthen (storage sk_addressHolder) (\<lambda>h.
     andthen (view_holder h getStFlip) (\<lambda>stFlip.
     andthen (token_balance_of T X stFlip this) (\<lambda>bal.
     andthen (storage stTokenUnstaked) (\<lambda>unstaked.
     andthen (checked (checked_add bal unstaked)) (\<lambda>total.
     andthen (storage stTokenStaked) (\<lambda>staked.
     andthen (checked (checked_sub total staked)) (\<lambda>totalRewards.
     andthen (storage sk_beneficiary) (\<lambda>b.
     token_transfer V T X E this stFlip b (if amount0 > totalRewards then totalRewards else amount0)))))))))))"

definition sk_releasableAmount ::
  "'t erc20 \<Rightarrow> ('t, 'w) sk_chain \<Rightarrow> address \<Rightarrow> env \<Rightarrow> address \<Rightarrow> ('t, 'w, uint256) sk_action" where
  "sk_releasableAmount T X this E tok =
     andthen (storage sk_end) (\<lambda>en.
     if block_timestamp E < en then ret 0 else token_balance_of T X tok this)"

definition sk_release :: "'t erc20 \<Rightarrow> ('t, 'w) sk_chain \<Rightarrow> address \<Rightarrow> env \<Rightarrow> address \<Rightarrow> ('t, 'w, unit) sk_action" where
  "sk_release T X this E tok =
     sk_onlyBeneficiary E (notRevoked
    (andthen (sk_releasableAmount T X this E tok) (\<lambda>unreleased.
     require (\<lambda>_. unreleased > 0) (Revert ''Vesting: no tokens are due'')
    (andthen (emit (Self (SkTokensReleased tok unreleased))) (\<lambda>_.
     andthen (storage sk_beneficiary) (\<lambda>b.
     token_safeTransfer T X E this tok b unreleased))))))"

definition sk_revoke :: "'t erc20 \<Rightarrow> ('t, 'w) sk_chain \<Rightarrow> address \<Rightarrow> env \<Rightarrow> address \<Rightarrow> ('t, 'w, unit) sk_action" where
  "sk_revoke T X this E tok =
     sk_onlyRevoker E (notRevoked
    (require (\<lambda>(v, S). block_timestamp E \<le> sk_end v) (Revert ''Vesting: vesting expired'')
    (andthen (token_balance_of T X tok this) (\<lambda>balance.
     andthen (sk_releasableAmount T X this E tok) (\<lambda>unreleased.
     andthen (checked (checked_sub balance unreleased)) (\<lambda>refund.
     andthen (store (sk_revoked_update (\<lambda>_. True))) (\<lambda>_.
     andthen (storage sk_revoker) (\<lambda>r.
     andthen (token_safeTransfer T X E this tok r refund) (\<lambda>_.
     emit (Self (SkVestingRevoked tok refund)))))))))))"

definition retrieveRevokedFunds :: "'t erc20 \<Rightarrow> ('t, 'w) sk_chain \<Rightarrow> address \<Rightarrow> env \<Rightarrow> address \<Rightarrow> ('t, 'w, unit) sk_action" where
  "retrieveRevokedFunds T X this E tok =
     sk_onlyRevoker E
    (require (\<lambda>(v, S). sk_revoked v) (Revert ''Vesting: token not revoked'')
    (andthen (token_balance_of T X tok this) (\<lambda>balance.
     andthen (storage sk_revoker) (\<lambda>r.
     token_safeTransfer T X E this tok r balance))))"

definition sk_transferBeneficiary :: "env \<Rightarrow> address \<Rightarrow> ('t, 'w, unit) sk_action" where
  "sk_transferBeneficiary E b' =
     sk_onlyBeneficiary E
    (require (\<lambda>_. b' \<noteq> ZERO_ADDR) (Revert ''Shared: address input is empty'')
    (require (\<lambda>(v, S). sk_transferable v) (Revert ''Vesting: beneficiary not transferrable'')
    (andthen (storage sk_beneficiary) (\<lambda>b.
     andthen (emit (Self (SkBeneficiaryTransferred b b'))) (\<lambda>_.
     store (sk_beneficiary_update (\<lambda>_. b')))))))"

definition sk_transferRevoker :: "env \<Rightarrow> address \<Rightarrow> ('t, 'w, unit) sk_action" where
  "sk_transferRevoker E r' =
     sk_onlyRevoker E
    (require (\<lambda>_. r' \<noteq> ZERO_ADDR) (Revert ''Shared: address input is empty'')
    (andthen (storage sk_revoker) (\<lambda>r.
     andthen (emit (Self (SkRevokerTransferred r r'))) (\<lambda>_.
     store (sk_revoker_update (\<lambda>_. r'))))))"

definition sk_getBeneficiary :: "staking \<Rightarrow> address" where
  "sk_getBeneficiary v = sk_beneficiary v"

definition sk_getRevoker :: "staking \<Rightarrow> address" where
  "sk_getRevoker v = sk_revoker v"

lemmas sk_modifiers = sk_onlyBeneficiary_def sk_onlyRevoker_def notRevoked_def afterStart_def

lemmas sk_defs = sk_fundStateChainAccount_def stakeToStProvider_def unstakeFromStProvider_def
  claimStProviderRewards_def sk_release_def sk_revoke_def retrieveRevokedFunds_def sk_transferBeneficiary_def
  sk_transferRevoker_def sk_releasableAmount_def

section \<open>Staking and rewards\<close>

text \<open>The beneficiary alone, from the start on and before a revocation, can fund a State Chain account
  from the locked tokens: exactly the amount goes to the gateway the address holder names, which
  records this contract as the funder; nobody's tokens move otherwise.\<close>

theorem staking_funds_account:
  assumes "erc20_spec T" and "sys_holders S (sk_addressHolder v) = Some h"
    and "sys_gateways S (ah_stateChainGateway h) = Some g" and "FLIP g = sk_FLIP v"
    and "flips (sys_world S) (sk_FLIP v) = Some F"
    and "sk_fundStateChainAccount V T X this E nodeID amount (v, S) = Inr (x, s', l)"
  shows "msg_sender E = sk_beneficiary v \<and> \<not> sk_revoked v \<and> sk_start v \<le> block_timestamp E \<and> fst s' = v \<and>
    OfGateway (ah_stateChainGateway h) (Own (Funded nodeID amount this)) \<in> set l \<and>
    flip_moved T (sk_FLIP v) this (ah_stateChainGateway h) amount (sys_world S) (sys_world (snd s'))"
proof -
  let ?G = "ah_stateChainGateway h"
  obtain ok s1 l1 l2 where g: "msg_sender E = sk_beneficiary v" "\<not> sk_revoked v" "sk_start v \<le> block_timestamp E"
    and ap: "token_approve V T X E this (FLIP g) ?G amount (v, S) = Inr (ok, s1, l1)"
    and gw: "call_gateway ?G (fundStateChainAccount T ?G (call_env E this) nodeID amount) s1 = Inr (x, s', l2)"
    and l: "l = l1 @ l2"
    using assms(2,4,6)
    by (auto simp: sk_fundStateChainAccount_def sk_modifiers andthen_Inr action_Inr storage_Inr view_holder_Inr
        getStateChainGateway_def)
  have "flips (sys_world S) (FLIP g) = Some F"
    using assms(4,5) by simp
  from approved_funding [OF assms(1,3) this ap gw] show ?thesis
    using g l assms(4) by simp
qed

lemma token_balance_flip:
  "flips (sys_world S) tok = Some F \<Longrightarrow>
   token_balance_of T X tok a (c, S) = Inr (n, s', l) \<longleftrightarrow> n = flip_balanceOf T F a \<and> s' = (c, S) \<and> l = []"
  by (auto simp: token_balance_of_def is_flip_def with_world_Inr view_Inr)

lemma token_transfers_flip:
  assumes "erc20_spec T" and "flips (sys_world S) tok = Some F"
    and "token_transfer V T X E this tok to n (c, S) = Inr (x, s', l) \<or> token_safeTransfer T X E this tok to n (c, S) = Inr (x, s', l)"
  shows "fst s' = c \<and> l = [] \<and> flip_moved T tok this to n (sys_world S) (sys_world (snd s'))"
proof -
  obtain W' l' where s': "s' = (c, S\<lparr>sys_world := W'\<rparr>)" "l = map OfWorld l'"
    and r: "call_flip tok (flip_transfer T (call_env E this) to n) (sys_world S) = Inr (x, W', l')"
    using assms(2,3) by (auto simp: token_transfer_def token_safeTransfer_def on_flip with_world_Inr)
  from call_flip_transfer_moves [OF assms(1) r] show ?thesis
    using s' by (simp add: call_env_def)
qed

lemma flip_moved_balance:
  "flip_moved T tok from to n W W' \<Longrightarrow> flips W tok = Some F \<Longrightarrow> from \<noteq> to \<Longrightarrow>
   \<exists>F'. flips W' tok = Some F' \<and> unat (flip_balanceOf T F' from) + unat n = unat (flip_balanceOf T F from) \<and>
     unat (flip_balanceOf T F' to) = unat (flip_balanceOf T F to) + unat n"
  by (fastforce simp: flip_moved_def moved_def word_le_nat_alt)

lemma unat_if_min: "unat (if a > b then b else a) = min (unat a) (unat (b :: 'a::len word))"
proof (cases "b < a")
  case True
  then have "unat b < unat a"
    by (simp add: word_less_nat_alt)
  with True show ?thesis by simp
next
  case False
  then have "unat a \<le> unat b"
    by (simp add: word_less_nat_alt)
  with False show ?thesis by simp
qed

text \<open>C33: a claim of staking rewards pays the beneficiary what was asked for, but never more than the rewards,
  so that the staking tokens of the principal, those staked and not yet unstaked, stay in the
  contract; after a slashing below the principal every claim reverts. Here the staking token is an
  ERC20.\<close>

theorem claim_keeps_principal:
  assumes "erc20_spec T" and "sys_holders S (sk_addressHolder v) = Some h"
    and "flips (sys_world S) (ah_stFLIP h) = Some F" and "sk_beneficiary v \<noteq> this"
    and "claimStProviderRewards V T X this E amount (v, S) = Inr (x, s', l)"
  shows "msg_sender E = sk_beneficiary v \<and> \<not> sk_revoked v \<and>
    unat (stTokenStaked v) \<le> unat (flip_balanceOf T F this) + unat (stTokenUnstaked v) \<and>
    (\<exists>F' paid. flips (sys_world (snd s')) (ah_stFLIP h) = Some F' \<and>
       paid = min (unat amount) (unat (flip_balanceOf T F this) + unat (stTokenUnstaked v) - unat (stTokenStaked v)) \<and>
       unat (flip_balanceOf T F' (sk_beneficiary v)) = unat (flip_balanceOf T F (sk_beneficiary v)) + paid \<and>
       unat (stTokenStaked v) \<le> unat (flip_balanceOf T F' this) + unat (stTokenUnstaked v))"
proof -
  let ?t = "ah_stFLIP h" and ?b = "flip_balanceOf T F this"
  obtain total rewards where guards: "msg_sender E = sk_beneficiary v" "\<not> sk_revoked v"
    and total: "unat total = unat ?b + unat (stTokenUnstaked v)"
    and rewards: "stTokenStaked v \<le> total" "unat rewards = unat total - unat (stTokenStaked v)"
    and pay: "token_transfer V T X E this ?t (sk_beneficiary v) (if amount > rewards then rewards else amount) (v, S) =
      Inr (x, s', l)"
    using assms(2,3,5)
    by (auto simp: claimStProviderRewards_def sk_modifiers andthen_Inr action_Inr storage_Inr view_holder_Inr getStFlip_def
        token_balance_flip checked_add_Inr checked_sub_Inr)
  let ?n = "if amount > rewards then rewards else amount"
  have n: "unat ?n = min (unat amount) (unat ?b + unat (stTokenUnstaked v) - unat (stTokenStaked v))"
    by (simp only: unat_if_min rewards(2) total)
  have "flip_moved T ?t this (sk_beneficiary v) ?n (sys_world S) (sys_world (snd s'))"
    using token_transfers_flip [OF assms(1,3) disjI1 [OF pay]] by (elim conjE)
  then obtain F' where F': "flips (sys_world (snd s')) ?t = Some F'"
    "unat (flip_balanceOf T F' this) + unat ?n = unat ?b"
    "unat (flip_balanceOf T F' (sk_beneficiary v)) = unat (flip_balanceOf T F (sk_beneficiary v)) + unat ?n"
    using flip_moved_balance [OF _ assms(3) assms(4) [symmetric]] by blast
  have K: "unat (stTokenStaked v) \<le> unat ?b + unat (stTokenUnstaked v)"
    using rewards(1) total by (simp add: word_le_nat_alt)
  have "unat ?n \<le> unat ?b + unat (stTokenUnstaked v) - unat (stTokenStaked v)"
    unfolding n by (rule min.cobounded2)
  then have "unat (stTokenStaked v) \<le> unat (flip_balanceOf T F' this) + unat (stTokenUnstaked v)"
    using F'(2) K by linarith
  then show ?thesis
    using guards F'(1) F'(3) [unfolded n] K by blast
qed

section \<open>Release and revocation\<close>

text \<open>Nothing is released before the end: a release succeeds only for the beneficiary, from the end on and
  without a revocation, and then pays out the whole balance of the token.\<close>

theorem staking_release_effect:
  assumes "erc20_spec T" and "flips (sys_world S) tok = Some F" and "sk_beneficiary v \<noteq> this"
    and "sk_release T X this E tok (v, S) = Inr (x, s', l)"
  shows "msg_sender E = sk_beneficiary v \<and> \<not> sk_revoked v \<and> sk_end v \<le> block_timestamp E \<and>
    flip_moved T tok this (sk_beneficiary v) (flip_balanceOf T F this) (sys_world S) (sys_world (snd s')) \<and>
    (\<exists>F'. flips (sys_world (snd s')) tok = Some F' \<and> flip_balanceOf T F' this = 0) \<and>
    l = [Self (SkTokensReleased tok (flip_balanceOf T F this))]"
proof -
  obtain s1 l2 where g: "msg_sender E = sk_beneficiary v" "\<not> sk_revoked v" "sk_end v \<le> block_timestamp E"
    and pay: "token_safeTransfer T X E this tok (sk_beneficiary v) (flip_balanceOf T F this) (v, S) = Inr (x, s', l2)"
    and l: "l = Self (SkTokensReleased tok (flip_balanceOf T F this)) # l2"
    using assms(2,4)
    by (auto simp: sk_release_def sk_releasableAmount_def sk_modifiers andthen_Inr action_Inr storage_Inr
        token_balance_flip split: if_splits)
  have m: "flip_moved T tok this (sk_beneficiary v) (flip_balanceOf T F this) (sys_world S) (sys_world (snd s'))" "l2 = []"
    using token_transfers_flip [OF assms(1,2) disjI2 [OF pay]] by simp_all
  obtain F' where F': "flips (sys_world (snd s')) tok = Some F'"
      "unat (flip_balanceOf T F' this) + unat (flip_balanceOf T F this) = unat (flip_balanceOf T F this)"
    using flip_moved_balance [OF m(1) assms(2) assms(3) [symmetric]] by blast
  from F'(2) have "flip_balanceOf T F' this = 0"
    by (simp add: unsigned_eq_0_iff)
  then show ?thesis
    using g m l F'(1) by simp
qed

text \<open>The calls of the contract; \<open>SkOutside S\<close> is whatever the rest of the system does in between.\<close>

datatype ('t, 'w) sk_call =
    SkFund bytes32 uint256
  | SkStake uint256
  | SkUnstake uint256
  | SkClaim uint256
  | SkRelease address
  | SkRevoke address
  | SkRetrieve address
  | SkTransferBeneficiary address
  | SkTransferRevoker address
  | SkOutside "('t, 'w) system"

fun sk_action :: "evm \<Rightarrow> 't erc20 \<Rightarrow> ('t, 'w) sk_chain \<Rightarrow> address \<Rightarrow> env \<Rightarrow> ('t, 'w) sk_call \<Rightarrow> ('t, 'w, unit) sk_action" where
  "sk_action V T X this E (SkFund n a) = sk_fundStateChainAccount V T X this E n a"
| "sk_action V T X this E (SkStake a) = stakeToStProvider V T X this E a"
| "sk_action V T X this E (SkUnstake a) = andthen (unstakeFromStProvider V T X this E a) (\<lambda>_. ret ())"
| "sk_action V T X this E (SkClaim a) = claimStProviderRewards V T X this E a"
| "sk_action V T X this E (SkRelease t) = sk_release T X this E t"
| "sk_action V T X this E (SkRevoke t) = sk_revoke T X this E t"
| "sk_action V T X this E (SkRetrieve t) = retrieveRevokedFunds T X this E t"
| "sk_action V T X this E (SkTransferBeneficiary a) = sk_transferBeneficiary E a"
| "sk_action V T X this E (SkTransferRevoker a) = sk_transferRevoker E a"
| "sk_action V T X this E (SkOutside S) = modify (\<lambda>(v, _). (v, S))"

definition sk_exec ::
  "evm \<Rightarrow> 't erc20 \<Rightarrow> ('t, 'w) sk_chain \<Rightarrow> address \<Rightarrow> env \<times> ('t, 'w) sk_call \<Rightarrow> staking \<times> ('t, 'w) system \<Rightarrow>
   ((staking \<times> ('t, 'w) system) \<times> sk_event sys_log list) sol" where
  "sk_exec V T X this c = transaction (sk_action V T X this (fst c) (snd c))"

text \<open>The calls that only the beneficiary may make, and those of them that act on the tokens; the one
  that does not is \<open>transferBeneficiary\<close>.\<close>

definition by_beneficiary :: "env \<times> ('t, 'w) sk_call \<Rightarrow> bool" where
  "by_beneficiary c = (case snd c of SkFund n a \<Rightarrow> True | SkStake a \<Rightarrow> True | SkUnstake a \<Rightarrow> True
     | SkClaim a \<Rightarrow> True | SkRelease t \<Rightarrow> True | SkTransferBeneficiary b \<Rightarrow> True | _ \<Rightarrow> False)"

definition on_tokens :: "env \<times> ('t, 'w) sk_call \<Rightarrow> bool" where
  "on_tokens c \<longleftrightarrow> by_beneficiary c \<and> (\<forall>b. snd c \<noteq> SkTransferBeneficiary b)"

text \<open>\<open>sk_final m\<close>: the action does not lift a revocation. \<open>chain_final\<close>: neither do the external
  calls, which may re-enter this contract but cannot write its storage otherwise.\<close>

definition stays_revoked ::
  "staking \<times> ('t, 'w) system \<Rightarrow> sk_event sys_log list \<Rightarrow> staking \<times> ('t, 'w) system \<Rightarrow> bool" where
  "stays_revoked s l s' \<longleftrightarrow> (sk_revoked (fst s) \<longrightarrow> sk_revoked (fst s'))"

interpretation final: action_relation stays_revoked
  by unfold_locales (auto simp: stays_revoked_def)

abbreviation sk_final :: "('t, 'w, 'a) sk_action \<Rightarrow> bool" where
  "sk_final \<equiv> conforms stays_revoked"

lemma sk_final_def: "sk_final m \<longleftrightarrow> (\<forall>s a s' l. m s = Inr (a, s', l) \<longrightarrow> sk_revoked (fst s) \<longrightarrow> sk_revoked (fst s'))"
  by (simp add: conforms_def stays_revoked_def)

abbreviation chain_final :: "('t, 'w) sk_chain \<Rightarrow> bool" where
  "chain_final \<equiv> chain_conforms stays_revoked"

named_theorems final_intros "actions that do not lift a revocation"

lemmas final_structure [final_intros] = final.external_intros

lemma final_basic [final_intros]:
  "sk_final (emit e)" "sk_final (storage q)"
  "sk_final (with_world w)" "sk_final (call_gateway g gm)" "sk_final (view_holder h hf)"
  by (auto simp: sk_final_def action_Inr with_world_def call_gateway_def view_holder_def storage_def
      rbind_eq_Inr split: option.splits)

lemma final_store [final_intros]: "(\<And>v. sk_revoked v \<Longrightarrow> sk_revoked (f v)) \<Longrightarrow> sk_final (store f)"
  by (auto simp: sk_final_def store_def action_Inr)

lemma final_tokens:
  assumes "chain_final X"
  shows "sk_final (token_balance_of T X tok a)" "sk_final (token_safeTransfer T X E this tok to n)"
    "sk_final (token_transfer V T X E this tok to n)" "sk_final (token_approve V T X E this tok sp n)"
  unfolding token_balance_of_def token_safeTransfer_def token_transfer_def token_approve_def on_token_def
  by (intro final_intros assms)+

lemma sk_action_final:
  assumes "chain_final X"
  shows "sk_final (sk_action V T X this E c)"
proof (cases c)
  case (SkOutside S)
  then show ?thesis
    by (auto simp: sk_final_def action_Inr)
qed (use assms final_tokens [OF assms] in
    \<open>auto simp: sk_defs sk_modifiers provider_mint_def provider_burn_def intro!: final_intros\<close>)

definition sk_stopped :: "staking \<times> ('t, 'w) system \<Rightarrow> bool" where
  "sk_stopped s = sk_revoked (fst s)"

lemma revoked_rejects:
  assumes "on_tokens c" and "sk_exec V T X this c s = Inr (s', evs)"
  shows "\<not> sk_stopped s"
  using assms by (cases "snd c"; cases s)
    (auto simp: sk_exec_def transaction_Inr on_tokens_def by_beneficiary_def sk_stopped_def sk_defs sk_modifiers andthen_Inr action_Inr)

lemma revocation_stops:
  assumes "chain_final X"
  shows "emergency_stop sk_stopped (sk_exec V T X this) on_tokens (\<lambda>_. False)"
proof unfold_locales
  fix c and s s' :: "staking \<times> ('a, 'b) system" and evs
  assume "sk_exec V T X this c s = Inr (s', evs)" and "sk_stopped s"
  then show "sk_stopped s'"
    using sk_action_final [OF assms] unfolding sk_stopped_def sk_final_def sk_exec_def transaction_Inr by blast
qed (rule revoked_rejects)

text \<open>C34: a revocation is final. Of all calls that only the beneficiary may make, staking, unstaking,
  claims, releases and the transfer of the role, none is accepted from then on but that transfer,
  whatever calls are made in whatever order, and the contract stays revoked. Other contracts may do
  anything in between but write this contract's storage; a call with which one of them re-enters
  finds it revoked and reverts too.\<close>

theorem revoked_staking_final:
  assumes "chain_final X" and "sk_revoked v"
  shows "(\<forall>c\<in>set (accepted (sk_exec V T X this) cs (v, S)).
      by_beneficiary c \<longrightarrow> (\<exists>b. snd c = SkTransferBeneficiary b)) \<and>
    sk_revoked (fst (run_calls (sk_exec V T X this) cs (v, S))) \<and>
    (by_beneficiary d \<and> (\<forall>b. snd d \<noteq> SkTransferBeneficiary b) \<and> sk_revoked (fst s') \<longrightarrow>
      (\<exists>e. sk_exec V T X this d s' = Inl e))"
proof -
  have "\<exists>e. sk_exec V T X this d s' = Inl e" if "on_tokens d" and "sk_revoked (fst s')"
    using revoked_rejects [OF that(1), of V T X this s'] that(2)
    by (cases "sk_exec V T X this d s'") (auto simp: sk_stopped_def)
  then show ?thesis
    using emergency_stop.stopped_accepts_no_gated [OF revocation_stops [OF assms(1)], of "(v, S)" cs V T this] assms(2)
    by (auto simp: sk_stopped_def on_tokens_def)
qed

lemma flip_transfer_possible:
  assumes "erc20_spec T" and "flips (sys_world S) tok = Some F" and "this \<noteq> 0" and "to \<noteq> 0"
    and "n \<le> flip_balanceOf T F this" and "unat (flip_balanceOf T F to) + unat n < 2 ^ 256"
  shows "\<exists>S'. token_safeTransfer T X E this tok to n (c, S) = Inr ((), (c, S'), []) \<and>
    flip_moved T tok this to n (sys_world S) (sys_world S')"
proof -
  obtain t where "erc20_transfer T this to n (token F) = Inr t"
    using erc20_transfer_ok [OF assms(1,3,4)] assms(5,6) by (auto simp: flip_views)
  then have "\<exists>r. token_safeTransfer T X E this tok to n (c, S) = Inr r"
    using assms(2) by (simp add: token_safeTransfer_def on_flip with_world_def call_flip_def flip_op_defs call_env_def)
  then obtain s' l where r: "token_safeTransfer T X E this tok to n (c, S) = Inr ((), s', l)"
    by auto
  then show ?thesis
    using token_transfers_flip [OF assms(1,2) disjI2 [OF r]] by (cases s') auto
qed

text \<open>C40: the boundary: exactly at the end everything has vested, so that a release would pay the whole
  balance, and yet the revoker can still revoke: it is accepted and refunds nothing, but blocks the
  release, and the revoker then retrieves the whole vested balance.\<close>

theorem revoke_at_end_takes_vested:
  assumes T: "erc20_spec T" and F: "flips (sys_world S) tok = Some F"
    and who: "sk_revoker v \<notin> {this, 0}" "this \<noteq> 0" "msg_sender E = sk_revoker v" "msg_sender E' = sk_revoker v"
    and live: "\<not> sk_revoked v" "block_timestamp E = sk_end v"
    and room: "unat (flip_balanceOf T F (sk_revoker v)) + unat (flip_balanceOf T F this) < 2 ^ 256"
  shows "sk_releasableAmount T X this E tok (v, S) = Inr (flip_balanceOf T F this, (v, S), []) \<and>
    (\<exists>S1 s2 l1 l2 F2. sk_revoke T X this E tok (v, S) = Inr ((), (v\<lparr>sk_revoked := True\<rparr>, S1), l1) \<and>
       retrieveRevokedFunds T X this E' tok (v\<lparr>sk_revoked := True\<rparr>, S1) = Inr ((), s2, l2) \<and>
       flips (sys_world (snd s2)) tok = Some F2 \<and> flip_balanceOf T F2 this = 0 \<and>
       unat (flip_balanceOf T F2 (sk_revoker v)) = unat (flip_balanceOf T F (sk_revoker v)) + unat (flip_balanceOf T F this))"
proof -
  let ?b = "flip_balanceOf T F this" and ?r = "sk_revoker v" and ?v = "v\<lparr>sk_revoked := True\<rparr>"
  have r: "this \<noteq> ?r" "?r \<noteq> 0"
    using who(1) by auto
  have bal: "token_balance_of T X tok this (v, S) = Inr (?b, (v, S), [])"
    by (simp add: token_balance_flip [OF F])
  have rel: "sk_releasableAmount T X this E tok (v, S) = Inr (?b, (v, S), [])"
    using bal live(2) by (simp add: sk_releasableAmount_def andthen_def storage_def reads_def)
  obtain S1 where t1: "token_safeTransfer T X E this tok ?r 0 (?v, S) = Inr ((), (?v, S1), [])"
    and m1: "flip_moved T tok this ?r 0 (sys_world S) (sys_world S1)"
    using flip_transfer_possible [OF T F who(2) r(2), where n = 0 and X = X and E = E and c = ?v] unat_lt2p [of "flip_balanceOf T F ?r"]
    by auto
  have rv: "sk_revoke T X this E tok (v, S) = Inr ((), (?v, S1), [Self (SkVestingRevoked tok 0)])"
    using who(3) live bal rel t1
    by (simp add: sk_revoke_def sk_modifiers action_defs storage_def store_def checked_sub_def)
  obtain F1 where F1: "flips (sys_world S1) tok = Some F1" "flip_balanceOf T F1 this = ?b"
      "flip_balanceOf T F1 ?r = flip_balanceOf T F ?r"
    using flip_moved_balance [OF m1 F r(1)] by (auto simp: word_unat_eq_iff)
  obtain S2 where t2: "token_safeTransfer T X E' this tok ?r ?b (?v, S1) = Inr ((), (?v, S2), [])"
    and m2: "flip_moved T tok this ?r ?b (sys_world S1) (sys_world S2)"
    using flip_transfer_possible [OF T F1(1) who(2) r(2), where n = ?b and X = X and E = E' and c = ?v] room F1(2,3)
    by auto
  have "token_balance_of T X tok this (?v, S1) = Inr (?b, (?v, S1), [])"
    by (simp add: token_balance_flip [OF F1(1)] F1(2))
  then have rt: "retrieveRevokedFunds T X this E' tok (?v, S1) = Inr ((), (?v, S2), [])"
    using who(4) t2 by (simp add: retrieveRevokedFunds_def sk_modifiers action_defs storage_def)
  obtain F2 where F2: "flips (sys_world (snd (?v, S2))) tok = Some F2" "unat (flip_balanceOf T F2 this) + unat ?b = unat ?b"
      "unat (flip_balanceOf T F2 ?r) = unat (flip_balanceOf T F ?r) + unat ?b"
    using flip_moved_balance [OF m2 F1(1) r(1)] unfolding F1(2,3) snd_conv by blast
  from F2(2) have "flip_balanceOf T F2 this = 0"
    by (simp add: unsigned_eq_0_iff)
  then show ?thesis
    using rel rv rt F2(1,3) by blast
qed

section \<open>Witnesses\<close>

definition sample_staking :: staking where
  "sample_staking = \<lparr>sk_beneficiary = 2, sk_transferable = False, sk_revoker = 8, sk_start = 900, sk_end = 1000,
     sk_FLIP = 20, sk_addressHolder = 60, sk_revoked = False, stTokenStaked = 30, stTokenUnstaked = 10\<rparr>"

text \<open>The contract at 50 holds 60 FLIP (token 20) and 60 of the staking token 21.\<close>

definition sk_ledger :: ledger where
  "sk_ledger = \<lparr>ledger_total = 100, ledger_bal = (\<lambda>a. 0)(50 := 60, 2 := 40), ledger_allow = (\<lambda>a b. 0)\<rparr>"

definition sk_system :: "(ledger, unit) system" where
  "sk_system = \<lparr>sys_world = sample_world\<lparr>flips := [20 \<mapsto> \<lparr>token = sk_ledger, issuer = 30\<rparr>, 21 \<mapsto> \<lparr>token = sk_ledger, issuer = 11\<rparr>]\<rparr>,
     sys_gateways = [30 \<mapsto> sample_gw],
     sys_holders = [60 \<mapsto> \<lparr>ah_governor = 3, ah_stateChainGateway = 30, ah_stFLIP = 21, ah_stMinter = 11, ah_stBurner = 12\<rparr>],
     sys_rest = ()\<rparr>"

lemmas sk_eval = sk_defs sk_modifiers action_defs system_eval call_flip_def view_flip_def flip_op_defs flip_views
  fundStateChainAccount_def gw_reads in_world_def ledger_erc20_def ledger_move_def checked_add_def checked_sub_def
  call_env_def sender_env_def sample_staking_def sk_ledger_def sk_system_def sample_gw_defs
  getStateChainGateway_def getStFlip_def

lemma sk_system_flips:
  "flips (sys_world sk_system) 20 = Some \<lparr>token = sk_ledger, issuer = 30\<rparr>"
  "flips (sys_world sk_system) 21 = Some \<lparr>token = sk_ledger, issuer = 11\<rparr>"
  by (simp_all add: sk_system_def)

lemma staking_funds_account_witness:
  "\<exists>s' l. sk_fundStateChainAccount sample_evm ledger_erc20 (quiet_chain []) 50 (sender_env 2) 7 25 (sample_staking, sk_system) =
     Inr ((), s', l) \<and> OfGateway 30 (Own (Funded 7 25 50)) \<in> set l"
proof -
  have "\<exists>s' l. sk_fundStateChainAccount sample_evm ledger_erc20 (quiet_chain []) 50 (sender_env 2) 7 25 (sample_staking, sk_system) =
     Inr ((), s', l)"
    by (simp add: sk_eval)
  then obtain s' l where r: "sk_fundStateChainAccount sample_evm ledger_erc20 (quiet_chain []) 50 (sender_env 2) 7 25
      (sample_staking, sk_system) = Inr ((), s', l)"
    by blast
  let ?h = "\<lparr>ah_governor = 3, ah_stateChainGateway = 30, ah_stFLIP = 21, ah_stMinter = 11, ah_stBurner = 12\<rparr>"
  have "sys_holders sk_system (sk_addressHolder sample_staking) = Some ?h"
      "sys_gateways sk_system (ah_stateChainGateway ?h) = Some sample_gw" "FLIP sample_gw = sk_FLIP sample_staking"
      "flips (sys_world sk_system) (sk_FLIP sample_staking) = Some \<lparr>token = sk_ledger, issuer = 30\<rparr>"
    by (simp_all add: sk_system_def sample_staking_def sample_gw_def)
  from staking_funds_account [OF ledger_erc20_spec this r] r show ?thesis
    by auto
qed

lemma claim_keeps_principal_witness:
  "\<exists>s' l F'. claimStProviderRewards sample_evm ledger_erc20 (quiet_chain []) 50 (sender_env 2) 100 (sample_staking, sk_system) =
     Inr ((), s', l) \<and> flips (sys_world (snd s')) 21 = Some F' \<and> unat (flip_balanceOf ledger_erc20 F' 2) = 80"
proof -
  have "\<exists>s' l. claimStProviderRewards sample_evm ledger_erc20 (quiet_chain []) 50 (sender_env 2) 100 (sample_staking, sk_system) =
     Inr ((), s', l)"
    by (simp add: sk_eval)
  then obtain s' l where r: "claimStProviderRewards sample_evm ledger_erc20 (quiet_chain []) 50 (sender_env 2) 100
      (sample_staking, sk_system) = Inr ((), s', l)"
    by blast
  let ?h = "\<lparr>ah_governor = 3, ah_stateChainGateway = 30, ah_stFLIP = 21, ah_stMinter = 11, ah_stBurner = 12\<rparr>"
  have "sys_holders sk_system (sk_addressHolder sample_staking) = Some ?h"
      "flips (sys_world sk_system) (ah_stFLIP ?h) = Some \<lparr>token = sk_ledger, issuer = 11\<rparr>" "sk_beneficiary sample_staking \<noteq> 50"
    by (simp_all add: sk_system_def sample_staking_def)
  from claim_keeps_principal [OF ledger_erc20_spec this r] r show ?thesis
    by (auto simp: flip_balanceOf_fun ledger_erc20_def sk_ledger_def sample_staking_def)
qed

lemma staking_release_effect_witness:
  "\<exists>s' l F'. sk_release ledger_erc20 (quiet_chain []) 50 (sender_env 2) 20 (sample_staking, sk_system) = Inr ((), s', l) \<and>
     flips (sys_world (snd s')) 20 = Some F' \<and> flip_balanceOf ledger_erc20 F' 50 = 0"
proof -
  have "\<exists>s' l. sk_release ledger_erc20 (quiet_chain []) 50 (sender_env 2) 20 (sample_staking, sk_system) = Inr ((), s', l)"
    by (simp add: sk_eval)
  then obtain s' l where r: "sk_release ledger_erc20 (quiet_chain []) 50 (sender_env 2) 20 (sample_staking, sk_system) = Inr ((), s', l)"
    by blast
  have "sk_beneficiary sample_staking \<noteq> 50"
    by (simp add: sample_staking_def)
  from staking_release_effect [OF ledger_erc20_spec sk_system_flips(1) this r] r show ?thesis
    by blast
qed

lemma quiet_chain_final: "chain_final (quiet_chain d)"
  by (simp add: chain_conforms_def quiet_chain_def sk_final_def call_def ret_def)

lemma revoked_staking_final_witness:
  "accepted (sk_exec sample_evm ledger_erc20 (quiet_chain []) 50)
     [(sender_env 2, SkRelease 20), (sender_env 2, SkTransferBeneficiary 3), (sender_env 3, SkRelease 20)]
     (sample_staking\<lparr>sk_revoked := True, sk_transferable := True\<rparr>, sk_system) = [(sender_env 2, SkTransferBeneficiary 3)]"
proof -
  let ?v = "sample_staking\<lparr>sk_revoked := True, sk_transferable := True\<rparr>"
    and ?X = "quiet_chain [] :: (ledger, unit) sk_chain" and ?E = "sender_env 2" and ?E' = "sender_env 3"
  have stop: "\<exists>e. sk_exec sample_evm ledger_erc20 ?X 50 (E, SkRelease 20) (v, S) = Inl e" if "sk_revoked v" for E v S
    using revoked_staking_final [OF quiet_chain_final, where v = ?v and s' = "(v, S)" and d = "(E, SkRelease 20)"] that
    by (auto simp: by_beneficiary_def)
  have "sk_exec sample_evm ledger_erc20 ?X 50 (?E, SkTransferBeneficiary 3) (?v, sk_system) =
      Inr ((?v\<lparr>sk_beneficiary := 3\<rparr>, sk_system), [Self (SkBeneficiaryTransferred 2 3)])"
    by (simp add: sk_exec_def sk_eval ZERO_ADDR_def)
  then show ?thesis
    using stop [of ?v ?E sk_system] stop [of "?v\<lparr>sk_beneficiary := 3\<rparr>" ?E' sk_system] by auto
qed

lemma revoke_at_end_takes_vested_witness:
  "\<exists>s1 l1 s2 l2 F2. sk_revoke ledger_erc20 (quiet_chain []) 50 (sender_env 8) 20 (sample_staking, sk_system) = Inr ((), s1, l1) \<and>
     retrieveRevokedFunds ledger_erc20 (quiet_chain []) 50 (sender_env 8) 20 s1 = Inr ((), s2, l2) \<and>
     flips (sys_world (snd s2)) 20 = Some F2 \<and> unat (flip_balanceOf ledger_erc20 F2 8) = 60"
proof -
  have "sk_revoker sample_staking \<notin> {50, 0}" "(50 :: address) \<noteq> 0" "msg_sender (sender_env 8) = sk_revoker sample_staking"
      "msg_sender (sender_env 8) = sk_revoker sample_staking" "\<not> sk_revoked sample_staking"
      "block_timestamp (sender_env 8) = sk_end sample_staking"
      "unat (flip_balanceOf ledger_erc20 \<lparr>token = sk_ledger, issuer = 30\<rparr> (sk_revoker sample_staking)) +
        unat (flip_balanceOf ledger_erc20 \<lparr>token = sk_ledger, issuer = 30\<rparr> 50) < 2 ^ 256"
    by (simp_all add: sample_staking_def sender_env_def flip_balanceOf_fun ledger_erc20_def sk_ledger_def)
  from revoke_at_end_takes_vested [OF ledger_erc20_spec sk_system_flips(1) this, where X = "quiet_chain []"]
  show ?thesis
    by (auto simp: flip_balanceOf_fun ledger_erc20_def sk_ledger_def sample_staking_def)
qed

end
