(* ===== verification/EvmMemory.thy ===== *)
theory EvmMemory
  imports SolAbi
begin

text \<open>
  The memory of the EVM, bytes at 256-bit addresses that wrap, and how Solidity lays out
  \<open>bytes memory\<close>: for the inline assembly that patches a parameter in place. The lemmas
  separate reads from writes at offsets from one base address, whatever that address is.
\<close>

type_synonym mem = "uint256 \<Rightarrow> byte"

definition mstore :: "mem \<Rightarrow> uint256 \<Rightarrow> uint256 \<Rightarrow> mem" where
  "mstore m p v = (\<lambda>a. if unat (a - p) < 32 then word_bytes 32 v ! unat (a - p) else m a)"

definition mload :: "mem \<Rightarrow> uint256 \<Rightarrow> uint256" where
  "mload m p = word_of_nat (be_value (map (\<lambda>i. m (p + word_of_nat i)) [0..<32]))"

text \<open>\<open>bytes memory\<close> at \<open>p\<close>: the length in the first word, then the data.\<close>

definition mem_bytes :: "mem \<Rightarrow> uint256 \<Rightarrow> bytes" where
  "mem_bytes m p = map (\<lambda>i. m (p + word_of_nat (32 + i))) [0..<unat (mload m p)]"

definition mstore_bytes :: "mem \<Rightarrow> uint256 \<Rightarrow> bytes \<Rightarrow> mem" where
  "mstore_bytes m p d = (\<lambda>a. if unat (a - (p + 32)) < length d then d ! unat (a - (p + 32))
     else mstore m p (word_of_nat (length d)) a)"

section \<open>Offsets\<close>

text \<open>Offsets below \<open>2 ^ 255\<close> from one base do not collide.\<close>

definition off :: "uint256 \<Rightarrow> nat \<Rightarrow> uint256" where
  "off b k = b + word_of_nat k"

lemma unat_offset_diff:
  assumes "j < 2 ^ 255" and "k < 2 ^ 255" and "n \<le> 2 ^ 255"
  shows "unat ((off b k) - (off b j) :: uint256) < n \<longleftrightarrow> j \<le> k \<and> k < j + n"
    and "j \<le> k \<Longrightarrow> unat ((off b k) - (off b j) :: uint256) = k - j"
proof -
  have j: "unat (word_of_nat j :: uint256) = j" and k: "unat (word_of_nat k :: uint256) = k"
    using assms by (auto intro!: unat_word_of_nat_less)
  have d: "(off b k) - (off b j) = (word_of_nat k - word_of_nat j :: uint256)"
    by (simp add: off_def)
  have ge: "unat (word_of_nat k - word_of_nat j :: uint256) = k - j" if "j \<le> k"
    using that j k by (simp add: unat_sub word_le_nat_alt)
  have less: "2 ^ 255 \<le> unat (word_of_nat k - word_of_nat j :: uint256)" if "k < j"
  proof -
    have "unat (word_of_nat k - word_of_nat j :: uint256) = 2 ^ 256 + k - j"
      using that j k by (subst unat_sub_if_size) (simp add: word_size)
    then show ?thesis
      using that assms by simp
  qed
  show "j \<le> k \<Longrightarrow> unat ((off b k) - (off b j) :: uint256) = k - j"
    unfolding d by (rule ge)
  show "unat ((off b k) - (off b j) :: uint256) < n \<longleftrightarrow> j \<le> k \<and> k < j + n"
    unfolding d using ge less assms(3) by (cases "j \<le> k") auto
qed

lemma mstore_at:
  assumes "j < 2 ^ 255" and "k < 2 ^ 255"
  shows "mstore m (off b j) v (off b k) =
    (if j \<le> k \<and> k < j + 32 then word_bytes 32 v ! (k - j) else m (off b k))"
  unfolding mstore_def using unat_offset_diff [OF assms, of 32 b] by simp

lemma mload_cong:
  assumes "\<And>i. i < 32 \<Longrightarrow> m (p + word_of_nat i) = m' (p' + word_of_nat i)"
  shows "mload m p = mload m' p'"
proof -
  have eq: "map (\<lambda>i. m (p + word_of_nat i)) [0..<32] = map (\<lambda>i. m' (p' + word_of_nat i)) [0..<32]"
    using assms by (intro map_cong refl) simp
  show ?thesis
    unfolding mload_def eq ..
qed

lemma offset_add: "off b k + word_of_nat i = off b (k + i)"
  by (simp add: off_def)

lemma be_value_words: "be_value (map (\<lambda>i. word_bytes 32 v ! i) [0..<32]) = unat (v :: uint256)"
proof -
  have "map (\<lambda>i. word_bytes 32 v ! i) [0..<32] = word_bytes 32 v"
    using map_nth [of "word_bytes 32 v"] by simp
  then have "be_value (map (\<lambda>i. word_bytes 32 v ! i) [0..<32]) = be_value (word_bytes 32 v)"
    by simp
  also have "\<dots> = unat v"
    using unat_lt2p [of v] by (simp add: word_bytes_def be_value_be_fixed)
  finally show ?thesis .
qed

lemma mload_eqI:
  assumes "\<And>i. i < 32 \<Longrightarrow> m (p + word_of_nat i) = word_bytes 32 v ! i"
  shows "mload m p = v"
proof -
  have eq: "map (\<lambda>i. m (p + word_of_nat i)) [0..<32] = map (\<lambda>i. word_bytes 32 v ! i) [0..<32]"
    using assms by (intro map_cong refl) simp
  show ?thesis
    unfolding mload_def eq be_value_words by simp
qed

lemma mload_mstore_same:
  assumes "j < 2 ^ 254"
  shows "mload (mstore m (off b j) v) (off b j) = v"
  by (rule mload_eqI) (use assms in \<open>simp add: offset_add mstore_at\<close>)

lemma mload_mstore_other:
  assumes "j < 2 ^ 254" and "k < 2 ^ 254" and "k + 32 \<le> j \<or> j + 32 \<le> k"
  shows "mload (mstore m (off b j) v) (off b k) = mload m (off b k)"
proof (rule mload_cong)
  fix i :: nat
  assume i: "i < 32"
  then have "j < 2 ^ 255" "k + i < 2 ^ 255" "\<not> (j \<le> k + i \<and> k + i < j + 32)"
    using assms by auto
  then show "mstore m (off b j) v (off b k + word_of_nat i) = m (off b k + word_of_nat i)"
    unfolding offset_add by (simp only: mstore_at if_False)
qed

lemma mstore_bytes_at:
  assumes "j < 2 ^ 254" and "k < 2 ^ 254" and "length d < 2 ^ 254"
  shows "mstore_bytes m (off b j) d (off b k) =
    (if j + 32 \<le> k \<and> k < j + 32 + length d then d ! (k - (j + 32))
     else if j \<le> k \<and> k < j + 32 then word_bytes 32 (word_of_nat (length d) :: uint256) ! (k - j)
     else m (off b k))"
proof -
  have e: "off b j + 32 = off b (j + 32)"
    by (simp add: off_def)
  show ?thesis
    unfolding mstore_bytes_def e
    using unat_offset_diff [of "j + 32" k "length d" b] assms mstore_at [of j k m b "word_of_nat (length d)"]
    by (simp)
qed

lemma mem_bytes_mstore_bytes:
  assumes "j < 2 ^ 252" and "length d < 2 ^ 252"
  shows "mem_bytes (mstore_bytes m (off b j) d) (off b j) = d"
proof -
  let ?m = "mstore_bytes m (off b j) d"
  have n: "unat (word_of_nat (length d) :: uint256) = length d"
    by (rule unat_word_of_nat_less) (use assms in simp)
  have "mload ?m (off b j) = word_of_nat (length d)"
    by (rule mload_eqI) (use assms in \<open>simp add: offset_add mstore_bytes_at\<close>)
  moreover have "map (\<lambda>i. ?m (off b j + word_of_nat (32 + i))) [0..<length d] = map (\<lambda>i. d ! i) [0..<length d]"
    using assms by (intro map_cong refl) (simp add: offset_add mstore_bytes_at del: of_nat_add)
  ultimately show ?thesis
    unfolding mem_bytes_def using n map_nth [of d] by simp
qed

lemma mload_mstore_bytes_other:
  assumes "j < 2 ^ 252" and "k < 2 ^ 252" and "length d < 2 ^ 252" and "k + 32 \<le> j \<or> j + 32 + length d \<le> k"
  shows "mload (mstore_bytes m (off b j) d) (off b k) = mload m (off b k)"
proof (rule mload_cong)
  fix i :: nat
  assume i: "i < 32"
  then have "j < 2 ^ 254" "k + i < 2 ^ 254" "length d < 2 ^ 254"
      "\<not> (j + 32 \<le> k + i \<and> k + i < j + 32 + length d)" "\<not> (j \<le> k + i \<and> k + i < j + 32)"
    using assms by auto
  then show "mstore_bytes m (off b j) d (off b k + word_of_nat i) = m (off b k + word_of_nat i)"
    unfolding offset_add by (simp only: mstore_bytes_at if_False)
qed

lemma mem_bytes_eqI:
  assumes "mload m p = word_of_nat (length d)" and "length d < 2 ^ 256"
    and "\<And>i. i < length d \<Longrightarrow> m (p + word_of_nat (32 + i)) = d ! i"
  shows "mem_bytes m p = d"
proof -
  have n: "unat (word_of_nat (length d) :: uint256) = length d"
    by (rule unat_word_of_nat_less) (use assms(2) in simp)
  have "map (\<lambda>i. m (p + word_of_nat (32 + i))) [0..<length d] = map (\<lambda>i. d ! i) [0..<length d]"
    using assms(3) by (intro map_cong refl) (simp)
  then show ?thesis
    unfolding mem_bytes_def assms(1) n using map_nth [of d] by simp
qed

text \<open>A word written over bytes in memory.\<close>

definition patch_bytes :: "nat \<Rightarrow> bytes \<Rightarrow> bytes \<Rightarrow> bytes" where
  "patch_bytes k w d = map (\<lambda>i. if k \<le> i \<and> i < k + length w then w ! (i - k) else d ! i) [0..<length d]"

lemma length_patch_bytes [simp]: "length (patch_bytes k w d) = length d"
  by (simp add: patch_bytes_def)

lemma patch_bytes_nth:
  "i < length d \<Longrightarrow> patch_bytes k w d ! i = (if k \<le> i \<and> i < k + length w then w ! (i - k) else d ! i)"
  by (simp add: patch_bytes_def)

lemma patch_bytes_inside: "k + length w \<le> length d \<Longrightarrow> patch_bytes k w d = take k d @ w @ drop (k + length w) d"
  by (rule nth_equalityI) (auto simp: patch_bytes_nth nth_append min_def)

lemma patch_bytes_outside: "length d \<le> k \<Longrightarrow> patch_bytes k w d = d"
  by (rule nth_equalityI) (auto simp: patch_bytes_nth)

lemma mem_bytes_patched:
  assumes "j < 2 ^ 250" and "length d < 2 ^ 250" and "k < 2 ^ 250"
    and "mload m (off b j) = word_of_nat (length d)"
    and "\<And>i. i < length d \<Longrightarrow> m (off b (j + 32 + i)) = d ! i"
  shows "mem_bytes (mstore m (off b (j + 32 + k)) v) (off b j) = patch_bytes k (word_bytes 32 v) d"
proof (rule mem_bytes_eqI)
  have "mload (mstore m (off b (j + 32 + k)) v) (off b j) = mload m (off b j)"
    by (rule mload_mstore_other) (use assms(1-3) in simp_all)
  then show "mload (mstore m (off b (j + 32 + k)) v) (off b j) =
      word_of_nat (length (patch_bytes k (word_bytes 32 v) d))"
    using assms(4) by simp
next
  fix i assume "i < length (patch_bytes k (word_bytes 32 v) d)"
  then have i: "i < length d"
    by simp
  have "j + 32 + k < 2 ^ 255" "j + (32 + i) < 2 ^ 255"
    using assms(1-3) i by simp_all
  then have "mstore m (off b (j + 32 + k)) v (off b j + word_of_nat (32 + i)) =
      (if j + 32 + k \<le> j + (32 + i) \<and> j + (32 + i) < j + 32 + k + 32
       then word_bytes 32 v ! (j + (32 + i) - (j + 32 + k)) else m (off b (j + (32 + i))))"
    unfolding offset_add by (rule mstore_at)
  also have "\<dots> = patch_bytes k (word_bytes 32 v) d ! i"
    using assms(5) [OF i] i by (simp add: patch_bytes_nth add.assoc)
  finally show "mstore m (off b (j + 32 + k)) v (off b j + word_of_nat (32 + i)) =
      patch_bytes k (word_bytes 32 v) d ! i" .
qed (use assms(2) in simp)

end
