(* ===== verification/Multicall.thy ===== *)
theory Multicall
  imports Vault EvmMemory
begin

text \<open>
  \<open>Multicall.sol\<close>: the contract that runs a list of calls for the Vault. Three kinds of calls first
  look up a balance: one writes the balance of a token over a parameter of the call data, with
  inline assembly in memory; one sends the whole native balance; one collects the Vault's tokens.
  The called contracts are the parameter \<open>chain\<close> and may re-enter.
\<close>

section \<open>The contract\<close>

record multicall =
  isRunning :: bool
  mc_cfVault :: address

type_synonym ('w, 'e, 'a) mc_action = "(multicall \<times> 'w, 'e, 'a) action"

type_synonym ('w, 'e) mc_chain = "(multicall \<times> 'w, 'e) chain"

definition mc_constructor :: "address \<Rightarrow> multicall sol" where
  "mc_constructor vaultAddr = nzAddr vaultAddr (Inr \<lparr>isRunning = False, mc_cfVault = vaultAddr\<rparr>)"

definition mc_onlyCfVault :: "env \<Rightarrow> ('w, 'e, 'a) mc_action \<Rightarrow> ('w, 'e, 'a) mc_action" where
  "mc_onlyCfVault E = require (\<lambda>(m, w). msg_sender E = mc_cfVault m) (Revert ''Multicall: not Chainflip Vault'')"

definition mc_safeTransferFrom ::
  "evm \<Rightarrow> ('w, 'e) mc_chain \<Rightarrow> address \<Rightarrow> address \<Rightarrow> address \<Rightarrow> uint256 \<Rightarrow> ('w, 'e, unit) mc_action" where
  "mc_safeTransferFrom V X this tok from amount =
     andthen (call X this tok 0 None (encodeWithSelector V ''transferFrom(address,address,uint256)''
       [SAddress from, SAddress this, SUint amount])) (\<lambda>(success, returnData).
     andthen (if success then (if returnData = [] then ret True else decoded (decode_bool returnData))
              else ret False) (\<lambda>transferred.
     require (\<lambda>s. transferred \<and> code_size X tok s > 0) TransferFailed (ret ())))"

text \<open>\<open>Call memory call = calls[i]\<close>: the struct at the free memory pointer \<open>b\<close>, one word per field,
  the two byte strings behind it and pointed to.\<close>

definition words_of :: "nat \<Rightarrow> nat" where
  "words_of n = 32 * ((n + 31) div 32)"

definition load_call :: "mem \<Rightarrow> uint256 \<Rightarrow> Call \<Rightarrow> mem" where
  "load_call m b c =
     (let payload_at = 192 + words_of (length (call_callData c)) in
      mstore_bytes (mstore_bytes
       (mstore (mstore (mstore (mstore (mstore m
         (off b 0) (call_type_number (callType c)))
         (off b 32) (ucast (call_target c)))
         (off b 64) (call_value c))
         (off b 96) (off b 160))
         (off b 128) (off b payload_at))
       (off b 160) (call_callData c))
       (off b payload_at) (call_payload c))"

definition mem_target :: "mem \<Rightarrow> uint256 \<Rightarrow> address" where
  "mem_target m b = ucast (mload m (off b 32))"

definition mem_value :: "mem \<Rightarrow> uint256 \<Rightarrow> uint256" where
  "mem_value m b = mload m (off b 64)"

definition mem_callData :: "mem \<Rightarrow> uint256 \<Rightarrow> bytes" where
  "mem_callData m b = mem_bytes m (mload m (off b 96))"

text \<open>\<open>mstore(add(callData, add(36, mul(parameterPosition, 32))), value)\<close>, all modulo \<open>2 ^ 256\<close>.\<close>

definition setCallDataParameter :: "mem \<Rightarrow> uint256 \<Rightarrow> uint256 \<Rightarrow> uint256 \<Rightarrow> mem" where
  "setCallDataParameter m callData parameterPosition value =
     mstore m (callData + (36 + parameterPosition * 32)) value"

definition target_call ::
  "('w, 'e) mc_chain \<Rightarrow> address \<Rightarrow> uint256 \<Rightarrow> address \<Rightarrow> uint256 \<Rightarrow> bytes \<Rightarrow> ('w, 'e, unit) mc_action" where
  "target_call X this i target value data =
     andthen (call X this target value None data) (\<lambda>(success, reason).
     if \<not> success then revert (CallFailed i reason) else ret ())"

text \<open>One round of the loop; \<open>m\<close> and \<open>b\<close> are the memory and the free memory pointer it starts with.\<close>

definition run_one ::
  "evm \<Rightarrow> ('w, 'e) mc_chain \<Rightarrow> address \<Rightarrow> env \<Rightarrow> mem \<Rightarrow> uint256 \<Rightarrow> uint256 \<Rightarrow> Call \<Rightarrow> ('w, 'e, unit) mc_action" where
  "run_one V X this E m b i c =
     (case callType c of
        Default \<Rightarrow> target_call X this i (call_target c) (call_value c) (call_callData c)
      | FullTokenBalance \<Rightarrow>
          andthen (decoded (decode_address_uint (call_payload c))) (\<lambda>(tok, amountParameterPosition).
          andthen (token_balance X tok this) (\<lambda>amount.
          let m0 = load_call m b c;
              m1 = setCallDataParameter m0 (mload m0 (off b 96)) amountParameterPosition amount
          in target_call X this i (mem_target m1 b) (mem_value m1 b) (mem_callData m1 b)))
      | FullNativeBalance \<Rightarrow>
          andthen (reads (native_balance X this)) (\<lambda>bal.
          target_call X this i (call_target c) bal (call_callData c))
      | CollectTokenBalance \<Rightarrow>
          andthen (decoded (decode_address (call_payload c))) (\<lambda>tok.
          andthen (token_balance X tok (msg_sender E)) (\<lambda>bal.
          mc_safeTransferFrom V X this tok (msg_sender E) bal)))"

text \<open>The loop; the memory of each round, with what earlier rounds left in it, is \<open>mems i\<close>.\<close>

fun run_loop ::
  "evm \<Rightarrow> ('w, 'e) mc_chain \<Rightarrow> address \<Rightarrow> env \<Rightarrow> (nat \<Rightarrow> mem \<times> uint256) \<Rightarrow> nat \<Rightarrow> Call list \<Rightarrow> ('w, 'e, unit) mc_action" where
  "run_loop V X this E mems i [] = ret ()"
| "run_loop V X this E mems i (c # cs) =
     andthen (run_one V X this E (fst (mems i)) (snd (mems i)) (word_of_nat i) c) (\<lambda>_.
     run_loop V X this E mems (Suc i) cs)"

definition set_running :: "bool \<Rightarrow> ('w, 'e, unit) mc_action" where
  "set_running r = modify (\<lambda>(m, w). (m\<lparr>isRunning := r\<rparr>, w))"

definition mc_run ::
  "evm \<Rightarrow> ('w, 'e) mc_chain \<Rightarrow> address \<Rightarrow> env \<Rightarrow> (nat \<Rightarrow> mem \<times> uint256) \<Rightarrow> Call list \<Rightarrow> address \<Rightarrow> uint256 \<Rightarrow> ('w, 'e, unit) mc_action" where
  "mc_run V X this E mems calls tokenIn amountIn =
     mc_onlyCfVault E
    (require (\<lambda>(m, w). \<not> isRunning m) AlreadyRunning
    (andthen (set_running True) (\<lambda>_.
     andthen (if amountIn > 0 \<and> tokenIn \<noteq> NATIVE_ADDR then mc_safeTransferFrom V X this tokenIn (msg_sender E) amountIn
              else ret ()) (\<lambda>_.
     andthen (run_loop V X this E mems 0 calls) (\<lambda>_.
     set_running False)))))"

text \<open>The ERC165 and token receiver answers.\<close>

definition supportsInterface :: "32 word \<Rightarrow> bool" where
  "supportsInterface interfaceId \<longleftrightarrow> interfaceId = 0x4e2312e0 \<or> interfaceId = 0x150b7a02 \<or> interfaceId = 0x01ffc9a7"

definition onERC721Received :: "evm \<Rightarrow> 32 word" where
  "onERC721Received V = selector V ''onERC721Received(address,address,uint256,bytes)''"

definition onERC1155Received :: "evm \<Rightarrow> 32 word" where
  "onERC1155Received V = selector V ''onERC1155Received(address,address,uint256,uint256,bytes)''"

definition onERC1155BatchReceived :: "evm \<Rightarrow> 32 word" where
  "onERC1155BatchReceived V = selector V ''onERC1155BatchReceived(address,address,uint256[],uint256[],bytes)''"

section \<open>The patched call\<close>

text \<open>The struct in memory, field by field.\<close>

lemma loaded_words:
  assumes "length (call_callData c) < 2 ^ 64" and "length (call_payload c) < 2 ^ 64" and "k \<in> {32, 64, 96}"
  shows "mload (load_call m b c) (off b k) =
    (if k = 32 then ucast (call_target c) else if k = 64 then call_value c else off b 160)"
proof -
  let ?p = "192 + words_of (length (call_callData c))"
  have p: "?p < 2 ^ 252"
    using assms(1) by (simp add: words_of_def)
  have k: "k < 2 ^ 252" "k + 32 \<le> 160" "k + 32 \<le> ?p" "k + 32 \<le> 128 \<or> 128 + 32 \<le> k"
    using assms(3) by auto
  have "mload (load_call m b c) (off b k) =
      mload (mstore (mstore (mstore (mstore (mstore m
         (off b 0) (call_type_number (callType c)))
         (off b 32) (ucast (call_target c)))
         (off b 64) (call_value c))
         (off b 96) (off b 160))
         (off b 128) (off b ?p)) (off b k)"
    unfolding load_call_def Let_def
    by (subst mload_mstore_bytes_other; (use p k assms in simp; fail)?)+
  also have "\<dots> = (if k = 32 then ucast (call_target c) else if k = 64 then call_value c else off b 160)"
    using assms(3) mload_mstore_same [where j = 32] mload_mstore_same [where j = 64] mload_mstore_same [where j = 96]
      mload_mstore_other [where j = 128] mload_mstore_other [where j = 96 and k = 32] mload_mstore_other [where j = 96 and k = 64]
      mload_mstore_other [where j = 64 and k = 32]
    by auto
  finally show ?thesis .
qed

lemma loaded_data:
  assumes "length (call_callData c) < 2 ^ 64" and "length (call_payload c) < 2 ^ 64"
  shows "mload (load_call m b c) (off b 160) = word_of_nat (length (call_callData c))"
    and "i < length (call_callData c) \<Longrightarrow> load_call m b c (off b (160 + 32 + i)) = call_callData c ! i"
proof -
  let ?d = "call_callData c" and ?p = "192 + words_of (length (call_callData c))"
  have w: "length ?d \<le> words_of (length ?d)"
    by (simp add: words_of_def)
  have p: "?p < 2 ^ 252" "?p < 2 ^ 254" "160 + 32 \<le> ?p"
    using assms(1) by (simp_all add: words_of_def)
  obtain m1 where m1: "load_call m b c = mstore_bytes (mstore_bytes m1 (off b 160) ?d) (off b ?p) (call_payload c)"
    by (simp add: load_call_def Let_def)
  let ?m2 = "mstore_bytes m1 (off b 160) ?d"
  have "mload (load_call m b c) (off b 160) = mload ?m2 (off b 160)"
    unfolding m1 by (rule mload_mstore_bytes_other) (use p assms in simp_all)
  also have "\<dots> = word_of_nat (length ?d)"
    by (rule mload_eqI) (use assms in \<open>simp add: offset_add mstore_bytes_at\<close>)
  finally show "mload (load_call m b c) (off b 160) = word_of_nat (length ?d)" .
  assume i: "i < length ?d"
  have i2: "160 + 32 + i < 2 ^ 254" "length ?d < 2 ^ 254" "length (call_payload c) < 2 ^ 254"
    using i assms by simp_all
  have "\<not> (?p + 32 \<le> 160 + 32 + i \<and> 160 + 32 + i < ?p + 32 + length (call_payload c))" "\<not> (?p \<le> 160 + 32 + i \<and> 160 + 32 + i < ?p + 32)"
    using i w by linarith+
  then have "load_call m b c (off b (160 + 32 + i)) = ?m2 (off b (160 + 32 + i))"
    unfolding m1 mstore_bytes_at [OF p(2) i2(1) i2(3)] by (simp only: if_False)
  also have "\<dots> = ?d ! i"
    using i mstore_bytes_at [OF _ i2(1) i2(2), of 160] by (simp)
  finally show "load_call m b c (off b (160 + 32 + i)) = ?d ! i" .
qed

lemma patched_memory:
  assumes "length (call_callData c) < 2 ^ 64" and "length (call_payload c) < 2 ^ 64" and "unat pos < 2 ^ 244"
    and "m0 = load_call m b c" and "m1 = setCallDataParameter m0 (mload m0 (off b 96)) pos v"
  shows "mem_target m1 b = call_target c \<and> mem_value m1 b = call_value c \<and>
    mem_callData m1 b = patch_bytes (4 + 32 * unat pos) (word_bytes 32 v) (call_callData c)"
proof -
  let ?k = "4 + 32 * unat pos"
  have ptr: "mload m0 (off b 96) = off b 160"
    using loaded_words [OF assms(1,2), of 96 m b] by (simp add: assms(4))
  have "word_of_nat (160 + 32 + ?k) = (word_of_nat 160 + (36 + word_of_nat (unat pos) * 32) :: uint256)"
    by (simp only: of_nat_add of_nat_mult of_nat_numeral) simp
  then have "off b 160 + (36 + pos * 32) = off b (160 + 32 + ?k)"
    by (simp add: off_def add.assoc del: of_nat_add)
  then have m1: "m1 = mstore m0 (off b (160 + 32 + ?k)) v"
    unfolding assms(5) ptr setCallDataParameter_def by simp
  have k: "160 + 32 + ?k < 2 ^ 254" "?k < 2 ^ 250"
    using assms(3) by simp_all
  have other: "mload m1 (off b q) = mload m0 (off b q)" if "q \<in> {32, 64, 96}" for q
    unfolding m1 by (rule mload_mstore_other [OF k(1)]) (use that in auto)
  have "mem_bytes m1 (off b 160) = patch_bytes ?k (word_bytes 32 v) (call_callData c)"
    unfolding m1
    by (rule mem_bytes_patched) (use k assms(1) loaded_data [OF assms(1,2), where m = m and b = b] in \<open>simp_all add: assms(4)\<close>)
  then show ?thesis
    using other loaded_words [OF assms(1,2)] ptr
    by (simp add: mem_target_def mem_value_def mem_callData_def assms(4))
qed

text \<open>The address of the patch is computed without a check. Positions near \<open>2 ^ 251\<close> wrap, and the
  balance then lands in the struct before the call data: over the end of the target and the start
  of the value, or over the end of the value and the start of the pointer to the call data.\<close>

lemma wrapped_position:
  "setCallDataParameter m (off b 160) (2 ^ 251 - 5) v = mstore m (off b 36) v"
  "setCallDataParameter m (off b 160) (2 ^ 251 - 4) v = mstore m (off b 68) v"
proof -
  have "off b 160 + (36 + (2 ^ 251 - 5) * 32) = off b 36" "off b 160 + (36 + (2 ^ 251 - 4) * 32) = off b 68"
    by (simp_all add: off_def)
  then show "setCallDataParameter m (off b 160) (2 ^ 251 - 5) v = mstore m (off b 36) v"
    "setCallDataParameter m (off b 160) (2 ^ 251 - 4) v = mstore m (off b 68) v"
    unfolding setCallDataParameter_def by simp_all
qed

text \<open>C27: a call that forwards the full balance of a token is made to its target with its value, and with
  its call data in which the word at the given parameter, after the selector, is the balance; all
  other bytes are as signed, and a position past the end changes none. The position is one below
  \<open>2 ^ 244\<close>, so that the address of the patch does not wrap, as it does in \<open>wrapped_position\<close>, and the two byte strings of
  the call are shorter than \<open>2 ^ 64\<close>.\<close>

theorem full_balance_call:
  assumes "callType c = FullTokenBalance" and "length (call_callData c) < 2 ^ 64" and "length (call_payload c) < 2 ^ 64"
    and "decode_address_uint (call_payload c) = Some (tok, pos)" and "unat pos < 2 ^ 244"
    and "token_balance X tok this s = Inr (amount, s1, l1)"
    and "data = patch_bytes (4 + 32 * unat pos) (word_bytes 32 amount) (call_callData c)"
  shows "run_one V X this E m b i c s =
      rbind (target_call X this i (call_target c) (call_value c) data s1) (\<lambda>(u, s2, l2). Inr (u, s2, l1 @ l2)) \<and>
    (4 + 32 * unat pos + 32 \<le> length (call_callData c) \<longrightarrow>
       data = take (4 + 32 * unat pos) (call_callData c) @ word_bytes 32 amount @ drop (36 + 32 * unat pos) (call_callData c)) \<and>
    (length (call_callData c) \<le> 4 + 32 * unat pos \<longrightarrow> data = call_callData c)"
proof (intro conjI impI)
  show "run_one V X this E m b i c s =
      rbind (target_call X this i (call_target c) (call_value c) data s1) (\<lambda>(u, s2, l2). Inr (u, s2, l1 @ l2))"
    using patched_memory [OF assms(2,3,5) refl refl, of m b amount] assms
    by (cases "target_call X this i (call_target c) (call_value c) data s1")
       (auto simp: run_one_def decoded_def andthen_def ret_def Let_def)
next
  assume "4 + 32 * unat pos + 32 \<le> length (call_callData c)"
  then show "data = take (4 + 32 * unat pos) (call_callData c) @ word_bytes 32 amount @ drop (36 + 32 * unat pos) (call_callData c)"
    unfolding assms(7) using patch_bytes_inside [of "4 + 32 * unat pos" "word_bytes 32 amount" "call_callData c"]
    by (simp add: add.commute)
next
  assume "length (call_callData c) \<le> 4 + 32 * unat pos"
  then show "data = call_callData c"
    unfolding assms(7) by (rule patch_bytes_outside)
qed

section \<open>Runs\<close>

lemma run_loop_append:
  "run_loop V X this E mems i (cs @ ds) s =
     andthen (run_loop V X this E mems i cs) (\<lambda>_. run_loop V X this E mems (i + length cs) ds) s"
proof (induction cs arbitrary: i s)
  case Nil
  then show ?case
    by (cases "run_loop V X this E mems i ds s") (auto simp: andthen_def ret_def)
next
  case (Cons c cs)
  let ?one = "run_one V X this E (fst (mems i)) (snd (mems i)) (word_of_nat i) c"
  show ?case
  proof (cases "?one s")
    case (Inr r)
    then obtain u s1 l1 where r: "?one s = Inr (u, s1, l1)"
      by (cases r) auto
    show ?thesis
      using Cons [of "Suc i" s1]
      by (cases "run_loop V X this E mems (Suc i) cs s1"; cases "run_loop V X this E mems (Suc i) (cs @ ds) s1")
         (auto simp: andthen_def r rbind_def split: sum.splits)
  qed (simp add: andthen_def)
qed

text \<open>The first call that fails reverts the whole run, the calls before it included, and the error names
  its position and passes its reason on.\<close>

theorem failing_call_reverts_run:
  assumes "msg_sender E = mc_cfVault (fst s)" and "\<not> isRunning (fst s)" and "\<not> (amountIn > 0 \<and> tokenIn \<noteq> NATIVE_ADDR)"
    and "run_loop V X this E mems 0 cs ((fst s)\<lparr>isRunning := True\<rparr>, snd s) = Inr ((), s1, l1)"
    and "callType c = Default"
    and "low_call X this (call_target c) (call_value c) None (call_callData c) s1 = ((False, reason), s2, l2)"
  shows "mc_run V X this E mems (cs @ c # ds) tokenIn amountIn s = Inl (CallFailed (word_of_nat (length cs)) reason)"
proof -
  have "run_loop V X this E mems (length cs) (c # ds) s1 = Inl (CallFailed (word_of_nat (length cs)) reason)"
    using assms(5,6) by (simp add: run_one_def target_call_def call_def andthen_def revert_def)
  then have "run_loop V X this E mems 0 (cs @ c # ds) ((fst s)\<lparr>isRunning := True\<rparr>, snd s) =
      Inl (CallFailed (word_of_nat (length cs)) reason)"
    using assms(4) by (simp add: run_loop_append andthen_def)
  then show ?thesis
    unfolding mc_run_def if_not_P [OF assms(3)] using assms(1,2)
    by (cases s) (simp add: mc_onlyCfVault_def require_def set_running_def modify_def andthen_def ret_def)
qed

text \<open>Only the Vault runs calls, a run in progress cannot be entered again, and after every run the
  contract is ready for the next one.\<close>

theorem run_guarded:
  assumes "mc_run V X this E mems calls tokenIn amountIn s = Inr (u, s', l)"
  shows "msg_sender E = mc_cfVault (fst s) \<and> \<not> isRunning (fst s) \<and> \<not> isRunning (fst s') \<and>
    (\<forall>t. isRunning (fst t) \<longrightarrow> msg_sender E' = mc_cfVault (fst t) \<longrightarrow>
       mc_run V X this E' mems' calls' tokenIn' amountIn' t = Inl AlreadyRunning)"
proof (intro conjI allI impI)
  show "msg_sender E = mc_cfVault (fst s)" "\<not> isRunning (fst s)" "\<not> isRunning (fst s')"
    using assms
    by (auto simp: mc_run_def mc_onlyCfVault_def andthen_Inr action_Inr set_running_def split: prod.splits)
  fix t :: "multicall \<times> 'a"
  assume "isRunning (fst t)" and "msg_sender E' = mc_cfVault (fst t)"
  then show "mc_run V X this E' mems' calls' tokenIn' amountIn' t = Inl AlreadyRunning"
    by (cases t) (simp add: mc_run_def mc_onlyCfVault_def require_def)
qed

section \<open>Witnesses\<close>

text \<open>Calls to the address 40 fail.\<close>

definition failing_chain :: "bytes \<Rightarrow> ('s, 'e) chain" where
  "failing_chain d = (quiet_chain d)\<lparr>low_call := (\<lambda>from to val gas data s. ((to \<noteq> 40, d), s, []))\<rparr>"

definition balance_call :: Call where
  "balance_call = \<lparr>callType = FullTokenBalance, call_target = 5, call_value = 0,
     call_callData = [1, 2, 3, 4] @ replicate 32 0, call_payload = abi_encode [SAddress 6, SUint (0 :: uint256)]\<rparr>"

definition plain_call :: "address \<Rightarrow> Call" where
  "plain_call a = \<lparr>callType = Default, call_target = a, call_value = 0, call_callData = [], call_payload = []\<rparr>"

abbreviation sample_mc :: "multicall \<times> unit" where
  "sample_mc \<equiv> (\<lparr>isRunning = False, mc_cfVault = 30\<rparr>, ())"

lemma full_balance_call_witness:
  "run_one sample_evm (quiet_chain [] :: (unit, unit) mc_chain) 60 (sender_env 30) (\<lambda>a. 0) 128 0 balance_call sample_mc =
     rbind (target_call (quiet_chain []) 60 0 5 0 ([1, 2, 3, 4] @ word_bytes 32 (50 :: uint256)) sample_mc)
       (\<lambda>(u, s2, l2). Inr (u, s2, [] @ l2))"
proof -
  let ?X = "quiet_chain [] :: (unit, unit) mc_chain"
  have p: "decode_address_uint (call_payload balance_call) = Some (6, 0)"
    using decode_address_uint_encoded [of 6 0] by (simp add: balance_call_def SUint_def)
  have len: "length (call_callData balance_call) < 2 ^ 64" "length (call_payload balance_call) < 2 ^ 64"
    by (simp_all add: balance_call_def SAddress_def SUint_def abi_encode_two_words)
  have t: "callType balance_call = FullTokenBalance"
    by (simp add: balance_call_def)
  have b: "token_balance ?X 6 60 sample_mc = Inr (50, sample_mc, [])"
    by (simp add: quiet_chain_def ret_def)
  have "unat (0 :: uint256) < 2 ^ 244"
    by simp
  from full_balance_call [OF t len p this b refl, of sample_evm "sender_env 30" "\<lambda>a. 0" 128 0] show ?thesis
    by (simp add: balance_call_def)
qed

lemma failing_call_reverts_run_witness:
  "mc_run sample_evm (failing_chain [7] :: (unit, unit) mc_chain) 60 (sender_env 30) (\<lambda>i. (\<lambda>a. 0, 128))
     ([plain_call 5] @ plain_call 40 # []) 1 0 sample_mc = Inl (CallFailed 1 [7])"
proof -
  let ?X = "failing_chain [7] :: (unit, unit) mc_chain"
  have "run_loop sample_evm ?X 60 (sender_env 30) (\<lambda>i. (\<lambda>a. 0, 128)) 0 [plain_call 5]
      ((fst sample_mc)\<lparr>isRunning := True\<rparr>, snd sample_mc) = Inr ((), ((fst sample_mc)\<lparr>isRunning := True\<rparr>, snd sample_mc), [])"
    by (simp add: run_one_def target_call_def call_def andthen_def ret_def plain_call_def failing_chain_def)
  then show ?thesis
    using failing_call_reverts_run [where X = ?X and cs = "[plain_call 5]" and c = "plain_call 40" and ds = "[]"
        and s = sample_mc and amountIn = 0 and E = "sender_env 30" and this = 60 and V = sample_evm
        and mems = "\<lambda>i. (\<lambda>a. 0, 128)"]
    by (simp add: plain_call_def failing_chain_def sender_env_def)
qed

lemma run_guarded_witness:
  "\<exists>s' l. mc_run sample_evm (quiet_chain [] :: (unit, unit) mc_chain) 60 (sender_env 30) (\<lambda>i. (\<lambda>a. 0, 128)) [plain_call 5] 1 0 sample_mc =
     Inr ((), s', l) \<and> \<not> isRunning (fst s')"
proof -
  have "\<exists>s' l. mc_run sample_evm (quiet_chain [] :: (unit, unit) mc_chain) 60 (sender_env 30) (\<lambda>i. (\<lambda>a. 0, 128)) [plain_call 5] 1 0 sample_mc =
     Inr ((), s', l)"
    by (simp add: mc_run_def mc_onlyCfVault_def run_one_def target_call_def call_def action_defs set_running_def plain_call_def
        quiet_chain_def sender_env_def)
  then obtain s' l where r: "mc_run sample_evm (quiet_chain [] :: (unit, unit) mc_chain) 60 (sender_env 30) (\<lambda>i. (\<lambda>a. 0, 128))
      [plain_call 5] 1 0 sample_mc = Inr ((), s', l)"
    by blast
  from run_guarded [OF r] r show ?thesis by blast
qed

end
