(* ===== verification/AddressChecker.thy ===== *)
theory AddressChecker
  imports SolAction "HOL-Library.While_Combinator"
begin

text \<open>
  \<open>utils/AddressChecker.sol\<close>: views that query a list of addresses in a loop over a 256-bit
  counter that is incremented unchecked. The loops are \<open>while_option\<close>, so that a loop which does
  not end has no value; the theorems show that they end and compute the query of every address, in
  order, or revert with the first query that reverts.
\<close>

section \<open>What the views read\<close>

record AddressState =
  as_balance :: uint256
  as_hasContract :: bool

record PriceFeedData =
  pf_roundId :: "80 word"
  pf_answer :: "256 word"
  pf_startedAt :: uint256
  pf_updatedAt :: uint256
  pf_answeredInRound :: "80 word"
  pf_decimals :: "8 word"
  pf_description :: string

text \<open>The block and its accounts; a price feed is an external contract whose views may revert.\<close>

record accounts =
  ac_number :: uint256
  ac_timestamp :: uint256
  ac_balance :: "address \<Rightarrow> uint256"
  ac_codeLength :: "address \<Rightarrow> uint256"
  ac_latestRoundData :: "address \<Rightarrow> (80 word \<times> 256 word \<times> uint256 \<times> uint256 \<times> 80 word) sol"
  ac_decimals :: "address \<Rightarrow> 8 word sol"
  ac_description :: "address \<Rightarrow> string sol"

section \<open>The loop\<close>

text \<open>\<open>for (uint i = 0; i < length; ) { out[i] = query(addresses[i]); unchecked { ++i; } }\<close>. The
  state is the counter and the output array, or the revert of a query. \<open>++i\<close> wraps.\<close>

definition loop_step :: "(address \<Rightarrow> 'b sol) \<Rightarrow> address list \<Rightarrow> uint256 \<times> 'b list \<Rightarrow> (uint256 \<times> 'b list) sol" where
  "loop_step query addresses = (\<lambda>(i, out).
     rbind (query (addresses ! unat i)) (\<lambda>x. Inr (i + 1, out[unat i := x])))"

definition running :: "address list \<Rightarrow> (uint256 \<times> 'b list) sol \<Rightarrow> bool" where
  "running addresses r = (case r of Inl e \<Rightarrow> False | Inr (i, out) \<Rightarrow> i < word_of_nat (length addresses))"

definition query_loop :: "(address \<Rightarrow> 'b sol) \<Rightarrow> address list \<Rightarrow> (uint256 \<times> 'b list) sol \<Rightarrow> (uint256 \<times> 'b list) sol option" where
  "query_loop query addresses = while_option (running addresses) (\<lambda>r. rbind r (loop_step query addresses))"

text \<open>\<open>new T[](length)\<close> filled by the loop; \<open>zero\<close> is the initial value of the elements.\<close>

definition query_all :: "'b \<Rightarrow> (address \<Rightarrow> 'b sol) \<Rightarrow> address list \<Rightarrow> 'b list sol option" where
  "query_all zero query addresses =
     (case query_loop query addresses (Inr (0, replicate (length addresses) zero)) of
        None \<Rightarrow> None | Some r \<Rightarrow> Some (rbind r (\<lambda>(i, out). Inr out)))"

definition nativeBalances :: "accounts \<Rightarrow> address list \<Rightarrow> uint256 list sol option" where
  "nativeBalances A addresses = query_all 0 (\<lambda>a. Inr (ac_balance A a)) addresses"

definition contractsDeployed :: "accounts \<Rightarrow> address list \<Rightarrow> bool list sol option" where
  "contractsDeployed A addresses = query_all False (\<lambda>a. Inr (ac_codeLength A a > 0)) addresses"

definition addressStates :: "accounts \<Rightarrow> address list \<Rightarrow> AddressState list sol option" where
  "addressStates A addresses = query_all \<lparr>as_balance = 0, as_hasContract = False\<rparr>
     (\<lambda>a. Inr \<lparr>as_balance = ac_balance A a, as_hasContract = ac_codeLength A a > 0\<rparr>) addresses"

definition queryPriceFeed :: "accounts \<Rightarrow> address \<Rightarrow> PriceFeedData sol" where
  "queryPriceFeed A a =
     rbind (ac_latestRoundData A a) (\<lambda>(roundId, answer, startedAt, updatedAt, answeredInRound).
     rbind (ac_decimals A a) (\<lambda>decimals.
     rbind (ac_description A a) (\<lambda>description.
     Inr \<lparr>pf_roundId = roundId, pf_answer = answer, pf_startedAt = startedAt, pf_updatedAt = updatedAt,
          pf_answeredInRound = answeredInRound, pf_decimals = decimals, pf_description = description\<rparr>)))"

definition no_price_feed :: PriceFeedData where
  "no_price_feed = \<lparr>pf_roundId = 0, pf_answer = 0, pf_startedAt = 0, pf_updatedAt = 0,
     pf_answeredInRound = 0, pf_decimals = 0, pf_description = []\<rparr>"

definition queryPriceFeeds :: "accounts \<Rightarrow> address list \<Rightarrow> (uint256 \<times> uint256 \<times> PriceFeedData list) sol option" where
  "queryPriceFeeds A addresses =
     (case query_all no_price_feed (queryPriceFeed A) addresses of
        None \<Rightarrow> None | Some r \<Rightarrow> Some (rbind r (\<lambda>out. Inr (ac_number A, ac_timestamp A, out))))"

section \<open>Termination and result\<close>

text \<open>The reference: query one address after the other, up to the first revert.\<close>

primrec traverse :: "('a \<Rightarrow> 'e + 'b) \<Rightarrow> 'a list \<Rightarrow> 'e + 'b list" where
  "traverse f [] = Inr []"
| "traverse f (x # xs) = rbind (f x) (\<lambda>y. rbind (traverse f xs) (\<lambda>ys. Inr (y # ys)))"

lemma traverse_Inr: "traverse (\<lambda>x. Inr (f x)) xs = Inr (map f xs)"
  by (induction xs) simp_all

lemma query_loop_from:
  assumes "length addresses < 2 ^ 256" and "length out = length addresses" and "k \<le> length addresses"
  shows "query_loop query addresses (Inr (word_of_nat k, out)) =
    Some (rbind (traverse query (drop k addresses)) (\<lambda>ys. Inr (word_of_nat (length addresses), take k out @ ys)))"
  using assms(2,3)
proof (induction "length addresses - k" arbitrary: k out)
  case 0
  then have "k = length addresses"
    by simp
  then show ?case
    using 0 by (simp add: query_loop_def while_option_unfold running_def)
next
  case (Suc d)
  let ?n = "length addresses"
  have k: "k < ?n"
    using Suc.hyps(2) by simp
  have ku: "unat (word_of_nat k :: uint256) = k"
    by (rule unat_word_of_nat_less) (use k assms(1) in simp)
  have nu: "unat (word_of_nat ?n :: uint256) = ?n"
    by (rule unat_word_of_nat_less) (use assms(1) in simp)
  have run: "running addresses (Inr (word_of_nat k, out))"
    using k by (simp add: running_def word_less_nat_alt ku nu)
  have drop: "drop k addresses = addresses ! k # drop (Suc k) addresses"
    using k by (simp add: Cons_nth_drop_Suc)
  have "query_loop query addresses (Inr (word_of_nat k, out)) =
      query_loop query addresses (loop_step query addresses (word_of_nat k, out))"
    using run unfolding query_loop_def by (subst while_option_unfold) simp
  also have "\<dots> = query_loop query addresses (rbind (query (addresses ! k))
      (\<lambda>x. Inr (word_of_nat (Suc k), out[k := x])))"
    by (simp add: loop_step_def ku add.commute)
  finally have step: "query_loop query addresses (Inr (word_of_nat k, out)) = \<dots>" .
  show ?case
  proof (cases "query (addresses ! k)")
    case (Inl e)
    then show ?thesis
      using step drop by (simp add: query_loop_def while_option_unfold running_def)
  next
    case (Inr x)
    have "query_loop query addresses (Inr (word_of_nat (Suc k), out[k := x])) =
        Some (rbind (traverse query (drop (Suc k) addresses)) (\<lambda>ys. Inr (word_of_nat ?n, take (Suc k) (out[k := x]) @ ys)))"
      using Suc.hyps k Suc.prems(1) by (intro Suc.hyps(1)) simp_all
    moreover have "take (Suc k) (out[k := x]) = take k out @ [x]"
      using k Suc.prems(1) by (simp add: take_Suc_conv_app_nth)
    ultimately show ?thesis
      using step Inr drop by (simp add: rbind_assoc)
  qed
qed

lemma query_all_traverse:
  assumes "length addresses < 2 ^ 256"
  shows "query_all zero query addresses = Some (traverse query addresses)"
  using query_loop_from [OF assms, of "replicate (length addresses) zero" 0 query]
  by (cases "traverse query addresses") (simp_all add: query_all_def)

text \<open>C36: every query ends, although its counter is a machine word that could wrap: for each of the
  lists a transaction can carry the four views return one result per address, in order, the last of
  them unless a price feed reverts, and then with the revert of the first that does.\<close>

theorem address_queries_end:
  assumes "length addresses < 2 ^ 256"
  shows "nativeBalances A addresses = Some (Inr (map (ac_balance A) addresses)) \<and>
    contractsDeployed A addresses = Some (Inr (map (\<lambda>a. ac_codeLength A a > 0) addresses)) \<and>
    addressStates A addresses = Some (Inr (map (\<lambda>a. \<lparr>as_balance = ac_balance A a,
      as_hasContract = ac_codeLength A a > 0\<rparr>) addresses)) \<and>
    queryPriceFeeds A addresses = Some (rbind (traverse (queryPriceFeed A) addresses)
      (\<lambda>out. Inr (ac_number A, ac_timestamp A, out)))"
  by (simp add: nativeBalances_def contractsDeployed_def addressStates_def queryPriceFeeds_def
      query_all_traverse [OF assms] traverse_Inr)

lemma address_queries_end_witness:
  "nativeBalances \<lparr>ac_number = 1, ac_timestamp = 2, ac_balance = (\<lambda>a. ucast a), ac_codeLength = (\<lambda>a. 0),
     ac_latestRoundData = (\<lambda>a. Inl CallReverted), ac_decimals = (\<lambda>a. Inr 8), ac_description = (\<lambda>a. Inr [])\<rparr> [5, 7] =
   Some (Inr [5, 7])"
  using address_queries_end [of "[5, 7]"] by simp

end
