(* ===== verification/CFReceiver.thy ===== *)
theory CFReceiver
  imports Owned
begin

text \<open>
  \<open>abstract/CFReceiver.sol\<close>, the base contract of integrations: it lets only the Vault it
  refers to reach the two hooks, and only its owner change that reference. The hooks are virtual
  functions that integrators write, so they are a parameter; they may read and write the whole
  storage, that of the inheriting contract (\<open>'u\<close>) included.
\<close>

section \<open>The contract\<close>

record cf_receiver =
  cfVault :: address
  cf_owner :: address

type_synonym ('u, 'e, 'a) cf_action = "(cf_receiver \<times> 'u, 'e, 'a) action"

record ('u, 'e) hooks =
  hook_receive :: "env \<Rightarrow> 32 word \<Rightarrow> bytes \<Rightarrow> bytes \<Rightarrow> address \<Rightarrow> uint256 \<Rightarrow> ('u, 'e, unit) cf_action"
  hook_xCall :: "env \<Rightarrow> 32 word \<Rightarrow> bytes \<Rightarrow> bytes \<Rightarrow> ('u, 'e, unit) cf_action"

definition cf_constructor :: "env \<Rightarrow> address \<Rightarrow> cf_receiver" where
  "cf_constructor E vault = \<lparr>cfVault = vault, cf_owner = msg_sender E\<rparr>"

definition cf_onlyCfVault :: "env \<Rightarrow> ('u, 'e, 'a) cf_action \<Rightarrow> ('u, 'e, 'a) cf_action" where
  "cf_onlyCfVault E = require (\<lambda>(c, u). msg_sender E = cfVault c) (Revert ''CFReceiver: caller not Chainflip sender'')"

definition onlyOwner :: "env \<Rightarrow> ('u, 'e, 'a) cf_action \<Rightarrow> ('u, 'e, 'a) cf_action" where
  "onlyOwner E = require (\<lambda>(c, u). msg_sender E = cf_owner c) (Revert ''CFReceiver: caller not owner'')"

definition cfReceive ::
  "('u, 'e) hooks \<Rightarrow> env \<Rightarrow> 32 word \<Rightarrow> bytes \<Rightarrow> bytes \<Rightarrow> address \<Rightarrow> uint256 \<Rightarrow> ('u, 'e, unit) cf_action" where
  "cfReceive H E srcChain srcAddress message tok amount =
     cf_onlyCfVault E (hook_receive H E srcChain srcAddress message tok amount)"

text \<open>Not payable: a call with value reverts before anything else.\<close>

definition cfReceivexCall :: "('u, 'e) hooks \<Rightarrow> env \<Rightarrow> 32 word \<Rightarrow> bytes \<Rightarrow> bytes \<Rightarrow> ('u, 'e, unit) cf_action" where
  "cfReceivexCall H E srcChain srcAddress message =
     require (\<lambda>_. msg_value E = 0) RevertEmpty
    (cf_onlyCfVault E (hook_xCall H E srcChain srcAddress message))"

definition updateCfVault :: "env \<Rightarrow> address \<Rightarrow> ('u, 'e, unit) cf_action" where
  "updateCfVault E vault =
     require (\<lambda>_. msg_value E = 0) RevertEmpty
    (onlyOwner E (modify (\<lambda>(c, u). (c\<lparr>cfVault := vault\<rparr>, u))))"

datatype cf_call =
    CfReceive "32 word" bytes bytes address uint256
  | CfReceivexCall "32 word" bytes bytes
  | CfUpdateVault address

fun cf_action :: "('u, 'e) hooks \<Rightarrow> env \<Rightarrow> cf_call \<Rightarrow> ('u, 'e, unit) cf_action" where
  "cf_action H E (CfReceive c a m t n) = cfReceive H E c a m t n"
| "cf_action H E (CfReceivexCall c a m) = cfReceivexCall H E c a m"
| "cf_action H E (CfUpdateVault v) = updateCfVault E v"

definition cf_exec :: "('u, 'e) hooks \<Rightarrow> env \<times> cf_call \<Rightarrow> cf_receiver \<times> 'u \<Rightarrow> ((cf_receiver \<times> 'u) \<times> 'e list) sol" where
  "cf_exec H c = transaction (cf_action H (fst c) (snd c))"

lemmas cf_defs = cfReceive_def cfReceivexCall_def updateCfVault_def cf_onlyCfVault_def onlyOwner_def

section \<open>Who reaches what\<close>

text \<open>A delivery succeeds only when it comes from the Vault and then does exactly what the
  integrator's hook does with the unchanged parameters; from any other account it reverts before
  the hook runs.\<close>

theorem cf_delivery:
  "cfReceive H E srcChain srcAddress message tok amount (c, u) =
     (if msg_sender E = cfVault c then hook_receive H E srcChain srcAddress message tok amount (c, u)
      else Inl (Revert ''CFReceiver: caller not Chainflip sender'')) \<and>
   cfReceivexCall H E srcChain srcAddress message (c, u) =
     (if msg_value E \<noteq> 0 then Inl RevertEmpty
      else if msg_sender E = cfVault c then hook_xCall H E srcChain srcAddress message (c, u)
      else Inl (Revert ''CFReceiver: caller not Chainflip sender''))"
  by (simp add: cf_defs require_def)

text \<open>Hooks that leave the two addresses alone: they see them and work on the rest.\<close>

definition on_rest :: "(cf_receiver \<Rightarrow> 'u \<Rightarrow> sol_error + 'u \<times> 'e list) \<Rightarrow> ('u, 'e, unit) cf_action" where
  "on_rest h = (\<lambda>(c, u). rbind (h c u) (\<lambda>(u', l). Inr ((), (c, u'), l)))"

definition rest_hooks ::
  "(env \<Rightarrow> cf_call \<Rightarrow> cf_receiver \<Rightarrow> 'u \<Rightarrow> sol_error + 'u \<times> 'e list) \<Rightarrow> ('u, 'e) hooks" where
  "rest_hooks h = \<lparr>hook_receive = (\<lambda>E c a m t n. on_rest (h E (CfReceive c a m t n))),
     hook_xCall = (\<lambda>E c a m. on_rest (h E (CfReceivexCall c a m)))\<rparr>"

interpretation cf: owned fst cf_owner "cf_exec (rest_hooks h)"
proof unfold_locales
  fix E c s s' evs
  assume "cf_exec (rest_hooks h) (E, c) s = Inr (s', evs)" and "fst s' \<noteq> fst s"
  then show "msg_sender E = cf_owner (fst s)"
    by (cases c; cases s; cases s') (auto simp: cf_exec_def cf_defs rest_hooks_def on_rest_def res_simps)
qed

text \<open>Whatever calls arrive and whatever the hooks do with the integrator's own storage, the Vault
  reference and the owner stay as they are until the owner calls.\<close>

theorem cf_vault_changes_need_owner:
  assumes "fst (run_calls (cf_exec (rest_hooks h)) cs s) \<noteq> fst s"
  shows "\<exists>d \<in> set cs. msg_sender (fst d) = cf_owner (fst s)"
  using assms by (rule cf.owner_acted)

section \<open>Witnesses\<close>

definition counting :: "env \<Rightarrow> cf_call \<Rightarrow> cf_receiver \<Rightarrow> nat \<Rightarrow> sol_error + nat \<times> unit list" where
  "counting E c r u = Inr (u + 1, [])"

lemma cf_vault_changes_need_owner_witness:
  "run_calls (cf_exec (rest_hooks counting))
     [(sender_env 30, CfReceive 1 [] [] 2 3), (sender_env 7, CfUpdateVault 31)] (\<lparr>cfVault = 30, cf_owner = 7\<rparr>, 0) =
     (\<lparr>cfVault = 31, cf_owner = 7\<rparr>, 1) \<and> msg_sender (sender_env 7) = 7"
proof -
  let ?cs = "[(sender_env 30, CfReceive 1 [] [] 2 3), (sender_env 7, CfUpdateVault 31)]"
  let ?s = "(\<lparr>cfVault = 30, cf_owner = 7\<rparr>, 0)"
  have r: "run_calls (cf_exec (rest_hooks counting)) ?cs ?s = (\<lparr>cfVault = 31, cf_owner = 7\<rparr>, 1)"
    by (simp add: counting_def cf_exec_def cf_defs rest_hooks_def on_rest_def action_defs sender_env_def)
  then have "fst (run_calls (cf_exec (rest_hooks counting)) ?cs ?s) \<noteq> fst ?s"
    by simp
  from cf_vault_changes_need_owner [OF this] r show ?thesis
    by (auto simp: sender_env_def)
qed

end
