(* ===== verification/VaultCalls.thy ===== *)
theory VaultCalls
  imports Protocol
begin

text \<open>
  All calls of the Vault, interleaved with calls of the KeyManagers and FLIP by anyone, while the
  external code that the Vault calls may re-enter any of them. What such code can do to the
  KeyManagers and FLIP is a trace of calls; under this assumption alone no signature is accepted
  twice, also within one re-entered transaction. \<open>VaultReentry\<close> builds such code.
\<close>

section \<open>Calls\<close>

datatype v_call =
    VSigned SigData signed_call
  | VSwapNative "32 word" bytes "32 word" bytes
  | VSwapToken "32 word" bytes "32 word" address uint256 bytes
  | VCallNative "32 word" bytes "32 word" bytes uint256 bytes
  | VCallToken "32 word" bytes "32 word" bytes uint256 address uint256 bytes
  | VAddGasNative bytes32
  | VAddGasToken bytes32 uint256 address
  | VReceive
  | VGovWithdraw "address list"
  | VGuard guard_call
  | VElsewhere world_call

fun v_call_action ::
  "evm \<Rightarrow> 't erc20 \<Rightarrow> ('t, 'w) v_chain \<Rightarrow> address \<Rightarrow> env \<Rightarrow> v_call \<Rightarrow> ('t, 'w, unit) v_action" where
  "v_call_action V T X this E (VSigned sd c) = signed_action V X this E sd c"
| "v_call_action V T X this E (VSwapNative dc da dt cf) = xSwapNative E dc da dt cf"
| "v_call_action V T X this E (VSwapToken dc da dt tok n cf) = xSwapToken X this E dc da dt tok n cf"
| "v_call_action V T X this E (VCallNative dc da dt m g cf) = xCallNative E dc da dt m g cf"
| "v_call_action V T X this E (VCallToken dc da dt m g tok n cf) = xCallToken X this E dc da dt m g tok n cf"
| "v_call_action V T X this E (VAddGasNative i) = addGasNative E i"
| "v_call_action V T X this E (VAddGasToken i n tok) = addGasToken X this E i n tok"
| "v_call_action V T X this E VReceive = receive E"
| "v_call_action V T X this E (VGovWithdraw toks) = v_govWithdraw V X this E toks"
| "v_call_action V T X this E (VGuard c) = v_guard_call E c"
| "v_call_action V T X this E (VElsewhere c) = in_world (world_exec V T c)"

definition v_exec ::
  "evm \<Rightarrow> 't erc20 \<Rightarrow> ('t, 'w) v_chain \<Rightarrow> address \<Rightarrow> env \<times> v_call \<Rightarrow> ('t, 'w) v_state \<Rightarrow>
   (('t, 'w) v_state \<times> vault_event log list) sol" where
  "v_exec V T X this c = transaction (v_call_action V T X this (fst c) (snd c))"

section \<open>Relations the Vault's functions conform to\<close>

definition v_chain_conforms ::
  "(('t, 'w) v_state \<Rightarrow> vault_event log list \<Rightarrow> ('t, 'w) v_state \<Rightarrow> bool) \<Rightarrow> ('t, 'w) v_chain \<Rightarrow> bool" where
  "v_chain_conforms R X \<longleftrightarrow> chain_conforms R X \<and>
     (\<forall>f salt tok s a s'. create2 X f salt tok s = Some (a, s') \<longrightarrow> R s [] s')"

locale vault_relation = action_relation R
  for R :: "('t, 'w) v_state \<Rightarrow> vault_event log list \<Rightarrow> ('t, 'w) v_state \<Rightarrow> bool" +
  fixes guards :: "guard_call \<Rightarrow> bool" and V :: evm
  assumes event: "R s [Own e] s"
    and signature: "conforms R (in_world (call_km a (consumeKeyNonce V a E sd h)))"
    and reference: "R ((v, w), W) [] ((v\<lparr>v_keyManager := a\<rparr>, w), W)"
    and guarded: "guards c \<Longrightarrow> guard_op E key key c (v_guard v) = Inr (u, g, gl) \<Longrightarrow>
      R ((v, w), W) (map Guarded gl) ((v\<lparr>v_guard := g\<rparr>, w), W)"
begin

lemma conforms_event: "conforms R (emit (Own e))"
  by (simp add: conforms_def action_Inr event)

lemma conforms_consumes:
  "conforms R m \<Longrightarrow> conforms R (consumesKeyNonce V this E km sd h m)"
  unfolding consumesKeyNonce_def by (intro conforms_intros signature)

lemma conforms_vault_modifiers:
  "conforms R m \<Longrightarrow> conforms R (onlyNotSuspended g m)" "conforms R m \<Longrightarrow> conforms R (onlySuspended g m)"
  "conforms R m \<Longrightarrow> conforms R (onlyCommunityGuardDisabled g m)" "conforms R m \<Longrightarrow> conforms R (onlyGovernor E k m)"
  "conforms R m \<Longrightarrow> conforms R (nz_address a m)" "conforms R m \<Longrightarrow> conforms R (nz_uint n m)"
  "conforms R m \<Longrightarrow> conforms R (consumes V this E sd c m)"
  by (simp_all add: guard_modifiers nz_address_def nz_uint_def consumes_def conforms_require conforms_consumes)

lemma conforms_vault_views:
  "conforms R (in_world (view_km a f g))" "conforms R (v_view_km f g)" "conforms R v_getGovernor" "conforms R v_getCommunityKey"
proof -
  show *: "conforms R (in_world (view_km a f g))" for a f g
    by (auto simp: conforms_def in_world_Inr view_Inr idle)
  show **: "conforms R (v_view_km f g)" for f g
    unfolding v_view_km_def by (intro conforms_intros *)
  show "conforms R v_getGovernor" "conforms R v_getCommunityKey"
    unfolding v_getGovernor_def v_getCommunityKey_def by (rule **)+
qed

lemmas vault_intros = external_intros conforms_event conforms_vault_modifiers conforms_vault_views

lemma conforms_timeout: "conforms R m \<Longrightarrow> conforms R (v_timeoutEmergency E m)"
  unfolding v_timeoutEmergency_def by (intro vault_intros)

lemma conforms_transfer_one: "chain_conforms R X \<Longrightarrow> conforms R (transfer_one V X this p)"
  unfolding transfer_one_def by (intro vault_intros)

lemma conforms_deposits:
  assumes "chain_conforms R X"
  shows "conforms R (deposit_sweep V X self to tok)" "conforms R (deposit_constructor V X self sender tok)"
    "conforms R (deposit_fetch V X self va sender tok)"
  unfolding deposit_constructor_def deposit_fetch_def deposit_sweep_def by (intro vault_intros assms)+

lemma conforms_fetch_one:
  assumes "chain_conforms R X"
  shows "conforms R (fetch_one V X this p)"
  unfolding conforms_def
proof (intro allI impI)
  fix s u s' l
  assume f: "fetch_one V X this p s = Inr (u, s', l)"
  have other: "conforms R (andthen (high_call X this (fp_fetchContract p) 0 d) (\<lambda>_. ret ()))" for d
    by (intro vault_intros assms)
  show "R s l s'"
    using f conformsD [OF other] conformsD [OF conforms_deposits(3) [OF assms]] unfolding fetch_one_def
    by (cases "deposit_vault X (fp_fetchContract p) s") simp_all
qed

lemma conforms_deploy_fetch:
  assumes "v_chain_conforms R X"
  shows "conforms R (deploy_fetch V X this p)"
  unfolding conforms_def
proof (intro allI impI)
  fix s u s' l
  assume "deploy_fetch V X this p s = Inr (u, s', l)"
  then obtain self s1 where "create2 X this (df_swapID p) (df_token p) s = Some (self, s1)"
      "deposit_constructor V X self this (df_token p) s1 = Inr (u, s', l)"
    by (auto simp: deploy_fetch_def split: option.splits)
  then have "R s [] s1" "R s1 l s'"
    using assms conformsD [OF conforms_deposits(2)] unfolding v_chain_conforms_def by blast+
  then show "R s l s'"
    using sequence by fastforce
qed

lemma conforms_batches:
  assumes "v_chain_conforms R X"
  shows "conforms R (transferBatch_internal V X this ts)" "conforms R (fetchBatch_internal V X this fs)"
    "conforms R (deployAndFetchBatch_internal V X this ds)"
proof -
  have X: "chain_conforms R X"
    using assms by (simp add: v_chain_conforms_def)
  show "conforms R (transferBatch_internal V X this ts)" "conforms R (fetchBatch_internal V X this fs)"
    "conforms R (deployAndFetchBatch_internal V X this ds)"
    unfolding transferBatch_internal_def fetchBatch_internal_def deployAndFetchBatch_internal_def
    by (intro conforms_each conforms_transfer_one conforms_fetch_one conforms_deploy_fetch X assms)+
qed

lemma conforms_update: "conforms R (v_updateKeyManager V this E sd a om)"
proof -
  have "conforms R (on_storage (\<lambda>vw. ((fst vw)\<lparr>v_keyManager := a\<rparr>, snd vw)))" for a
    by (auto simp: conforms_def on_storage_def action_Inr reference)
  then show ?thesis
    unfolding v_updateKeyManager_def updateKeyManager_def v_checkUpdateKeyManager_def
    by (intro vault_intros conforms_consumes)
qed

lemma conforms_signed:
  assumes "v_chain_conforms R X"
  shows "conforms R (signed_action V X this E sd c)"
proof -
  have X: "chain_conforms R X"
    using assms by (simp add: v_chain_conforms_def)
  show ?thesis
    by (cases c; simp only: signed_action.simps signed_defs executexSwapAndCall_internal_def executeActions_internal_def;
        intro vault_intros conforms_transfer_one conforms_batches conforms_update assms X)
qed

lemma conforms_users:
  assumes "chain_conforms R X"
  shows "conforms R (xSwapNative E dc da dt cf)" "conforms R (xSwapToken X this E dc da dt tok n cf)"
    "conforms R (xCallNative E dc da dt m g cf)" "conforms R (xCallToken X this E dc da dt m g tok n cf)"
    "conforms R (addGasNative E i)" "conforms R (addGasToken X this E i n tok)" "conforms R (receive E)"
  unfolding xSwapNative_def xSwapToken_def xCallNative_def xCallToken_def addGasNative_def addGasToken_def receive_def
  by (intro vault_intros assms)+

lemma conforms_withdraw:
  assumes "chain_conforms R X"
  shows "conforms R (v_govWithdraw V X this E toks)"
  unfolding v_govWithdraw_def withdraw_one_def
  by (intro vault_intros conforms_timeout conforms_transfer_one assms)

lemma conforms_guard:
  assumes "guards c"
  shows "conforms R (v_guard_call E c)"
proof -
  have "conforms R (\<lambda>((v, w), W). rbind (guard_op E key key c (v_guard v)) (\<lambda>(u, g, l).
      Inr (u, ((v\<lparr>v_guard := g\<rparr>, w), W), map Guarded l)))" for key
    using guarded [OF assms] by (auto simp: conforms_def rbind_eq_Inr)
  then show ?thesis
    unfolding v_guard_call_def by (intro vault_intros)
qed

lemma conforms_vault:
  assumes "v_chain_conforms R X" and "\<And>g. c = VGuard g \<Longrightarrow> guards g"
    and "\<And>w. c = VElsewhere w \<Longrightarrow> conforms R (in_world (world_exec V T w))"
  shows "conforms R (v_call_action V T X this E c)"
proof -
  have X: "chain_conforms R X"
    using assms by (simp add: v_chain_conforms_def)
  show ?thesis
    using assms(2,3) by (cases c)
      (auto intro: conforms_signed [OF assms(1)] conforms_users [OF X] conforms_withdraw [OF X] conforms_guard)
qed

end

section \<open>Signatures under re-entrance\<close>

definition v_traced :: "evm \<Rightarrow> 't erc20 \<Rightarrow> ('t, 'w) v_state \<Rightarrow> vault_event log list \<Rightarrow> ('t, 'w) v_state \<Rightarrow> bool" where
  "v_traced V T s l s' \<longleftrightarrow> world_trace V T (\<lambda>_. True) (snd s) (contract_log l) (snd s')"

lemma v_traced_call: "conforms (v_traced V T) (in_world (world_exec V T c))"
  by (auto simp: conforms_def v_traced_def in_world_Inr intro: trace_one)

interpretation v_trace: vault_relation "v_traced V T" "\<lambda>_. True" V for V and T :: "'t erc20"
proof unfold_locales
  fix a E sd h
  show "conforms (v_traced V T) (in_world (call_km a (consumeKeyNonce V a E sd h)))"
    using v_traced_call [of V T "WKeyManager a E (ConsumeKeyNonce sd h)", unfolded world_exec.simps km_exec.simps] .
qed (auto simp: v_traced_def intro: world_trace.none trace_trans)

lemma v_run_traced:
  assumes "v_chain_conforms (v_traced V T) X"
  shows "v_traced V T s (run_log (v_exec V T X this) cs s) (run_calls (v_exec V T X this) cs s)"
  unfolding v_exec_def [abs_def]
  by (intro v_trace.conforms_run v_trace.conforms_vault assms v_traced_call TrueI)

text \<open>C7: whatever calls reach the Vault, the KeyManagers and FLIP, in any order and from anyone, and
  whatever the code does that the Vault calls, as long as it changes KeyManagers and FLIP only by
  calling them: a KeyManager accepts every nonce at most once, also when a recipient re-enters with
  the signature that is being executed.\<close>

theorem vault_signature_accepted_once:
  assumes "v_chain_conforms (v_traced V T) X"
  shows "distinct (spent_nonces a (contract_log (run_log (v_exec V T X this) cs s)))"
  using v_run_traced [OF assms] unfolding v_traced_def
  by (rule nonces_spent_distinct [OF world_trace_nonces])

text \<open>A signed call of the Vault that succeeds has its own nonce accepted exactly once in the whole
  transaction, whatever the called code re-enters, and leaves it used.\<close>

theorem signed_call_spends_nonce:
  assumes X: "v_chain_conforms (v_traced V T) X" and ex: "signed_action V X this E sd c ((v, w), W) = Inr (u, s', l)"
  shows "filter (\<lambda>n. n = nonce sd) (spent_nonces (v_keyManager v) (contract_log l)) = [nonce sd] \<and>
    (\<exists>k. key_managers (snd s') (v_keyManager v) = Some k \<and> isNonceUsed k (nonce sd))"
proof -
  let ?a = "v_keyManager v"
  have "\<exists>m. consumes V this E sd c m ((v, w), W) = Inr (u, s', l)"
    by (rule signed_action_consumes [OF ex])
  then obtain k l' who where k: "key_managers W ?a = Some k"
    and l: "l = Other (KmLog ?a (SignatureAccepted sd who)) # l'"
    unfolding consumes_def
    by (cases s') (auto simp: consumesKeyNonce_Inr consumeKeyNonce_def consume_internal_Inr)
  have n: "nonces_spent ?a W (contract_log l) (snd s')"
    using conformsD [OF v_trace.conforms_signed [OF X] ex] world_trace_nonces by (fastforce simp: v_traced_def)
  have "nonce sd \<in> set (spent_nonces ?a (contract_log l))"
    by (simp add: l spent_nonces_def)
  moreover have "distinct xs \<Longrightarrow> x \<in> set xs \<Longrightarrow> filter (\<lambda>n. n = x) xs = [x]" for xs and x :: uint256
    by (induction xs) (auto simp: filter_empty_conv)
  ultimately show ?thesis
    using n k by (auto simp: nonces_spent_def)
qed

section \<open>Suspension\<close>

lemma guard_still: "c \<noteq> Resume \<Longrightarrow> guard_op E key key c g = Inr (u, g', l) \<Longrightarrow> suspended g \<Longrightarrow> suspended g'"
  by (auto dest!: guard_op_Inr split: guard_call.splits)

text \<open>The calls that the suspension stops: all but the receipt of native tokens, the governor's
  withdrawal, the calls of the guard itself and the signed \<open>updateKeyManager\<close>.\<close>

definition v_gated :: "env \<times> v_call \<Rightarrow> bool" where
  "v_gated c = (case snd c of VReceive \<Rightarrow> False | VGovWithdraw toks \<Rightarrow> False | VGuard g \<Rightarrow> False
     | VElsewhere w \<Rightarrow> False | VSigned sd k \<Rightarrow> \<not> updates_reference k | _ \<Rightarrow> True)"

definition v_resuming :: "env \<times> v_call \<Rightarrow> bool" where
  "v_resuming c = (case snd c of VGuard g \<Rightarrow> g = Resume | _ \<Rightarrow> False)"

lemma gated_while_running:
  assumes "v_exec V T X this c s = Inr (s', l)" and "v_gated c"
  shows "\<not> suspended (v_guard_of s)"
proof -
  obtain u where "v_call_action V T X this (fst c) (snd c) s = Inr (u, s', l)"
    using assms(1) by (auto simp: v_exec_def transaction_Inr)
  then show ?thesis
    using assms(2) suspended_vault [of s] suspended_signed_call [of s] by (cases "snd c") (auto simp: v_gated_def)
qed

section \<open>Witnesses\<close>

text \<open>A chain whose every call re-enters the call \<open>c\<close>.\<close>

definition reentrant_chain :: "evm \<Rightarrow> 't erc20 \<Rightarrow> world_call \<Rightarrow> ('t, unit) v_chain" where
  "reentrant_chain V T c = \<lparr>
     low_call = (\<lambda>f t n g d s. case in_world (world_exec V T c) s of
        Inl e \<Rightarrow> ((False, []), s, []) | Inr (u, s', l) \<Rightarrow> ((True, []), s', l)),
     safe_transfer = (\<lambda>t f r n. in_world (world_exec V T c)), safe_transferFrom = (\<lambda>t sp f r n. in_world (world_exec V T c)),
     token_balance = (\<lambda>t a. ret 50), native_balance = (\<lambda>a s. 60), code_size = (\<lambda>a s. 1),
     gas_left = (\<lambda>s. 1000000), create2 = (\<lambda>a b t s. None), deposit_vault = (\<lambda>a s. None)\<rparr>"

lemma reentrant_chain_traced:
  fixes T :: "'t erc20"
  shows "v_chain_conforms (v_traced V T) (reentrant_chain V T c)"
proof -
  have reenter: "v_traced V T s l s'"
    if "in_world (world_exec V T c) s = Inr (u, s', l)" for s s' :: "('t, unit) v_state" and u l
    using conformsD [OF v_traced_call that] .
  have "conforms (v_traced V T) (call (reentrant_chain V T c) f t n g d)" for f t n g d
    unfolding conforms_def call_def reentrant_chain_def
    by (auto split: sum.splits intro: reenter v_trace.idle)
  then show ?thesis
    by (simp add: v_chain_conforms_def chain_conforms_def reentrant_chain_def v_traced_call v_trace.conforms_still)
qed

abbreviation reentering :: "(ledger, unit) v_chain" where
  "reentering \<equiv> reentrant_chain sample_evm ledger_erc20 (WKeyManager 9 sample_env (ConsumeKeyNonce (sample_sig 6) 5))"

abbreviation sample_batch :: signed_call where
  "sample_batch \<equiv> TransferBatch [\<lparr>tp_token = 5, tp_recipient = 2, tp_amount = 3\<rparr>]"

lemma vault_signature_accepted_once_witness:
  "distinct (spent_nonces 9 (contract_log (run_log (v_exec sample_evm ledger_erc20 reentering 30)
     [(sample_env, VSigned (sample_sig 6) sample_batch)] ((sample_vault, ()), km_world))))"
  by (rule vault_signature_accepted_once [OF reentrant_chain_traced])

lemma signed_call_spends_nonce_witness:
  "\<exists>s' l. signed_action sample_evm reentering 30 sample_env (sample_sig 6) sample_batch ((sample_vault, ()), km_world) = Inr ((), s', l) \<and>
     filter (\<lambda>n. n = 6) (spent_nonces 9 (contract_log l)) = [6]"
proof -
  have h: "keccak256 sample_evm x = 5" for x
    by (simp add: mod_evm_def)
  have "\<exists>s' l. signed_action sample_evm reentering 30 sample_env (sample_sig 6) sample_batch ((sample_vault, ()), km_world) = Inr ((), s', l)"
    by (simp add: transferBatch_def transferBatch_internal_def transfer_one_def onlyNotSuspended_def consumes_def consumesKeyNonce_def
        action_defs in_world_def call_km_def call_def reentrant_chain_def consumeKeyNonce_def consumeKeyNonce_internal_def sample_hash h
        sample_verifies sample_defs sample_vault_def km_world_def initial_guard_def call_env_def NATIVE_ADDR_def)
  then obtain s' l where r: "signed_action sample_evm reentering 30 sample_env (sample_sig 6) sample_batch ((sample_vault, ()), km_world) = Inr ((), s', l)"
    by blast
  from signed_call_spends_nonce [OF reentrant_chain_traced r] r show ?thesis
    by (simp add: sample_sig_def sample_vault_def)
qed

end
