(* ===== verification/VaultReentry.thy ===== *)
theory VaultReentry
  imports VaultCalls
begin

text \<open>
  Code that re-enters the Vault: what a recipient or token does when the Vault calls it is a
  program of its own, which looks at everything, calls the Vault, the KeyManagers and FLIP as often
  as it likes, and then returns or reverts. Those calls run the model's own functions, and may
  re-enter in turn, up to a depth. The calls that are accepted in this way are recorded.
\<close>

section \<open>Foreign code\<close>

datatype external =
    LowCall address address uint256 "uint256 option" bytes
  | SafeTransfer address address address uint256
  | SafeTransferFrom address address address address uint256

text \<open>The state of the foreign code is \<open>'w\<close>, beside it the calls it made that were accepted.\<close>

type_synonym ('t, 'w) re_state = "('t, 'w \<times> (env \<times> v_call) list) v_state"

text \<open>A foreign program: on an external call \<open>e\<close> that finds the state \<open>s\<close> it makes
  \<open>moves e s\<close> calls, each one \<open>move e k\<close> of the state it then finds, where \<open>k\<close> counts
  down, and ends with an answer, success or failure, and its own new state. Queries are static
  calls, which change nothing.\<close>

record ('t, 'w) foreign =
  moves :: "external \<Rightarrow> ('t, 'w) re_state \<Rightarrow> nat"
  move :: "external \<Rightarrow> nat \<Rightarrow> ('t, 'w) re_state \<Rightarrow> env \<times> v_call"
  answer :: "external \<Rightarrow> ('t, 'w) re_state \<Rightarrow> (bool \<times> bytes) \<times> 'w"
  query_balance :: "address \<Rightarrow> address \<Rightarrow> ('t, 'w) re_state \<Rightarrow> uint256"
  query_code :: "address \<Rightarrow> ('t, 'w) re_state \<Rightarrow> nat"
  query_gas :: "('t, 'w) re_state \<Rightarrow> uint256"
  create :: "address \<Rightarrow> bytes32 \<Rightarrow> address \<Rightarrow> ('t, 'w) re_state \<Rightarrow> (address \<times> 'w) option"
  deposit_owner :: "address \<Rightarrow> ('t, 'w) re_state \<Rightarrow> address option"

abbreviation reentered :: "('t, 'w) re_state \<Rightarrow> (env \<times> v_call) list" where
  "reentered s \<equiv> snd (snd (fst s))"

definition recorded :: "env \<times> v_call \<Rightarrow> ('t, 'w) re_state \<Rightarrow> ('t, 'w) re_state" where
  "recorded c = (\<lambda>((v, w, cs), W). ((v, w, cs @ [c]), W))"

definition owning :: "'w \<Rightarrow> ('t, 'w) re_state \<Rightarrow> ('t, 'w) re_state" where
  "owning w' = (\<lambda>((v, w, cs), W). ((v, w', cs), W))"

text \<open>The moves, where one that reverts changes nothing.\<close>

primrec play ::
  "(env \<times> v_call \<Rightarrow> ('t, 'w) re_state \<Rightarrow> (('t, 'w) re_state \<times> vault_event log list) sol) \<Rightarrow>
   (nat \<Rightarrow> ('t, 'w) re_state \<Rightarrow> env \<times> v_call) \<Rightarrow> nat \<Rightarrow> ('t, 'w) re_state \<Rightarrow>
   ('t, 'w) re_state \<times> vault_event log list" where
  "play exec mv 0 s = (s, [])"
| "play exec mv (Suc k) s = (case exec (mv k s) s of
     Inl e \<Rightarrow> play exec mv k s
   | Inr (s1, l) \<Rightarrow> (case play exec mv k (recorded (mv k s) s1) of (s2, l') \<Rightarrow> (s2, l @ l')))"

definition foreign_call ::
  "('t, 'w) foreign \<Rightarrow> (env \<times> v_call \<Rightarrow> ('t, 'w) re_state \<Rightarrow> (('t, 'w) re_state \<times> vault_event log list) sol) \<Rightarrow>
   external \<Rightarrow> ('t, 'w) re_state \<Rightarrow> (bool \<times> bytes) \<times> ('t, 'w) re_state \<times> vault_event log list" where
  "foreign_call F exec e s = (case play exec (move F e) (moves F e s) s of (s1, l) \<Rightarrow>
     (case answer F e s1 of ((ok, d), w) \<Rightarrow> if ok then ((True, d), owning w s1, l) else ((False, d), s, [])))"

definition or_revert :: "(bool \<times> bytes) \<times> 's \<times> 'e list \<Rightarrow> (unit \<times> 's \<times> 'e list) sol" where
  "or_revert r = (case r of ((ok, d), s, l) \<Rightarrow> if ok then Inr ((), s, l) else Inl CallReverted)"

definition foreign_chain ::
  "('t, 'w) foreign \<Rightarrow> (env \<times> v_call \<Rightarrow> ('t, 'w) re_state \<Rightarrow> (('t, 'w) re_state \<times> vault_event log list) sol) \<Rightarrow>
   ('t, 'w \<times> (env \<times> v_call) list) v_chain" where
  "foreign_chain F exec = \<lparr>
     low_call = (\<lambda>from to n g d. foreign_call F exec (LowCall from to n g d)),
     safe_transfer = (\<lambda>t f r n s. or_revert (foreign_call F exec (SafeTransfer t f r n) s)),
     safe_transferFrom = (\<lambda>t sp f r n s. or_revert (foreign_call F exec (SafeTransferFrom t sp f r n) s)),
     token_balance = (\<lambda>t a s. Inr (query_balance F t a s, s, [])),
     native_balance = query_balance F NATIVE_ADDR, code_size = query_code F, gas_left = query_gas F,
     create2 = (\<lambda>f salt t s. case create F f salt t s of None \<Rightarrow> None | Some (a, w) \<Rightarrow> Some (a, owning w s)),
     deposit_vault = deposit_owner F\<rparr>"

text \<open>At depth 0 the calls of foreign code fail, as they do at the EVM's limit of 1024.\<close>

primrec reentering_chain ::
  "evm \<Rightarrow> 't erc20 \<Rightarrow> address \<Rightarrow> ('t, 'w) foreign \<Rightarrow> nat \<Rightarrow> ('t, 'w \<times> (env \<times> v_call) list) v_chain" where
  "reentering_chain V T this F 0 = foreign_chain F (\<lambda>c s. Inl CallReverted)"
| "reentering_chain V T this F (Suc n) = foreign_chain F (v_exec V T (reentering_chain V T this F n) this)"

section \<open>Relations that re-entering code conforms to\<close>

text \<open>A relation on the states of the Vault that also covers what foreign code does to its own
  state, and the record of an accepted call together with that call.\<close>

locale reentry_relation = vault_relation R guards V
  for R :: "('t, 'w) re_state \<Rightarrow> vault_event log list \<Rightarrow> ('t, 'w) re_state \<Rightarrow> bool"
    and guards :: "guard_call \<Rightarrow> bool" and V :: evm +
  fixes T :: "'t erc20" and this :: address and allowed :: "env \<times> v_call \<Rightarrow> bool"
  assumes own: "R s [] (owning w s)"
    and record_call: "allowed c \<Longrightarrow> v_exec V T X this c s = Inr (s', l) \<Longrightarrow> R s l s' \<Longrightarrow> R s l (recorded c s')"
    and allowed_guard: "allowed (E, VGuard g) \<Longrightarrow> guards g"
    and elsewhere: "conforms R (in_world (world_exec V T x))"
begin

lemma conforms_exec:
  assumes "v_chain_conforms R X" and "allowed c" and "v_exec V T X this c s = Inr (s', l)"
  shows "R s l s'"
proof -
  obtain E x where c: "c = (E, x)"
    by (cases c)
  have "conforms R (v_call_action V T X this E x)"
    using assms(2) by (intro conforms_vault assms(1) elsewhere) (auto simp: c intro: allowed_guard)
  moreover obtain u where "v_call_action V T X this E x s = Inr (u, s', l)"
    using assms(3) by (auto simp: c v_exec_def transaction_Inr)
  ultimately show ?thesis
    by (rule conformsD)
qed

lemma play_conforms:
  assumes ex: "\<And>c s s' l. allowed c \<Longrightarrow> exec c s = Inr (s', l) \<Longrightarrow> R s l (recorded c s')" and mv: "\<And>k s. allowed (mv k s)"
  shows "play exec mv k s = (s', l) \<Longrightarrow> R s l s'"
proof (induction k arbitrary: s l)
  case (Suc k)
  show ?case
  proof (cases "exec (mv k s) s")
    case (Inr r)
    then obtain s1 l1 where e: "exec (mv k s) s = Inr (s1, l1)"
      by (cases r) auto
    obtain s2 l2 where p: "play exec mv k (recorded (mv k s) s1) = (s2, l2)"
      by fastforce
    have "R s l1 (recorded (mv k s) s1)" "R (recorded (mv k s) s1) l2 s2"
      using ex [OF mv e] Suc.IH [of "recorded (mv k s) s1" l2] p Suc.prems e by auto
    then have "R s (l1 @ l2) s2"
      by (rule sequence)
    then show ?thesis
      using Suc.prems e p by simp
  qed (use Suc in simp)
qed (simp add: idle)

lemma foreign_call_conforms:
  assumes "\<And>c s s' l. allowed c \<Longrightarrow> exec c s = Inr (s', l) \<Longrightarrow> R s l (recorded c s')" and "\<And>e k s. allowed (move F e k s)"
    and "foreign_call F exec e s = (r, s', l)"
  shows "R s l s'"
proof -
  obtain s1 l1 ok d w where p: "play exec (move F e) (moves F e s) s = (s1, l1)" "answer F e s1 = ((ok, d), w)"
    by (metis surj_pair)
  have "R s l1 s1"
    by (rule play_conforms [OF assms(1) assms(2) p(1)])
  then have "R s (l1 @ []) (owning w s1)"
    by (rule sequence) (rule own)
  then show ?thesis
    using assms(3) p idle by (cases ok) (auto simp: foreign_call_def)
qed

lemma foreign_chain_conforms:
  assumes "\<And>c s s' l. allowed c \<Longrightarrow> exec c s = Inr (s', l) \<Longrightarrow> R s l (recorded c s')" and "\<And>e k s. allowed (move F e k s)"
  shows "v_chain_conforms R (foreign_chain F exec)"
proof -
  have call: "conforms R (\<lambda>s. Inr (foreign_call F exec e s))" and safe: "conforms R (\<lambda>s. or_revert (foreign_call F exec e s))" for e
    using foreign_call_conforms [OF assms] by (auto simp: conforms_def or_revert_def split: prod.splits if_splits)
  have "chain_conforms R (foreign_chain F exec)"
    using call safe idle by (auto simp: chain_conforms_def foreign_chain_def call_def [abs_def] conforms_def)
  moreover have "R s [] s'" if c: "create2 (foreign_chain F exec) f salt t s = Some (a, s')" for f salt t s a s'
  proof -
    obtain w where "s' = owning w s"
      using c by (auto simp: foreign_chain_def split: option.splits)
    then show ?thesis
      by (simp add: own)
  qed
  ultimately show ?thesis
    unfolding v_chain_conforms_def by blast
qed

lemma reentering_conforms:
  assumes "\<And>e k s. allowed (move F e k s)"
  shows "v_chain_conforms R (reentering_chain V T this F n)"
proof (induction n)
  case 0
  show ?case
    unfolding reentering_chain.simps by (rule foreign_chain_conforms [OF _ assms]) simp
next
  case (Suc n)
  show ?case
    unfolding reentering_chain.simps by (rule foreign_chain_conforms [OF _ assms]) (metis conforms_exec [OF Suc] record_call)
qed

lemma run_conforms:
  assumes "v_chain_conforms R X" and "\<forall>c\<in>set cs. allowed c"
  shows "R s (run_log (v_exec V T X this) cs s) (run_calls (v_exec V T X this) cs s)"
  using assms(2)
proof (induction cs arbitrary: s)
  case (Cons c cs)
  show ?case
  proof (cases "v_exec V T X this c s")
    case (Inr r)
    then obtain s1 l1 where r: "v_exec V T X this c s = Inr (s1, l1)"
      by (cases r) auto
    have "R s l1 s1"
      using Cons.prems by (intro conforms_exec [OF assms(1) _ r]) simp
    moreover have "R s1 (run_log (v_exec V T X this) cs s1) (run_calls (v_exec V T X this) cs s1)"
      using Cons by simp
    ultimately show ?thesis
      using sequence r by simp
  qed (use Cons in simp)
qed (simp add: idle)

end

text \<open>Every foreign program meets what is assumed where a signature is accepted only once.\<close>

interpretation re_traced: reentry_relation "v_traced V T" "\<lambda>_. True" V T this "\<lambda>_. True"
  for V and T :: "'t erc20" and this
  by unfold_locales (auto simp: v_traced_def owning_def recorded_def intro: world_trace.none v_traced_call split: prod.splits)

lemma reentering_traced: "v_chain_conforms (v_traced V T) (reentering_chain V T this F n)"
  by (rule re_traced.reentering_conforms) simp

section \<open>Suspension under re-entrance\<close>

definition v_stopped :: "('t, 'w) re_state \<Rightarrow> vault_event log list \<Rightarrow> ('t, 'w) re_state \<Rightarrow> bool" where
  "v_stopped s l s' \<longleftrightarrow> (suspended (v_guard_of s) \<longrightarrow> suspended (v_guard_of s') \<and>
     (\<exists>new. reentered s' = reentered s @ new \<and> (\<forall>c\<in>set new. \<not> v_gated c)))"

lemma v_stopped_trans:
  assumes "v_stopped s l s1" and "v_stopped s1 l' s2"
  shows "v_stopped s (l @ l') s2"
proof -
  have "\<exists>new. reentered s2 = reentered s @ new \<and> (\<forall>c\<in>set new. \<not> v_gated c)" if s: "suspended (v_guard_of s)"
  proof -
    obtain new where new: "reentered s1 = reentered s @ new" "\<forall>c\<in>set new. \<not> v_gated c"
      using assms(1) s unfolding v_stopped_def by blast
    obtain new' where "reentered s2 = reentered s1 @ new'" "\<forall>c\<in>set new'. \<not> v_gated c"
      using assms s unfolding v_stopped_def by blast
    then show ?thesis
      using new by (intro exI [of _ "new @ new'"]) auto
  qed
  then show ?thesis
    using assms unfolding v_stopped_def by blast
qed

lemma v_stopped_record:
  assumes "v_exec V T X this c s = Inr (s', l)" and "v_stopped s l s'"
  shows "v_stopped s l (recorded c s')"
proof -
  have "v_guard_of (recorded c s') = v_guard_of s'" "reentered (recorded c s') = reentered s' @ [c]"
    by (simp_all add: recorded_def split: prod.splits)
  moreover have "\<not> v_gated c" if "suspended (v_guard_of s)"
    using gated_while_running [OF assms(1)] that by blast
  ultimately show ?thesis
    using assms(2) unfolding v_stopped_def by fastforce
qed

interpretation re_stop: reentry_relation v_stopped "\<lambda>c. c \<noteq> Resume" V T this "\<lambda>c. \<not> v_resuming c"
  for V and T :: "'t erc20" and this
proof unfold_locales
  show "v_stopped s (l @ l') s2" if "v_stopped s l s1" and "v_stopped s1 l' s2" for s l s1 l' s2
    using that by (rule v_stopped_trans)
  show "v_stopped s l (recorded c s')" if "v_exec V T X this c s = Inr (s', l)" and "v_stopped s l s'" for X c s s' l
    using that by (rule v_stopped_record)
qed (auto simp: v_stopped_def conforms_def in_world_Inr owning_def v_resuming_def intro: guard_still)

text \<open>C28: while the Vault is suspended and nobody resumes it, no swap, cross-chain call, gas topup or
  signed call but \<open>updateKeyManager\<close> is accepted, whatever is called in whatever order; nor is
  one of those with which foreign code, whatever it does, re-enters the Vault when a withdrawal
  calls it, however deep.\<close>

theorem suspended_vault_accepts_none:
  assumes "suspended (v_guard_of s)" and "reentered s = []" and "\<forall>c\<in>set cs. \<not> v_resuming c"
    and "\<forall>e k s. \<not> v_resuming (move F e k s)"
  shows "\<forall>c\<in>set (accepted (v_exec V T (reentering_chain V T this F n) this) cs s) \<union>
      set (reentered (run_calls (v_exec V T (reentering_chain V T this F n) this) cs s)). \<not> v_gated c"
proof -
  let ?X = "reentering_chain V T this F n"
  have X: "v_chain_conforms v_stopped ?X"
    using assms(4) by (intro re_stop.reentering_conforms) blast
  have "emergency_stop (\<lambda>s. suspended (v_guard_of s)) (v_exec V T ?X this) v_gated v_resuming"
  proof unfold_locales
    show "suspended (v_guard_of s')" if "v_exec V T ?X this c s = Inr (s', l)" "suspended (v_guard_of s)" "\<not> v_resuming c" for c s s' l
      using re_stop.conforms_exec [OF X that(3,1)] that(2) unfolding v_stopped_def by blast
  qed (rule gated_while_running)
  then have "\<forall>c\<in>set (accepted (v_exec V T ?X this) cs s). \<not> v_gated c"
    using emergency_stop.stopped_accepts_no_gated assms(1,3) by fast
  moreover have "v_stopped s (run_log (v_exec V T ?X this) cs s) (run_calls (v_exec V T ?X this) cs s)"
    using assms(3) by (intro re_stop.run_conforms X)
  ultimately show ?thesis
    using assms(1,2) unfolding v_stopped_def by (metis Un_iff append_Nil)
qed

section \<open>Witnesses\<close>

text \<open>A token that, whenever it is called, tries a swap, a signed batch and a plain payment to the
  Vault, and then answers true.\<close>

definition probing :: "(ledger, unit) foreign" where
  "probing = \<lparr>moves = (\<lambda>e s. 3),
     move = (\<lambda>e k s. (sample_env\<lparr>msg_value := 8\<rparr>, if k = 2 then VSwapNative 1 [] 2 []
       else if k = 1 then VSigned (sample_sig 6) sample_batch else VReceive)),
     answer = (\<lambda>e s. ((True, true_data), ())), query_balance = (\<lambda>t a s. 50), query_code = (\<lambda>a s. 1),
     query_gas = (\<lambda>s. 1000000), create = (\<lambda>f salt t s. None), deposit_owner = (\<lambda>a s. None)\<rparr>"

definition stopped_vault :: "(ledger, unit) re_state" where
  "stopped_vault = ((sample_vault\<lparr>v_guard := \<lparr>communityGuardDisabled = True, suspended = True\<rparr>\<rparr>, (), []), km_world)"

abbreviation probed :: "env \<times> v_call \<Rightarrow> (ledger, unit) re_state \<Rightarrow> ((ledger, unit) re_state \<times> vault_event log list) sol" where
  "probed \<equiv> v_exec sample_evm ledger_erc20 (reentering_chain sample_evm ledger_erc20 30 probing 1) 30"

abbreviation withdrawal :: "env \<times> v_call" where
  "withdrawal \<equiv> (sample_env\<lparr>msg_sender := 3, block_timestamp := 300000\<rparr>, VGovWithdraw [5])"

lemma probed_withdrawal:
  "probed withdrawal stopped_vault =
   Inr (((sample_vault\<lparr>v_guard := \<lparr>communityGuardDisabled = True, suspended = True\<rparr>\<rparr>, (), [(sample_env\<lparr>msg_value := 8\<rparr>, VReceive)]), km_world),
     [Own (FetchedNative (msg_sender sample_env) 8)])"
  by (simp add: v_exec_def v_govWithdraw_def v_getGovernor_def v_view_km_def v_timeoutEmergency_def guard_modifiers action_defs
      in_world_def view_km_def km_getters checked_sub_def AGG_KEY_EMERGENCY_TIMEOUT_def withdraw_one_def transfer_one_def call_def
      foreign_chain_def foreign_call_def probing_def recorded_def owning_def xSwapNative_def transferBatch_def receive_def
      decoded_def decode_true stopped_vault_def sample_vault_def km_world_def sample_defs NATIVE_ADDR_def numeral_3_eq_3)

lemma suspended_vault_accepts_none_witness:
  "accepted probed [withdrawal, (sample_env\<lparr>msg_value := 8\<rparr>, VSwapNative 1 [] 2 [])] stopped_vault = [withdrawal] \<and>
   reentered (run_calls probed [withdrawal, (sample_env\<lparr>msg_value := 8\<rparr>, VSwapNative 1 [] 2 [])] stopped_vault) =
     [(sample_env\<lparr>msg_value := 8\<rparr>, VReceive)]"
proof -
  let ?cs = "[withdrawal, (sample_env\<lparr>msg_value := 8\<rparr>, VSwapNative 1 [] 2 [])]"
  have "\<forall>c\<in>set (accepted probed ?cs stopped_vault) \<union> set (reentered (run_calls probed ?cs stopped_vault)). \<not> v_gated c"
    by (rule suspended_vault_accepts_none) (simp_all add: stopped_vault_def v_resuming_def probing_def)
  then show ?thesis
    using probed_withdrawal by (auto simp: v_gated_def split: sum.splits)
qed

end
