(* ===== verification/Payments.thy ===== *)
theory Payments
  imports Redemptions Authority
begin

text \<open>
  What the gateway pays against what the aggregate key has signed, over all sequences of calls: the
  accepted calls with the states around them are the steps of a run, and payments and signed
  registrations are told apart by what they do to FLIP and by the signature they carry.
\<close>

section \<open>Steps\<close>

type_synonym 't gw_step = "(env \<times> 't gw_call) \<times> (gateway \<times> 't world) \<times> gw_event log list \<times> (gateway \<times> 't world)"

fun gw_steps ::
  "evm \<Rightarrow> 't erc20 \<Rightarrow> address \<Rightarrow> (env \<times> 't gw_call) list \<Rightarrow> gateway \<times> 't world \<Rightarrow> 't gw_step list" where
  "gw_steps V T this [] sw = []"
| "gw_steps V T this (c # cs) sw = (case gw_exec V T this c sw of
     Inl err \<Rightarrow> gw_steps V T this cs sw
   | Inr (sw', l) \<Rightarrow> (c, sw, l, sw') # gw_steps V T this cs sw')"

text \<open>The step announces that node \<open>n\<close> was paid \<open>a\<close>; it pays, that is it moves \<open>a\<close> of
  FLIP from the gateway to \<open>r\<close>; it carries a signature of the aggregate key over the
  registration of exactly that payment.\<close>

definition announces :: "bytes32 \<Rightarrow> uint256 \<Rightarrow> 't gw_step \<Rightarrow> bool" where
  "announces n a = (\<lambda>(c, sw, l, sw'). Own (RedemptionExecuted n a) \<in> set l)"

definition pays :: "'t erc20 \<Rightarrow> address \<Rightarrow> bytes32 \<Rightarrow> address \<Rightarrow> uint256 \<Rightarrow> 't gw_step \<Rightarrow> bool" where
  "pays T this n r a = (\<lambda>(c, sw, l, sw'). Own (RedemptionExecuted n a) \<in> set l \<and>
     flip_moved T (FLIP (fst sw)) this r a (snd sw) (snd sw'))"

definition registers_signed :: "evm \<Rightarrow> address \<Rightarrow> bytes32 \<Rightarrow> address \<Rightarrow> uint256 \<Rightarrow> 't gw_step \<Rightarrow> bool" where
  "registers_signed V this n r a = (\<lambda>((E, d), (s, W), l, sw'). \<exists>sd x ex. d = GwRegister sd n a r x ex \<and>
     signed_by_aggKey V this E s W sd (registerRedemption_values V n a r x ex))"

definition times :: "('x \<Rightarrow> bool) \<Rightarrow> 'x list \<Rightarrow> nat" where
  "times P xs = length (filter P xs)"

lemma times_simps [simp]: "times P [] = 0" "times P (x # xs) = of_bool (P x) + times P xs"
  by (simp_all add: times_def)

section \<open>What is pending\<close>

definition owed :: "bytes32 \<Rightarrow> address \<Rightarrow> uint256 \<Rightarrow> gateway \<Rightarrow> nat" where
  "owed n r a s = (let p = pendingRedemptions s n in
     of_bool (0 < expiryTime p \<and> red_amount p = a \<and> redeemAddress p = r))"

definition amounts_given :: "gateway \<Rightarrow> bool" where
  "amounts_given s \<longleftrightarrow> (\<forall>n. 0 < expiryTime (pendingRedemptions s n) \<longrightarrow> red_amount (pendingRedemptions s n) \<noteq> 0)"

lemma moved_to_one: "moved f b r n g \<Longrightarrow> moved f b q n g \<Longrightarrow> n \<noteq> 0 \<Longrightarrow> r = q"
proof (rule ccontr)
  assume m: "moved f b r n g" "moved f b q n g" "n \<noteq> 0" "r \<noteq> q"
  then have n: "unat n \<noteq> 0"
    by (simp add: unat_eq_0)
  consider "b = r" | "b = q" | "b \<noteq> r" "b \<noteq> q"
    by blast
  then show False
    using m n by cases (auto simp: moved_def)
qed

lemma execute_moves:
  assumes T: "erc20_spec T" and ex: "executeRedemption T this E m (s, W) = Inr (u, (s', W'), l)"
    and e: "Own (RedemptionExecuted n a) \<in> set l"
  shows "n = m \<and> a = red_amount (pendingRedemptions s m) \<and>
    flip_moved T (FLIP s) this (redeemAddress (pendingRedemptions s m)) a W W'"
proof -
  let ?p = "pendingRedemptions s m"
  have n: "n = m" "a = red_amount ?p" and "\<exists>F F' evs. flips W (FLIP s) = Some F \<and> W' = W\<lparr>flips := (flips W)(FLIP s \<mapsto> F')\<rparr> \<and>
      flip_transfer T (call_env E this) (redeemAddress ?p) (red_amount ?p) F = Inr (F', evs)"
    using ex e by (auto simp: execute_Inr Let_def split: if_splits)
  then obtain F F' evs where "flips W (FLIP s) = Some F" "W' = W\<lparr>flips := (flips W)(FLIP s \<mapsto> F')\<rparr>"
      "flip_transfer T (call_env E this) (redeemAddress ?p) (red_amount ?p) F = Inr (F', evs)"
    by blast
  then show ?thesis
    using n erc20_transferD [OF T]
    by (auto simp: flip_moved_def flip_op_defs flip_totalSupply_def flip_balanceOf_fun res_simps call_env_def)
qed

lemma step_counts:
  assumes T: "erc20_spec T" and given: "amounts_given s" and ex: "gw_exec V T this c (s, W) = Inr ((s', W'), l)"
  shows "amounts_given s' \<and>
    of_bool (pays T this n r a (c, (s, W), l, (s', W'))) + owed n r a s' \<le>
      of_bool (registers_signed V this n r a (c, (s, W), l, (s', W'))) + owed n r a s \<and>
    (announces n a (c, (s, W), l, (s', W')) \<longrightarrow> (\<exists>q. pays T this n q a (c, (s, W), l, (s', W'))))"
proof -
  obtain E d u where c: "c = (E, d)" and act: "gw_action V T this E d (s, W) = Inr (u, (s', W'), l)"
    using ex by (cases c) (auto simp: gw_exec_def res_simps)
  consider (reg) sd m b q x e where "d = GwRegister sd m b q x e" | (exe) m where "d = GwExecute m"
    | (other) "(\<forall>sd m b r x e. d \<noteq> GwRegister sd m b r x e) \<and> (\<forall>m. d \<noteq> GwExecute m)"
    by blast
  then show ?thesis
  proof cases
    case reg
    obtain st l1 where b: "b \<noteq> 0" and sp: "nonce_spent V this E s W sd (registerRedemption_values V m b q x e) W' l1"
      and s': "pendingRedemptions s' = (pendingRedemptions s)(m := \<lparr>red_amount = b, redeemAddress = q,
        startTime = st, expiryTime = x, executor = e\<rparr>)" and l: "l = l1 @ [Own (RedemptionRegistered m b q st x e)]"
      using act reg by (auto simp: register_Inr)
    have "Own (RedemptionExecuted n a) \<notin> set l"
      using nonce_spent_world [OF sp] l by simp
    moreover have "m = n \<and> b = a \<and> q = r \<Longrightarrow> registers_signed V this n r a (c, (s, W), l, (s', W'))"
      using nonce_spent_signed [OF sp] by (auto simp: registers_signed_def c reg)
    ultimately show ?thesis
      using given s' b by (auto simp: amounts_given_def owed_def pays_def announces_def Let_def)
  next
    case exe
    obtain res where exec: "executeRedemption T this E m (s, W) = Inr (res, (s', W'), l)"
      using act exe by (auto simp: res_simps)
    have s': "pendingRedemptions s' = (pendingRedemptions s)(m := no_redemption)" "0 < expiryTime (pendingRedemptions s m)"
      using exec by (auto simp: execute_Inr Let_def)
    have "owed n r a s = 1 \<and> owed n r a s' = 0" if p: "pays T this n r a (c, (s, W), l, (s', W'))"
    proof -
      have m: "n = m" "a = red_amount (pendingRedemptions s m)"
          "flip_moved T (FLIP s) this (redeemAddress (pendingRedemptions s m)) a W W'"
        using execute_moves [OF T exec] p by (auto simp: pays_def)
      have "flip_moved T (FLIP s) this r a W W'" "a \<noteq> 0"
        using p given s'(2) m(2) by (auto simp: pays_def amounts_given_def)
      then have "r = redeemAddress (pendingRedemptions s m)"
        using m(3) moved_to_one unfolding flip_moved_def by (metis option.inject)
      then show ?thesis
        using m s' by (simp add: owed_def Let_def no_redemption_def)
    qed
    moreover have "owed n r a s' \<le> owed n r a s"
      using s' by (simp add: owed_def Let_def no_redemption_def)
    moreover have "amounts_given s'"
      using given s' by (simp add: amounts_given_def no_redemption_def)
    ultimately show ?thesis
      using execute_moves [OF T exec, of n a] by (auto simp: announces_def pays_def)
  next
    case other
    then have k: "gw_keeps False s s' l"
      using gw_safeD [OF gw_action_safe act, of False] by blast
    then show ?thesis
      using given by (simp add: gw_keeps_def amounts_given_def owed_def pays_def announces_def)
  qed
qed

lemma steps_counts:
  assumes T: "erc20_spec T" and "amounts_given s"
  shows "times (pays T this n r a) (gw_steps V T this cs (s, W)) \<le>
      times (registers_signed V this n r a) (gw_steps V T this cs (s, W)) + owed n r a s \<and>
    (\<forall>st\<in>set (gw_steps V T this cs (s, W)). announces n a st \<longrightarrow> (\<exists>q. pays T this n q a st))"
  using assms(2)
proof (induction cs arbitrary: s W)
  case (Cons c cs)
  show ?case
  proof (cases "gw_exec V T this c (s, W)")
    case (Inr x)
    then obtain s1 W1 l where r: "gw_exec V T this c (s, W) = Inr ((s1, W1), l)"
      by (cases x) auto
    note st = step_counts [OF T Cons.prems r, where n = n and r = r and a = a]
    show ?thesis
      using Cons.IH [of s1 W1] st r by auto
  qed (use Cons in simp)
qed simp

text \<open>C2: whatever calls reach the gateway, in whatever order and from whomever, and however the rest
  of the world changes in between, from a gateway without redemptions on: every payment that is
  announced is made, in FLIP, out of the gateway's balance; and FLIP goes to a redeem address for a
  node, in a given amount, at most as often as the aggregate key has signed the registration of
  exactly this node, address and amount.\<close>

theorem payments_signed:
  assumes "erc20_spec T" and "pendingRedemptions s = (\<lambda>_. no_redemption)"
  shows "times (pays T this n r a) (gw_steps V T this cs (s, W)) \<le>
      times (registers_signed V this n r a) (gw_steps V T this cs (s, W)) \<and>
    (\<forall>st\<in>set (gw_steps V T this cs (s, W)). announces n a st \<longrightarrow> (\<exists>q. pays T this n q a st))"
proof -
  have "amounts_given s" "owed n r a s = 0"
    using assms(2) by (simp_all add: amounts_given_def owed_def no_redemption_def)
  then show ?thesis
    using steps_counts [OF assms(1), where s = s and n = n and r = r and a = a and this = this and V = V and cs = cs and W = W] by simp
qed

section \<open>Witnesses\<close>

lemma sample_steps:
  "\<exists>sw1 l1 sw2 l2. gw_exec sample_evm ledger_erc20 30 (sample_env, GwRegister (sample_sig 6) 1 40 2 1500 0) (fresh_gw, sample_world) = Inr (sw1, l1) \<and>
     gw_exec sample_evm ledger_erc20 30 (sample_env\<lparr>block_timestamp := 1200\<rparr>, GwExecute 1) sw1 = Inr (sw2, l2) \<and>
     Own (RedemptionExecuted 1 40) \<in> set l2"
proof -
  have h: "keccak256 sample_evm x = 5" for x
    by (simp add: mod_evm_def)
  show ?thesis
    by (simp add: gw_exec_def registerRedemption_def executeRedemption_def onlyNotSuspended_def consumesKeyNonce_def gw_reads
        action_defs in_world_def on_storage_def call_km_def call_flip_def consumeKeyNonce_def ZERO_ADDR_def
        consumeKeyNonce_internal_def h sample_hash sample_verifies sample_gw_defs sample_defs flip_op_defs fresh_gw_def
        ledger_erc20_def ledger_move_def checked_add_def call_env_def)
qed

lemma payments_signed_witness:
  "\<exists>st1 st2. gw_steps sample_evm ledger_erc20 30 sample_redemption_calls (fresh_gw, sample_world) = [st1, st2] \<and>
     registers_signed sample_evm 30 1 2 40 st1 \<and> pays ledger_erc20 30 1 2 40 st2"
proof -
  obtain sw1 l1 sw2 l2 where e:
    "gw_exec sample_evm ledger_erc20 30 (sample_env, GwRegister (sample_sig 6) 1 40 2 1500 0) (fresh_gw, sample_world) = Inr (sw1, l1)"
    "gw_exec sample_evm ledger_erc20 30 (sample_env\<lparr>block_timestamp := 1200\<rparr>, GwExecute 1) sw1 = Inr (sw2, l2)"
    "Own (RedemptionExecuted 1 40) \<in> set l2"
    using sample_steps by blast
  let ?st1 = "((sample_env, GwRegister (sample_sig 6) 1 40 2 1500 0), (fresh_gw, sample_world), l1, sw1)"
  let ?st2 = "((sample_env\<lparr>block_timestamp := 1200\<rparr>, GwExecute 1), sw1, l2, sw2)"
  have st: "gw_steps sample_evm ledger_erc20 30 sample_redemption_calls (fresh_gw, sample_world) = [?st1, ?st2]"
    using e by simp
  have f: "pendingRedemptions fresh_gw = (\<lambda>_. no_redemption)"
    by (simp add: fresh_gw_def)
  note all = payments_signed [OF ledger_erc20_spec f, where V = sample_evm and this = 30 and cs = sample_redemption_calls and W = sample_world and n = 1 and a = 40, unfolded st]
  obtain q where q: "pays ledger_erc20 30 1 q 40 ?st2"
    using all e(3) by (auto simp: announces_def)
  then have "registers_signed sample_evm 30 1 q 40 ?st1 \<or> registers_signed sample_evm 30 1 q 40 ?st2"
    using conjunct1 [OF all [of q]] by (cases "registers_signed sample_evm 30 1 q 40 ?st1"; cases "registers_signed sample_evm 30 1 q 40 ?st2") simp_all
  then have "q = 2 \<and> registers_signed sample_evm 30 1 2 40 ?st1"
    by (cases sw1; cases sw2) (auto simp: registers_signed_def)
  then show ?thesis
    using st q by blast
qed

end
