(* ===== verification/Spec2Isabelle.thy ===== *)
theory Spec2Isabelle
  imports StakeHubLogs CreateValidator Progress ScUtils TokenVesting TokenStaking Multicall
    AddressChecker CFReceiver VaultReentry Payments
begin

text \<open>
  A model of the Chainflip contracts and of the Go command that sets up a BSC validator, with the
  properties that make them correct. Paths are relative to \<open>src/\<close>.

  \<^bold>\<open>The program.\<close>
  Chainflip holds its funds on Ethereum in two contracts. The \<open>Vault\<close> pays out, collects
  deposits and passes on messages; the \<open>StateChainGateway\<close> takes FLIP that funds accounts of
  the State Chain, pays it back after a delay, and adjusts the supply of \<open>FLIP\<close>. Both obey
  calls that carry a Schnorr signature of the aggregate key of the validators: they ask the
  \<open>KeyManager\<close> they refer to, which checks the signature and spends its nonce. A governor
  and a community key can stop and drain them in an emergency. Around these stand the
  \<open>Multicall\<close> the Vault uses, the interfaces for integrations (\<open>CFReceiver\<close>,
  \<open>ScUtils\<close>), the vesting contracts with their registry, view helpers and the deployers.
  The Go code under \<open>ci/docker/bsc/create-validator\<close> registers a validator of a local BSC
  network: \<open>main.go\<close>, over the binding \<open>abi/StakeHub.go\<close> of the StakeHub contract.

  \<^bold>\<open>The theories of the Go part.\<close>
  \<open>GoRuntime\<close>: results that may panic, calls that act on an outside world, slices, big
  integers as bytes. \<open>StakeHubBinding\<close>: structs, embedded ABI, constructors, raw methods;
  \<open>StakeHubReads\<close>: the 30 view methods with their session forms;
  \<open>StakeHubWrites\<close>: the transactors; \<open>StakeHubEvents\<close>: Filter, Watch and Parse
  of the 19 events; \<open>LogIterator\<close>: the iterators, modelled once since they differ in the
  event type only; \<open>LogWatch\<close>: the goroutine of a Watch method as a step relation with its
  environment; \<open>StakeHubLogs\<close>: Filter with its iterator and Watch with its goroutine,
  compared with Parse. \<open>CreateValidator\<close>: \<open>main\<close> and \<open>getBlsKeymanager\<close> with
  every panic. The lemmas say exactly when a run of main returns, what it then has done, and that
  it sends last; what an iterator or a watch delivers in every interleaving; that for each event a
  query followed by its iteration or its goroutine gives what Parse gives log by log; and that each
  generated method makes the ABI call it stands for.

  \<^bold>\<open>The theories of the contracts.\<close>
  \<open>SolBase\<close> (\<open>abstract/Shared.sol\<close>, checked arithmetic, reverts as values),
  \<open>SolAction\<close> (bodies as actions on a state with events, and relations that actions conform to),
  \<open>SolAbi\<close> (\<open>abi.encode\<close>, its injectivity), \<open>NonceKeeper\<close> (sequences of
  transactions; the interface of contracts that spend nonces), \<open>Schnorr\<close>
  (\<open>abstract/SchnorrSECP256K1.sol\<close>), \<open>KeyManager\<close>, \<open>Guard\<close>
  (\<open>GovernanceCommunityGuarded.sol\<close>), \<open>Flip\<close> (\<open>FLIP.sol\<close>),
  \<open>NonceConsumer\<close> (the world of KeyManagers, of other contracts that
  answer a KeyManager's getters, and of FLIP by address; \<open>AggKeyNonceConsumer.sol\<close>), \<open>StateChainGateway\<close>, \<open>Redemptions\<close> (an
  abstract machine of redemptions that the gateway refines), \<open>ExternalCalls\<close> (calls to code
  that is not in the repository, calldata and \<open>abi.decode\<close>), \<open>Vault\<close> (with
  \<open>Deposit.sol\<close>), \<open>EvmMemory\<close> and \<open>Multicall\<close>, \<open>System\<close>
  (the contracts by address), \<open>ScUtils\<close>, \<open>Owned\<close> with its two clients
  \<open>AddressHolder\<close> and \<open>CFReceiver\<close>, \<open>TokenVesting\<close>
  (\<open>utils/TokenVestingNoStaking.sol\<close>), \<open>TokenStaking\<close>
  (\<open>utils/TokenVestingStaking.sol\<close>), \<open>AddressChecker\<close>, \<open>Deployer\<close> (both
  deployers), and six theories on the running system: \<open>Protocol\<close>, where transactions to the
  deployed contracts interleave; \<open>VaultCalls\<close>, where calls of the Vault do, and the code it
  calls re-enters; \<open>VaultReentry\<close>, where that code is a program of its own, and every call
  with which it re-enters the Vault is on record; \<open>Authority\<close>, on who can change issuer and
  KeyManager; \<open>Payments\<close>, on signatures, registrations and payments of redemptions; and
  \<open>Progress\<close>, on what the gateway cannot refuse.
  A contract's storage is a record with the source's variable names, a function is a definition of
  that name, its modifiers in the order of the source; an interface call runs the model of the
  contract at that address. A revert is the value \<open>Inl\<close> and leaves no state.

  \<^bold>\<open>What the lemmas show.\<close>
  Per contract: the outcome of each operation on every branch, who may change what, and what every
  sequence of calls keeps, for a sequence from any senders. Across contracts: a nonce is accepted
  once whichever contract passes the signature on; FLIP's supply is always the last one signed, from
  the deployment on; issuer and KeyManager change only by a signed call or, for the issuer, in an
  emergency; FLIP is paid for a redemption at most as often as one of that node, address
  and amount was signed, every payment announced is made, after the delay, as registered, and it cannot be prevented
  while the gateway runs and holds the amount; a suspended Vault accepts
  nothing but native tokens, calls of its guard, the emergency withdrawal and a signed
  \<open>updateKeyManager\<close>, also by re-entrance; the withdrawal leaves the whole balance of every honest
  asset with the governor; a supply update is refused only for the reasons stated; what is signed binds
  all parameters, function, nonce, sender, chain and KeyManager up to a collision of
  \<open>keccak256\<close>; \<open>verifySignature\<close> is the Schnorr equation.

  \<^bold>\<open>Interfaces.\<close>
  \<open>nonce_keeper\<close> (KeyManager), \<open>emergency_stop\<close> (gateway, Vault, revoked staking),
  \<open>owned\<close> (AddressHolder, CFReceiver), \<open>log_cursor\<close> (iterators),
  \<open>action_relation\<close> with its extensions \<open>gateway_relation\<close> and \<open>vault_relation\<close>
  (what every function of a contract conforms to: pending redemptions kept, traces of calls, the
  record of supply updates, the reference to the KeyManager, a suspension, a revocation), and \<open>reentry_relation\<close> (what foreign programs that re-enter
  keep) are locales, interpreted on the models.

  \<^bold>\<open>Parameters and hypotheses.\<close>
  \<open>keccak256\<close> and \<open>ecrecover\<close> are the record \<open>evm\<close>;
  \<open>secp256k1\<close> states the group laws and what the precompile documents. The OpenZeppelin ERC20
  is the record \<open>erc20\<close>, \<open>erc20_spec\<close> what it documents; \<open>ledger_erc20\<close> meets it.
  Code behind a call to an unknown address is the record \<open>chain\<close>: it may return any data and
  change any state, so it may re-enter; \<open>chain_conforms\<close> states what a theorem needs of it, for
  instance that it changes KeyManagers and FLIP only by calling them. A contract that is no
  \<open>KeyManager.sol\<close> may still answer the getters, with the fixed \<open>km_answers\<close> of its address, as the
  contracts of \<open>contracts/mocks/KeyManagerMock.sol\<close> do, so a reference may be moved to it; its
  \<open>consumeKeyNonce\<close> is not modelled, and signed calls that need it revert. What is said of
  signatures therefore is about contracts that refer to a \<open>KeyManager.sol\<close>. go-ethereum's \<open>bind\<close>, the keystores, the RPC client
  and the BLS key manager are records as well. Witnesses instantiate all of them.

  \<^bold>\<open>Bounds and termination.\<close>
  Integers keep their width: \<open>uint256\<close> is a 256-bit word, checked arithmetic reverts, unchecked
  arithmetic wraps. \<open>Next\<close> of the iterators ends by a measure, the loops of the
  AddressChecker are \<open>while_option\<close> and are proved to have a value; nothing uses fuel. Encoded
  sizes are below 2 to the 64 where offsets must not wrap, and positions patched by the Multicall
  below 2 to the 244, above which they may (\<open>wrapped_position\<close>); \<open>Redemptions\<close> takes block times
  below 2 to the 48, the range in which the contract's own cast of the time is exact.

  \<^bold>\<open>Not modelled.\<close>
  Gas, apart from the gas guard of the Vault; the implicit check that a function is not payable,
  apart from CFReceiver and ScUtils, where value matters; mocks and Echidna harnesses
  (\<open>contracts/mocks\<close>, \<open>contracts/echidna\<close>), which are test doubles; deployment
  scripts, tests, Docker and chain configuration, which is I/O; OpenZeppelin, go-ethereum and prysm,
  which are not in the repository. Of the Go files only comments, imports and blank lines have no
  counterpart, and the flag parsing of the standard library, whose result is the record \<open>flags\<close>.
\<close>

end
